(* ===== verification/Prelude.thy ===== *)
theory Prelude
  imports Complex_Main "HOL-Library.AList" "HOL-Library.Log_Nat" "HOL-Library.Char_ord"
    "HOL-Library.List_Lexorder" "HOL-Library.Multiset"
begin

text \<open>
  Shared vocabulary of the development: the parts of JavaScript's values that the TypeScript sources
  under \<^verbatim>\<open>src/swarmlet\<close> rely on, and the generic lemmas that the component theories use.

  \<^item> Numbers. A TypeScript \<open>number\<close> is a binary64 value. Every finite one is a rational, so typed
    fields are \<open>rat\<close>; where the code itself has established that a number is an integer
    (\<open>Number.isInteger\<close>, \<open>Math.floor\<close>, a loop counter) the field is \<open>int\<close>.
    Values that come from untyped JSON keep the three non-finite values (\<open>js_number\<close>).
    Sums and products of integers below \<open>2 ^ 53\<close> are exact; the places where a fraction is
    computed and then compared use \<open>fl\<close>, rounding to nearest even at 53 bits
    (the exponent range is unbounded in the model).
  \<^item> Strings are lists of code units below 256, ordered as JavaScript's \<open><\<close> orders code units.
  \<^item> Containers. \<open>Set\<close> and \<open>Map\<close> iterate in insertion order: \<open>uniq\<close> keeps the first
    occurrence, and \<open>AList.update\<close> is \<open>Map.set\<close>. \<open>Array.sort\<close> with a comparator is the stable
    \<open>sort_by\<close>.
  \<^item> Exceptions are the left summand of a sum.
\<close>

named_theorems js_simps \<open>unfolding of the small helpers on JavaScript values\<close>
named_theorems size_lemmas \<open>sums and lengths over lists of records\<close>

subsection \<open>Exceptions\<close>

definition try_bind :: "'e + 'a \<Rightarrow> ('a \<Rightarrow> 'e + 'b) \<Rightarrow> 'e + 'b" where
  "try_bind r f = (case r of Inl e \<Rightarrow> Inl e | Inr v \<Rightarrow> f v)"

lemma try_bind_simps [simp]:
  "try_bind (Inl e) f = Inl e"
  "try_bind (Inr v) f = f v"
  by (simp_all add: try_bind_def)

lemma try_bind_Inr: "try_bind r f = Inr b \<longleftrightarrow> (\<exists>a. r = Inr a \<and> f a = Inr b)"
  by (cases r) simp_all

lemma try_bind_Inl: "try_bind r f = Inl e \<longleftrightarrow> r = Inl e \<or> (\<exists>a. r = Inr a \<and> f a = Inl e)"
  by (cases r) simp_all

text \<open>\<open>array.map(f)\<close> where \<open>f\<close> may throw: the first exception ends the loop.\<close>

fun try_map :: "('a \<Rightarrow> 'e + 'b) \<Rightarrow> 'a list \<Rightarrow> 'e + 'b list" where
  "try_map f [] = Inr []"
| "try_map f (x # xs) =
     try_bind (f x) (\<lambda>y. try_bind (try_map f xs) (\<lambda>ys. Inr (y # ys)))"

lemma try_map_Inr:
  "try_map f xs = Inr ys \<longleftrightarrow> list_all2 (\<lambda>x y. f x = Inr y) xs ys"
  by (induction xs arbitrary: ys) (auto simp: try_bind_Inr list_all2_Cons1)

lemma try_map_mem: "try_map f xs = Inr ys \<Longrightarrow> y \<in> set ys \<Longrightarrow> \<exists>x \<in> set xs. f x = Inr y"
  by (induction xs arbitrary: ys) (auto simp: try_bind_Inr)

lemma try_map_length: "try_map f xs = Inr ys \<Longrightarrow> length ys = length xs"
  by (auto simp: try_map_Inr list_all2_lengthD)

subsection \<open>Insertion-ordered sets and stable sorting\<close>

fun uniq :: "'a list \<Rightarrow> 'a list" where
  "uniq [] = []"
| "uniq (x # xs) = x # filter (\<lambda>y. y \<noteq> x) (uniq xs)"

lemma set_uniq [simp]: "set (uniq xs) = set xs"
  by (induction xs) auto

lemma distinct_uniq [simp]: "distinct (uniq xs)"
  by (induction xs) auto

lemma uniq_id: "distinct xs \<Longrightarrow> uniq xs = xs"
  by (induction xs) (auto intro!: filter_True)

text \<open>A comparator returns a negative, zero or positive number. Insertion goes before the first
  element that does not compare strictly smaller, so equal elements keep their order.\<close>

type_synonym 'a comparator_fn = "'a \<Rightarrow> 'a \<Rightarrow> int"

fun insert_by :: "'a comparator_fn \<Rightarrow> 'a \<Rightarrow> 'a list \<Rightarrow> 'a list" where
  "insert_by c x [] = [x]"
| "insert_by c x (y # ys) = (if c x y \<le> 0 then x # y # ys else y # insert_by c x ys)"

definition sort_by :: "'a comparator_fn \<Rightarrow> 'a list \<Rightarrow> 'a list" where
  "sort_by c xs = foldr (insert_by c) xs []"

lemma sort_by_simps [simp]:
  "sort_by c [] = []"
  "sort_by c (x # xs) = insert_by c x (sort_by c xs)"
  by (simp_all add: sort_by_def)

lemma set_insert_by [simp]: "set (insert_by c x ys) = insert x (set ys)"
  by (induction ys) auto

lemma set_sort_by [simp]: "set (sort_by c xs) = set xs"
  by (induction xs) auto

lemma distinct_insert_by [simp]: "distinct (insert_by c x ys) \<longleftrightarrow> x \<notin> set ys \<and> distinct ys"
  by (induction ys) auto

lemma distinct_sort_by [simp]: "distinct (sort_by c xs) \<longleftrightarrow> distinct xs"
  by (induction xs) auto

lemma length_insert_by [simp]: "length (insert_by c x ys) = Suc (length ys)"
  by (induction ys) auto

lemma length_sort_by [simp]: "length (sort_by c xs) = length xs"
  by (induction xs) auto

lemma mset_insert_by: "mset (insert_by c x ys) = add_mset x (mset ys)"
  by (induction ys) auto

lemma mset_sort_by: "mset (sort_by c xs) = mset xs"
  by (induction xs) (auto simp: mset_insert_by)

text \<open>The contract a comparator has to meet for \<open>Array.sort\<close> to be meaningful, and what the sort
  then promises: the head is minimal and the result is ordered.\<close>

locale comparator_contract =
  fixes c :: "'a comparator_fn"
  assumes antisym_sign: "c x y \<le> 0 \<or> c y x \<le> 0"
    and trans_le: "c x y \<le> 0 \<Longrightarrow> c y z \<le> 0 \<Longrightarrow> c x z \<le> 0"
begin

lemma refl_le: "c x x \<le> 0"
  using antisym_sign by blast

lemma insert_sorted:
  "sorted_wrt (\<lambda>x y. c x y \<le> 0) ys \<Longrightarrow> sorted_wrt (\<lambda>x y. c x y \<le> 0) (insert_by c x ys)"
proof (induction ys)
  case Nil
  then show ?case by simp
next
  case (Cons y ys)
  show ?case
  proof (cases "c x y \<le> 0")
    case True
    with Cons.prems show ?thesis by (auto intro: trans_le)
  next
    case False
    then have "c y x \<le> 0" using antisym_sign by blast
    with Cons False show ?thesis by auto
  qed
qed

lemma sort_by_sorted: "sorted_wrt (\<lambda>x y. c x y \<le> 0) (sort_by c xs)"
  by (induction xs) (auto intro: insert_sorted)

lemma sort_by_head_least:
  assumes "sort_by c xs = h # t" and "x \<in> set xs"
  shows "c h x \<le> 0"
proof -
  have "x \<in> set (h # t)" using assms by (metis set_sort_by)
  with sort_by_sorted[of xs] assms(1) show ?thesis by (auto intro: refl_le)
qed

end

text \<open>\<open>a < b ? -1 : a > b ? 1 : 0\<close> on strings, and the lexicographic combination
  \<open>f(a, b) || g(a, b)\<close> of two comparators.\<close>

definition cmp_str :: "string comparator_fn" where
  "cmp_str a b = (if a < b then -1 else if b < a then 1 else 0)"

definition cmp_then :: "'a comparator_fn \<Rightarrow> 'a comparator_fn \<Rightarrow> 'a comparator_fn" where
  "cmp_then f g a b = (if f a b \<noteq> 0 then f a b else g a b)"

lemma cmp_str_le [simp]: "cmp_str a b \<le> 0 \<longleftrightarrow> a \<le> b"
  by (auto simp: cmp_str_def)

lemma cmp_str_eq [simp]: "cmp_str a b = 0 \<longleftrightarrow> a = b"
  by (auto simp: cmp_str_def)

interpretation str_order: comparator_contract cmp_str
  by unfold_locales auto

subsection \<open>Sums over lists\<close>

lemma sum_list_update_int:
  fixes xs :: "int list"
  assumes "i < length xs"
  shows "sum_list (xs[i := v]) = sum_list xs + v - xs ! i"
  using assms by (induction xs arbitrary: i) (auto split: nat.splits)

lemma sum_list_le_const:
  fixes f :: "'a \<Rightarrow> 'b::linordered_field"
  assumes "\<And>x. x \<in> set xs \<Longrightarrow> f x \<le> c"
  shows "sum_list (map f xs) \<le> of_nat (length xs) * c"
  using assms by (induction xs) (auto simp: algebra_simps intro: add_mono)

lemma list_all_find: "find P xs = Some x \<Longrightarrow> x \<in> set xs \<and> P x"
  by (metis find_Some_iff nth_mem)

lemma find_by_key: "k \<in> f ` set xs \<Longrightarrow> \<exists>x. find (\<lambda>x. f x = k) xs = Some x"
  by (induction xs) auto

lemma find_None_all: "find P xs = None \<longleftrightarrow> (\<forall>x \<in> set xs. \<not> P x)"
  by (auto simp: find_None_iff)

subsection \<open>Rounding to binary64\<close>

definition pow2 :: "int \<Rightarrow> rat" where
  "pow2 k = (if 0 \<le> k then 2 ^ nat k else 1 / 2 ^ nat (- k))"

lemma pow2_pos [simp]: "0 < pow2 k"
  by (simp add: pow2_def)

text \<open>The exponent of a positive rational: the largest \<open>k\<close> with \<open>2 ^ k \<le> x\<close>, found from the bit
  lengths of numerator and denominator.\<close>

definition ilog2 :: "rat \<Rightarrow> int" where
  "ilog2 x = (let (a, b) = quotient_of x; k = bitlen a - bitlen b
              in if pow2 k \<le> x then k else k - 1)"

definition round_half_even :: "rat \<Rightarrow> int" where
  "round_half_even y = (let f = \<lfloor>y\<rfloor>; d = y - of_int f
     in if d < 1 / 2 then f else if 1 / 2 < d then f + 1 else if even f then f else f + 1)"

definition fl :: "rat \<Rightarrow> rat" where
  "fl x = (if x = 0 then 0
           else let u = pow2 (ilog2 \<bar>x\<bar> - 52) in of_int (round_half_even (x / u)) * u)"

lemma round_half_even_bounds: "\<lfloor>y\<rfloor> \<le> round_half_even y \<and> round_half_even y \<le> \<lfloor>y\<rfloor> + 1"
  by (auto simp: round_half_even_def Let_def)

lemma round_half_even_nonneg: "0 \<le> y \<Longrightarrow> 0 \<le> round_half_even y"
  using round_half_even_bounds[of y] by linarith

lemma fl_nonneg [simp]: "0 \<le> x \<Longrightarrow> 0 \<le> fl x"
  by (auto simp: fl_def Let_def intro!: mult_nonneg_nonneg round_half_even_nonneg
      divide_nonneg_pos less_imp_le[OF pow2_pos])

lemma fl_0 [simp]: "fl 0 = 0"
  by (simp add: fl_def)

text \<open>The relative error is at most \<open>2 ^ -53\<close>; in particular the quotient of two integers, the dividend
  below \<open>2 ^ 53\<close>, never rounds up past the next whole multiple.\<close>

lemma pow2_add: "pow2 (a + b) = pow2 a * pow2 b"
proof -
  have p: "pow2 k = 2 powi k" for k
    by (simp add: pow2_def power_int_def field_simps)
  show ?thesis unfolding p by (simp add: power_int_add)
qed

lemma ilog2_le:
  assumes "0 < x"
  shows "pow2 (ilog2 x) \<le> x"
proof -
  obtain a b where q: "quotient_of x = (a, b)" by (cases "quotient_of x")
  have b: "0 < b" and x: "x = of_int a / of_int b"
    using quotient_of_denom_pos[OF q] quotient_of_div[OF q] by simp_all
  then have a: "0 < a" using assms by (simp add: zero_less_divide_iff)
  let ?k = "bitlen a - bitlen b"
  have la: "2 ^ nat (bitlen a - 1) \<le> a" and lb: "b < 2 ^ nat (bitlen b)"
    using bitlen_bounds[OF a] bitlen_bounds[OF b] by simp_all
  have pa: "pow2 (bitlen a - 1) \<le> of_int a"
  proof -
    have "bitlen a \<ge> 1" using a by (simp add: bitlen_ge_iff_power)
    then have "pow2 (bitlen a - 1) = of_int (2 ^ nat (bitlen a - 1))" by (simp add: pow2_def)
    then show ?thesis using la by (metis of_int_le_iff)
  qed
  have pb: "of_int b \<le> pow2 (bitlen b)"
  proof -
    have "pow2 (bitlen b) = of_int (2 ^ nat (bitlen b))" by (simp add: pow2_def bitlen_nonneg)
    then show ?thesis using lb by (metis less_imp_le of_int_less_iff)
  qed
  have "pow2 (?k - 1) * of_int b \<le> pow2 (?k - 1) * pow2 (bitlen b)"
    using pb by (intro mult_left_mono) (auto simp: less_imp_le)
  also have "\<dots> = pow2 (bitlen a - 1)" by (simp flip: pow2_add)
  also have "\<dots> \<le> of_int a" by (rule pa)
  finally have "pow2 (?k - 1) \<le> x" using b x by (simp add: pos_le_divide_eq)
  then show ?thesis using q by (auto simp: ilog2_def Let_def)
qed

lemma round_half_even_err: "\<bar>of_int (round_half_even y) - y\<bar> \<le> 1 / 2"
proof -
  have "of_int \<lfloor>y\<rfloor> \<le> y" "y < of_int \<lfloor>y\<rfloor> + 1" by linarith+
  then show ?thesis by (auto simp: round_half_even_def Let_def abs_le_iff)
qed

lemma fl_err:
  assumes "0 < x"
  shows "\<bar>fl x - x\<bar> \<le> x / 2 ^ 53"
proof -
  let ?u = "pow2 (ilog2 x - 52)"
  have u: "0 < ?u" "?u \<noteq> 0" using pow2_pos[of "ilog2 x - 52"] by (simp, linarith)
  have "fl x - x = (of_int (round_half_even (x / ?u)) - x / ?u) * ?u"
    using assms u by (simp add: fl_def Let_def field_simps)
  then have "\<bar>fl x - x\<bar> = \<bar>of_int (round_half_even (x / ?u)) - x / ?u\<bar> * ?u"
    by (simp only: abs_mult abs_of_pos[OF u(1)])
  also have "\<dots> \<le> 1 / 2 * ?u"
    using round_half_even_err u(1) by (intro mult_right_mono) (auto simp: less_imp_le)
  also have "?u = pow2 (ilog2 x) / 2 ^ 52"
    using pow2_add[of "ilog2 x" "- 52"] by (simp add: pow2_def)
  also have "1 / 2 * (pow2 (ilog2 x) / 2 ^ 52) \<le> x / 2 ^ 53"
    using ilog2_le[OF assms] by simp
  finally show ?thesis .
qed

lemma fl_nonpos: "x \<le> 0 \<Longrightarrow> fl x \<le> 0"
proof -
  have r: "round_half_even y \<le> 0" if "y \<le> 0" for y :: rat
  proof (cases "\<lfloor>y\<rfloor> \<le> - 1")
    case True
    then show ?thesis using round_half_even_bounds[of y] by linarith
  next
    case False
    then have "y = 0" using that by linarith
    then show ?thesis by (simp add: round_half_even_def)
  qed
  assume "x \<le> 0"
  then show ?thesis
    by (auto simp: fl_def Let_def intro!: mult_nonpos_nonneg r divide_nonpos_pos less_imp_le[OF pow2_pos])
qed

lemma floor_fl_div:
  assumes "0 < c" and "a < 2 ^ 53" and "0 < \<lfloor>fl (of_int a / of_int c)\<rfloor>"
  shows "\<lfloor>fl (of_int a / of_int c)\<rfloor> * c \<le> a"
proof -
  let ?q = "of_int a / of_int c :: rat" and ?n = "\<lfloor>fl (of_int a / of_int c)\<rfloor>"
  have "0 < a"
  proof (rule ccontr)
    assume "\<not> 0 < a"
    then have "fl ?q \<le> 0" using assms(1) by (intro fl_nonpos) (simp add: divide_nonpos_pos)
    then show False using assms(3) by linarith
  qed
  then have q: "0 < ?q" using assms(1) by simp
  have "of_int ?n \<le> fl ?q" by simp
  also have "fl ?q \<le> ?q + ?q / 2 ^ 53" using fl_err[OF q] by linarith
  finally have "of_int ?n * of_int c \<le> (?q + ?q / 2 ^ 53) * of_int c"
    using assms(1) by (intro mult_right_mono) auto
  also have "\<dots> = of_int a + of_int a / 2 ^ 53" using assms(1) by (simp add: field_simps)
  also have "\<dots> < of_int a + 1"
  proof -
    have "(of_int a :: rat) < of_int (2 ^ 53)" using assms(2) by (simp only: of_int_less_iff)
    then show ?thesis by simp
  qed
  finally have "(of_int (?n * c) :: rat) < of_int (a + 1)" by simp
  then show ?thesis by (simp only: of_int_less_iff)
qed

text \<open>\<open>Math.round\<close> rounds halves towards plus infinity.\<close>

definition math_round :: "rat \<Rightarrow> int" where
  "math_round x = \<lfloor>x + 1 / 2\<rfloor>"

definition is_integer :: "rat \<Rightarrow> bool" where
  "is_integer x \<longleftrightarrow> of_int \<lfloor>x\<rfloor> = x"

lemma is_integer_of_int [simp]: "is_integer (of_int k)"
  by (simp add: is_integer_def)

definition max_safe :: int where
  "max_safe = 2 ^ 53 - 1"

definition is_safe_integer :: "rat \<Rightarrow> bool" where
  "is_safe_integer x \<longleftrightarrow> is_integer x \<and> \<bar>\<lfloor>x\<rfloor>\<bar> \<le> max_safe"

lemmas [js_simps] = is_integer_def is_safe_integer_def max_safe_def math_round_def

lemma safe_of_int: "is_safe_integer (of_int n) \<longleftrightarrow> \<bar>n\<bar> < 2 ^ 53"
  by (auto simp: is_safe_integer_def max_safe_def)

lemma safe_integerE:
  assumes "is_safe_integer x"
  obtains n where "x = of_int n" and "\<bar>n\<bar> < 2 ^ 53"
  using assms by (intro that[of "\<lfloor>x\<rfloor>"]) (auto simp: is_safe_integer_def is_integer_def max_safe_def)

lemma fl_safe_int: "is_safe_integer x \<Longrightarrow> fl x = x"
proof -
  assume "is_safe_integer x"
  then obtain n where x: "x = of_int n" and n: "\<bar>n\<bar> < 2 ^ 53" by (elim safe_integerE)
  show "fl x = x"
  proof (cases "n = 0")
    case True then show ?thesis using x by simp
  next
    case False
    have b: "bitlen \<bar>n\<bar> \<le> 53"
      using n by (simp add: bitlen_le_iff_power)
    have "ilog2 \<bar>x\<bar> \<le> bitlen \<bar>n\<bar> - 1"
      using x by (simp add: ilog2_def Let_def bitlen_alt_def flip: of_int_abs)
    then have "ilog2 \<bar>x\<bar> - 52 \<le> 0" using b by simp
    then obtain k where k: "pow2 (ilog2 \<bar>x\<bar> - 52) = 1 / 2 ^ k"
      by (cases "ilog2 \<bar>x\<bar> - 52 = 0") (auto simp: pow2_def intro: that[of 0])
    have "round_half_even (x * 2 ^ k) = n * 2 ^ k"
    proof -
      have "x * 2 ^ k = of_int (n * 2 ^ k)" using x by simp
      then show ?thesis by (simp only: round_half_even_def Let_def floor_of_int) simp
    qed
    moreover have "x \<noteq> 0" using x False by simp
    ultimately have "fl x = of_int (n * 2 ^ k) * (1 / 2 ^ k)"
      by (simp add: fl_def Let_def k)
    then show ?thesis using x by simp
  qed
qed

subsection \<open>Encodings\<close>

text \<open>The contract of a wire format: reading back what was written gives the value, for the values the
  format can carry.\<close>

locale wire_format =
  fixes enc :: "'a \<Rightarrow> 'b" and dec :: "'b \<Rightarrow> 'a option" and good :: "'a \<Rightarrow> bool"
  assumes dec_enc: "good x \<Longrightarrow> dec (enc x) = Some x"
begin

lemma enc_inj: "good x \<Longrightarrow> good y \<Longrightarrow> enc x = enc y \<longleftrightarrow> x = y"
  using dec_enc by (metis option.inject)

end

subsection \<open>Event-driven components\<close>

text \<open>A component that reacts to events one at a time. What one reaction keeps, every run keeps.\<close>

locale event_machine =
  fixes step :: "'s \<Rightarrow> 'e \<Rightarrow> 's" and inv :: "'s \<Rightarrow> bool"
  assumes step_inv: "inv s \<Longrightarrow> inv (step s e)"
begin

lemma run_inv: "inv s \<Longrightarrow> inv (foldl step s es)"
  by (induction es arbitrary: s) (auto intro: step_inv)

end

text \<open>Comparators that answer with opposite signs when the arguments are swapped. They compose with
  \<open>||\<close>, and when only equal elements compare equal, the sorted list does not depend on the order of the
  input.\<close>

locale sign_comparator =
  fixes c :: "'a comparator_fn"
  assumes flip: "0 < c y x \<longleftrightarrow> c x y < 0"
    and trans_sign: "c x y \<le> 0 \<Longrightarrow> c y z \<le> 0 \<Longrightarrow> c x z \<le> 0"
begin

lemma zero_flip: "c x y = 0 \<longleftrightarrow> c y x = 0"
  using flip[of x y] flip[of y x] by linarith

lemma sorted_unique:
  assumes "sorted_wrt (\<lambda>x y. c x y \<le> 0) xs" and "sorted_wrt (\<lambda>x y. c x y \<le> 0) ys" and "mset xs = mset ys"
    and "\<And>x y. x \<in> set xs \<Longrightarrow> y \<in> set xs \<Longrightarrow> c x y = 0 \<Longrightarrow> x = y"
  shows "xs = ys"
  using assms
proof (induction xs arbitrary: ys)
  case (Cons x xs)
  then obtain y ys' where ys: "ys = y # ys'" by (cases ys) auto
  have eq: "set (x # xs) = set (y # ys')" using Cons.prems(3) ys by (metis set_mset_mset)
  have "x = y"
  proof (rule ccontr)
    assume ne: "x \<noteq> y"
    then have "y \<in> set xs" "x \<in> set ys'" using eq by auto
    then have "c x y \<le> 0" "c y x \<le> 0" using Cons.prems(1,2) ys by auto
    then have "c x y = 0" using flip[of x y] flip[of y x] by linarith
    then show False using Cons.prems(4)[of x y] \<open>y \<in> set xs\<close> ne by auto
  qed
  moreover have "xs = ys'" using Cons.prems ys calculation by (intro Cons.IH) auto
  ultimately show ?case using ys by simp
qed simp

end

sublocale sign_comparator \<subseteq> comparator_contract c
proof
  show "c x y \<le> 0 \<or> c y x \<le> 0" for x y using flip[of x y] by linarith
  show "c x y \<le> 0 \<Longrightarrow> c y z \<le> 0 \<Longrightarrow> c x z \<le> 0" for x y z by (rule trans_sign)
qed

context sign_comparator
begin

lemma sort_by_perm:
  assumes "mset xs = mset ys" and "\<And>x y. x \<in> set xs \<Longrightarrow> y \<in> set xs \<Longrightarrow> c x y = 0 \<Longrightarrow> x = y"
  shows "sort_by c xs = sort_by c ys"
  using sort_by_sorted[of xs] sort_by_sorted[of ys] assms
  by (intro sorted_unique) (auto simp: mset_sort_by)

end

lemma cmp_then_sign:
  assumes f: "sign_comparator f" and g: "sign_comparator g"
  shows "sign_comparator (cmp_then f g)"
proof
  note ff = sign_comparator.flip[OF f] and fg = sign_comparator.flip[OF g]
  show "0 < cmp_then f g y x \<longleftrightarrow> cmp_then f g x y < 0" for x y
    using ff[of y x] ff[of x y] fg[of y x] by (auto simp: cmp_then_def)
  show "cmp_then f g x z \<le> 0" if xy: "cmp_then f g x y \<le> 0" and yz: "cmp_then f g y z \<le> 0" for x y z
  proof -
    have le: "f x y \<le> 0" "f y z \<le> 0" using xy yz by (auto simp: cmp_then_def split: if_splits)
    then have xz: "f x z \<le> 0" by (rule sign_comparator.trans_sign[OF f])
    show ?thesis
    proof (cases "f x z = 0")
      case True
      have "f z x \<le> 0" using True ff[of z x] by simp
      then have "f y x \<le> 0" "f z y \<le> 0" using le sign_comparator.trans_sign[OF f] by blast+
      then have "f x y = 0" "f y z = 0" using le ff[of x y] ff[of y z] ff[of y x] ff[of z y] by linarith+
      then show ?thesis using xy yz True sign_comparator.trans_sign[OF g, of x y z] by (simp add: cmp_then_def)
    qed (use xz in \<open>simp add: cmp_then_def\<close>)
  qed
qed

lemma cmp_str_sign: "sign_comparator (\<lambda>a b. cmp_str (f a) (f b))"
  by unfold_locales (auto simp: cmp_str_def split: if_splits)

lemma cmp_num_sign: "sign_comparator (\<lambda>a b. f a - f b :: int)"
  by unfold_locales auto

lemma sorted_find_first:
  "sorted_wrt R xs \<Longrightarrow> find P xs = Some x \<Longrightarrow> y \<in> set xs \<Longrightarrow> P y \<Longrightarrow> y = x \<or> R x y"
  by (induction xs) (auto split: if_splits)

text \<open>A loop that may skip an element.\<close>

definition opt_list :: "'a option \<Rightarrow> 'a list" where
  "opt_list x = (case x of None \<Rightarrow> [] | Some y \<Rightarrow> [y])"

lemma opt_list_Nil [simp]: "opt_list x = [] \<longleftrightarrow> x = None"
  by (simp add: opt_list_def split: option.splits)

lemma set_opt_list: "x \<in> set (opt_list y) \<longleftrightarrow> y = Some x"
  by (auto simp: opt_list_def split: option.splits)

lemma foldl_nested: "foldl (\<lambda>b p. foldl g b (f p)) b xs = foldl g b (concat (map f xs))"
  by (induction xs arbitrary: b) auto

lemma foldl_option: "foldl (\<lambda>b d. case h d of None \<Rightarrow> b | Some x \<Rightarrow> k b x) b ds = foldl k b (concat (map (opt_list \<circ> h) ds))"
  by (induction ds arbitrary: b) (auto simp: opt_list_def split: option.splits)

end
