(* ===== verification/JsValue.thy ===== *)
theory JsValue
  imports Prelude
begin

text \<open>
  Untyped JavaScript values, as the validators of \<^verbatim>\<open>src/swarmlet/protocol\<close> receive them
  (\<open>unknown\<close>, mostly the result of \<open>JSON.parse\<close>). An object is the list of its own properties in
  insertion order; reading a property that is not there gives \<open>Undefined\<close>. The property names the
  sources read are never names of \<open>Object.prototype\<close>, so inherited properties play no role.
\<close>

datatype js_number = Fin rat | PosInf | NegInf | NaN

datatype jsv =
    Undefined
  | Null
  | Bool bool
  | Num js_number
  | Str string
  | Arr "jsv list"
  | Obj "(string \<times> jsv) list"

fun own :: "(string \<times> jsv) list \<Rightarrow> string \<Rightarrow> jsv" where
  "own fs k = (case map_of fs k of None \<Rightarrow> Undefined | Some v \<Rightarrow> v)"

fun getp :: "jsv \<Rightarrow> string \<Rightarrow> jsv" where
  "getp (Obj fs) k = own fs k"
| "getp _ k = Undefined"

fun keys_of :: "jsv \<Rightarrow> string list" where
  "keys_of (Obj fs) = map fst fs"
| "keys_of _ = []"

fun values_of :: "jsv \<Rightarrow> jsv list" where
  "values_of (Obj fs) = map snd fs"
| "values_of _ = []"

fun elems :: "jsv \<Rightarrow> jsv list" where
  "elems (Arr xs) = xs"
| "elems _ = []"

fun the_str :: "jsv \<Rightarrow> string" where
  "the_str (Str s) = s"
| "the_str _ = []"

fun the_rat :: "jsv \<Rightarrow> rat" where
  "the_rat (Num (Fin r)) = r"
| "the_rat _ = 0"

text \<open>\<open>!!v\<close>.\<close>

fun truthy :: "jsv \<Rightarrow> bool" where
  "truthy Undefined = False"
| "truthy Null = False"
| "truthy (Bool b) = b"
| "truthy (Num (Fin r)) = (r \<noteq> 0)"
| "truthy (Num NaN) = False"
| "truthy (Num _) = True"
| "truthy (Str s) = (s \<noteq> [])"
| "truthy (Arr _) = True"
| "truthy (Obj _) = True"

fun is_arr :: "jsv \<Rightarrow> bool" where
  "is_arr (Arr _) = True"
| "is_arr _ = False"

fun is_bool :: "jsv \<Rightarrow> bool" where
  "is_bool (Bool _) = True"
| "is_bool _ = False"

text \<open>\<open>typeof v === "number" \<and> Number.isFinite(v)\<close>, \<open>typeof v === "string"\<close> and a non-array
  object.\<close>

fun isNum :: "jsv \<Rightarrow> bool" where
  "isNum (Num (Fin _)) = True"
| "isNum _ = False"

fun isStr :: "jsv \<Rightarrow> bool" where
  "isStr (Str _) = True"
| "isStr _ = False"

fun isObj :: "jsv \<Rightarrow> bool" where
  "isObj (Obj _) = True"
| "isObj _ = False"

definition num_int :: "int \<Rightarrow> jsv" where
  "num_int k = Num (Fin (of_int k))"

lemma isNum_iff: "isNum v \<longleftrightarrow> (\<exists>r. v = Num (Fin r))"
  by (cases v rule: isNum.cases) auto

lemma isStr_iff: "isStr v \<longleftrightarrow> (\<exists>s. v = Str s)"
  by (cases v) auto

lemma isObj_iff: "isObj v \<longleftrightarrow> (\<exists>fs. v = Obj fs)"
  by (cases v) auto

lemma is_arr_iff: "is_arr v \<longleftrightarrow> (\<exists>xs. v = Arr xs)"
  by (cases v) auto

lemma is_bool_iff: "is_bool v \<longleftrightarrow> (\<exists>b. v = Bool b)"
  by (cases v) auto

lemmas js_kinds = isNum_iff isStr_iff isObj_iff is_arr_iff is_bool_iff

text \<open>The character classes of the regular expressions the sources use.\<close>

definition lower_hex :: "char \<Rightarrow> bool" where
  "lower_hex c \<longleftrightarrow> c \<in> set ''0123456789abcdef''"

definition digit_char :: "char \<Rightarrow> bool" where
  "digit_char c \<longleftrightarrow> c \<in> set ''0123456789''"

definition alnum_char :: "char \<Rightarrow> bool" where
  "alnum_char c \<longleftrightarrow> c \<in> set ''0123456789ABCDEFGHIJKLMNOPQRSTUVWXYZabcdefghijklmnopqrstuvwxyz''"

definition sha256_hex :: "string \<Rightarrow> bool" where
  "sha256_hex s \<longleftrightarrow> length s = 64 \<and> list_all lower_hex s"

end
