(* ===== verification/Types.thy ===== *)
theory Types
  imports JsValue
begin

text \<open>
  The shared contract of node agent and control plane, \<^verbatim>\<open>src/swarmlet/protocol/types.ts\<close>,
  with the registry rows of \<^verbatim>\<open>src/swarmlet/control/registry.ts\<close> that the planner reads.
  An optional field is an \<open>option\<close>; a union of string literals is a datatype; sizes are MiB.
  Field names carry a short prefix because a record field is a global name. Fields that no modelled
  operation reads are left out of the records.
\<close>

datatype gpu_backend = Cuda | Metal | CpuBackend | OtherBackend

record gpu_device =
  gd_id :: string
  gd_name :: string
  gd_backend :: gpu_backend
  gd_engineName :: string
  gd_totalMiB :: rat

datatype os_name = Darwin | Linux | Win32

record bench_result =
  be_modelSha256 :: string
  be_engineSha256 :: string
  be_ctx :: rat
  be_prefillTokPerSec :: rat
  be_decodeTokPerSec :: rat
  be_measuredAt :: string

text \<open>\<open>engine.sha256\<close> is a record from binary name to hash, \<open>engine.stages.engine\<close> the stage ABI.\<close>

record engine_info =
  en_sha256 :: "(string \<times> string) list"
  en_stages :: "string option"

record capabilities =
  ca_allocationVersion :: "nat option"
  ca_os :: os_name
  ca_ramMiB :: rat
  ca_ramReserveMiB :: rat
  ca_cpuCores :: rat
  ca_gpus :: "gpu_device list"
  ca_diskFreeMiB :: rat
  ca_privateIps :: "string list"
  ca_publicIp :: "string option"
  ca_dataPort :: "int option"
  ca_publicEndpoints :: "(string \<times> int) list option"
  ca_engine :: "engine_info option"
  ca_rttMs :: "rat option"
  ca_netMeasuredAt :: "int option"
  ca_bench :: "bench_result list option"

record offer_roles =
  ro_worker :: bool
  ro_coordinator :: bool
  ro_replica :: bool

record gpu_offer =
  go_id :: string
  go_memMiB :: rat

record offer =
  of_enabled :: bool
  of_roles :: offer_roles
  of_gpu :: "gpu_offer list"
  of_ramMiB :: rat
  of_cpuCores :: rat
  of_diskMiB :: rat
  of_modelsDir :: string

datatype model_kind = Gguf | Mtp | Mmproj

record model_file =
  mf_name :: string
  mf_path :: string
  mf_sizeBytes :: rat
  mf_sha256 :: "string option"
  mf_kind :: model_kind

record node_metrics =
  me_linkRttMs :: "rat option"
  me_tokPerSec :: "rat option"
  me_prefillTokPerSec :: "rat option"
  me_freeRamMiB :: "rat option"
  me_ts :: "int option"
  me_gpu :: "(string \<times> rat) list"
  me_rssMiB :: "rat option"
  me_linkMeasuredAt :: "int option"

record node_row =
  nr_id :: string
  nr_pubJwk :: jsv
  nr_certFp :: string
  nr_hostname :: string
  nr_os :: string
  nr_online :: bool
  nr_caps :: "capabilities option"
  nr_offer :: "offer option"
  nr_models :: "model_file list"
  nr_metrics :: "node_metrics option"

datatype role = RoleCoordinator | RoleReplica | RoleWorker

fun has_role :: "offer_roles \<Rightarrow> role \<Rightarrow> bool" where
  "has_role r RoleCoordinator = ro_coordinator r"
| "has_role r RoleReplica = ro_replica r"
| "has_role r RoleWorker = ro_worker r"

record envelope_row =
  er_workerLayers :: int
  er_maxCtx :: int
  er_maxParallel :: int
  er_maxChain :: int
  er_maxFit :: bool

text \<open>The \<open>ModelProfile\<close> that \<open>validateProfile\<close> returns: its counts are integers because that
  validator has checked \<open>Number.isInteger\<close>.\<close>

record model_download_file =
  df_name :: string
  df_kind :: model_kind
  df_url :: string
  df_sha256 :: string
  df_bytes :: int

record model_profile =
  mp_id :: string
  mp_rank :: "int option"
  mp_name :: string
  mp_modelName :: string
  mp_ggufPattern :: string
  mp_mtpPattern :: "string option"
  mp_layers :: int
  mp_layerMiB :: int
  mp_coordinatorHostMiB :: int
  mp_boundaryBytes :: int
  mp_envelope :: "envelope_row list"
  mp_extraArgs :: "string list"
  mp_workerMarginMiB :: int
  mp_download :: "model_download_file list option"

datatype deployment_kind = Split | Replica | External | Stages | PrefillDecode

record node_allocation =
  na_nodeId :: string
  na_ramMiB :: rat
  na_cpuCores :: rat
  na_gpu :: "gpu_offer list"

record external_spec =
  ex_nodeId :: string
  ex_url :: string
  ex_modelName :: string
  ex_upstreamModel :: "string option"

text \<open>A deployment request. Its JSON reaches the planner unchecked: the fields whose shape the planner
  tests itself stay untyped (\<open>Undefined\<close> when absent), numbers may be any number, and \<open>sp_keys\<close> are the
  property names the object has.\<close>

record deployment_spec =
  sp_keys :: "string list"
  sp_name :: string
  sp_profile :: string
  sp_kind :: deployment_kind
  sp_coordinatorNodeId :: "string option"
  sp_workerNodeIds :: jsv
  sp_workerLayers :: jsv
  sp_replicaNodeId :: "string option"
  sp_allocations :: jsv
  sp_stages :: jsv
  sp_prefillNodeId :: jsv
  sp_decodeNodeId :: jsv
  sp_modelSha256 :: jsv
  sp_ctx :: "js_number option"
  sp_parallel :: "js_number option"
  sp_chain :: "js_number option"
  sp_speculation :: jsv
  sp_wire :: "string option"
  sp_batchedGets :: "bool option"
  sp_forwarding :: "bool option"
  sp_stopExternal :: "bool option"
  sp_transport :: "string option"
  sp_autoTopology :: "bool option"
  sp_autoModel :: "bool option"
  sp_external :: "external_spec option"

record plan_worker =
  pw_nodeId :: string
  pw_device :: string
  pw_layers :: int
  pw_port :: int
  pw_peerPort :: "int option"
  pw_threads :: rat
  pw_memCapMiB :: rat

record native_identity =
  ni_engine :: string
  ni_model_sha256 :: string
  ni_source_sha256 :: string
  ni_ctx :: int
  ni_stage_start :: string
  ni_stage_end :: string
  ni_stage_total :: string

record native_stage_worker =
  nw_nodeId :: string
  nw_port :: int
  nw_identity :: native_identity
  nw_binarySha256 :: string
  nw_modelPath :: string
  nw_device :: string
  nw_fitMiB :: "rat option"
  nw_ramMiB :: rat
  nw_cpuCores :: rat

datatype native_mode = ModeStages | ModePrefillDecode

record native_execution =
  nx_mode :: native_mode
  nx_endpoints :: "native_stage_worker list"
  nx_evidenceSha256 :: string
  nx_stateTransfer :: "(string \<times> string \<times> string) option"

record plan =
  pl_coordinatorNodeId :: string
  pl_coordinatorDevice :: string
  pl_workers :: "plan_worker list"
  pl_tensorSplit :: "int list"
  pl_engineTensorSplit :: "int list option"
  pl_ctx :: int
  pl_parallel :: int
  pl_chain :: int
  pl_speculation :: jsv
  pl_env :: "(string \<times> string) list"
  pl_modelPath :: string
  pl_mtpPath :: "string option"
  pl_nativeExecution :: "native_execution option"
  pl_allocations :: "node_allocation list option"

datatype deployment_state = Planned | Placing | Loading | Ready | Draining | Stopped | Failed

datatype assignment_state = AStarting | AListening | ALoading | AReady | AStopped | AFailed

text \<open>The registry's deployments and assignments. Timestamps are milliseconds: the ISO strings the code keeps
  order as the instants they name.\<close>

record route_endpoint =
  ep_nodeId :: string
  ep_port :: int
  ep_modelName :: string

record deployment =
  dp_id :: string
  dp_spec :: deployment_spec
  dp_state :: deployment_state
  dp_plan :: "plan option"
  dp_endpoint :: "route_endpoint option"
  dp_error :: "string option"
  dp_savedDistribution :: jsv
  dp_createdAt :: int
  dp_updatedAt :: int

datatype assignment_kind = KWorker | KCoordinator | KReplica | KStage | KStop

datatype row_state = Sent | Reported assignment_state

record assignment_row =
  ar_id :: string
  ar_deploymentId :: string
  ar_nodeId :: string
  ar_kind :: assignment_kind
  ar_external :: bool
  ar_port :: int
  ar_peerPort :: "int option"
  ar_allow :: "string list"
  ar_state :: row_state
  ar_detail :: "string option"
  ar_updatedAt :: int
  ar_retired :: bool

end
