(* ===== verification/Validate.thy ===== *)
theory Validate
  imports Types
begin

text \<open>
  The hand-written validators of \<^verbatim>\<open>src/swarmlet/protocol/validate.ts\<close>: the owner's offer
  against measured capabilities, the wire-shape guards of the agent channel, and the check of an
  assignment before a node acts on it. Every message of the source is a constructor of an error
  datatype, with the numbers the message prints as arguments; an accepted input returns the
  normalised value. Messages arrive as text: the message guards take the outcome of \<open>JSON.parse\<close>,
  \<open>None\<close> where it throws.
\<close>

datatype ('e, 'w, 'a) vresult = VOk 'a "'w list" | VErr "'e list"

subsection \<open>Offers\<close>

definition defaultRamReserveMiB :: "os_name \<Rightarrow> rat option \<Rightarrow> rat" where
  "defaultRamReserveMiB os tot =
     (if os = Darwin then 12 * 1024
      else if os = Linux then 4 * 1024
      else let fixed = 6 * 1024 in
        case tot of
          None \<Rightarrow> fixed
        | Some t \<Rightarrow>
            if t \<le> 0 then fixed
            else min fixed (max (2 * 1024) (of_int (math_round (fl (t * fl (35 / 100)))))))"

definition usableGpus :: "gpu_device list \<Rightarrow> gpu_device list" where
  "usableGpus gpus = filter (\<lambda>g. gd_backend g \<noteq> CpuBackend \<and> 0 < gd_totalMiB g) gpus"

definition computeRole :: "offer_roles \<Rightarrow> bool" where
  "computeRole r \<longleftrightarrow> ro_worker r \<or> ro_coordinator r \<or> ro_replica r"

text \<open>The refusal carries the GPUs the message lists.\<close>

definition cpuOnlyRefusal ::
  "bool \<Rightarrow> offer_roles \<Rightarrow> gpu_offer list \<Rightarrow> gpu_device list \<Rightarrow> gpu_device list option" where
  "cpuOnlyRefusal enabled roles gpu devices =
     (if \<not> enabled \<or> \<not> computeRole roles \<or> list_ex (\<lambda>g. 0 < go_memMiB g) gpu then None
      else let usable = usableGpus devices in if usable = [] then None else Some usable)"

datatype offer_error =
    OfferNotObject
  | RamNotNumber
  | RamExceeds rat rat rat rat
  | CpuNotNumber
  | CpuExceeds rat rat
  | DiskNotNumber
  | ModelsDirMissing
  | GpuEntryShape
  | GpuNotPresent string
  | GpuMemNegative string
  | GpuMemExceeds string rat rat
  | NeedsCpuCore
  | WorkerNeedsMemory
  | CpuOnlyRefused "gpu_device list"

datatype offer_warning = DiskExceeds rat rat | NoRoles

fun floor_num :: "jsv \<Rightarrow> js_number" where
  "floor_num (Num (Fin r)) = Fin (of_int \<lfloor>r\<rfloor>)"
| "floor_num _ = NaN"

fun fin_val :: "js_number \<Rightarrow> rat" where
  "fin_val (Fin r) = r"
| "fin_val _ = 0"

fun is_fin :: "js_number \<Rightarrow> bool" where
  "is_fin (Fin _) = True"
| "is_fin _ = False"

fun num_less :: "js_number \<Rightarrow> rat \<Rightarrow> bool" where
  "num_less (Fin r) b = (r < b)"
| "num_less NegInf b = True"
| "num_less _ b = False"

definition is_true :: "jsv \<Rightarrow> bool" where
  "is_true v \<longleftrightarrow> v = Bool True"

text \<open>One pass of the loop over \<open>o.gpu\<close>: the errors and the accepted entries so far.\<close>

definition offerGpuStep ::
  "gpu_device list \<Rightarrow> jsv \<Rightarrow> offer_error list \<times> gpu_offer list
     \<Rightarrow> offer_error list \<times> gpu_offer list" where
  "offerGpuStep devices g st =
     (let (errs, acc) = st in
      if \<not> isObj g \<or> \<not> isStr (getp g ''id'') \<or> \<not> isNum (getp g ''memMiB'')
      then (errs @ [GpuEntryShape], acc)
      else let gid = the_str (getp g ''id'') in
        case find (\<lambda>d. gd_id d = gid) devices of
          None \<Rightarrow> (errs @ [GpuNotPresent gid], acc)
        | Some dev \<Rightarrow>
            let mem = of_int \<lfloor>the_rat (getp g ''memMiB'')\<rfloor> in
            if mem < 0 then (errs @ [GpuMemNegative gid], acc)
            else if gd_totalMiB dev < mem then (errs @ [GpuMemExceeds gid mem (gd_totalMiB dev)], acc)
            else (errs, acc @ [\<lparr>go_id = gid, go_memMiB = mem\<rparr>]))"

definition offerGpuLoop ::
  "gpu_device list \<Rightarrow> jsv list \<Rightarrow> offer_error list \<times> gpu_offer list" where
  "offerGpuLoop devices gs = fold (offerGpuStep devices) gs ([], [])"

definition ramReserve :: "capabilities \<Rightarrow> rat" where
  "ramReserve caps =
     (if ca_ramReserveMiB caps \<noteq> 0 then ca_ramReserveMiB caps
      else defaultRamReserveMiB (ca_os caps) (Some (ca_ramMiB caps)))"

definition ramMax :: "capabilities \<Rightarrow> rat" where
  "ramMax caps = max 0 (ca_ramMiB caps - ramReserve caps)"

definition parsedRoles :: "jsv \<Rightarrow> offer_roles" where
  "parsedRoles inp =
     (let r = (if isObj (getp inp ''roles'') then getp inp ''roles'' else Obj []) in
      \<lparr>ro_worker = is_true (getp r ''worker''), ro_coordinator = is_true (getp r ''coordinator''),
       ro_replica = is_true (getp r ''replica'')\<rparr>)"

definition ramErrors :: "capabilities \<Rightarrow> js_number \<Rightarrow> offer_error list" where
  "ramErrors caps ram =
     (if \<not> is_fin ram \<or> num_less ram 0 then [RamNotNumber]
      else if ramMax caps < fin_val ram
      then [RamExceeds (fin_val ram) (ramMax caps) (ca_ramMiB caps) (ramReserve caps)]
      else [])"

definition cpuErrors :: "capabilities \<Rightarrow> js_number \<Rightarrow> offer_error list" where
  "cpuErrors caps cpu =
     (if \<not> is_fin cpu \<or> num_less cpu 0 then [CpuNotNumber]
      else if ca_cpuCores caps < fin_val cpu then [CpuExceeds (fin_val cpu) (ca_cpuCores caps)]
      else [])"

text \<open>The checks after the GPU loop, on the offer assembled so far.\<close>

definition roleErrors ::
  "capabilities \<Rightarrow> bool \<Rightarrow> offer_roles \<Rightarrow> gpu_offer list \<Rightarrow> js_number \<Rightarrow> js_number
     \<Rightarrow> offer_error list" where
  "roleErrors caps enabled roles gpu ram cpu =
     (if enabled \<and> computeRole roles \<and> num_less cpu 1 then [NeedsCpuCore] else [])
     @ (if enabled \<and> ro_worker roles \<and> list_all (\<lambda>g. go_memMiB g = 0) gpu \<and> ram = Fin 0
        then [WorkerNeedsMemory] else [])
     @ (case cpuOnlyRefusal enabled roles gpu (ca_gpus caps) of
          None \<Rightarrow> [] | Some gs \<Rightarrow> [CpuOnlyRefused gs])"

definition offerDir :: "jsv \<Rightarrow> string" where
  "offerDir inp = (if isStr (getp inp ''modelsDir'') then the_str (getp inp ''modelsDir'') else [])"

definition offerGpuIn :: "jsv \<Rightarrow> jsv list" where
  "offerGpuIn inp = (if is_arr (getp inp ''gpu'') then elems (getp inp ''gpu'') else [])"

definition offerErrors :: "jsv \<Rightarrow> capabilities \<Rightarrow> offer_error list" where
  "offerErrors inp caps =
     (let ram = floor_num (getp inp ''ramMiB'');
          cpu = floor_num (getp inp ''cpuCores'');
          disk = floor_num (getp inp ''diskMiB'');
          gpus = offerGpuLoop (ca_gpus caps) (offerGpuIn inp)
      in ramErrors caps ram
         @ cpuErrors caps cpu
         @ (if \<not> is_fin disk \<or> num_less disk 0 then [DiskNotNumber] else [])
         @ (if offerDir inp = [] then [ModelsDirMissing] else [])
         @ fst gpus
         @ roleErrors caps (is_true (getp inp ''enabled'')) (parsedRoles inp) (snd gpus) ram cpu)"

definition offerWarnings :: "jsv \<Rightarrow> capabilities \<Rightarrow> offer_warning list" where
  "offerWarnings inp caps =
     (let disk = floor_num (getp inp ''diskMiB'')
      in (if is_fin disk \<and> \<not> num_less disk 0 \<and> ca_diskFreeMiB caps < fin_val disk
          then [DiskExceeds (fin_val disk) (ca_diskFreeMiB caps)] else [])
         @ (if is_true (getp inp ''enabled'') \<and> \<not> computeRole (parsedRoles inp) then [NoRoles] else []))"

definition parsedOffer :: "jsv \<Rightarrow> capabilities \<Rightarrow> offer" where
  "parsedOffer inp caps =
     \<lparr>of_enabled = is_true (getp inp ''enabled''), of_roles = parsedRoles inp,
      of_gpu = snd (offerGpuLoop (ca_gpus caps) (offerGpuIn inp)),
      of_ramMiB = fin_val (floor_num (getp inp ''ramMiB'')),
      of_cpuCores = fin_val (floor_num (getp inp ''cpuCores'')),
      of_diskMiB = fin_val (floor_num (getp inp ''diskMiB'')),
      of_modelsDir = offerDir inp\<rparr>"

definition validateOffer ::
  "jsv \<Rightarrow> capabilities \<Rightarrow> (offer_error, offer_warning, offer) vresult" where
  "validateOffer inp caps =
     (if \<not> isObj inp then VErr [OfferNotObject]
      else if offerErrors inp caps \<noteq> [] then VErr (offerErrors inp caps)
      else VOk (parsedOffer inp caps) (offerWarnings inp caps))"

subsection \<open>Wire shapes\<close>

definition nonnegative :: "jsv \<Rightarrow> bool" where
  "nonnegative v \<longleftrightarrow> isNum v \<and> 0 \<le> the_rat v"

definition optionalp :: "jsv \<Rightarrow> string \<Rightarrow> (jsv \<Rightarrow> bool) \<Rightarrow> bool" where
  "optionalp v key check \<longleftrightarrow> getp v key = Undefined \<or> check (getp v key)"

definition strings :: "jsv \<Rightarrow> bool" where
  "strings v \<longleftrightarrow> is_arr v \<and> list_all isStr (elems v)"

definition numbers :: "jsv \<Rightarrow> string list \<Rightarrow> bool" where
  "numbers v ks \<longleftrightarrow> list_all (\<lambda>k. optionalp v k nonnegative) ks"

definition str_in :: "jsv \<Rightarrow> string list \<Rightarrow> bool" where
  "str_in v xs \<longleftrightarrow> isStr v \<and> the_str v \<in> set xs"

definition port_ok :: "jsv \<Rightarrow> bool" where
  "port_ok p \<longleftrightarrow> isNum p \<and> is_integer (the_rat p) \<and> 0 < the_rat p \<and> the_rat p < 65536"

definition fp_ok :: "jsv \<Rightarrow> bool" where
  "fp_ok s \<longleftrightarrow> isStr s \<and> sha256_hex (the_str s)"

definition netShape :: "jsv \<Rightarrow> bool" where
  "netShape v \<longleftrightarrow> isObj v \<and> nonnegative (getp v ''rttMs'') \<and> isStr (getp v ''measuredAt'')
     \<and> numbers v [''upMbit'', ''downMbit'']"

definition gpuShape :: "jsv \<Rightarrow> bool" where
  "gpuShape g \<longleftrightarrow> isObj g \<and> isStr (getp g ''id'') \<and> isStr (getp g ''name'')
     \<and> str_in (getp g ''backend'') [''cuda'', ''metal'', ''cpu'', ''other'']
     \<and> isStr (getp g ''engineName'') \<and> nonnegative (getp g ''totalMiB'')
     \<and> optionalp g ''freeMiB'' nonnegative"

definition capsChecks :: "(string \<times> (jsv \<Rightarrow> bool)) list" where
  "capsChecks =
    [(''os'', \<lambda>v. str_in v [''darwin'', ''linux'', ''win32'']),
     (''arch'', \<lambda>v. str_in v [''arm64'', ''x64'']),
     (''hostname'', isStr), (''ramMiB'', nonnegative), (''ramReserveMiB'', nonnegative),
     (''cpuCores'', nonnegative), (''diskFreeMiB'', nonnegative), (''privateIps'', strings),
     (''measuredAt'', isStr),
     (''gpus'', \<lambda>v. is_arr v \<and> list_all gpuShape (elems v))]"

definition engineShape :: "jsv \<Rightarrow> bool" where
  "engineShape v \<longleftrightarrow> isObj v \<and> isStr (getp v ''proto'') \<and> isObj (getp v ''sha256'')
     \<and> list_all isStr (values_of (getp v ''sha256''))
     \<and> optionalp v ''stages'' (\<lambda>w. isObj w \<and> isStr (getp w ''engine''))"

definition capabilitiesShape :: "jsv \<Rightarrow> bool \<Rightarrow> bool" where
  "capabilitiesShape v partial \<longleftrightarrow>
     isObj v
     \<and> list_all (\<lambda>(k, check). partial \<and> getp v k = Undefined \<or> check (getp v k)) capsChecks
     \<and> optionalp v ''allocationVersion'' (\<lambda>w. w = num_int 1)
     \<and> optionalp v ''publicIp'' isStr
     \<and> optionalp v ''dataPort'' port_ok
     \<and> optionalp v ''net'' netShape
     \<and> optionalp v ''cgroup'' (\<lambda>w. isObj w \<and> is_bool (getp w ''memory'') \<and> is_bool (getp w ''cpu''))
     \<and> optionalp v ''engine'' engineShape"

definition offerShape :: "jsv \<Rightarrow> bool" where
  "offerShape v \<longleftrightarrow>
     isObj v \<and> is_bool (getp v ''enabled'') \<and> isObj (getp v ''roles'')
     \<and> list_all (\<lambda>k. is_bool (getp (getp v ''roles'') k)) [''worker'', ''coordinator'', ''replica'']
     \<and> list_all nonnegative [getp v ''ramMiB'', getp v ''cpuCores'', getp v ''diskMiB'']
     \<and> isStr (getp v ''modelsDir'')
     \<and> is_arr (getp v ''gpu'')
     \<and> list_all (\<lambda>g. isObj g \<and> isStr (getp g ''id'') \<and> nonnegative (getp g ''memMiB''))
         (elems (getp v ''gpu''))"

definition modelsShape :: "jsv \<Rightarrow> bool" where
  "modelsShape v \<longleftrightarrow> is_arr v \<and> list_all
     (\<lambda>m. isObj m \<and> isStr (getp m ''name'') \<and> isStr (getp m ''path'')
        \<and> nonnegative (getp m ''sizeBytes'')
        \<and> str_in (getp m ''kind'') [''gguf'', ''mtp'', ''mmproj''] \<and> optionalp m ''sha256'' isStr)
     (elems v)"

definition assignmentReportShape :: "jsv \<Rightarrow> bool" where
  "assignmentReportShape v \<longleftrightarrow> isObj v \<and> isStr (getp v ''id'')
     \<and> str_in (getp v ''state'')
         [''starting'', ''listening'', ''loading'', ''ready'', ''stopped'', ''failed'']
     \<and> optionalp v ''detail'' isStr
     \<and> optionalp v ''ports'' (\<lambda>w. isObj w \<and> list_all port_ok (values_of w))"

definition gpuMetricShape :: "jsv \<Rightarrow> bool" where
  "gpuMetricShape g \<longleftrightarrow> isObj g \<and> isStr (getp g ''id'') \<and> nonnegative (getp g ''usedMiB'')
     \<and> numbers g [''utilizationPct'', ''powerW'', ''fanPct''] \<and> optionalp g ''temperatureC'' isNum"

definition hardwareShape :: "jsv \<Rightarrow> bool" where
  "hardwareShape v \<longleftrightarrow> isObj v \<and> isStr (getp v ''measuredAt'')
     \<and> is_arr (getp v ''fans'')
     \<and> list_all (\<lambda>f. isObj f \<and> isStr (getp f ''id'') \<and> isStr (getp f ''name'')
          \<and> numbers f [''rpm'', ''targetRpm'', ''maxRpm''] \<and> optionalp f ''mode'' isStr)
        (elems (getp v ''fans''))
     \<and> is_arr (getp v ''temperatures'')
     \<and> list_all (\<lambda>t. isObj t \<and> isStr (getp t ''name'') \<and> isNum (getp t ''celsius''))
        (elems (getp v ''temperatures''))
     \<and> isObj (getp v ''fanControl'') \<and> isStr (getp (getp v ''fanControl'') ''detail'')
     \<and> str_in (getp (getp v ''fanControl'') ''state'')
         [''max'', ''requested'', ''automatic'', ''unsupported'', ''permission-required'', ''error'']"

definition metricsShape :: "jsv \<Rightarrow> bool" where
  "metricsShape v \<longleftrightarrow>
     isObj v
     \<and> optionalp v ''runtime'' (\<lambda>w. isObj w \<and> list_all (\<lambda>k. nonnegative (getp w k))
         [''releaseSequence'', ''uptimeSec'', ''workers'', ''coordinators'', ''replicas'', ''stages''])
     \<and> optionalp v ''ts'' isStr
     \<and> numbers v [''cpuPct'', ''rssMiB'', ''freeRamMiB'', ''tokPerSec'', ''tokPerSecAvg'',
         ''tokensTotal'', ''inflight'']
     \<and> optionalp v ''serving'' isStr \<and> optionalp v ''serverMetricsTs'' isStr
     \<and> optionalp v ''serverMetricsState'' (\<lambda>w. str_in w [''ok'', ''partial'', ''unavailable''])
     \<and> optionalp v ''link'' netShape
     \<and> optionalp v ''gpu'' (\<lambda>w. is_arr w \<and> list_all gpuMetricShape (elems w))
     \<and> optionalp v ''network'' (\<lambda>w. is_arr w \<and> list_all
         (\<lambda>n. isObj n \<and> isStr (getp n ''name'') \<and> numbers n [''rxBps'', ''txBps'']) (elems w))
     \<and> optionalp v ''hardware'' hardwareShape"

subsection \<open>Assignments\<close>

datatype place = AtPeer nat | AtRpc nat

datatype assignment_error =
    AsNeedsKind
  | AsUnknownKind string
  | StageUnsupportedFields
  | StageIds
  | StageModel
  | StagePort
  | StageCtx
  | StageBinary
  | StageFit
  | StageAllow
  | StageEnforce
  | StageNoIdentity
  | StageIdentityFields
  | StageIdentityPins
  | StageDigestDiffers
  | StageIdentityConstants
  | StageSourceDiffers
  | StageRange
  | WorkerPort
  | WorkerDevice
  | WorkerThreads
  | WorkerMemCap
  | WorkerPeerPort
  | PeersNotList
  | PeerIndex nat
  | EndpointShape place
  | DirectEntry place
  | AllowShape
  | CoordModel
  | CoordRpc
  | CoordDevices
  | CoordTensorSplit
  | CoordLengthsDiffer
  | CoordCtx
  | CoordParallel
  | CoordMtp
  | CoordEnv
  | CoordExtraArgs
  | CoordPort
  | ReplicaPort
  | ReplicaModel
  | ReplicaExternal

text \<open>\<open>===\<close>: objects and arrays of two parsed documents are never the same reference.\<close>

fun strict_eq :: "jsv \<Rightarrow> jsv \<Rightarrow> bool" where
  "strict_eq (Obj _) v = False"
| "strict_eq (Arr _) v = False"
| "strict_eq (Num NaN) v = False"
| "strict_eq u v = (u = v)"

definition only_keys :: "jsv \<Rightarrow> string list \<Rightarrow> bool" where
  "only_keys v ks \<longleftrightarrow> list_all (\<lambda>k. k \<in> set ks) (keys_of v)"

definition positiveInt :: "jsv \<Rightarrow> bool" where
  "positiveInt v \<longleftrightarrow> isNum v \<and> is_safe_integer (the_rat v) \<and> 0 < the_rat v"

definition checkEndpoint :: "jsv \<Rightarrow> place \<Rightarrow> assignment_error list" where
  "checkEndpoint e p =
     (if \<not> isObj e \<or> \<not> isStr (getp e ''nodeId'') \<or> \<not> fp_ok (getp e ''certFp'')
         \<or> \<not> port_ok (getp e ''port'') \<or> \<not> is_arr (getp e ''direct'') \<or> \<not> is_bool (getp e ''relay'')
      then [EndpointShape p]
      else concat (map (\<lambda>d. if \<not> isObj d \<or> \<not> isStr (getp d ''host'') \<or> \<not> port_ok (getp d ''port'')
                            then [DirectEntry p] else [])
                   (elems (getp e ''direct''))))"

definition checkAllow :: "jsv \<Rightarrow> assignment_error list" where
  "checkAllow a =
     (if \<not> is_arr (getp a ''allow'') \<or> \<not> list_all fp_ok (elems (getp a ''allow''))
      then [AllowShape] else [])"

text \<open>\<open>/^(?:[0-9]|1[0-9]|2[0-4])$/\<close> and the number such a string denotes.\<close>

definition block_str :: "string \<Rightarrow> bool" where
  "block_str s \<longleftrightarrow>
     (case s of
        [c] \<Rightarrow> digit_char c
      | [c, d] \<Rightarrow> c = CHR ''1'' \<and> digit_char d \<or> c = CHR ''2'' \<and> d \<in> set ''01234''
      | _ \<Rightarrow> False)"

definition is_block :: "jsv \<Rightarrow> bool" where
  "is_block v \<longleftrightarrow> isStr v \<and> block_str (the_str v)"

definition dec_val :: "string \<Rightarrow> nat" where
  "dec_val s = fold (\<lambda>c n. 10 * n + (of_char c - 48)) s 0"

definition err_if :: "bool \<Rightarrow> 'e \<Rightarrow> 'e list" where
  "err_if b e = (if b then [e] else [])"

definition id_char :: "char \<Rightarrow> bool" where
  "id_char c \<longleftrightarrow> alnum_char c \<or> c \<in> set ''_-''"

definition stageIdentityErrors :: "jsv \<Rightarrow> jsv \<Rightarrow> assignment_error list" where
  "stageIdentityErrors a identity =
     (let start = getp identity ''stage_start''; stop = getp identity ''stage_end'';
          tot = getp identity ''stage_total'' in
      err_if (\<not> only_keys identity [''schema'', ''engine'', ''model_sha256'', ''source_sha256'', ''ctx'',
          ''cache_k'', ''cache_v'', ''ubatch'', ''flash_attn'', ''stage_start'', ''stage_end'',
          ''stage_total'']) StageIdentityFields
      @ err_if (getp identity ''schema'' \<noteq> num_int 1 \<or> \<not> fp_ok (getp identity ''engine'')
          \<or> \<not> fp_ok (getp identity ''model_sha256'') \<or> \<not> fp_ok (getp identity ''source_sha256''))
          StageIdentityPins
      @ err_if (\<not> isObj (getp a ''model'')
          \<or> \<not> strict_eq (getp identity ''model_sha256'') (getp (getp a ''model'') ''sha256''))
          StageDigestDiffers
      @ err_if (getp identity ''ctx'' \<noteq> num_int 1024 \<or> getp identity ''cache_k'' \<noteq> Str ''f32''
          \<or> getp identity ''cache_v'' \<noteq> Str ''f32'' \<or> getp identity ''ubatch'' \<noteq> num_int 1
          \<or> getp identity ''flash_attn'' \<noteq> Str ''disabled'') StageIdentityConstants
      @ (if start = Str [] \<and> stop = Str [] \<and> tot = Str []
         then err_if (\<not> strict_eq (getp identity ''source_sha256'') (getp identity ''model_sha256''))
                StageSourceDiffers
         else err_if (\<not> is_block start \<or> \<not> is_block stop
                \<or> dec_val (the_str stop) \<le> dec_val (the_str start) \<or> tot \<noteq> Str ''24'') StageRange))"

definition stageErrors :: "jsv \<Rightarrow> assignment_error list" where
  "stageErrors a =
     (let model = getp a ''model''; enforce = getp a ''enforce'';
          aid = the_str (getp a ''id''); dep = the_str (getp a ''deploymentId'') in
      err_if (\<not> only_keys a [''kind'', ''id'', ''deploymentId'', ''model'', ''port'', ''ctx'',
          ''gpuLayers'', ''identity'', ''binarySha256'', ''fitMiB'', ''allow'', ''enforce''])
          StageUnsupportedFields
      @ err_if (\<not> (1 \<le> length aid \<and> length aid \<le> 128 \<and> list_all id_char aid)
          \<or> dep = [] \<or> 128 < length dep) StageIds
      @ err_if (\<not> isObj model \<or> \<not> only_keys model [''path'', ''sha256''] \<or> \<not> isStr (getp model ''path'')
          \<or> the_str (getp model ''path'') = [] \<or> CHR 0x00 \<in> set (the_str (getp model ''path''))
          \<or> \<not> fp_ok (getp model ''sha256'')) StageModel
      @ err_if (\<not> port_ok (getp a ''port'') \<or> the_rat (getp a ''port'') < 1024) StagePort
      @ err_if (getp a ''ctx'' \<noteq> num_int 1024 \<or> getp a ''gpuLayers'' \<noteq> num_int 999) StageCtx
      @ err_if (\<not> fp_ok (getp a ''binarySha256'')) StageBinary
      @ err_if (getp a ''fitMiB'' \<noteq> Undefined \<and> \<not> positiveInt (getp a ''fitMiB'')) StageFit
      @ err_if (\<not> is_arr (getp a ''allow'') \<or> elems (getp a ''allow'') \<noteq> []) StageAllow
      @ err_if (\<not> isObj enforce \<or> \<not> only_keys enforce [''ramMiB'', ''cpuCores'']
          \<or> \<not> positiveInt (getp enforce ''ramMiB'') \<or> getp enforce ''cpuCores'' \<noteq> num_int 2) StageEnforce
      @ (if \<not> isObj (getp a ''identity'') then [StageNoIdentity]
         else stageIdentityErrors a (getp a ''identity'')))"

definition below_one :: "jsv \<Rightarrow> bool" where
  "below_one v \<longleftrightarrow> \<not> isNum v \<or> the_rat v < 1"

definition workerErrors :: "jsv \<Rightarrow> assignment_error list" where
  "workerErrors a =
     err_if (\<not> port_ok (getp a ''port'')) WorkerPort
     @ err_if (\<not> isStr (getp a ''device'')) WorkerDevice
     @ err_if (below_one (getp a ''threads'')) WorkerThreads
     @ err_if (getp a ''memCapMiB'' \<noteq> Undefined \<and> below_one (getp a ''memCapMiB'')) WorkerMemCap
     @ err_if (getp a ''peerPort'' \<noteq> Undefined \<and> \<not> port_ok (getp a ''peerPort'')) WorkerPeerPort
     @ (if getp a ''peers'' = Undefined then []
        else if \<not> is_arr (getp a ''peers'') then [PeersNotList]
        else concat (map (\<lambda>(i, p). if \<not> isObj p \<or> \<not> isNum (getp p ''index'') then [PeerIndex i]
                                   else checkEndpoint (getp p ''endpoint'') (AtPeer i))
                     (enumerate 0 (elems (getp a ''peers'')))))
     @ checkAllow a"

definition coordinatorErrors :: "jsv \<Rightarrow> assignment_error list" where
  "coordinatorErrors a =
     (let devices = getp a ''devices''; split = getp a ''tensorSplit''; mtp = getp a ''mtp'' in
      err_if (\<not> isObj (getp a ''model'') \<or> \<not> isStr (getp (getp a ''model'') ''path'')) CoordModel
      @ (if \<not> is_arr (getp a ''rpc'') then [CoordRpc]
         else concat (map (\<lambda>(i, e). checkEndpoint e (AtRpc i)) (enumerate 0 (elems (getp a ''rpc'')))))
      @ err_if (\<not> is_arr devices \<or> \<not> list_all isStr (elems devices)) CoordDevices
      @ (if \<not> is_arr split \<or> \<not> list_all isNum (elems split) then [CoordTensorSplit]
         else err_if (is_arr devices \<and> length (elems devices) \<noteq> length (elems split)) CoordLengthsDiffer)
      @ err_if (below_one (getp a ''ctx'')) CoordCtx
      @ err_if (below_one (getp a ''parallel'')) CoordParallel
      @ err_if (mtp \<noteq> Undefined \<and> (\<not> isObj mtp \<or> \<not> isStr (getp mtp ''path'')
          \<or> below_one (getp mtp ''chain''))) CoordMtp
      @ err_if (\<not> isObj (getp a ''env'')) CoordEnv
      @ err_if (\<not> is_arr (getp a ''extraArgs'') \<or> \<not> list_all isStr (elems (getp a ''extraArgs'')))
          CoordExtraArgs
      @ err_if (\<not> port_ok (getp a ''port'')) CoordPort
      @ checkAllow a)"

definition replicaErrors :: "jsv \<Rightarrow> assignment_error list" where
  "replicaErrors a =
     (let ext = getp a ''external'' in
      err_if (\<not> port_ok (getp a ''port'')) ReplicaPort
      @ err_if (\<not> truthy (getp a ''model'') \<and> \<not> truthy ext) ReplicaModel
      @ err_if (ext \<noteq> Undefined \<and> (\<not> isObj ext \<or> \<not> isStr (getp ext ''url'')
          \<or> \<not> isStr (getp ext ''healthPath''))) ReplicaExternal
      @ checkAllow a)"

definition validateAssignment :: "jsv \<Rightarrow> (assignment_error, unit, jsv) vresult" where
  "validateAssignment a =
     (if \<not> isObj a \<or> \<not> isStr (getp a ''kind'') \<or> \<not> isStr (getp a ''id'')
         \<or> \<not> isStr (getp a ''deploymentId'')
      then VErr [AsNeedsKind]
      else let kind = the_str (getp a ''kind'') in
        if kind \<notin> set [''stage'', ''worker'', ''coordinator'', ''replica'', ''stop'']
        then VErr [AsUnknownKind kind]
        else let errors =
               (if kind = ''stage'' then stageErrors a
                else if kind = ''worker'' then workerErrors a
                else if kind = ''coordinator'' then coordinatorErrors a
                else if kind = ''replica'' then replicaErrors a
                else [])
             in if errors \<noteq> [] then VErr errors else VOk a [])"

subsection \<open>Channel messages\<close>

datatype message_error =
    NotJson
  | MissingT
  | Malformed string
  | BadAssignment assignment_error
  | UnknownMessage string

definition need :: "jsv \<Rightarrow> bool \<Rightarrow> (message_error, unit, jsv) vresult" where
  "need m ok = (if ok then VOk m [] else VErr [Malformed (the_str (getp m ''t''))])"

definition agentMessageGuard :: "jsv \<Rightarrow> string \<Rightarrow> bool option" where
  "agentMessageGuard m t =
     (if t = ''auth'' then Some (isStr (getp m ''nodeId'') \<and> isStr (getp m ''nonce'')
         \<and> isStr (getp m ''certFp'') \<and> isStr (getp m ''signature''))
      else if t = ''hello'' then Some (isNum (getp m ''proto'') \<and> isStr (getp m ''agentVersion'')
         \<and> capabilitiesShape (getp m ''caps'') False \<and> offerShape (getp m ''offer'')
         \<and> modelsShape (getp m ''models'') \<and> is_arr (getp m ''assignments'')
         \<and> list_all assignmentReportShape (elems (getp m ''assignments'')))
      else if t = ''heartbeat'' then Some (isStr (getp m ''ts'') \<and> metricsShape (getp m ''metrics'')
         \<and> optionalp m ''caps'' (\<lambda>v. capabilitiesShape v True))
      else if t = ''offer'' then Some (offerShape (getp m ''offer''))
      else if t = ''models'' then Some (modelsShape (getp m ''models''))
      else if t = ''assignment'' then Some (assignmentReportShape m)
      else if t = ''log'' then Some (isStr (getp m ''assignmentId'') \<and> isStr (getp m ''line''))
      else if t = ''pong'' then Some (isStr (getp m ''ts''))
      else None)"

definition parseAgentMessage :: "jsv option \<Rightarrow> (message_error, unit, jsv) vresult" where
  "parseAgentMessage parsed =
     (case parsed of
        None \<Rightarrow> VErr [NotJson]
      | Some m \<Rightarrow>
          if \<not> isObj m \<or> \<not> isStr (getp m ''t'') then VErr [MissingT]
          else case agentMessageGuard m (the_str (getp m ''t'')) of
                 None \<Rightarrow> VErr [UnknownMessage (the_str (getp m ''t''))]
               | Some ok \<Rightarrow> need m ok)"

definition parseControlMessage :: "jsv option \<Rightarrow> (message_error, unit, jsv) vresult" where
  "parseControlMessage parsed =
     (case parsed of
        None \<Rightarrow> VErr [NotJson]
      | Some m \<Rightarrow>
          if \<not> isObj m \<or> \<not> isStr (getp m ''t'') then VErr [MissingT]
          else let t = the_str (getp m ''t'') in
            if t = ''challenge'' then need m (isStr (getp m ''nonce''))
            else if t = ''welcome'' then need m (isStr (getp m ''nodeId'')
               \<and> (getp m ''inferenceKey'' = Undefined \<or> isStr (getp m ''inferenceKey'')))
            else if t = ''assign'' then
              (case validateAssignment (getp m ''assignment'') of
                 VErr es \<Rightarrow> VErr (map BadAssignment es)
               | VOk _ _ \<Rightarrow> VOk m [])
            else if t = ''error'' then need m (isStr (getp m ''message''))
            else if t = ''ping'' then need m (isStr (getp m ''ts''))
            else VErr [UnknownMessage t])"

subsection \<open>What an accepted offer guarantees\<close>

lemma err_if_Nil [simp]: "err_if b e = [] \<longleftrightarrow> \<not> b"
  by (simp add: err_if_def)

lemma is_fin_eq: "is_fin x \<Longrightarrow> \<exists>r. x = Fin r"
  by (cases x) auto

lemma num_less_Fin: "is_fin x \<Longrightarrow> num_less x b \<longleftrightarrow> fin_val x < b"
  by (cases x) auto

lemma floor_num_integer: "is_integer (fin_val (floor_num v))"
  by (cases v rule: floor_num.cases) (auto simp: is_integer_def)

lemma floor_num_idem: "is_integer r \<Longrightarrow> floor_num (Num (Fin r)) = Fin r"
  by (simp add: is_integer_def)

lemma ramErrors_Nil:
  "ramErrors caps x = [] \<longleftrightarrow> is_fin x \<and> 0 \<le> fin_val x \<and> fin_val x \<le> ramMax caps"
  by (auto simp: ramErrors_def num_less_Fin)

lemma cpuErrors_Nil:
  "cpuErrors caps x = [] \<longleftrightarrow> is_fin x \<and> 0 \<le> fin_val x \<and> fin_val x \<le> ca_cpuCores caps"
  by (auto simp: cpuErrors_def num_less_Fin)

lemma cpuOnlyRefusal_None:
  "cpuOnlyRefusal enabled roles gpu devices = None \<longleftrightarrow>
     (enabled \<and> computeRole roles \<and> \<not> list_ex (\<lambda>g. 0 < go_memMiB g) gpu \<longrightarrow> usableGpus devices = [])"
  by (auto simp: cpuOnlyRefusal_def Let_def)

lemma roleErrors_Nil:
  assumes "is_fin ram" "is_fin cpu"
  shows "roleErrors caps enabled roles gpu ram cpu = [] \<longleftrightarrow>
     (enabled \<and> computeRole roles \<longrightarrow> 1 \<le> fin_val cpu)
     \<and> (enabled \<and> ro_worker roles \<longrightarrow> fin_val ram \<noteq> 0 \<or> list_ex (\<lambda>g. go_memMiB g \<noteq> 0) gpu)
     \<and> cpuOnlyRefusal enabled roles gpu (ca_gpus caps) = None"
proof -
  obtain r c where "ram = Fin r" "cpu = Fin c" using assms is_fin_eq by blast
  then show ?thesis
    by (auto simp: roleErrors_def list_all_iff list_ex_iff split: option.splits)
qed

text \<open>The specification of an admissible offer, over the typed offer and the machine's
  capabilities.\<close>

definition gpu_within :: "gpu_device list \<Rightarrow> gpu_offer \<Rightarrow> bool" where
  "gpu_within devices g \<longleftrightarrow> is_integer (go_memMiB g) \<and> 0 \<le> go_memMiB g
     \<and> (\<exists>d. find (\<lambda>d. gd_id d = go_id g) devices = Some d \<and> go_memMiB g \<le> gd_totalMiB d)"

definition offer_within :: "capabilities \<Rightarrow> offer \<Rightarrow> bool" where
  "offer_within caps off \<longleftrightarrow>
     is_integer (of_ramMiB off) \<and> 0 \<le> of_ramMiB off \<and> of_ramMiB off \<le> ramMax caps
     \<and> is_integer (of_cpuCores off) \<and> 0 \<le> of_cpuCores off \<and> of_cpuCores off \<le> ca_cpuCores caps
     \<and> is_integer (of_diskMiB off) \<and> 0 \<le> of_diskMiB off
     \<and> of_modelsDir off \<noteq> []
     \<and> list_all (gpu_within (ca_gpus caps)) (of_gpu off)
     \<and> (of_enabled off \<and> computeRole (of_roles off) \<longrightarrow> 1 \<le> of_cpuCores off)
     \<and> (of_enabled off \<and> ro_worker (of_roles off) \<longrightarrow>
          of_ramMiB off \<noteq> 0 \<or> list_ex (\<lambda>g. 0 < go_memMiB g) (of_gpu off))
     \<and> (of_enabled off \<and> computeRole (of_roles off) \<and> \<not> list_ex (\<lambda>g. 0 < go_memMiB g) (of_gpu off)
          \<longrightarrow> usableGpus (ca_gpus caps) = [])"

lemma gpu_within_pos:
  assumes "list_all (gpu_within devices) gpu"
  shows "list_ex (\<lambda>g. go_memMiB g \<noteq> 0) gpu \<longleftrightarrow> list_ex (\<lambda>g. 0 < go_memMiB g) gpu"
  using assms by (force simp: list_ex_iff list_all_iff gpu_within_def)

lemma offerGpuStep_within:
  assumes "offerGpuStep devices g (errs, acc) = (errs', acc')" and "list_all (gpu_within devices) acc"
  shows "list_all (gpu_within devices) acc'"
  using assms
  by (fastforce simp: offerGpuStep_def Let_def gpu_within_def split: if_splits option.splits)

lemma offerGpuLoop_within: "list_all (gpu_within devices) (snd (offerGpuLoop devices gs))"
proof -
  have "list_all (gpu_within devices) (snd (fold (offerGpuStep devices) gs (errs, acc)))"
    if "list_all (gpu_within devices) acc" for errs acc
    using that
  proof (induction gs arbitrary: errs acc)
    case (Cons g gs)
    obtain e a where "offerGpuStep devices g (errs, acc) = (e, a)" by fastforce
    with Cons offerGpuStep_within show ?case by simp
  qed simp
  then show ?thesis by (simp add: offerGpuLoop_def)
qed

lemma validateOffer_within:
  assumes "validateOffer inp caps = VOk off ws"
  shows "offer_within caps off"
proof -
  let ?ram = "floor_num (getp inp ''ramMiB'')" and ?cpu = "floor_num (getp inp ''cpuCores'')"
  let ?gpu = "snd (offerGpuLoop (ca_gpus caps) (offerGpuIn inp))"
  have off: "off = parsedOffer inp caps" and e: "offerErrors inp caps = []"
    using assms by (auto simp: validateOffer_def split: if_splits)
  have ram: "is_fin ?ram \<and> 0 \<le> fin_val ?ram \<and> fin_val ?ram \<le> ramMax caps"
    and cpu: "is_fin ?cpu \<and> 0 \<le> fin_val ?cpu \<and> fin_val ?cpu \<le> ca_cpuCores caps"
    using e by (auto simp: offerErrors_def Let_def ramErrors_Nil cpuErrors_Nil)
  have roles: "roleErrors caps (is_true (getp inp ''enabled'')) (parsedRoles inp) ?gpu ?ram ?cpu = []"
    using e by (simp add: offerErrors_def Let_def)
  have disk: "0 \<le> fin_val (floor_num (getp inp ''diskMiB''))" and dir: "offerDir inp \<noteq> []"
    using e by (auto simp: offerErrors_def Let_def num_less_Fin split: if_splits)
  have gpu: "list_all (gpu_within (ca_gpus caps)) ?gpu"
    by (rule offerGpuLoop_within)
  note r = roles[unfolded roleErrors_Nil[OF conjunct1[OF ram] conjunct1[OF cpu]]
      gpu_within_pos[OF gpu] cpuOnlyRefusal_None]
  show ?thesis
    unfolding offer_within_def off parsedOffer_def offer.simps
    using ram cpu r disk dir gpu by (intro conjI floor_num_integer) blast+
qed

text \<open>The JSON object of a typed offer, as the agent sends it and as the UI shows it.\<close>

definition gpu_jsv :: "gpu_offer \<Rightarrow> jsv" where
  "gpu_jsv g = Obj [(''id'', Str (go_id g)), (''memMiB'', Num (Fin (go_memMiB g)))]"

definition offer_jsv :: "offer \<Rightarrow> jsv" where
  "offer_jsv off = Obj
     [(''enabled'', Bool (of_enabled off)),
      (''roles'', Obj [(''worker'', Bool (ro_worker (of_roles off))),
                       (''coordinator'', Bool (ro_coordinator (of_roles off))),
                       (''replica'', Bool (ro_replica (of_roles off)))]),
      (''gpu'', Arr (map gpu_jsv (of_gpu off))),
      (''ramMiB'', Num (Fin (of_ramMiB off))),
      (''cpuCores'', Num (Fin (of_cpuCores off))),
      (''diskMiB'', Num (Fin (of_diskMiB off))),
      (''modelsDir'', Str (of_modelsDir off))]"

lemma offer_jsv_getp [simp]:
  "isObj (offer_jsv off)"
  "getp (offer_jsv off) ''enabled'' = Bool (of_enabled off)"
  "getp (offer_jsv off) ''gpu'' = Arr (map gpu_jsv (of_gpu off))"
  "getp (offer_jsv off) ''ramMiB'' = Num (Fin (of_ramMiB off))"
  "getp (offer_jsv off) ''cpuCores'' = Num (Fin (of_cpuCores off))"
  "getp (offer_jsv off) ''diskMiB'' = Num (Fin (of_diskMiB off))"
  "getp (offer_jsv off) ''modelsDir'' = Str (of_modelsDir off)"
  "parsedRoles (offer_jsv off) = of_roles off"
  by (simp_all add: offer_jsv_def parsedRoles_def is_true_def)

lemma offerGpuLoop_accepts:
  assumes "list_all (gpu_within devices) gs"
  shows "offerGpuLoop devices (map gpu_jsv gs) = ([], gs)"
proof -
  have "fold (offerGpuStep devices) (map gpu_jsv gs) ([], acc) = ([], acc @ gs)" for acc
    using assms
  proof (induction gs arbitrary: acc)
    case (Cons g gs)
    then have "offerGpuStep devices (gpu_jsv g) ([], acc) = ([], acc @ [g])"
      by (auto simp: offerGpuStep_def gpu_jsv_def gpu_within_def is_integer_def Let_def)
    with Cons show ?case by simp
  qed simp
  then show ?thesis by (simp add: offerGpuLoop_def)
qed

lemma offer_jsv_accepted:
  assumes "offer_within caps off"
  shows "offerErrors (offer_jsv off) caps = []" and "parsedOffer (offer_jsv off) caps = off"
proof -
  have w: "is_integer (of_ramMiB off)" "0 \<le> of_ramMiB off" "of_ramMiB off \<le> ramMax caps"
    "is_integer (of_cpuCores off)" "0 \<le> of_cpuCores off" "of_cpuCores off \<le> ca_cpuCores caps"
    "is_integer (of_diskMiB off)" "0 \<le> of_diskMiB off" "of_modelsDir off \<noteq> []"
    and g: "list_all (gpu_within (ca_gpus caps)) (of_gpu off)"
    using assms by (auto simp: offer_within_def)
  have "roleErrors caps (of_enabled off) (of_roles off) (of_gpu off) (Fin (of_ramMiB off))
      (Fin (of_cpuCores off)) = []"
    using assms by (auto simp: roleErrors_Nil gpu_within_pos[OF g] cpuOnlyRefusal_None offer_within_def)
  with w show "offerErrors (offer_jsv off) caps = []"
    by (simp del: floor_num.simps add: offerErrors_def floor_num_idem ramErrors_Nil cpuErrors_Nil
        offerDir_def offerGpuIn_def offerGpuLoop_accepts[OF g] is_true_def)
  show "parsedOffer (offer_jsv off) caps = off"
    using w by (simp del: floor_num.simps add: parsedOffer_def floor_num_idem offerDir_def
        offerGpuIn_def offerGpuLoop_accepts[OF g] is_true_def)
qed

lemma offer_jsv_shape: "offer_within caps off \<Longrightarrow> offerShape (offer_jsv off)"
  by (simp add: offer_within_def offerShape_def offer_jsv_def nonnegative_def list_all_iff gpu_within_def
      gpu_jsv_def)

subsection \<open>What an accepted stage assignment guarantees\<close>

lemma digit_charD: "digit_char c \<Longrightarrow> of_char c - 48 \<le> (9::nat)"
  by (auto simp: digit_char_def)

lemma block_str_le: "block_str s \<Longrightarrow> dec_val s \<le> 24"
  by (auto simp: block_str_def dec_val_def digit_char_def split: list.splits)

lemma validateAssignment_VOk:
  "validateAssignment a = VOk b ws \<Longrightarrow> b = a"
  by (auto simp: validateAssignment_def Let_def split: if_splits)

lemma stage_errors_Nil:
  assumes "validateAssignment a = VOk b ws" and "getp a ''kind'' = Str ''stage''"
  shows "stageErrors a = []"
  using assms by (simp add: validateAssignment_def Let_def split: if_splits)

text \<open>The block range of a stage: all of the model, or a nonempty range within the 24 blocks.\<close>

definition stage_range_ok :: "jsv \<Rightarrow> bool" where
  "stage_range_ok identity \<longleftrightarrow>
     getp identity ''stage_start'' = Str [] \<and> getp identity ''stage_end'' = Str []
       \<and> getp identity ''stage_total'' = Str []
       \<and> getp identity ''source_sha256'' = getp identity ''model_sha256''
     \<or> isStr (getp identity ''stage_start'') \<and> isStr (getp identity ''stage_end'')
       \<and> dec_val (the_str (getp identity ''stage_start'')) < dec_val (the_str (getp identity ''stage_end''))
       \<and> dec_val (the_str (getp identity ''stage_end'')) \<le> 24
       \<and> getp identity ''stage_total'' = Str ''24''"

lemma strict_eq_imp: "strict_eq u v \<Longrightarrow> u = v"
  by (cases "(u, v)" rule: strict_eq.cases) auto

lemma stageIdentity_range:
  assumes "stageIdentityErrors a identity = []"
  shows "stage_range_ok identity"
  using assms
  by (auto simp: stageIdentityErrors_def stage_range_ok_def Let_def is_block_def block_str_le strict_eq_imp
      split: if_splits)

subsection \<open>Properties\<close>

definition example_caps :: capabilities where
  "example_caps = \<lparr>ca_allocationVersion = Some 1, ca_os = Linux, ca_ramMiB = 32768, ca_ramReserveMiB = 4096,
     ca_cpuCores = 8, ca_gpus = [\<lparr>gd_id = ''cuda:0'', gd_name = ''GPU'', gd_backend = Cuda,
       gd_engineName = ''CUDA0'', gd_totalMiB = 8192\<rparr>],
     ca_diskFreeMiB = 100000, ca_privateIps = [], ca_publicIp = None, ca_dataPort = None, ca_publicEndpoints = None, ca_engine = None,
     ca_rttMs = None, ca_netMeasuredAt = None, ca_bench = None\<rparr>"

definition example_offer :: jsv where
  "example_offer = Obj [(''enabled'', Bool True), (''roles'', Obj [(''worker'', Bool True)]),
     (''ramMiB'', Num (Fin (16384 + 1 / 2))), (''cpuCores'', num_int 6), (''diskMiB'', num_int 5000),
     (''modelsDir'', Str ''/models''),
     (''gpu'', Arr [Obj [(''id'', Str ''cuda:0''), (''memMiB'', num_int 3072)]])]"



text \<open>C22. The accepted offer is a normal form: sent back through the validator as JSON it is accepted
  unchanged and with the same warnings, so nothing is clamped a second time.\<close>
theorem validateOffer_idempotent:
  assumes "validateOffer inp caps = VOk off ws"
  shows "validateOffer (offer_jsv off) caps = VOk off ws"
proof -
  note w = validateOffer_within[OF assms]
  have off: "off = parsedOffer inp caps" and ws: "ws = offerWarnings inp caps" and e: "offerErrors inp caps = []"
    using assms by (auto simp: validateOffer_def split: if_splits)
  have "floor_num (getp inp ''diskMiB'') = Fin (of_diskMiB off)"
    using e by (auto simp: off parsedOffer_def offerErrors_def Let_def split: if_splits dest: is_fin_eq)
  moreover have "floor_num (Num (Fin (of_diskMiB off))) = Fin (of_diskMiB off)"
    using w by (intro floor_num_idem) (simp add: offer_within_def)
  ultimately have "offerWarnings (offer_jsv off) caps = ws"
    unfolding ws by (simp del: floor_num.simps add: offerWarnings_def is_true_def) (simp add: off parsedOffer_def is_true_def)
  then show ?thesis using offer_jsv_accepted[OF w] by (simp add: validateOffer_def)
qed

theorem validateOffer_idempotent_witness:
  "validateOffer (offer_jsv (parsedOffer example_offer example_caps)) example_caps
     = VOk (parsedOffer example_offer example_caps) []"
proof -
  have h: "validateOffer example_offer example_caps = VOk (parsedOffer example_offer example_caps) []"
    by code_simp
  show ?thesis by (rule validateOffer_idempotent[OF h])
qed

text \<open>C23. Agent and control agree on offers: an offer the agent's validator accepts is, sent as the
  offer message, accepted by the control plane's message guard.\<close>
theorem validated_offer_is_wire_valid:
  assumes "validateOffer inp caps = VOk off ws"
  defines "m \<equiv> Obj [(''t'', Str ''offer''), (''offer'', offer_jsv off)]"
  shows "parseAgentMessage (Some m) = VOk m []"
  using offer_jsv_shape[OF validateOffer_within[OF assms(1)]]
  by (simp add: parseAgentMessage_def agentMessageGuard_def need_def m_def)

theorem validated_offer_is_wire_valid_witness:
  "parseAgentMessage (Some (Obj [(''t'', Str ''offer''),
       (''offer'', offer_jsv (parsedOffer example_offer example_caps))]))
   = VOk (Obj [(''t'', Str ''offer''), (''offer'', offer_jsv (parsedOffer example_offer example_caps))]) []"
proof -
  have h: "validateOffer example_offer example_caps = VOk (parsedOffer example_offer example_caps) []"
    by code_simp
  show ?thesis by (rule validated_offer_is_wire_valid[OF h])
qed

text \<open>C24. A stage assignment that a node accepts is pinned: its model hash is a SHA-256 equal to the one
  in its identity, its block range is the whole model or a nonempty range within the 24 blocks, it
  opens no direct listener, and its port is an unprivileged port.\<close>
theorem stage_assignment_safe:
  assumes "validateAssignment a = VOk b ws" and "getp a ''kind'' = Str ''stage''"
  shows "b = a
    \<and> (\<exists>sha. sha256_hex sha \<and> getp (getp a ''model'') ''sha256'' = Str sha
       \<and> getp (getp a ''identity'') ''model_sha256'' = Str sha)
    \<and> stage_range_ok (getp a ''identity'')
    \<and> getp a ''allow'' = Arr []
    \<and> (\<exists>p. getp a ''port'' = num_int p \<and> 1024 \<le> p \<and> p < 65536)"
proof (intro conjI)
  note e = stage_errors_Nil[OF assms, unfolded stageErrors_def Let_def append_is_Nil_conv err_if_Nil]
  have i: "stageIdentityErrors a (getp a ''identity'') = []" using e by (auto split: if_splits)
  show "b = a" by (rule validateAssignment_VOk[OF assms(1)])
  show "stage_range_ok (getp a ''identity'')" by (rule stageIdentity_range[OF i])
  have "fp_ok (getp (getp a ''model'') ''sha256'')" using e by simp
  moreover have "strict_eq (getp (getp a ''identity'') ''model_sha256'') (getp (getp a ''model'') ''sha256'')"
    using i by (simp add: stageIdentityErrors_def Let_def)
  ultimately show "\<exists>sha. sha256_hex sha \<and> getp (getp a ''model'') ''sha256'' = Str sha
       \<and> getp (getp a ''identity'') ''model_sha256'' = Str sha"
    by (auto simp: fp_ok_def isStr_iff dest: strict_eq_imp)
  show "getp a ''allow'' = Arr []" using e by (auto simp: is_arr_iff)
  have "port_ok (getp a ''port'')" "\<not> the_rat (getp a ''port'') < 1024" using e by simp_all
  then obtain r where "getp a ''port'' = Num (Fin r)" "of_int \<lfloor>r\<rfloor> = r" "1024 \<le> r" "r < 65536"
    by (auto simp: port_ok_def isNum_iff is_integer_def)
  then show "\<exists>p. getp a ''port'' = num_int p \<and> 1024 \<le> p \<and> p < 65536"
    by (intro exI[of _ "\<lfloor>r\<rfloor>"]) (auto simp: num_int_def floor_less_iff le_floor_iff)
qed

definition example_stage :: jsv where
  "example_stage =
     (let sha = Str (replicate 64 CHR ''a'') in Obj
     [(''kind'', Str ''stage''), (''id'', Str ''s1''), (''deploymentId'', Str ''d1''),
      (''model'', Obj [(''path'', Str ''/m.gguf''), (''sha256'', sha)]),
      (''port'', num_int 50200), (''ctx'', num_int 1024), (''gpuLayers'', num_int 999),
      (''identity'', Obj [(''schema'', num_int 1), (''engine'', sha), (''model_sha256'', sha),
         (''source_sha256'', sha), (''ctx'', num_int 1024), (''cache_k'', Str ''f32''),
         (''cache_v'', Str ''f32''), (''ubatch'', num_int 1), (''flash_attn'', Str ''disabled''),
         (''stage_start'', Str ''3''), (''stage_end'', Str ''24''), (''stage_total'', Str ''24'')]),
      (''binarySha256'', sha), (''allow'', Arr []),
      (''enforce'', Obj [(''ramMiB'', num_int 4096), (''cpuCores'', num_int 2)])])"

theorem stage_assignment_safe_witness:
  "validateAssignment example_stage = VOk example_stage [] \<and> stage_range_ok (getp example_stage ''identity'')"
proof -
  have 1: "validateAssignment example_stage = VOk example_stage []" by code_simp
  have 2: "getp example_stage ''kind'' = Str ''stage''" by code_simp
  show ?thesis using 1 stage_assignment_safe[OF 1 2] by blast
qed


end
