(* ===== verification/Json.thy ===== *)
theory Json
  imports JsValue
begin

text \<open>
  JSON text: the \<open>JSON.parse\<close> and \<open>JSON.stringify\<close> that the protocol layers use on channel messages,
  stream headers and signed objects, and the canonical form of
  \<^verbatim>\<open>src/sin-harness/core/sign.ts\<close>. Text is ASCII; an escape beyond ASCII is outside the model
  and counts as a syntax error. The parser recurses on fuel; \<open>pval_fuel\<close> shows that any fuel above
  the length of the text gives the same result, so \<open>json_parse\<close> never fails for want of it.
\<close>

subsection \<open>Parsing\<close>

definition ws_char :: "char \<Rightarrow> bool" where
  "ws_char c \<longleftrightarrow> c \<in> {CHR 0x20, CHR 0x09, CHR 0x0A, CHR 0x0D}"

definition skip_ws :: "string \<Rightarrow> string" where
  "skip_ws = dropWhile ws_char"

fun hex_digit :: "char \<Rightarrow> nat option" where
  "hex_digit c =
     (let n = of_char c in
      if 48 \<le> n \<and> n \<le> 57 then Some (n - 48)
      else if 97 \<le> n \<and> n \<le> 102 then Some (n - 87)
      else if 65 \<le> n \<and> n \<le> 70 then Some (n - 55)
      else None)"

definition hex4 :: "char \<Rightarrow> char \<Rightarrow> char \<Rightarrow> char \<Rightarrow> nat option" where
  "hex4 a b c d =
     (case (hex_digit a, hex_digit b, hex_digit c, hex_digit d) of
        (Some w, Some x, Some y, Some z) \<Rightarrow> Some (((w * 16 + x) * 16 + y) * 16 + z)
      | _ \<Rightarrow> None)"

definition unescape :: "char \<Rightarrow> char option" where
  "unescape e =
     (if e = CHR 0x22 then Some (CHR 0x22) else if e = CHR 0x5C then Some (CHR 0x5C)
      else if e = CHR ''/'' then Some (CHR ''/'') else if e = CHR ''b'' then Some (CHR 0x08)
      else if e = CHR ''f'' then Some (CHR 0x0C) else if e = CHR ''n'' then Some (CHR 0x0A)
      else if e = CHR ''r'' then Some (CHR 0x0D) else if e = CHR ''t'' then Some (CHR 0x09)
      else None)"

definition cons_res :: "char \<Rightarrow> (string \<times> string) option \<Rightarrow> (string \<times> string) option" where
  "cons_res c r = map_option (\<lambda>(s, t). (c # s, t)) r"

text \<open>The rest of a string literal, after the opening quote.\<close>

fun pstr :: "string \<Rightarrow> (string \<times> string) option" where
  "pstr [] = None"
| "pstr (c # cs) =
     (if c = CHR 0x22 then Some ([], cs)
      else if c = CHR 0x5C then
        (case cs of
           [] \<Rightarrow> None
         | e # r \<Rightarrow>
             if e = CHR ''u'' then
               (case r of
                  h1 # h2 # h3 # h4 # r' \<Rightarrow>
                    (case hex4 h1 h2 h3 h4 of
                       None \<Rightarrow> None
                     | Some n \<Rightarrow> if n < 128 then cons_res (char_of n) (pstr r') else None)
                | _ \<Rightarrow> None)
             else (case unescape e of None \<Rightarrow> None | Some x \<Rightarrow> cons_res x (pstr r)))
      else if of_char c < (32::nat) then None
      else cons_res c (pstr cs))"

definition isd :: "char \<Rightarrow> bool" where
  "isd c \<longleftrightarrow> 48 \<le> (of_char c :: nat) \<and> (of_char c :: nat) \<le> 57"

definition digits_val :: "string \<Rightarrow> nat" where
  "digits_val ds = foldl (\<lambda>n c. 10 * n + (of_char c - 48)) 0 ds"

text \<open>Integer part without leading zeros, optional fraction, optional exponent; the value is rounded
  to binary64, and a magnitude of \<open>2 ^ 1024\<close> or more is an infinity.\<close>

definition to_double :: "rat \<Rightarrow> js_number" where
  "to_double r = (let x = fl r in if 2 ^ 1024 \<le> x then PosInf else if x \<le> - (2 ^ 1024) then NegInf else Fin x)"

definition pfrac :: "string \<Rightarrow> (rat \<times> string) option" where
  "pfrac s =
     (case s of
        c # r \<Rightarrow>
          if c = CHR ''.'' then
            let ds = takeWhile isd r in
            if ds = [] then None
            else Some (of_nat (digits_val ds) / 10 ^ length ds, dropWhile isd r)
          else Some (0, s)
      | [] \<Rightarrow> Some (0, s))"

definition pexp :: "string \<Rightarrow> (rat \<times> string) option" where
  "pexp s =
     (case s of
        c # r \<Rightarrow>
          if c = CHR ''e'' \<or> c = CHR ''E'' then
            let neg = (r \<noteq> [] \<and> hd r = CHR ''-'');
                r' = (if r \<noteq> [] \<and> (hd r = CHR ''-'' \<or> hd r = CHR ''+'') then tl r else r);
                ds = takeWhile isd r' in
            if ds = [] then None
            else Some (if neg then 1 / 10 ^ digits_val ds else 10 ^ digits_val ds, dropWhile isd r')
          else Some (1, s)
      | [] \<Rightarrow> Some (1, s))"

definition pnum :: "string \<Rightarrow> (jsv \<times> string) option" where
  "pnum s =
     (let neg = (s \<noteq> [] \<and> hd s = CHR ''-'');
          s1 = (if neg then tl s else s);
          ds = takeWhile isd s1;
          s2 = dropWhile isd s1 in
      if ds = [] \<or> (hd ds = CHR ''0'' \<and> length ds \<noteq> 1) then None
      else case pfrac s2 of
             None \<Rightarrow> None
           | Some (f, s3) \<Rightarrow>
               (case pexp s3 of
                  None \<Rightarrow> None
                | Some (e, s4) \<Rightarrow>
                    let m = (of_nat (digits_val ds) + f) * e in
                    Some (Num (to_double (if neg then - m else m)), s4)))"

fun strip_prefix :: "string \<Rightarrow> string \<Rightarrow> string option" where
  "strip_prefix [] s = Some s"
| "strip_prefix (c # cs) [] = None"
| "strip_prefix (c # cs) (d # s) = (if c = d then strip_prefix cs s else None)"

definition plit :: "string \<Rightarrow> (jsv \<times> string) option" where
  "plit s =
     (case strip_prefix ''true'' s of Some r \<Rightarrow> Some (Bool True, r)
      | None \<Rightarrow> case strip_prefix ''false'' s of Some r \<Rightarrow> Some (Bool False, r)
      | None \<Rightarrow> case strip_prefix ''null'' s of Some r \<Rightarrow> Some (Null, r)
      | None \<Rightarrow> pnum s)"

text \<open>Values, the elements of an array after a value position, and the members of an object. A
  repeated key keeps its first position and its last value.\<close>

fun pval :: "nat \<Rightarrow> string \<Rightarrow> (jsv \<times> string) option"
and pelems :: "nat \<Rightarrow> jsv list \<Rightarrow> string \<Rightarrow> (jsv \<times> string) option"
and pmembers :: "nat \<Rightarrow> (string \<times> jsv) list \<Rightarrow> string \<Rightarrow> (jsv \<times> string) option" where
  "pval 0 s = None"
| "pval (Suc n) s =
     (case skip_ws s of
        [] \<Rightarrow> None
      | c # r \<Rightarrow>
          if c = CHR 0x22 then map_option (\<lambda>(x, t). (Str x, t)) (pstr r)
          else if c = CHR ''['' then
            (case skip_ws r of
               [] \<Rightarrow> None
             | d # r' \<Rightarrow> if d = CHR '']'' then Some (Arr [], r') else pelems n [] r)
          else if c = CHR ''{'' then
            (case skip_ws r of
               [] \<Rightarrow> None
             | d # r' \<Rightarrow> if d = CHR ''}'' then Some (Obj [], r') else pmembers n [] r)
          else plit (c # r))"
| "pelems 0 acc s = None"
| "pelems (Suc n) acc s =
     (case pval n s of
        None \<Rightarrow> None
      | Some (v, r) \<Rightarrow>
          (case skip_ws r of
             [] \<Rightarrow> None
           | d # r' \<Rightarrow>
               if d = CHR '','' then pelems n (acc @ [v]) r'
               else if d = CHR '']'' then Some (Arr (acc @ [v]), r')
               else None))"
| "pmembers 0 acc s = None"
| "pmembers (Suc n) acc s =
     (case skip_ws s of
        [] \<Rightarrow> None
      | q # r \<Rightarrow>
          if q \<noteq> CHR 0x22 then None
          else (case pstr r of
                  None \<Rightarrow> None
                | Some (k, r1) \<Rightarrow>
                    (case skip_ws r1 of
                       [] \<Rightarrow> None
                     | d # r2 \<Rightarrow>
                         if d \<noteq> CHR '':'' then None
                         else (case pval n r2 of
                                 None \<Rightarrow> None
                               | Some (v, r3) \<Rightarrow>
                                   (case skip_ws r3 of
                                      [] \<Rightarrow> None
                                    | e # r4 \<Rightarrow>
                                        if e = CHR '','' then pmembers n (AList.update k v acc) r4
                                        else if e = CHR ''}'' then Some (Obj (AList.update k v acc), r4)
                                        else None)))))"

definition json_parse :: "string \<Rightarrow> jsv option" where
  "json_parse s =
     (case pval (Suc (length s)) s of
        None \<Rightarrow> None
      | Some (v, r) \<Rightarrow> if skip_ws r = [] then Some v else None)"

subsection \<open>Printing\<close>

fun nat_str :: "nat \<Rightarrow> string" where
  "nat_str n = (if n < 10 then [char_of (48 + n)] else nat_str (n div 10) @ [char_of (48 + n mod 10)])"

declare nat_str.simps [simp del]

definition pow10 :: "int \<Rightarrow> rat" where
  "pow10 k = (if 0 \<le> k then 10 ^ nat k else 1 / 10 ^ nat (- k))"

text \<open>Number to string as ECMAScript defines it: \<open>s\<close> and \<open>n\<close> with \<open>s * 10 ^ (n - k)\<close> reading back as
  the value and the number \<open>k\<close> of digits of \<open>s\<close> least.\<close>

definition dec_exp :: "rat \<Rightarrow> int" where
  "dec_exp x =
     (if 1 \<le> x then int (length (nat_str (nat \<lfloor>x\<rfloor>)))
      else case find (\<lambda>m. 1 \<le> x * 10 ^ m) [0..<400] of
             None \<Rightarrow> - 399
           | Some m \<Rightarrow> 1 - int m)"

definition digits_try :: "rat \<Rightarrow> int \<Rightarrow> nat \<Rightarrow> nat option" where
  "digits_try x n k =
     (let s = round_half_even (x / pow10 (n - int k)) in
      if 10 ^ (k - 1) \<le> s \<and> s < 10 ^ k \<and> fl (of_int s * pow10 (n - int k)) = x
      then Some (nat s) else None)"

definition shortest_digits :: "rat \<Rightarrow> int \<Rightarrow> string" where
  "shortest_digits x n =
     (case find (\<lambda>k. digits_try x n k \<noteq> None) [1..<18] of
        Some k \<Rightarrow> nat_str (the (digits_try x n k))
      | None \<Rightarrow> nat_str (nat \<lfloor>x / pow10 (n - 17)\<rfloor>))"

definition place_point :: "string \<Rightarrow> int \<Rightarrow> string" where
  "place_point ds n =
     (let k = int (length ds) in
      if k \<le> n \<and> n \<le> 21 then ds @ replicate (nat (n - k)) CHR ''0''
      else if 0 < n \<and> n \<le> 21 then take (nat n) ds @ ''.'' @ drop (nat n) ds
      else if - 6 < n \<and> n \<le> 0 then ''0.'' @ replicate (nat (- n)) CHR ''0'' @ ds
      else take 1 ds @ (if k = 1 then [] else ''.'' @ drop 1 ds) @ ''e''
           @ (if 0 \<le> n - 1 then ''+'' @ nat_str (nat (n - 1)) else ''-'' @ nat_str (nat (1 - n))))"

definition pos_str :: "rat \<Rightarrow> string" where
  "pos_str x =
     (if is_safe_integer x then nat_str (nat \<lfloor>x\<rfloor>)
      else let n = dec_exp x in place_point (shortest_digits x n) n)"

definition num_str :: "js_number \<Rightarrow> string" where
  "num_str x =
     (case x of
        Fin r \<Rightarrow> if r < 0 then ''-'' @ pos_str (- r) else pos_str r
      | _ \<Rightarrow> ''null'')"

definition hex_char :: "nat \<Rightarrow> char" where
  "hex_char n = (if n < 10 then char_of (48 + n) else char_of (87 + n))"

definition esc_char :: "char \<Rightarrow> string" where
  "esc_char c =
     (if c = CHR 0x22 then [CHR 0x5C, CHR 0x22] else if c = CHR 0x5C then [CHR 0x5C, CHR 0x5C]
      else if c = CHR 0x08 then [CHR 0x5C, CHR ''b''] else if c = CHR 0x09 then [CHR 0x5C, CHR ''t'']
      else if c = CHR 0x0A then [CHR 0x5C, CHR ''n''] else if c = CHR 0x0C then [CHR 0x5C, CHR ''f'']
      else if c = CHR 0x0D then [CHR 0x5C, CHR ''r'']
      else if of_char c < (32::nat)
      then [CHR 0x5C, CHR ''u'', CHR ''0'', CHR ''0'', hex_char (of_char c div 16), hex_char (of_char c mod 16)]
      else [c])"

definition quote_str :: "string \<Rightarrow> string" where
  "quote_str s = CHR 0x22 # concat (map esc_char s) @ [CHR 0x22]"

fun join_with :: "string \<Rightarrow> string list \<Rightarrow> string" where
  "join_with sep [] = []"
| "join_with sep [x] = x"
| "join_with sep (x # y # zs) = x @ sep @ join_with sep (y # zs)"

text \<open>\<open>JSON.stringify\<close>: an undefined array element prints as null, an undefined property not at
  all.\<close>

fun json_stringify :: "jsv \<Rightarrow> string" where
  "json_stringify Undefined = ''null''"
| "json_stringify Null = ''null''"
| "json_stringify (Bool b) = (if b then ''true'' else ''false'')"
| "json_stringify (Num n) = num_str n"
| "json_stringify (Str s) = quote_str s"
| "json_stringify (Arr xs) = ''['' @ join_with '','' (map json_stringify xs) @ '']''"
| "json_stringify (Obj fs) =
     ''{'' @ join_with '','' (map (\<lambda>(k, t). quote_str k @ '':'' @ t)
               (map (\<lambda>(k, v). (k, json_stringify v)) (filter (\<lambda>(k, v). v \<noteq> Undefined) fs))) @ ''}''"

subsection \<open>The canonical form\<close>

definition by_key :: "(string \<times> 'a) comparator_fn" where
  "by_key p q = cmp_str (fst p) (fst q)"

lemma size_member: "p \<in> set fs \<Longrightarrow> size (snd p) < size (Obj fs)"
  by (induction fs) auto

lemma size_elem: "x \<in> set xs \<Longrightarrow> size x < size (Arr xs)"
  by (induction xs) auto

text \<open>\<open>canonicalize\<close>; an undefined array element joins as the empty string.\<close>

function canonicalize :: "jsv \<Rightarrow> string" where
  "canonicalize Undefined = []"
| "canonicalize Null = json_stringify Null"
| "canonicalize (Bool b) = json_stringify (Bool b)"
| "canonicalize (Num n) = json_stringify (Num n)"
| "canonicalize (Str s) = json_stringify (Str s)"
| "canonicalize (Arr xs) = ''['' @ join_with '','' (map canonicalize xs) @ '']''"
| "canonicalize (Obj fs) =
     ''{'' @ join_with '','' (map (\<lambda>p. quote_str (fst p) @ '':'' @ canonicalize (snd p))
               (sort_by by_key (filter (\<lambda>p. snd p \<noteq> Undefined) fs))) @ ''}''"
  by pat_completeness auto
termination
proof (relation "measure size", goal_cases)
  case 1
  show ?case by simp
next
  case (2 xs x)
  then show ?case using size_elem by (simp del: jsv.size)
next
  case (3 fs p)
  then have "p \<in> set fs" by simp
  then show ?case using size_member by (simp del: jsv.size)
qed

subsection \<open>Reading back what was printed\<close>

lemma hex_digit_char: "m < 16 \<Longrightarrow> hex_digit (hex_char m) = Some m"
  by (simp add: hex_char_def Let_def)

lemma hex4_low:
  assumes "n < 32"
  shows "hex4 CHR ''0'' CHR ''0'' (hex_char (n div 16)) (hex_char (n mod 16)) = Some n"
proof -
  have "hex_digit (hex_char (n div 16)) = Some (n div 16)"
    using assms by (intro hex_digit_char) simp
  moreover have "hex_digit (hex_char (n mod 16)) = Some (n mod 16)"
    by (intro hex_digit_char) simp
  moreover have "hex_digit CHR ''0'' = Some 0" by simp
  ultimately show ?thesis by (simp add: hex4_def del: hex_digit.simps)
qed

lemma pstr_close: "pstr (CHR 0x22 # cs) = Some ([], cs)"
  by (subst pstr.simps) simp

lemma pstr_raw:
  "c \<noteq> CHR 0x22 \<Longrightarrow> c \<noteq> CHR 0x5C \<Longrightarrow> \<not> of_char c < (32::nat) \<Longrightarrow> pstr (c # cs) = cons_res c (pstr cs)"
  by (subst pstr.simps) simp

lemma pstr_short: "e \<noteq> CHR ''u'' \<Longrightarrow> unescape e = Some x \<Longrightarrow> pstr (CHR 0x5C # e # r) = cons_res x (pstr r)"
  by (subst pstr.simps) simp

lemma pstr_hex:
  "hex4 a b c d = Some n \<Longrightarrow> n < 128 \<Longrightarrow>
   pstr (CHR 0x5C # CHR ''u'' # a # b # c # d # r) = cons_res (char_of n) (pstr r)"
  by (subst pstr.simps) simp

declare pstr.simps(2) [simp del]

lemma pstr_esc: "pstr (esc_char c @ r) = cons_res c (pstr r)"
proof (cases "of_char c < (32::nat)")
  case True
  then show ?thesis
    by (simp add: esc_char_def unescape_def pstr_short pstr_hex[OF hex4_low])
next
  case False
  then show ?thesis by (simp add: esc_char_def unescape_def pstr_short pstr_raw)
qed

lemma pstr_quote: "pstr (concat (map esc_char s) @ CHR 0x22 # r) = Some (s, r)"
  by (induction s) (simp_all add: pstr_esc pstr_close cons_res_def)

lemma isd_digit: "d < 10 \<Longrightarrow> isd (char_of (48 + d :: nat))"
  by (auto simp: isd_def)

lemma nat_str_isd: "list_all isd (nat_str n)"
  by (induction n rule: nat_str.induct) (subst nat_str.simps, auto intro: isd_digit)

lemma digits_val_snoc: "digits_val (ds @ [c]) = 10 * digits_val ds + (of_char c - 48)"
  by (simp add: digits_val_def)

lemma nat_str_val: "digits_val (nat_str n) = n"
proof (induction n rule: nat_str.induct)
  case (1 n)
  then show ?case
    by (subst nat_str.simps) (auto simp: digits_val_snoc, simp add: digits_val_def)
qed

lemma nat_str_ne: "nat_str n \<noteq> []"
  by (subst nat_str.simps) auto

lemma nat_str_hd: "10 \<le> n \<Longrightarrow> hd (nat_str n) \<noteq> CHR ''0''"
proof (induction n rule: nat_str.induct)
  case (1 n)
  show ?case
  proof (cases "n div 10 < 10")
    case True
    then have "nat_str n = [char_of (48 + n div 10), char_of (48 + n mod 10)]"
      using 1 by (simp add: nat_str.simps[of n] nat_str.simps[of "n div 10"])
    moreover have "(of_char (char_of (48 + n div 10) :: char) :: nat) \<noteq> of_char CHR ''0''"
      using True 1(2) by simp
    ultimately show ?thesis by (metis list.sel(1))
  next
    case False
    then show ?thesis using 1 by (simp add: nat_str.simps[of n] nat_str_ne)
  qed
qed

lemma nat_str_small: "n < 10 \<Longrightarrow> length (nat_str n) = 1"
  by (simp add: nat_str.simps)

text \<open>What may follow a value inside printed JSON.\<close>

definition stops :: "string \<Rightarrow> bool" where
  "stops r \<longleftrightarrow> (case r of [] \<Rightarrow> True | c # _ \<Rightarrow> c = CHR '','' \<or> c = CHR '']'' \<or> c = CHR ''}'')"

lemma stops_simps [simp]:
  "stops []" "stops (CHR '','' # r)" "stops (CHR '']'' # r)" "stops (CHR ''}'' # r)"
  by (simp_all add: stops_def)

lemma stops_after:
  assumes "stops r"
  shows "takeWhile isd r = []" "dropWhile isd r = r" "pfrac r = Some (0, r)" "pexp r = Some (1, r)"
  using assms by (auto simp: stops_def isd_def pfrac_def pexp_def split: list.splits)

lemma takeWhile_digits:
  "stops r \<Longrightarrow> takeWhile isd (nat_str n @ r) = nat_str n \<and> dropWhile isd (nat_str n @ r) = r"
  using nat_str_isd[of n] by (simp add: stops_after list_all_iff)

lemma to_double_safe: "is_safe_integer x \<Longrightarrow> to_double x = Fin x"
proof -
  assume x: "is_safe_integer x"
  then obtain n where n: "x = of_int n" "\<bar>n\<bar> < 2 ^ 53" by (elim safe_integerE)
  then have "x < of_int (2 ^ 53) \<and> of_int (- (2 ^ 53)) < x"
    unfolding n(1) of_int_less_iff by linarith
  then have "x < 2 ^ 53 \<and> - (2 ^ 53) < x" by simp
  moreover have "(2::rat) ^ 53 < 2 ^ 1024" by (rule power_strict_increasing) auto
  ultimately show ?thesis using fl_safe_int[OF x] by (simp add: to_double_def)
qed

lemma nat_str_no_lead: "\<not> (hd (nat_str n) = CHR ''0'' \<and> length (nat_str n) \<noteq> 1)"
  using nat_str_hd[of n] nat_str_small[of n] by (cases "n < 10") auto

lemma nat_str_Cons: obtains d t where "nat_str n = d # t" and "isd d"
  using nat_str_ne[of n] nat_str_isd[of n] by (cases "nat_str n") auto

lemma nat_str_not_minus: "hd (nat_str n @ r) \<noteq> CHR ''-''"
  using nat_str_isd[of n] nat_str_ne[of n] by (cases "nat_str n") (auto simp: isd_def)

lemma pnum_nat:
  assumes "stops r"
  shows "pnum (nat_str n @ r) = Some (Num (to_double (of_nat n)), r)"
    and "pnum (CHR ''-'' # nat_str n @ r) = Some (Num (to_double (- of_nat n)), r)"
  using assms nat_str_no_lead[of n] nat_str_not_minus[of n r]
  by (auto simp: pnum_def Let_def takeWhile_digits nat_str_ne nat_str_val stops_after)

lemma pnum_safe:
  assumes "is_safe_integer x" and "stops r"
  shows "pnum (num_str (Fin x) @ r) = Some (Num (Fin x), r)"
proof -
  obtain n where n: "x = of_int n" "\<bar>n\<bar> < 2 ^ 53" using assms(1) by (elim safe_integerE)
  show ?thesis
  proof (cases "x < 0")
    case True
    have "is_safe_integer (of_int (- n))" using n by (simp only: safe_of_int)
    then have "pos_str (- x) = nat_str (nat (- n))" using n by (simp add: pos_str_def)
    moreover have "- of_nat (nat (- n)) = x" using n True by simp
    ultimately show ?thesis
      using True n pnum_nat(2)[OF assms(2), of "nat (- n)"] to_double_safe[OF assms(1)]
      by (simp add: num_str_def)
  next
    case False
    then have "pos_str x = nat_str (nat n)" "of_nat (nat n) = x" using n assms(1) by (simp_all add: pos_str_def)
    then show ?thesis
      using False n pnum_nat(1)[OF assms(2), of "nat n"] to_double_safe[OF assms(1)]
      by (simp add: num_str_def)
  qed
qed

text \<open>Values that JSON carries exactly: no undefined, safe integers, distinct keys.\<close>

fun plain :: "jsv \<Rightarrow> bool" where
  "plain Undefined = False"
| "plain Null = True"
| "plain (Bool b) = True"
| "plain (Num x) = (case x of Fin r \<Rightarrow> is_safe_integer r | _ \<Rightarrow> False)"
| "plain (Str s) = True"
| "plain (Arr xs) = list_all plain xs"
| "plain (Obj fs) = (distinct (map fst fs) \<and> list_all (\<lambda>(k, v). plain v) fs)"

text \<open>The head of a printed value: never white space, and telling which kind of value follows.\<close>

lemma not_ws: "\<not> ws_char c \<Longrightarrow> skip_ws (c # r) = c # r"
  by (simp add: skip_ws_def)

lemma plit_num:
  assumes "is_safe_integer x" and "stops r"
  shows "pval (Suc n) (num_str (Fin x) @ r) = Some (Num (Fin x), r)"
proof -
  obtain c t where c: "num_str (Fin x) = c # t" "c = CHR ''-'' \<or> isd c"
  proof (cases "x < 0")
    case True
    then show ?thesis using that by (simp add: num_str_def)
  next
    case False
    moreover obtain d t where "nat_str (nat \<lfloor>x\<rfloor>) = d # t" "isd d" by (rule nat_str_Cons)
    ultimately show ?thesis using that assms(1) by (simp add: num_str_def pos_str_def)
  qed
  then have "plit (c # t @ r) = pnum (c # t @ r)" "skip_ws (c # t @ r) = c # t @ r"
    "c \<noteq> CHR 0x22 \<and> c \<noteq> CHR ''['' \<and> c \<noteq> CHR ''{''"
    by (auto simp: plit_def isd_def ws_char_def intro!: not_ws)
  then show ?thesis using pnum_safe[OF assms] c(1) by simp
qed

lemma isd_plain: "isd d \<Longrightarrow> \<not> ws_char d \<and> d \<noteq> CHR '']''"
  by (auto simp: isd_def ws_char_def)

lemma stringify_head:
  assumes "plain v"
  obtains c t where "json_stringify v = c # t" and "\<not> ws_char c" and "c \<noteq> CHR '']''"
proof (cases v)
  case (Num x)
  with assms obtain r where r: "x = Fin r" "is_safe_integer r" by (cases x) auto
  obtain d t where "nat_str (nat \<lfloor>r\<rfloor>) = d # t" "isd d" by (rule nat_str_Cons)
  then show ?thesis using that[of d t] that[of "CHR ''-''"] r Num isd_plain[of d]
    by (cases "r < 0") (auto simp: num_str_def pos_str_def ws_char_def)
next
  case (Bool b)
  then show ?thesis using that by (cases b) (auto simp: ws_char_def)
qed (use assms that in \<open>auto simp: ws_char_def quote_str_def\<close>)

lemma pelems_print:
  assumes "\<And>x n r. x \<in> set xs \<Longrightarrow> stops r \<Longrightarrow> length (json_stringify x) < n \<Longrightarrow>
             pval n (json_stringify x @ r) = Some (x, r)"
    and "xs \<noteq> []" and "length (join_with '','' (map json_stringify xs)) + 1 < n"
  shows "pelems n acc (join_with '','' (map json_stringify xs) @ CHR '']'' # r) = Some (Arr (acc @ xs), r)"
  using assms
proof (induction xs arbitrary: acc n)
  case (Cons x xs)
  then obtain m where n: "n = Suc m" by (cases n) auto
  show ?case
  proof (cases xs)
    case Nil
    have "pval m (json_stringify x @ CHR '']'' # r) = Some (x, CHR '']'' # r)"
      using Cons.prems n Nil by (intro Cons.prems(1)) auto
    then show ?thesis using n Nil by (simp add: not_ws ws_char_def)
  next
    case (Cons y ys)
    let ?rest = "join_with '','' (map json_stringify xs) @ CHR '']'' # r"
    have "pval m (json_stringify x @ CHR '','' # ?rest) = Some (x, CHR '','' # ?rest)"
      using Cons.prems n Cons by (intro Cons.prems(1)) auto
    moreover have "pelems m (acc @ [x]) ?rest = Some (Arr ((acc @ [x]) @ xs), r)"
      using Cons.prems n Cons by (intro Cons.IH) auto
    ultimately show ?thesis using n Cons by (simp add: not_ws ws_char_def)
  qed
qed simp


definition member_str :: "string \<times> jsv \<Rightarrow> string" where
  "member_str p = quote_str (fst p) @ '':'' @ json_stringify (snd p)"

lemma stringify_Obj_plain:
  assumes "plain (Obj fs)"
  shows "json_stringify (Obj fs) = ''{'' @ join_with '','' (map member_str fs) @ ''}''"
proof -
  have "filter (\<lambda>(k, v). v \<noteq> Undefined) fs = fs"
    using assms by (auto simp: list_all_iff intro!: filter_True)
  then show ?thesis by (simp add: member_str_def[abs_def] case_prod_beta' comp_def)
qed

lemma update_snoc: "k \<notin> fst ` set acc \<Longrightarrow> AList.update k v acc = acc @ [(k, v)]"
  by (induction acc) auto

lemma pmembers_print:
  assumes "\<And>k x n r. (k, x) \<in> set fs \<Longrightarrow> stops r \<Longrightarrow> length (json_stringify x) < n \<Longrightarrow>
             pval n (json_stringify x @ r) = Some (x, r)"
    and "fs \<noteq> []" and "distinct (map fst (acc @ fs))"
    and "length (join_with '','' (map member_str fs)) + 1 < n"
  shows "pmembers n acc (join_with '','' (map member_str fs) @ CHR ''}'' # r) = Some (Obj (acc @ fs), r)"
  using assms
proof (induction fs arbitrary: acc n)
  case (Cons p fs)
  obtain k x where p: "p = (k, x)" by (cases p)
  obtain m where n: "n = Suc m" using Cons.prems(4) by (cases n) auto
  have up: "AList.update k x acc = acc @ [(k, x)]"
    using Cons.prems(3) p by (intro update_snoc) auto
  show ?case
  proof (cases fs)
    case Nil
    have "pval m (json_stringify x @ CHR ''}'' # r) = Some (x, CHR ''}'' # r)"
      using Cons.prems n p Nil by (intro Cons.prems(1)) (auto simp: member_str_def)
    then show ?thesis using n p Nil
      by (simp add: member_str_def[of "(k, x)"] quote_str_def pstr_quote not_ws ws_char_def up)
  next
    case (Cons q qs)
    let ?rest = "join_with '','' (map member_str fs) @ CHR ''}'' # r"
    have "pval m (json_stringify x @ CHR '','' # ?rest) = Some (x, CHR '','' # ?rest)"
      using Cons.prems n p Cons by (intro Cons.prems(1)) (auto simp: member_str_def)
    moreover have "pmembers m (acc @ [(k, x)]) ?rest = Some (Obj ((acc @ [(k, x)]) @ fs), r)"
      using Cons.prems n p Cons by (intro Cons.IH) auto
    ultimately show ?thesis using n p Cons
      by (simp add: member_str_def[of "(k, x)"] quote_str_def pstr_quote not_ws ws_char_def up)
  qed
qed simp

lemma pval_print:
  "plain v \<Longrightarrow> stops r \<Longrightarrow> length (json_stringify v) < n \<Longrightarrow> pval n (json_stringify v @ r) = Some (v, r)"
proof (induction v arbitrary: n r)
  case (Num x)
  then show ?case using plit_num by (cases n; cases x) auto
next
  case (Str s)
  then show ?case by (cases n) (auto simp: quote_str_def not_ws ws_char_def pstr_quote)
next
  case (Arr xs)
  then obtain m where n: "n = Suc m" by (cases n) auto
  show ?case
  proof (cases "xs = []")
    case True
    then show ?thesis using n by (simp add: not_ws ws_char_def)
  next
    case False
    then obtain x ys where "xs = x # ys" by (cases xs) auto
    moreover from this obtain c t where "json_stringify x = c # t" "\<not> ws_char c" "c \<noteq> CHR '']''"
      using Arr.prems(1) stringify_head[of x] by auto
    ultimately obtain t' where hd: "join_with '','' (map json_stringify xs) = c # t'" "\<not> ws_char c" "c \<noteq> CHR '']''"
      by (cases ys) auto
    have "pelems m [] (join_with '','' (map json_stringify xs) @ CHR '']'' # r) = Some (Arr ([] @ xs), r)"
      using Arr False n by (intro pelems_print) (auto simp: list_all_iff)
    then show ?thesis using n hd by (simp add: not_ws ws_char_def)
  qed
next
  case (Obj fs)
  then obtain m where n: "n = Suc m" by (cases n) auto
  note str = stringify_Obj_plain[OF Obj.prems(1)]
  show ?case
  proof (cases "fs = []")
    case True
    then show ?thesis using n by (simp add: not_ws ws_char_def)
  next
    case False
    then obtain t where hd: "join_with '','' (map member_str fs) = CHR 0x22 # t"
      by (cases fs rule: remdups_adj.cases) (auto simp: member_str_def quote_str_def)
    have "pmembers m [] (join_with '','' (map member_str fs) @ CHR ''}'' # r) = Some (Obj ([] @ fs), r)"
      using Obj.prems False n str
      by (intro pmembers_print) (auto simp: list_all_iff intro: Obj.IH)
    then show ?thesis using n hd str by (simp add: not_ws ws_char_def del: json_stringify.simps)
  qed
next
  case Null
  then show ?case by (cases n) (auto simp: not_ws ws_char_def plit_def)
next
  case (Bool b)
  then show ?case by (cases n; cases b) (auto simp: not_ws ws_char_def plit_def)
qed simp

lemma json_roundtrip: "plain v \<Longrightarrow> json_parse (json_stringify v) = Some v"
  using pval_print[of v "[]" "Suc (length (json_stringify v))"]
  by (simp add: json_parse_def skip_ws_def del: pval.simps)


interpretation json_text: wire_format json_stringify json_parse plain
  by unfold_locales (rule json_roundtrip)

text \<open>Every parser consumes text, and a result found with some fuel is found with any fuel above the
  number of characters consumed.\<close>

lemma skip_ws_length: "length (skip_ws s) \<le> length s"
  by (simp add: skip_ws_def length_dropWhile_le)

lemma pstr_length: "pstr s = Some (x, r) \<Longrightarrow> length r < length s"
proof (induction s arbitrary: x r rule: length_induct)
  case (1 s)
  have IH: "length r < length s" if "pstr t = Some (y, r)" "length t < length s" for t y
    using 1 that by (meson less_trans)
  show ?case
  proof (cases s)
    case (Cons c cs)
    then show ?thesis using "1.prems"
      by (simp add: pstr.simps(2)[of c cs] cons_res_def split: if_splits list.splits option.splits)
        (auto dest!: IH)
  qed (use "1.prems" in simp)
qed

lemma pfrac_length: "pfrac s = Some (f, r) \<Longrightarrow> length r \<le> length s"
  by (auto simp: pfrac_def Let_def split: list.splits if_splits)
    (meson le_SucI length_dropWhile_le)

lemma pexp_length: "pexp s = Some (f, r) \<Longrightarrow> length r \<le> length s"
proof (cases s)
  case (Cons c t)
  have "length (dropWhile isd (tl t)) \<le> length t" "length (dropWhile isd t) \<le> length t"
    using length_dropWhile_le[of isd "tl t"] by (auto intro: length_dropWhile_le order_trans)
  then show "pexp s = Some (f, r) \<Longrightarrow> ?thesis" using Cons
    by (auto simp: pexp_def Let_def split: if_splits)
qed (simp add: pexp_def)

lemma drop_digits_length: "takeWhile isd t \<noteq> [] \<Longrightarrow> length (dropWhile isd t) < length t"
  by (metis append_self_conv2 length_append length_greater_0_conv less_add_same_cancel2 takeWhile_dropWhile_id)

lemma pnum_length: "pnum s = Some (v, r) \<Longrightarrow> length r < length s"
  using drop_digits_length[of s] drop_digits_length[of "tl s"]
  by (auto simp: pnum_def Let_def split: if_splits option.splits dest!: pfrac_length pexp_length)

lemma strip_prefix_length: "strip_prefix p s = Some r \<Longrightarrow> length s = length p + length r"
  by (induction p s rule: strip_prefix.induct) (auto split: if_splits)

lemma plit_length: "plit s = Some (v, r) \<Longrightarrow> length r < length s"
  by (auto simp: plit_def split: option.splits dest!: strip_prefix_length pnum_length)

lemma skip_ws_Cons_length: "skip_ws s = c # r \<Longrightarrow> length r < length s"
  using skip_ws_length[of s] by simp


lemma parsers_length:
  "(\<forall>s v r. pval n s = Some (v, r) \<longrightarrow> length r < length s) \<and>
   (\<forall>acc s v r. pelems n acc s = Some (v, r) \<longrightarrow> length r < length s) \<and>
   (\<forall>mem s v r. pmembers n mem s = Some (v, r) \<longrightarrow> length r < length s)"
proof (induction n)
  case (Suc n)
  then have V: "\<And>s v r. pval n s = Some (v, r) \<Longrightarrow> length r < length s"
    and E: "\<And>acc s v r. pelems n acc s = Some (v, r) \<Longrightarrow> length r < length s"
    and M: "\<And>mem s v r. pmembers n mem s = Some (v, r) \<Longrightarrow> length r < length s" by auto
  have "length r < length s" if "pval (Suc n) s = Some (v, r)" for s v r
    using that by (auto split: if_splits list.splits
        dest!: pstr_length skip_ws_Cons_length plit_length E M)
  moreover have "length r < length s" if "pelems (Suc n) acc s = Some (v, r)" for acc s v r
    using that by (auto split: if_splits list.splits option.splits dest!: skip_ws_Cons_length V E)
  moreover have "length r < length s" if "pmembers (Suc n) mem s = Some (v, r)" for mem s v r
    using that by (auto split: if_splits list.splits option.splits
        dest!: skip_ws_Cons_length pstr_length V M)
  ultimately show ?case by blast
qed simp

lemmas pval_length = parsers_length[THEN conjunct1, rule_format]
lemmas pelems_length = parsers_length[THEN conjunct2, THEN conjunct1, rule_format]
lemmas pmembers_length = parsers_length[THEN conjunct2, THEN conjunct2, rule_format]

lemma parsers_fuel:
  "(\<forall>s v r m. pval n s = Some (v, r) \<longrightarrow> length s < m + length r \<longrightarrow> pval m s = Some (v, r)) \<and>
   (\<forall>acc s v r m. pelems n acc s = Some (v, r) \<longrightarrow> length s < m + length r \<longrightarrow> pelems m acc s = Some (v, r)) \<and>
   (\<forall>mem s v r m. pmembers n mem s = Some (v, r) \<longrightarrow> length s < m + length r \<longrightarrow> pmembers m mem s = Some (v, r))"
proof (induction n)
  case (Suc n)
  have V: "\<And>s v r m. pval n s = Some (v, r) \<Longrightarrow> length s < m + length r \<Longrightarrow> pval m s = Some (v, r)"
    and E: "\<And>acc s v r m. pelems n acc s = Some (v, r) \<Longrightarrow> length s < m + length r \<Longrightarrow> pelems m acc s = Some (v, r)"
    and M: "\<And>mem s v r m. pmembers n mem s = Some (v, r) \<Longrightarrow> length s < m + length r \<Longrightarrow> pmembers m mem s = Some (v, r)"
    using Suc.IH by blast+
  have "pval m s = Some (v, r)" if a: "pval (Suc n) s = Some (v, r)" "length s < m + length r" for s v r m
  proof -
    obtain k where m: "m = Suc k" using a pval_length[OF a(1)] by (cases m) auto
    obtain c t where c: "skip_ws s = c # t" using a(1) by (auto split: list.splits)
    have len: "length t < k + length r" using a(2) m skip_ws_Cons_length[OF c] by simp
    have E': "pelems k [] t = Some (v, r)" if "pelems n [] t = Some (v, r)" by (rule E[OF that len])
    have M': "pmembers k [] t = Some (v, r)" if "pmembers n [] t = Some (v, r)" by (rule M[OF that len])
    show ?thesis using a(1) E' M' by (simp add: m c split: if_splits list.splits)
  qed
  moreover have "pelems m acc s = Some (v, r)"
    if a: "pelems (Suc n) acc s = Some (v, r)" "length s < m + length r" for acc s v r m
  proof -
    obtain k where m: "m = Suc k" using a pelems_length[OF a(1)] by (cases m) auto
    obtain v1 r1 d r2 where 1: "pval n s = Some (v1, r1)" "skip_ws r1 = d # r2"
      using a(1) by (auto split: option.splits list.splits)
    have "length r \<le> length r2" using a(1) 1 by (auto split: if_splits dest!: pelems_length)
    then have "pval k s = Some (v1, r1)"
      using a(2) m skip_ws_Cons_length[OF 1(2)] by (intro V[OF 1(1)]) simp
    then show ?thesis using a 1 m pval_length[OF 1(1)] skip_ws_Cons_length[OF 1(2)]
      by (auto split: if_splits intro!: E[where m = k])
  qed
  moreover have "pmembers m mem s = Some (v, r)"
    if a: "pmembers (Suc n) mem s = Some (v, r)" "length s < m + length r" for mem s v r m
  proof -
    obtain k where m: "m = Suc k" using a pmembers_length[OF a(1)] by (cases m) auto
    obtain q0 k0 r0 r1 d r2 v3 r3 e r4 where 1: "skip_ws s = q0 # r0" "pstr r0 = Some (k0, r1)"
        "skip_ws r1 = d # r2" "pval n r2 = Some (v3, r3)" "skip_ws r3 = e # r4"
      using a(1) by (auto split: option.splits list.splits if_splits)
    note len = skip_ws_Cons_length[OF 1(1)] pstr_length[OF 1(2)] skip_ws_Cons_length[OF 1(3)]
      pval_length[OF 1(4)] skip_ws_Cons_length[OF 1(5)]
    have "length r \<le> length r4" using a(1) 1 by (auto split: if_splits dest!: pmembers_length)
    then have "pval k r2 = Some (v3, r3)"
      using a(2) m len by (intro V[OF 1(4)]) simp
    then show ?thesis using a 1 m len
      by (auto split: if_splits intro!: M[where m = k])
  qed
  ultimately show ?case by blast
qed simp

lemma pval_fuel:
  assumes "pval n s = Some (v, r)" and "skip_ws r = []"
  shows "json_parse s = Some v"
proof -
  have "pval (Suc (length s)) s = Some (v, r)"
    using parsers_fuel[of n, THEN conjunct1, rule_format, OF assms(1), of "Suc (length s)"] by simp
  then show ?thesis using assms(2) by (simp add: json_parse_def del: pval.simps)
qed


subsection \<open>What the canonical form identifies\<close>

text \<open>The value with the members of every object sorted by key, and equality of values up to the order
  of members.\<close>

function normal :: "jsv \<Rightarrow> jsv" where
  "normal Undefined = Undefined"
| "normal Null = Null"
| "normal (Bool b) = Bool b"
| "normal (Num n) = Num n"
| "normal (Str s) = Str s"
| "normal (Arr xs) = Arr (map normal xs)"
| "normal (Obj fs) =
     Obj (map (\<lambda>p. (fst p, normal (snd p))) (sort_by by_key (filter (\<lambda>p. snd p \<noteq> Undefined) fs)))"
  by pat_completeness auto
termination
proof (relation "measure size", goal_cases)
  case 1
  show ?case by simp
next
  case (2 xs x)
  then show ?case using size_elem by (simp del: jsv.size)
next
  case (3 fs p)
  then have "p \<in> set fs" by simp
  then show ?case using size_member by (simp del: jsv.size)
qed

function same_json :: "jsv \<Rightarrow> jsv \<Rightarrow> bool" where
  "same_json (Arr xs) w =
     (\<exists>ys. w = Arr ys \<and> length xs = length ys \<and> (\<forall>p \<in> set (zip xs ys). same_json (fst p) (snd p)))"
| "same_json (Obj fs) w =
     (\<exists>gs. w = Obj gs \<and> fst ` set fs = fst ` set gs \<and>
        (\<forall>p \<in> set fs. same_json (snd p) (own gs (fst p))))"
| "same_json Undefined w = (w = Undefined)"
| "same_json Null w = (w = Null)"
| "same_json (Bool b) w = (w = Bool b)"
| "same_json (Num n) w = (w = Num n)"
| "same_json (Str s) w = (w = Str s)"
  by pat_completeness auto
termination
proof (relation "measure (\<lambda>p. size (fst p))", goal_cases)
  case 1
  show ?case by simp
next
  case (2 xs w ys p)
  then have "fst p \<in> set xs" by (metis in_set_zipE prod.collapse)
  then show ?case using size_elem by (simp del: jsv.size)
next
  case (3 fs w gs p)
  then show ?case using size_member by (simp del: jsv.size)
qed

interpretation key_order: comparator_contract by_key
  by unfold_locales (auto simp: by_key_def)

lemma by_key_sorted: "sorted (map fst (sort_by by_key fs))"
  using key_order.sort_by_sorted[of fs] by (simp add: by_key_def sorted_map)

lemma map_of_sort_by_key: "distinct (map fst fs) \<Longrightarrow> map_of (sort_by by_key fs) = map_of fs"
  by (metis distinct_map mset_map mset_sort_by mset_eq_imp_distinct_iff set_sort_by map_of_inject_set)

lemma plain_no_Undefined: "plain (Obj fs) \<Longrightarrow> filter (\<lambda>p. snd p \<noteq> Undefined) fs = fs"
  by (auto simp: list_all_iff intro!: filter_True)

definition normal_members :: "(string \<times> jsv) list \<Rightarrow> (string \<times> jsv) list" where
  "normal_members fs = map (\<lambda>p. (fst p, normal (snd p))) (sort_by by_key fs)"

lemma normal_Obj: "plain (Obj fs) \<Longrightarrow> normal (Obj fs) = Obj (normal_members fs)"
  by (simp add: plain_no_Undefined normal_members_def)

lemma normal_members_keys:
  assumes "distinct (map fst fs)"
  shows "sorted (map fst (normal_members fs))" and "distinct (map fst (normal_members fs))"
    and "map_of (normal_members fs) k = map_option normal (map_of fs k)"
proof -
  show "sorted (map fst (normal_members fs))"
    using by_key_sorted[of fs] by (simp add: normal_members_def comp_def)
  show "distinct (map fst (normal_members fs))"
    using assms by (simp add: normal_members_def comp_def)
      (metis distinct_map mset_map mset_sort_by mset_eq_imp_distinct_iff)
  show "map_of (normal_members fs) k = map_option normal (map_of fs k)"
    using map_of_sort_by_key[OF assms] map_of_map[of normal "sort_by by_key fs"]
    by (simp add: normal_members_def case_prod_beta')
qed

lemma normal_members_eq:
  assumes "distinct (map fst fs)" and "distinct (map fst gs)"
  shows "normal_members fs = normal_members gs \<longleftrightarrow>
    (\<forall>k. map_option normal (map_of fs k) = map_option normal (map_of gs k))" (is "_ \<longleftrightarrow> ?R")
proof
  assume ?R
  then have "map_of (normal_members fs) = map_of (normal_members gs)"
    using assms by (auto simp: normal_members_keys(3))
  then have "set (normal_members fs) = set (normal_members gs)"
    using assms by (simp add: map_of_inject_set normal_members_keys(2))
  then show "normal_members fs = normal_members gs"
    using assms normal_members_keys
    by (intro map_sorted_distinct_set_unique[of fst])
      (auto simp: distinct_map)
qed (metis assms normal_members_keys(3))


lemma normal_members_all:
  assumes "list_all (\<lambda>(k, v). P (normal v)) fs"
  shows "list_all (\<lambda>(k, v). P v) (normal_members fs)"
  using assms by (auto simp: normal_members_def list_all_iff)

lemma plain_normal: "plain v \<Longrightarrow> plain (normal v)"
proof (induction v)
  case (Obj fs)
  then have "list_all (\<lambda>(k, v). plain v) (normal_members fs)"
    by (intro normal_members_all) (auto simp: list_all_iff)
  then show ?case using Obj.prems normal_members_keys(2)[of fs] by (simp only: normal_Obj) simp
qed (auto simp: list_all_iff)

lemma canonicalize_normal: "plain v \<Longrightarrow> canonicalize v = json_stringify (normal v)"
proof (induction v)
  case (Arr xs)
  then have "map canonicalize xs = map (json_stringify \<circ> normal) xs" by (auto simp: list_all_iff)
  then show ?case by (simp only: canonicalize.simps normal.simps json_stringify.simps map_map)
next
  case (Obj fs)
  have "quote_str (fst p) @ '':'' @ canonicalize (snd p) = member_str (fst p, normal (snd p))"
    if "p \<in> set (sort_by by_key fs)" for p
    using Obj that by (cases p) (auto simp: member_str_def list_all_iff)
  then have "map (\<lambda>p. quote_str (fst p) @ '':'' @ canonicalize (snd p)) (sort_by by_key fs)
      = map member_str (normal_members fs)"
    by (simp add: normal_members_def)
  moreover have "json_stringify (Obj (normal_members fs))
      = ''{'' @ join_with '','' (map member_str (normal_members fs)) @ ''}''"
    using plain_normal[OF Obj.prems] Obj.prems by (simp only: normal_Obj stringify_Obj_plain)
  ultimately show ?case
    using Obj.prems by (simp only: normal_Obj canonicalize.simps plain_no_Undefined)
qed simp_all

lemma same_json_Obj:
  assumes d: "distinct (map fst fs)" "distinct (map fst gs)"
    and IH: "\<And>k v w. (k, v) \<in> set fs \<Longrightarrow> map_of gs k = Some w \<Longrightarrow> same_json v w \<longleftrightarrow> normal v = normal w"
  shows "same_json (Obj fs) (Obj gs) \<longleftrightarrow> normal_members fs = normal_members gs"
proof -
  have *: "fst ` set fs = fst ` set gs \<and> (\<forall>p \<in> set fs. same_json (snd p) (own gs (fst p))) \<longleftrightarrow>
    (\<forall>k. map_option normal (map_of fs k) = map_option normal (map_of gs k))" (is "?L \<longleftrightarrow> ?R")
  proof
    assume L: ?L
    show ?R
    proof
      fix k
      show "map_option normal (map_of fs k) = map_option normal (map_of gs k)"
      proof (cases "map_of fs k")
        case None
        then have "map_of gs k = None" using L by (simp add: map_of_eq_None_iff)
        then show ?thesis using None by simp
      next
        case (Some v)
        then have v: "(k, v) \<in> set fs" by (rule map_of_SomeD)
        then obtain w where w: "map_of gs k = Some w"
          using L by (metis fst_conv image_eqI map_of_eq_None_iff option.exhaust)
        moreover have "same_json v w" using L v w by fastforce
        ultimately show ?thesis using IH[OF v w] Some by simp
      qed
    qed
  next
    assume R: ?R
    then have "fst ` set fs = fst ` set gs"
      by (metis (mono_tags, opaque_lifting) map_of_eq_None_iff option.map_disc_iff subsetI subset_antisym)
    moreover have "same_json v (own gs k)" if v: "(k, v) \<in> set fs" for k v
    proof -
      have f: "map_of fs k = Some v" using v d by simp
      then obtain w where w: "map_of gs k = Some w"
        using R by (metis option.exhaust option.map_disc_iff option.distinct(1))
      then show ?thesis using IH[OF v w] R f by (metis option.inject option.simps(9) option.case(2) own.simps)
    qed
    ultimately show ?L by auto
  qed
  then show ?thesis using d by (simp only: same_json.simps jsv.inject normal_members_eq ex_simps) simp
qed


lemma normal_atoms:
  "Undefined = normal w \<longleftrightarrow> w = Undefined" "Null = normal w \<longleftrightarrow> w = Null"
  "Bool b = normal w \<longleftrightarrow> w = Bool b" "Num n = normal w \<longleftrightarrow> w = Num n" "Str s = normal w \<longleftrightarrow> w = Str s"
  by (cases w; auto)+

lemma normal_eq_iff: "plain v \<Longrightarrow> plain w \<Longrightarrow> normal v = normal w \<longleftrightarrow> same_json v w"
proof (induction v arbitrary: w)
  case (Arr xs)
  show ?case
  proof (cases w)
    case w: (Arr ys)
    have "(normal x = normal y) = same_json x y" if z: "(x, y) \<in> set (zip xs ys)" for x y
      using Arr set_zip_leftD[OF z] set_zip_rightD[OF z] w by (auto simp: list_all_iff)
    then have "list_all2 (\<lambda>x y. normal x = normal y) xs ys \<longleftrightarrow> same_json (Arr xs) (Arr ys)"
      by (auto simp: list_all2_iff)
    then show ?thesis
      unfolding w by (simp add: list_all2_map1 list_all2_map2 flip: list.rel_eq)
  qed (use Arr.prems in \<open>auto simp del: normal.simps(7) simp: normal_Obj\<close>)
next
  case (Obj fs)
  show ?case
  proof (cases w)
    case w: (Obj gs)
    have "same_json v u \<longleftrightarrow> normal v = normal u" if "(k, v) \<in> set fs" "map_of gs k = Some u" for k v u
      using Obj that w by (fastforce simp: list_all_iff dest: map_of_SomeD)
    then have "same_json (Obj fs) (Obj gs) \<longleftrightarrow> normal_members fs = normal_members gs"
      using Obj.prems w by (intro same_json_Obj) auto
    then show ?thesis using Obj.prems w by (simp only: normal_Obj jsv.inject)
  qed (use Obj.prems in \<open>auto simp del: normal.simps(7) simp: normal_Obj\<close>)
qed (simp_all add: normal_atoms)



end
