(* ===== verification/Frame.thy ===== *)
theory Frame
  imports Json "HOL-Library.Word"
begin

text \<open>
  \<^verbatim>\<open>src/swarmlet/protocol/frame.ts\<close>: many byte streams over one WebSocket. A frame is a big-endian
  32-bit stream id, an operation byte and a payload.

  A \<open>MuxStream\<close> is an object that outlives its entry in the mux's map (a holder may still call it), so
  the mux keeps every stream it created in \<open>objs\<close> and \<open>streams\<close> maps an id to an index there. The code a
  user registers (\<open>onData\<close>, \<open>onEnd\<close>, \<open>onOpen\<close>) may call back into the mux and may throw: a callback is a
  number, and the parameter \<open>env\<close> says what each one does to the mux, and when \<open>sendRaw\<close> throws.
  \<open>sent\<close> records the frames handed to \<open>sendRaw\<close>, \<open>delivered\<close> the chunks passed to data callbacks.

  Text is Latin-1: bytes that decode to other characters count as malformed JSON.
\<close>

unbundle bit_operations_syntax

subsection \<open>Bytes and text\<close>

type_synonym bytes = "8 word list"

definition u32_bytes :: "32 word \<Rightarrow> bytes" where
  "u32_bytes w = [ucast (drop_bit 24 w), ucast (drop_bit 16 w), ucast (drop_bit 8 w), ucast w]"

definition u32_of :: "8 word \<Rightarrow> 8 word \<Rightarrow> 8 word \<Rightarrow> 8 word \<Rightarrow> 32 word" where
  "u32_of a b c d = push_bit 24 (ucast a) OR push_bit 16 (ucast b) OR push_bit 8 (ucast c) OR ucast d"

lemma u32_roundtrip:
  "u32_of (ucast (drop_bit 24 w)) (ucast (drop_bit 16 w)) (ucast (drop_bit 8 w)) (ucast w) = w"
proof (rule bit_word_eqI)
  fix n assume "n < LENGTH(32)"
  then consider "n < 8" | "8 \<le> n" "n < 16" | "16 \<le> n" "n < 24" | "24 \<le> n" "n < 32" by fastforce
  then show "bit (u32_of (ucast (drop_bit 24 w)) (ucast (drop_bit 16 w)) (ucast (drop_bit 8 w)) (ucast w)) n = bit w n"
    by cases (auto simp: u32_of_def bit_simps)
qed

definition byte :: "nat \<Rightarrow> 8 word" where
  "byte n = of_nat n"

lemma unat_byte [simp]: "n < 256 \<Longrightarrow> unat (byte n) = n"
  by (simp add: byte_def unat_of_nat)

definition utf8_char :: "char \<Rightarrow> bytes" where
  "utf8_char c = (let n = of_char c :: nat in
     if n < 128 then [byte n] else [byte (192 + n div 64), byte (128 + n mod 64)])"

fun utf8_decode :: "bytes \<Rightarrow> string option" where
  "utf8_decode [] = Some []"
| "utf8_decode (b # bs) =
     (if unat b < 128 then map_option (\<lambda>s. char_of (unat b) # s) (utf8_decode bs)
      else if unat b = 194 \<or> unat b = 195 then
        (case bs of
           c # cs \<Rightarrow> if 128 \<le> unat c \<and> unat c < 192
                     then map_option (\<lambda>s. char_of ((unat b - 192) * 64 + (unat c - 128)) # s) (utf8_decode cs)
                     else None
         | [] \<Rightarrow> None)
      else None)"

definition utf8_encode :: "string \<Rightarrow> bytes" where
  "utf8_encode s = concat (map utf8_char s)"

lemma utf8_step: "utf8_decode (utf8_char c @ r) = map_option (\<lambda>s. c # s) (utf8_decode r)"
proof -
  have n: "of_char c < (256::nat)" using nat_of_char_less_256 by simp
  define n where "n = (of_char c :: nat)"
  have c: "c = char_of n" "n < 256" using n by (simp_all add: n_def)
  have d: "n div 64 < 4" "n mod 64 < 64" using c(2) by auto
  show ?thesis
  proof (cases "n < 128")
    case True
    then show ?thesis using c by (simp add: utf8_char_def n_def[symmetric])
  next
    case False
    then have "n div 64 = 2 \<or> n div 64 = 3" using d by auto
    then show ?thesis using c d False div_mult_mod_eq[of n 64]
      by (auto simp: utf8_char_def n_def[symmetric])
  qed
qed

lemma utf8_roundtrip: "utf8_decode (utf8_encode s) = Some s"
  by (induction s) (simp_all add: utf8_encode_def utf8_step)

interpretation utf8: wire_format utf8_encode utf8_decode "\<lambda>_. True"
  by unfold_locales (rule utf8_roundtrip)

subsection \<open>Frames\<close>

definition OP_OPEN :: nat where "OP_OPEN = 1"
definition OP_DATA :: nat where "OP_DATA = 2"
definition OP_CLOSE :: nat where "OP_CLOSE = 3"
definition MAX_OPEN_STREAMS :: nat where "MAX_OPEN_STREAMS = 1024"
definition MAX_PENDING_STREAM_BYTES :: nat where "MAX_PENDING_STREAM_BYTES = 16 * 1024 * 1024"
definition MAX_PENDING_MUX_BYTES :: nat where "MAX_PENDING_MUX_BYTES = 64 * 1024 * 1024"
definition MAX_HEADER_BYTES :: nat where "MAX_HEADER_BYTES = 16 * 1024"

datatype mux_error =
    FrameTooShort nat
  | UnknownOp nat
  | AlreadyOpen nat
  | HeaderTooLarge
  | HeaderNotJson
  | InvalidHeader
  | OpenLimit
  | SendThrew
  | CallbackThrew nat

record mux_frame =
  streamId :: nat
  f_op :: nat
  payload :: bytes

definition encodeFrame :: "nat \<Rightarrow> nat \<Rightarrow> bytes \<Rightarrow> bytes" where
  "encodeFrame sid opn pl = u32_bytes (of_nat sid) @ byte opn # pl"

definition decodeFrame :: "bytes \<Rightarrow> mux_error + mux_frame" where
  "decodeFrame buf =
     (case buf of
        a # b # c # d # o1 # pl \<Rightarrow>
          if unat o1 \<in> {OP_OPEN, OP_DATA, OP_CLOSE}
          then Inr \<lparr>streamId = unat (u32_of a b c d), f_op = unat o1, payload = pl\<rparr>
          else Inl (UnknownOp (unat o1))
      | _ \<Rightarrow> Inl (FrameTooShort (length buf)))"

definition header_name :: "jsv \<Rightarrow> bool" where
  "header_name v \<longleftrightarrow> isStr v \<and> 0 < length (the_str v) \<and> length (the_str v) \<le> 256"

definition headerShape :: "jsv \<Rightarrow> bool" where
  "headerShape v \<longleftrightarrow> isObj v \<and>
     (case getp v ''port'' of
        Num (Fin p) \<Rightarrow> is_integer p \<and> 0 < p \<and> p < 65536
      | _ \<Rightarrow> False) \<and>
     (getp v ''kind'' = Str ''http'' \<or>
      getp v ''kind'' = Str ''data'' \<and> header_name (getp v ''from'') \<or>
      getp v ''kind'' = Str ''relay'' \<and> header_name (getp v ''from'') \<and> header_name (getp v ''target''))"

subsection \<open>Streams and the mux\<close>

record mux_stream =
  sid :: nat
  s_header :: jsv
  dataCb :: "nat option"
  endCb :: "nat option"
  s_pending :: "bytes list"
  s_pendingBytes :: nat
  ended :: bool
  endedReason :: jsv
  closedLocally :: bool

record mux =
  objs :: "mux_stream list"
  streams :: "(nat \<times> nat) list"
  nextId :: nat
  bytesIn :: nat
  bytesOut :: nat
  m_pendingBytes :: int
  sent :: "bytes list"
  delivered :: "(nat \<times> bytes) list"

type_synonym 'a mux_op = "mux \<Rightarrow> (mux_error + 'a) \<times> mux"

record mux_env =
  rawThrows :: "bytes \<Rightarrow> mux \<Rightarrow> bool"
  callData :: "nat \<Rightarrow> bytes \<Rightarrow> unit mux_op"
  callEnd :: "nat \<Rightarrow> jsv \<Rightarrow> unit mux_op"
  callOpen :: "nat \<Rightarrow> bool option mux_op"

text \<open>Statements that may throw: sequencing, \<open>try ... finally\<close>, and \<open>catch\<close> with a rethrow.\<close>

definition op_ret :: "'a \<Rightarrow> 'a mux_op" where
  "op_ret x m = (Inr x, m)"

definition op_throw :: "mux_error \<Rightarrow> 'a mux_op" where
  "op_throw e m = (Inl e, m)"

definition op_bind :: "'a mux_op \<Rightarrow> ('a \<Rightarrow> 'b mux_op) \<Rightarrow> 'b mux_op" where
  "op_bind f g m = (case f m of (Inl e, m') \<Rightarrow> (Inl e, m') | (Inr x, m') \<Rightarrow> g x m')"

definition op_then :: "unit mux_op \<Rightarrow> 'b mux_op \<Rightarrow> 'b mux_op" where
  "op_then f g = op_bind f (\<lambda>_. g)"

definition op_finally :: "unit mux_op \<Rightarrow> unit mux_op \<Rightarrow> unit mux_op" where
  "op_finally f g m =
     (case f m of (r, m') \<Rightarrow> (case g m' of (Inl e, m'') \<Rightarrow> (Inl e, m'') | (Inr _, m'') \<Rightarrow> (r, m'')))"

definition op_rethrow :: "'a mux_op \<Rightarrow> unit mux_op \<Rightarrow> 'a mux_op" where
  "op_rethrow f h m =
     (case f m of
        (Inl e, m') \<Rightarrow> (case h m' of (Inl e', m'') \<Rightarrow> (Inl e', m'') | (Inr _, m'') \<Rightarrow> (Inl e, m''))
      | (Inr x, m') \<Rightarrow> (Inr x, m'))"

definition op_get :: "(mux \<Rightarrow> 'a mux_op) \<Rightarrow> 'a mux_op" where
  "op_get f m = f m m"

definition op_mod :: "(mux \<Rightarrow> mux) \<Rightarrow> unit mux_op" where
  "op_mod f m = (Inr (), f m)"

text \<open>A reference that no \<open>new MuxStream\<close> produced behaves as a closed stream.\<close>

definition no_stream :: mux_stream where
  "no_stream = \<lparr>sid = 0, s_header = Undefined, dataCb = None, endCb = None, s_pending = [],
     s_pendingBytes = 0, ended = True, endedReason = Undefined, closedLocally = True\<rparr>"

definition obj :: "mux \<Rightarrow> nat \<Rightarrow> mux_stream" where
  "obj m a = (if a < length (objs m) then objs m ! a else no_stream)"

definition upd_obj :: "nat \<Rightarrow> (mux_stream \<Rightarrow> mux_stream) \<Rightarrow> mux \<Rightarrow> mux" where
  "upd_obj a f m = m\<lparr>objs := (objs m)[a := f (obj m a)]\<rparr>"

definition isClosed :: "mux_stream \<Rightarrow> bool" where
  "isClosed s \<longleftrightarrow> closedLocally s \<or> ended s"

type_synonym raw_send = "bytes \<Rightarrow> mux \<Rightarrow> bool"

definition mux_send :: "raw_send \<Rightarrow> bytes \<Rightarrow> unit mux_op" where
  "mux_send throws fr m =
     (let m' = m\<lparr>bytesOut := bytesOut m + length fr\<rparr> in
      if throws fr m' then (Inl SendThrew, m') else (Inr (), m'\<lparr>sent := sent m' @ [fr]\<rparr>))"

definition forget :: "nat \<Rightarrow> mux \<Rightarrow> mux" where
  "forget i m = m\<lparr>streams := filter (\<lambda>p. fst p \<noteq> i) (streams m)\<rparr>"

definition reservePending :: "nat \<Rightarrow> mux \<Rightarrow> bool \<times> mux" where
  "reservePending n m =
     (if int MAX_PENDING_MUX_BYTES < m_pendingBytes m + int n then (False, m)
      else (True, m\<lparr>m_pendingBytes := m_pendingBytes m + int n\<rparr>))"

definition releasePending :: "nat \<Rightarrow> mux \<Rightarrow> mux" where
  "releasePending n m = m\<lparr>m_pendingBytes := m_pendingBytes m - int n\<rparr>"

definition clearPending :: "nat \<Rightarrow> mux \<Rightarrow> mux" where
  "clearPending a m =
     upd_obj a (\<lambda>s. s\<lparr>s_pendingBytes := 0, s_pending := []\<rparr>) (releasePending (s_pendingBytes (obj m a)) m)"

definition reasonPayload :: "jsv \<Rightarrow> bytes" where
  "reasonPayload r = (if truthy r then utf8_encode (json_stringify (Obj [(''reason'', r)])) else [])"

definition stream_write :: "raw_send \<Rightarrow> nat \<Rightarrow> bytes \<Rightarrow> unit mux_op" where
  "stream_write throws a chunk m =
     (if isClosed (obj m a) then op_ret () m
      else mux_send throws (encodeFrame (sid (obj m a)) OP_DATA chunk) m)"

definition stream_close :: "raw_send \<Rightarrow> nat \<Rightarrow> jsv \<Rightarrow> unit mux_op" where
  "stream_close throws a reason m =
     (if closedLocally (obj m a) then op_ret () m
      else let m1 = upd_obj a (\<lambda>s. s\<lparr>closedLocally := True\<rparr>) m;
               m2 = clearPending a m1;
               m3 = forget (sid (obj m a)) m2
           in mux_send throws (encodeFrame (sid (obj m a)) OP_CLOSE (reasonPayload reason)) m3)"

definition stream_end :: "mux_env \<Rightarrow> nat \<Rightarrow> jsv \<Rightarrow> unit mux_op" where
  "stream_end env a reason m =
     (if ended (obj m a) then op_ret () m
      else let m1 = upd_obj a (\<lambda>s. s\<lparr>ended := True, endedReason := reason\<rparr>) m;
               m2 = clearPending a m1
           in case endCb (obj m a) of
                None \<Rightarrow> op_ret () m2
              | Some cb \<Rightarrow> callEnd env cb reason m2)"

definition pass_chunk :: "mux_env \<Rightarrow> nat \<Rightarrow> nat \<Rightarrow> bytes \<Rightarrow> unit mux_op" where
  "pass_chunk env a cb chunk m = callData env cb chunk (m\<lparr>delivered := delivered m @ [(a, chunk)]\<rparr>)"

definition limit_reason :: jsv where
  "limit_reason = Str ''pending data limit exceeded''"

definition deliver :: "mux_env \<Rightarrow> nat \<Rightarrow> bytes \<Rightarrow> unit mux_op" where
  "deliver env a chunk m =
     (let s = obj m a in
      if isClosed s then op_ret () m
      else case dataCb s of
             Some cb \<Rightarrow> pass_chunk env a cb chunk m
           | None \<Rightarrow>
               if chunk = [] then op_ret () m
               else let (ok, m1) =
                      (if MAX_PENDING_STREAM_BYTES < s_pendingBytes s + length chunk then (False, m)
                       else reservePending (length chunk) m)
                    in if ok
                       then op_ret () (upd_obj a (\<lambda>s. s\<lparr>s_pendingBytes := s_pendingBytes s + length chunk,
                                                        s_pending := s_pending s @ [chunk]\<rparr>) m1)
                       else op_finally (stream_close (rawThrows env) a limit_reason)
                              (stream_end env a limit_reason) m1)"

fun flush_pending :: "mux_env \<Rightarrow> nat \<Rightarrow> nat \<Rightarrow> bytes list \<Rightarrow> unit mux_op" where
  "flush_pending env a cb [] m = op_ret () m"
| "flush_pending env a cb (c # cs) m =
     (if isClosed (obj m a) then op_ret () m
      else op_bind (pass_chunk env a cb c) (\<lambda>_. flush_pending env a cb cs) m)"

definition onData :: "mux_env \<Rightarrow> nat \<Rightarrow> nat \<Rightarrow> unit mux_op" where
  "onData env a cb m =
     (let m1 = upd_obj a (\<lambda>s. s\<lparr>dataCb := Some cb\<rparr>) m;
          m2 = clearPending a m1
      in flush_pending env a cb (s_pending (obj m a)) m2)"

definition onEnd :: "mux_env \<Rightarrow> nat \<Rightarrow> nat \<Rightarrow> unit mux_op" where
  "onEnd env a cb m =
     (let m1 = upd_obj a (\<lambda>s. s\<lparr>endCb := Some cb\<rparr>) m in
      if ended (obj m a) then callEnd env cb (endedReason (obj m a)) m1 else op_ret () m1)"

definition new_mux :: "nat \<Rightarrow> mux" where
  "new_mux parity = \<lparr>objs = [], streams = [], nextId = (if parity = 1 then 1 else 2), bytesIn = 0,
     bytesOut = 0, m_pendingBytes = 0, sent = [], delivered = []\<rparr>"

definition new_stream :: "nat \<Rightarrow> jsv \<Rightarrow> mux_stream" where
  "new_stream i h = \<lparr>sid = i, s_header = h, dataCb = None, endCb = None, s_pending = [],
     s_pendingBytes = 0, ended = False, endedReason = Undefined, closedLocally = False\<rparr>"

text \<open>\<open>new MuxStream\<close> followed by \<open>streams.set\<close>: the new object's reference is the next index.\<close>

definition add_stream :: "nat \<Rightarrow> jsv \<Rightarrow> mux \<Rightarrow> mux" where
  "add_stream i h m = m\<lparr>objs := objs m @ [new_stream i h],
     streams := AList.update i (length (objs m)) (streams m)\<rparr>"

definition mux_open :: "mux_env \<Rightarrow> jsv \<Rightarrow> nat mux_op" where
  "mux_open env h m =
     (if \<not> headerShape h then op_throw InvalidHeader m
      else if MAX_OPEN_STREAMS \<le> length (streams m) then op_throw OpenLimit m
      else let i = nextId m; a = length (objs m);
               m1 = add_stream i h (m\<lparr>nextId := nextId m + 2\<rparr>)
           in op_bind
                (op_rethrow (mux_send (rawThrows env) (encodeFrame i OP_OPEN (utf8_encode (json_stringify h))))
                   (\<lambda>m2. stream_end env a (Str ''open failed'') (forget i m2)))
                (\<lambda>_. op_ret a) m1)"

definition text_json :: "bytes \<Rightarrow> jsv option" where
  "text_json bs = Option.bind (utf8_decode bs) json_parse"

definition handleOpen :: "mux_env \<Rightarrow> nat \<Rightarrow> bytes \<Rightarrow> unit mux_op" where
  "handleOpen env i pl m =
     (if map_of (streams m) i \<noteq> None then op_throw (AlreadyOpen i) m
      else if MAX_HEADER_BYTES < length pl then op_throw HeaderTooLarge m
      else case text_json pl of
             None \<Rightarrow> op_throw HeaderNotJson m
           | Some h \<Rightarrow>
               if \<not> headerShape h then op_throw InvalidHeader m
               else if MAX_OPEN_STREAMS \<le> length (streams m)
               then mux_send (rawThrows env)
                      (encodeFrame i OP_CLOSE (reasonPayload (Str ''open stream limit exceeded''))) m
               else let a = length (objs m); cl = stream_close (rawThrows env) a in
                    op_rethrow
                      (op_bind (callOpen env a)
                         (\<lambda>r. if r = Some False then cl (Str ''rejected'') else op_ret ()))
                      (op_finally (cl (Str ''open failed'')) (stream_end env a (Str ''open failed'')))
                      (add_stream i h m))"

definition closeReason :: "bytes \<Rightarrow> jsv" where
  "closeReason pl = (if pl = [] then Undefined
     else case text_json pl of None \<Rightarrow> Undefined | Some v \<Rightarrow> getp v ''reason'')"

definition handleFrame :: "mux_env \<Rightarrow> bytes \<Rightarrow> unit mux_op" where
  "handleFrame env buf m0 =
     (let m = m0\<lparr>bytesIn := bytesIn m0 + length buf\<rparr> in
      case decodeFrame buf of
        Inl e \<Rightarrow> op_throw e m
      | Inr f \<Rightarrow>
          if f_op f = OP_OPEN then handleOpen env (streamId f) (payload f) m
          else case map_of (streams m) (streamId f) of
                 None \<Rightarrow> op_ret () m
               | Some a \<Rightarrow>
                   if f_op f = OP_DATA then deliver env a (payload f) m
                   else stream_end env a (closeReason (payload f)) (forget (streamId f) m))"

fun end_all :: "mux_env \<Rightarrow> jsv \<Rightarrow> nat list \<Rightarrow> mux_error option \<Rightarrow> unit mux_op" where
  "end_all env reason [] err m = (case err of None \<Rightarrow> (Inr (), m) | Some e \<Rightarrow> (Inl e, m))"
| "end_all env reason (a # as) err m =
     (case stream_end env a reason m of
        (Inr _, m') \<Rightarrow> end_all env reason as err m'
      | (Inl e, m') \<Rightarrow> end_all env reason as (if err = None then Some e else err) m')"

definition closeAll :: "mux_env \<Rightarrow> jsv \<Rightarrow> unit mux_op" where
  "closeAll env reason m = end_all env reason (map snd (streams m)) None (m\<lparr>streams := []\<rparr>)"

definition openStreams :: "mux \<Rightarrow> nat" where
  "openStreams m = length (streams m)"

text \<open>\<open>bridge\<close>: the callbacks of a stream act on the stream they name.\<close>

definition bridge_env :: "raw_send \<Rightarrow> (nat \<Rightarrow> bool option mux_op) \<Rightarrow> mux_env" where
  "bridge_env throws onOpen = \<lparr>rawThrows = throws,
     callData = (\<lambda>peer c. stream_write throws peer c),
     callEnd = (\<lambda>peer r. stream_close throws peer (if r = Undefined \<or> r = Null then Str ''peer closed'' else r)),
     callOpen = onOpen\<rparr>"

definition bridge :: "mux_env \<Rightarrow> nat \<Rightarrow> nat \<Rightarrow> unit mux_op" where
  "bridge env a b =
     op_then (onData env a b) (op_then (onData env b a) (op_then (onEnd env a b) (onEnd env b a)))"

subsection \<open>The buffering invariant\<close>

definition stream_ok :: "mux_stream \<Rightarrow> bool" where
  "stream_ok s \<longleftrightarrow> s_pendingBytes s = sum_list (map length (s_pending s)) \<and>
     s_pendingBytes s \<le> MAX_PENDING_STREAM_BYTES \<and>
     (dataCb s \<noteq> None \<or> isClosed s \<longrightarrow> s_pending s = [])"

definition entry_ok :: "mux \<Rightarrow> nat \<times> nat \<Rightarrow> bool" where
  "entry_ok m p \<longleftrightarrow> snd p < length (objs m) \<and> \<not> isClosed (obj m (snd p)) \<and> sid (obj m (snd p)) = fst p"

definition mux_inv :: "mux \<Rightarrow> bool" where
  "mux_inv m \<longleftrightarrow> (\<forall>s \<in> set (objs m). stream_ok s) \<and>
     m_pendingBytes m = int (sum_list (map s_pendingBytes (objs m))) \<and>
     m_pendingBytes m \<le> int MAX_PENDING_MUX_BYTES \<and>
     length (streams m) \<le> MAX_OPEN_STREAMS \<and> distinct (map fst (streams m)) \<and>
     (\<forall>p \<in> set (streams m). entry_ok m p)"

text \<open>How the mux may evolve: no object disappears, a closed stream stays closed and out of the map.\<close>

definition mux_le :: "mux \<Rightarrow> mux \<Rightarrow> bool" where
  "mux_le m m' \<longleftrightarrow> length (objs m) \<le> length (objs m') \<and>
     (\<forall>a < length (objs m). (isClosed (obj m a) \<longrightarrow> isClosed (obj m' a)) \<and>
        (a \<in> snd ` set (streams m') \<longrightarrow> a \<in> snd ` set (streams m)))"

definition safe :: "'a mux_op \<Rightarrow> bool" where
  "safe f \<longleftrightarrow> (\<forall>m. mux_inv m \<longrightarrow> mux_inv (snd (f m)) \<and> mux_le m (snd (f m)))"

lemma mux_le_refl [simp]: "mux_le m m"
  by (simp add: mux_le_def)

lemma mux_le_trans [trans]: "mux_le a b \<Longrightarrow> mux_le b c \<Longrightarrow> mux_le a c"
  by (auto simp: mux_le_def dest: less_le_trans)

lemma safe_ret: "safe (op_ret x)"
  by (simp add: safe_def op_ret_def)

lemma safe_bind: "safe f \<Longrightarrow> (\<And>x. safe (g x)) \<Longrightarrow> safe (op_bind f g)"
  unfolding safe_def op_bind_def
  by (auto split: prod.splits sum.splits) (metis mux_le_trans snd_conv)+

lemma same_core:
  assumes "objs m' = objs m" and "streams m' = streams m" and "m_pendingBytes m' = m_pendingBytes m"
  shows "mux_inv m' \<longleftrightarrow> mux_inv m" and "mux_le m m'"
proof -
  have "obj m' = obj m" by (rule ext) (simp add: obj_def assms(1))
  then show "mux_inv m' \<longleftrightarrow> mux_inv m" "mux_le m m'"
    using assms by (simp_all add: mux_inv_def mux_le_def entry_ok_def)
qed

lemma open_in_range: "\<not> isClosed (obj m a) \<Longrightarrow> a < length (objs m)"
  by (rule ccontr) (simp add: obj_def no_stream_def isClosed_def)

lemma obj_stream_ok: "mux_inv m \<Longrightarrow> stream_ok (obj m a)"
  by (cases "a < length (objs m)") (auto simp: mux_inv_def obj_def, simp add: stream_ok_def no_stream_def)

lemma bind_ret_snd: "snd (op_bind f (\<lambda>_. op_ret a) m) = snd (f m)"
  by (auto simp: op_bind_def op_ret_def split: prod.splits sum.splits)

lemma rethrow_snd: "snd (op_rethrow f h m) = (case f m of (Inl e, m') \<Rightarrow> snd (h m') | (Inr x, m') \<Rightarrow> m')"
  by (auto simp: op_rethrow_def split: prod.splits sum.splits)

lemma obj_upd [simp]:
  "obj (upd_obj a f m) b = (if a = b \<and> a < length (objs m) then f (obj m a) else obj m b)"
  by (auto simp: obj_def upd_obj_def)

lemma upd_obj_simps [simp]:
  "streams (upd_obj a f m) = streams m" "m_pendingBytes (upd_obj a f m) = m_pendingBytes m"
  "length (objs (upd_obj a f m)) = length (objs m)"
  by (simp_all add: upd_obj_def)

lemma sum_upd:
  "a < length (objs m) \<Longrightarrow> int (sum_list (map s_pendingBytes (objs (upd_obj a f m)))) =
     int (sum_list (map s_pendingBytes (objs m))) - int (s_pendingBytes (obj m a)) + int (s_pendingBytes (f (obj m a)))"
proof -
  have "int (sum_list xs) = sum_list (map int xs)" for xs by (induction xs) auto
  then show "a < length (objs m) \<Longrightarrow> ?thesis"
    by (simp add: upd_obj_def obj_def map_update sum_list_update_int comp_def)
qed

lemma upd_out: "\<not> a < length (objs m) \<Longrightarrow> upd_obj a f m = m"
  by (simp add: upd_obj_def list_update_beyond not_less)

lemma set_upd: "s \<in> set (objs (upd_obj a f m)) \<Longrightarrow> s \<in> set (objs m) \<or> s = f (obj m a)"
  by (auto simp: upd_obj_def dest: set_update_subset_insert[THEN subsetD])

text \<open>One stream object changes while the mux counter follows its pending bytes.\<close>

lemma upd_inv:
  assumes m: "mux_inv m" and ok: "stream_ok (f (obj m a))"
    and pb: "m_pendingBytes m' = m_pendingBytes m + int (s_pendingBytes (f (obj m a))) - int (s_pendingBytes (obj m a))"
    and lim: "m_pendingBytes m' \<le> int MAX_PENDING_MUX_BYTES"
    and cl: "isClosed (f (obj m a)) \<longrightarrow> isClosed (obj m a) \<or> a \<notin> snd ` set (streams m')"
    and sd: "sid (f (obj m a)) = sid (obj m a)"
    and st: "set (streams m') \<subseteq> set (streams m)" "length (streams m') \<le> length (streams m)" "distinct (map fst (streams m'))"
    and ob: "objs m' = objs m" and a: "a < length (objs m)"
  shows "mux_inv (upd_obj a f m')"
proof -
  have o: "obj m' = obj m" by (rule ext) (simp add: obj_def ob)
  have "entry_ok (upd_obj a f m') p" if p: "p \<in> set (streams m')" for p
  proof -
    have "entry_ok m p" using p st(1) m by (auto simp: mux_inv_def)
    moreover have "isClosed (f (obj m a)) \<and> snd p = a \<longrightarrow> isClosed (obj m a)" using cl p by force
    ultimately show ?thesis using sd o by (auto simp: entry_ok_def ob)
  qed
  moreover have "int (sum_list (map s_pendingBytes (objs (upd_obj a f m')))) = m_pendingBytes m'"
    using sum_upd[of a m' f] m pb a by (simp add: mux_inv_def o ob)
  ultimately show ?thesis using m st(2,3) ok lim set_upd[of _ a f m']
    by (auto simp: mux_inv_def o ob)
qed

lemma upd_le:
  assumes "objs m' = objs m" and "set (streams m') \<subseteq> set (streams m)"
    and "isClosed (obj m a) \<longrightarrow> isClosed (f (obj m a))"
  shows "mux_le m (upd_obj a f m')"
proof -
  have o: "obj m' = obj m" by (rule ext) (simp add: obj_def assms(1))
  show ?thesis using assms by (auto simp: mux_le_def o)
qed

lemma clear_upd:
  assumes "\<And>s. s_pendingBytes (g s) = s_pendingBytes s"
  shows "clearPending a (upd_obj a g m) =
    upd_obj a (\<lambda>s. (g s)\<lparr>s_pendingBytes := 0, s_pending := []\<rparr>) (releasePending (s_pendingBytes (obj m a)) m)"
  using assms
  by (cases "a < length (objs m)")
    (simp_all add: clearPending_def upd_obj_def releasePending_def obj_def list_update_beyond)

lemma forget_simps [simp]:
  "objs (forget i m) = objs m" "m_pendingBytes (forget i m) = m_pendingBytes m"
  "set (streams (forget i m)) \<subseteq> set (streams m)" "obj (forget i m) = obj m"
  by (auto simp: forget_def obj_def)

lemma release_simps [simp]:
  "objs (releasePending n m) = objs m" "streams (releasePending n m) = streams m"
  "m_pendingBytes (releasePending n m) = m_pendingBytes m - int n" "obj (releasePending n m) = obj m"
  by (auto simp: releasePending_def obj_def)

lemma forget_upd: "forget i (upd_obj a f m) = upd_obj a f (forget i m)"
  by (simp add: forget_def upd_obj_def obj_def)

lemma forget_streams:
  "length (streams (forget i m)) \<le> length (streams m)"
  "distinct (map fst (streams m)) \<Longrightarrow> distinct (map fst (streams (forget i m)))"
  by (auto simp: forget_def distinct_map_filter)

text \<open>Ending or closing a stream: flags are set, its buffer is dropped, its map entry is gone.\<close>

lemma retire_inv:
  assumes m: "mux_inv m" and g: "\<And>s. s_pendingBytes (g s) = s_pendingBytes s" "\<And>s. sid (g s) = sid s"
    "\<And>s. isClosed s \<Longrightarrow> isClosed (g s)"
    and st: "set (streams m') \<subseteq> set (streams m)" "length (streams m') \<le> length (streams m)"
      "distinct (map fst (streams m'))"
    and ob: "objs m' = objs m" "m_pendingBytes m' = m_pendingBytes m"
    and out: "a \<notin> snd ` set (streams m') \<or> (\<forall>s. isClosed (g s) = isClosed s)"
  shows "mux_inv (clearPending a (upd_obj a g m'))" and "mux_le m (clearPending a (upd_obj a g m'))"
proof -
  have o: "obj m' = obj m" by (rule ext) (simp add: obj_def ob)
  let ?f = "\<lambda>s. (g s)\<lparr>s_pendingBytes := 0, s_pending := []\<rparr>"
  have c: "isClosed (?f s) = isClosed (g s)" for s by (simp add: isClosed_def)
  have e: "clearPending a (upd_obj a g m') = upd_obj a ?f (releasePending (s_pendingBytes (obj m a)) m')"
    using clear_upd[of g a m'] g(1) o by simp
  show "mux_le m (clearPending a (upd_obj a g m'))"
    unfolding e by (rule upd_le) (use st ob g(3) c in auto)
  show "mux_inv (clearPending a (upd_obj a g m'))"
  proof (cases "a < length (objs m)")
    case True
    show ?thesis unfolding e
      by (rule upd_inv[OF m]) (use True out st ob g(2) c m in \<open>auto simp: stream_ok_def mux_inv_def\<close>)
  next
    case False
    then have "s_pendingBytes (obj m a) = 0" by (simp add: obj_def no_stream_def)
    moreover have "entry_ok m' p" if "p \<in> set (streams m')" for p
      using that st(1) m by (auto simp: mux_inv_def entry_ok_def o ob)
    then have "mux_inv m'" using m st ob by (auto simp: mux_inv_def)
    moreover have "releasePending 0 m' = m'" by (simp add: releasePending_def)
    ultimately show ?thesis unfolding e using False ob(1) by (simp add: upd_out)
  qed
qed


lemma send_inv: "mux_inv m \<Longrightarrow> mux_inv (snd (mux_send throws fr m))"
  and send_le: "mux_le m (snd (mux_send throws fr m))"
  and send_streams: "streams (snd (mux_send throws fr m)) = streams m"
  and send_obj: "obj (snd (mux_send throws fr m)) = obj m"
  by (auto simp: mux_send_def Let_def mux_inv_def mux_le_def entry_ok_def obj_def fun_eq_iff)

lemma safe_write: "safe (stream_write throws a c)"
  by (auto simp: safe_def stream_write_def op_ret_def send_inv send_le)

lemma closed_not_mapped: "mux_inv m \<Longrightarrow> isClosed (obj m a) \<Longrightarrow> a \<notin> snd ` set (streams m)"
  by (auto simp: mux_inv_def entry_ok_def)

lemma forget_out: "mux_inv m \<Longrightarrow> a \<notin> snd ` set (streams (forget (sid (obj m a)) m))"
  by (auto simp: mux_inv_def entry_ok_def forget_def)

lemma close_facts:
  assumes "mux_inv m"
  shows "mux_inv (snd (stream_close throws a r m)) \<and> mux_le m (snd (stream_close throws a r m)) \<and>
    a \<notin> snd ` set (streams (snd (stream_close throws a r m)))"
proof (cases "closedLocally (obj m a)")
  case True
  then show ?thesis using assms closed_not_mapped[of m a]
    by (simp add: stream_close_def op_ret_def isClosed_def)
next
  case False
  let ?g = "\<lambda>s. s\<lparr>closedLocally := True\<rparr>"
  let ?m = "clearPending a (upd_obj a ?g (forget (sid (obj m a)) m))"
  have fo: "forget i (clearPending a (upd_obj a ?g m)) = clearPending a (upd_obj a ?g (forget i m))" for i
    by (simp add: clear_upd forget_upd) (simp add: forget_def releasePending_def upd_obj_def obj_def)
  have "distinct (map fst (streams m))" using assms by (simp add: mux_inv_def)
  then have d: "distinct (map fst (streams (forget (sid (obj m a)) m)))" by (rule forget_streams(2))
  have "mux_inv ?m" "mux_le m ?m"
    by (rule retire_inv[OF assms]; simp add: isClosed_def d forget_streams(1) forget_out[OF assms])+
  moreover have "streams ?m = streams (forget (sid (obj m a)) m)"
    by (simp add: clear_upd)
  ultimately show ?thesis using False forget_out[OF assms]
    by (simp add: stream_close_def Let_def fo send_inv send_streams) (blast intro: mux_le_trans send_le)
qed

lemma safe_close: "safe (stream_close throws a r)"
  using close_facts by (auto simp: safe_def)

text \<open>What user code may do: any composition of the mux's own public operations.\<close>

locale mux_client =
  fixes env :: mux_env
  assumes data_safe: "safe (callData env cb c)"
    and end_safe: "safe (callEnd env cb r)"
    and open_safe: "safe (callOpen env a)"
begin

lemma end_facts:
  assumes m: "mux_inv m" and out: "a \<notin> snd ` set (streams m)"
  shows "mux_inv (snd (stream_end env a r m)) \<and> mux_le m (snd (stream_end env a r m))"
proof (cases "ended (obj m a)")
  case False
  let ?m = "clearPending a (upd_obj a (\<lambda>s. s\<lparr>ended := True, endedReason := r\<rparr>) m)"
  have "distinct (map fst (streams m))" using m by (simp add: mux_inv_def)
  then have "mux_inv ?m" "mux_le m ?m"
    using out by (auto intro!: retire_inv[OF m] simp: isClosed_def)
  moreover have "mux_inv (snd (callEnd env cb r ?m)) \<and> mux_le ?m (snd (callEnd env cb r ?m))" for cb
    using end_safe calculation(1) by (simp add: safe_def)
  ultimately show ?thesis using False
    by (auto simp: stream_end_def Let_def op_ret_def split: option.splits intro: mux_le_trans)
qed (use m in \<open>simp add: stream_end_def op_ret_def\<close>)

lemma pass_safe: "safe (pass_chunk env a cb c)"
proof -
  have "mux_inv (m\<lparr>delivered := d\<rparr>) = mux_inv m" "mux_le m (m\<lparr>delivered := d\<rparr>)" for m d
    by (simp_all add: mux_inv_def entry_ok_def obj_def mux_le_def)
  then show ?thesis using data_safe[of cb c] unfolding safe_def pass_chunk_def
    by (meson mux_le_trans)
qed

lemma flush_safe: "safe (flush_pending env a cb cs)"
proof (induction cs)
  case Nil
  then show ?case by (simp add: safe_def op_ret_def)
next
  case (Cons c cs)
  have "safe (op_bind (pass_chunk env a cb c) (\<lambda>_. flush_pending env a cb cs))"
    by (intro safe_bind pass_safe Cons)
  then show ?case by (simp add: safe_def op_ret_def)
qed

lemma close_end_facts:
  assumes "mux_inv m"
  shows "mux_inv (snd (op_finally (stream_close throws a r) (stream_end env a r') m)) \<and>
    mux_le m (snd (op_finally (stream_close throws a r) (stream_end env a r') m))"
proof -
  obtain x m1 where c: "stream_close throws a r m = (x, m1)" by (meson surj_pair)
  obtain y m2 where e: "stream_end env a r' m1 = (y, m2)" by (meson surj_pair)
  have "mux_inv m1" "mux_le m m1" "a \<notin> snd ` set (streams m1)" using close_facts[OF assms, of throws a r] c by auto
  moreover from this have "mux_inv m2" "mux_le m1 m2" using end_facts[of m1 a r'] e by auto
  ultimately show ?thesis using c e
    by (auto simp: op_finally_def split: sum.splits intro: mux_le_trans)
qed

lemma safe_deliver: "safe (deliver env a c)"
proof -
  have "mux_inv (snd (deliver env a c m)) \<and> mux_le m (snd (deliver env a c m))" if m: "mux_inv m" for m
  proof -
    let ?s = "obj m a"
    consider (closed) "isClosed ?s" | (cb) cb where "\<not> isClosed ?s" "dataCb ?s = Some cb"
      | (empty) "\<not> isClosed ?s" "dataCb ?s = None" "c = []"
      | (full) "\<not> isClosed ?s" "dataCb ?s = None" "c \<noteq> []"
          "MAX_PENDING_STREAM_BYTES < s_pendingBytes ?s + length c \<or> int MAX_PENDING_MUX_BYTES < m_pendingBytes m + int (length c)"
      | (store) "\<not> isClosed ?s" "dataCb ?s = None" "c \<noteq> []"
          "s_pendingBytes ?s + length c \<le> MAX_PENDING_STREAM_BYTES" "m_pendingBytes m + int (length c) \<le> int MAX_PENDING_MUX_BYTES"
      by (meson not_less option.exhaust)
    then show ?thesis
    proof cases
      case closed
      then show ?thesis using m by (simp add: deliver_def op_ret_def)
    next
      case cb
      then show ?thesis using m pass_safe[of a] by (simp add: deliver_def safe_def)
    next
      case empty
      then show ?thesis using m by (simp add: deliver_def op_ret_def)
    next
      case full
      then show ?thesis using close_end_facts[OF m, of "rawThrows env" a limit_reason limit_reason]
        by (auto simp: deliver_def Let_def reservePending_def)
    next
      case store
      let ?f = "\<lambda>s. s\<lparr>s_pendingBytes := s_pendingBytes s + length c, s_pending := s_pending s @ [c]\<rparr>"
      let ?m = "m\<lparr>m_pendingBytes := m_pendingBytes m + int (length c)\<rparr>"
      have e: "deliver env a c m = (Inr (), upd_obj a ?f ?m)"
        using store by (simp add: deliver_def Let_def reservePending_def op_ret_def)
      have "a < length (objs m)" using store(1) by (rule open_in_range)
      then have "mux_inv (upd_obj a ?f ?m)"
        using store obj_stream_ok[OF m, of a] m
        by (intro upd_inv[OF m]) (auto simp: stream_ok_def isClosed_def mux_inv_def)
      moreover have "mux_le m (upd_obj a ?f ?m)" by (rule upd_le) (auto simp: isClosed_def)
      ultimately show ?thesis using e by simp
    qed
  qed
  then show ?thesis by (simp add: safe_def)
qed

lemma safe_onData: "safe (onData env a cb)"
proof -
  have "mux_inv (snd (onData env a cb m)) \<and> mux_le m (snd (onData env a cb m))" if m: "mux_inv m" for m
  proof -
    let ?m = "clearPending a (upd_obj a (\<lambda>s. s\<lparr>dataCb := Some cb\<rparr>) m)"
    have d: "distinct (map fst (streams m))" using m by (simp add: mux_inv_def)
    have "mux_inv ?m" "mux_le m ?m"
      by (rule retire_inv[OF m]; simp add: isClosed_def d)+
    then show ?thesis using flush_safe[of a cb "s_pending (obj m a)"]
      by (auto simp: onData_def Let_def safe_def intro: mux_le_trans)
  qed
  then show ?thesis by (simp add: safe_def)
qed

lemma safe_onEnd: "safe (onEnd env a cb)"
proof -
  have "mux_inv (snd (onEnd env a cb m)) \<and> mux_le m (snd (onEnd env a cb m))" if m: "mux_inv m" for m
  proof -
    let ?m = "upd_obj a (\<lambda>s. s\<lparr>endCb := Some cb\<rparr>) m"
    have le: "mux_le m ?m" by (rule upd_le) (auto simp: isClosed_def)
    moreover have "mux_inv ?m"
    proof (cases "a < length (objs m)")
      case True
      then show ?thesis using m obj_stream_ok[OF m, of a]
        by (intro upd_inv[OF m]) (auto simp: stream_ok_def isClosed_def mux_inv_def)
    qed (use m in \<open>simp add: upd_out\<close>)
    ultimately show ?thesis using end_safe
      by (auto simp: onEnd_def Let_def op_ret_def safe_def intro: mux_le_trans)
  qed
  then show ?thesis by (simp add: safe_def)
qed

end

lemma length_update: "length (AList.update k v al) \<le> Suc (length al)"
  by (induction al) auto

lemma update_member: "p \<in> set (AList.update k v al) \<Longrightarrow> p \<in> set al \<or> p = (k, v)"
  by (induction al) (auto split: if_splits)

lemma add_stream_facts:
  assumes m: "mux_inv m" and "length (streams m) < MAX_OPEN_STREAMS"
  shows "mux_inv (add_stream i h m)" and "mux_le m (add_stream i h m)"
proof -
  have ob: "obj (add_stream i h m) a = (if a = length (objs m) then new_stream i h else obj m a)" for a
    by (auto simp: add_stream_def obj_def nth_append)
  have st: "p \<in> set (streams m) \<or> p = (i, length (objs m))" if "p \<in> set (streams (add_stream i h m))" for p
    using that by (auto simp: add_stream_def dest: update_member)
  have "entry_ok (add_stream i h m) p" if "p \<in> set (streams (add_stream i h m))" for p
    using st[OF that] m by (auto simp: entry_ok_def ob mux_inv_def new_stream_def isClosed_def) (auto simp: add_stream_def)
  moreover have "length (streams (add_stream i h m)) \<le> MAX_OPEN_STREAMS"
    using length_update[of i "length (objs m)" "streams m"] assms(2) by (simp add: add_stream_def)
  moreover have "distinct (map fst (streams (add_stream i h m)))"
    using m by (simp add: add_stream_def mux_inv_def distinct_update)
  moreover have "stream_ok (new_stream i h)" by (simp add: stream_ok_def new_stream_def)
  ultimately show "mux_inv (add_stream i h m)"
    using m by (auto simp: mux_inv_def add_stream_def new_stream_def)
  show "mux_le m (add_stream i h m)"
    unfolding mux_le_def ob by (auto dest!: st) (auto simp: add_stream_def)
qed


lemma forget_facts: "mux_inv m \<Longrightarrow> mux_inv (forget i m) \<and> mux_le m (forget i m)"
  using forget_streams[where m = m and i = i] subsetD[OF forget_simps(3)[of i m]]
  by (auto simp: mux_inv_def entry_ok_def mux_le_def)

context mux_client
begin

lemma safe_open: "safe (mux_open env h)"
proof -
  have "mux_inv (snd (mux_open env h m)) \<and> mux_le m (snd (mux_open env h m))" if m: "mux_inv m" for m
  proof (cases "headerShape h \<and> length (streams m) < MAX_OPEN_STREAMS")
    case True
    let ?a = "length (objs m)" and ?i = "nextId m"
    let ?m0 = "m\<lparr>nextId := nextId m + 2\<rparr>"
    let ?m1 = "add_stream ?i h ?m0"
    have m0: "mux_inv ?m0" "mux_le m ?m0" using m same_core[of ?m0 m] by simp_all
    have m1: "mux_inv ?m1" "mux_le m ?m1"
      using add_stream_facts[OF m0(1), of ?i h] True m0(2) by (auto intro: mux_le_trans)
    obtain r m2 where r: "mux_send (rawThrows env) (encodeFrame ?i OP_OPEN (utf8_encode (json_stringify h))) ?m1 = (r, m2)"
      by (meson surj_pair)
    have s: "m2 = snd (mux_send (rawThrows env) (encodeFrame ?i OP_OPEN (utf8_encode (json_stringify h))) ?m1)"
      using r by simp
    have m2: "mux_inv m2" "mux_le m m2" "obj m2 ?a = new_stream ?i h"
      unfolding s send_obj by (rule send_inv[OF m1(1)], rule mux_le_trans[OF m1(2) send_le])
        (simp add: add_stream_def obj_def nth_append)
    have out: "?a \<notin> snd ` set (streams (forget ?i m2))"
      using forget_out[OF m2(1), of ?a] m2(3) by (simp add: new_stream_def)
    have f: "mux_inv (forget ?i m2)" "mux_le m2 (forget ?i m2)" using forget_facts[OF m2(1)] by auto
    note e = end_facts[OF f(1) out, of "Str ''open failed''"]
    have "mux_open env h m = op_bind
        (op_rethrow (mux_send (rawThrows env) (encodeFrame ?i OP_OPEN (utf8_encode (json_stringify h))))
           (\<lambda>m2. stream_end env ?a (Str ''open failed'') (forget ?i m2))) (\<lambda>_. op_ret ?a) ?m1"
      using True by (simp add: mux_open_def Let_def)
    then show ?thesis unfolding bind_ret_snd rethrow_snd r
      using m2 f e by (cases r) (auto simp: bind_ret_snd rethrow_snd r simp del: add_2_eq_Suc' intro: mux_le_trans)
  qed (use m in \<open>auto simp: mux_open_def op_throw_def\<close>)
  then show ?thesis by (simp add: safe_def)
qed

lemma safe_handleOpen: "safe (handleOpen env i pl)"
proof -
  have "mux_inv (snd (handleOpen env i pl m)) \<and> mux_le m (snd (handleOpen env i pl m))" if m: "mux_inv m" for m
  proof (cases "map_of (streams m) i = None \<and> length pl \<le> MAX_HEADER_BYTES \<and> (\<exists>h. text_json pl = Some h \<and> headerShape h)
      \<and> length (streams m) < MAX_OPEN_STREAMS")
    case True
    then obtain h where h: "text_json pl = Some h" "headerShape h" by blast
    let ?a = "length (objs m)" and ?m1 = "add_stream i h m"
    let ?cl = "stream_close (rawThrows env) ?a"
    let ?body = "op_bind (callOpen env ?a) (\<lambda>r. if r = Some False then ?cl (Str ''rejected'') else op_ret ())"
    have m1: "mux_inv ?m1" "mux_le m ?m1" using add_stream_facts[OF m] True by auto
    have "safe ?body" by (rule safe_bind[OF open_safe]) (simp add: safe_close safe_ret)
    moreover obtain r m2 where r: "?body ?m1 = (r, m2)" by (meson surj_pair)
    ultimately have m2: "mux_inv m2" "mux_le m m2"
      using m1 mux_le_trans by (auto simp: safe_def dest!: spec[of _ ?m1])
    note e = close_end_facts[OF m2(1), of "rawThrows env" ?a "Str ''open failed''" "Str ''open failed''"]
    have "handleOpen env i pl m = op_rethrow ?body
        (op_finally (?cl (Str ''open failed'')) (stream_end env ?a (Str ''open failed''))) ?m1"
      using True h by (simp add: handleOpen_def Let_def)
    then show ?thesis using m2 e
      by (cases r) (auto simp: rethrow_snd r intro: mux_le_trans)
  next
    case False
    then show ?thesis using m send_inv[OF m] send_le[of m]
      by (auto simp: handleOpen_def op_throw_def Let_def split: option.splits)
  qed
  then show ?thesis by (simp add: safe_def)
qed

lemma safe_handleFrame: "safe (handleFrame env buf)"
proof -
  have "mux_inv (snd (handleFrame env buf m)) \<and> mux_le m (snd (handleFrame env buf m))" if m: "mux_inv m" for m
  proof -
    let ?m = "m\<lparr>bytesIn := bytesIn m + length buf\<rparr>"
    have m0: "mux_inv ?m" "mux_le m ?m" using m same_core[of ?m m] by simp_all
    have fin: "mux_inv (snd (stream_end env a r (forget i ?m))) \<and> mux_le ?m (snd (stream_end env a r (forget i ?m)))"
      if "map_of (streams m) i = Some a" for i a r
    proof -
      have "sid (obj ?m a) = i" using map_of_SomeD[OF that] m0(1) by (force simp: mux_inv_def entry_ok_def)
      then have "a \<notin> snd ` set (streams (forget i ?m))" using forget_out[OF m0(1), of a] by simp
      then show ?thesis using end_facts[of "forget i ?m" a r] forget_facts[OF m0(1), of i]
        by (auto intro: mux_le_trans)
    qed
    have "mux_inv (snd (handleFrame env buf m)) \<and> mux_le ?m (snd (handleFrame env buf m))"
      using m0 fin safe_handleOpen safe_deliver
      by (auto simp: handleFrame_def Let_def op_throw_def op_ret_def safe_def split: sum.splits option.splits)
    then show ?thesis using m0(2) mux_le_trans by blast
  qed
  then show ?thesis by (simp add: safe_def)
qed

lemma end_all_facts:
  assumes "mux_inv m" and "\<forall>a \<in> set as. a < length (objs m) \<and> a \<notin> snd ` set (streams m)"
  shows "mux_inv (snd (end_all env r as err m)) \<and> mux_le m (snd (end_all env r as err m))"
  using assms
proof (induction as arbitrary: err m)
  case (Cons a as)
  obtain x m1 where e: "stream_end env a r m = (x, m1)" by (meson surj_pair)
  have m1: "mux_inv m1" "mux_le m m1" using end_facts[OF Cons.prems(1), of a r] Cons.prems(2) e by auto
  then have "\<forall>a \<in> set as. a < length (objs m1) \<and> a \<notin> snd ` set (streams m1)"
    using Cons.prems(2) unfolding mux_le_def by (meson less_le_trans list.set_intros(2))
  note ih = Cons.IH[OF m1(1) this]
  show ?case using ih m1(2) by (auto simp: e split: sum.splits intro: mux_le_trans)
qed (auto split: option.splits)

lemma safe_closeAll: "safe (closeAll env r)"
proof -
  have "mux_inv (snd (closeAll env r m)) \<and> mux_le m (snd (closeAll env r m))" if m: "mux_inv m" for m
  proof -
    let ?m = "m\<lparr>streams := []\<rparr>"
    have m0: "mux_inv ?m" "mux_le m ?m" using m by (simp_all add: mux_inv_def mux_le_def obj_def)
    have "\<forall>a \<in> set (map snd (streams m)). a < length (objs ?m) \<and> a \<notin> snd ` set (streams ?m)"
      using m by (auto simp: mux_inv_def entry_ok_def)
    from end_all_facts[OF m0(1) this] show ?thesis
      using m0(2) by (auto simp: closeAll_def intro: mux_le_trans)
  qed
  then show ?thesis by (simp add: safe_def)
qed

end


subsection \<open>Any sequence of calls\<close>

datatype mux_call =
    CallWrite nat bytes
  | CallClose nat jsv
  | CallOnData nat nat
  | CallOnEnd nat nat
  | CallOpen jsv
  | CallFrame bytes
  | CallCloseAll jsv

fun mux_step :: "mux_env \<Rightarrow> mux \<Rightarrow> mux_call \<Rightarrow> mux" where
  "mux_step env m (CallWrite a c) = snd (stream_write (rawThrows env) a c m)"
| "mux_step env m (CallClose a r) = snd (stream_close (rawThrows env) a r m)"
| "mux_step env m (CallOnData a cb) = snd (onData env a cb m)"
| "mux_step env m (CallOnEnd a cb) = snd (onEnd env a cb m)"
| "mux_step env m (CallOpen h) = snd (mux_open env h m)"
| "mux_step env m (CallFrame buf) = snd (handleFrame env buf m)"
| "mux_step env m (CallCloseAll r) = snd (closeAll env r m)"

sublocale mux_client \<subseteq> mux_runs: event_machine "mux_step env" mux_inv
proof
  fix m e
  assume m: "mux_inv m"
  have "mux_inv (snd (f m))" if "safe f" for f :: "'x mux_op" using that m by (simp add: safe_def)
  then show "mux_inv (mux_step env m e)"
    using m safe_write safe_close safe_onData safe_onEnd safe_open safe_handleFrame safe_closeAll
    by (cases e) (auto simp: safe_def)
qed

lemma new_mux_inv: "mux_inv (new_mux p)"
  by (simp add: mux_inv_def new_mux_def)

context mux_client
begin

lemma run_limits: "mux_inv (foldl (mux_step env) (new_mux parity) cs)"
  by (rule mux_runs.run_inv[OF new_mux_inv])

end

interpretation bridged: mux_client "bridge_env throws (\<lambda>_. op_ret acc)" for throws acc
  by unfold_locales (simp_all add: bridge_env_def safe_write safe_close safe_ret)

text \<open>C10. Whatever calls and frames reach the mux, and whatever its callbacks do through the public
  operations, exceptions included: the mux's byte counter is the sum of what its streams buffer, no
  stream buffers more than 16 MiB and all together no more than 64 MiB, at most 1024 streams are in the
  map, each under its own id and not closed, and a closed or listened-to stream buffers nothing.\<close>

theorem mux_limits:
  assumes "mux_client env"
  shows "mux_inv (foldl (mux_step env) (new_mux parity) cs)"
  using assms by (rule mux_client.run_limits)

theorem mux_limits_witness:
  "mux_inv (foldl (mux_step (bridge_env (\<lambda>_ _. False) (\<lambda>_. op_ret None))) (new_mux 1)
     [CallOpen (Obj [(''kind'', Str ''http''), (''port'', num_int 80)]), CallWrite 0 [1, 2], CallClose 0 Undefined])"
  by (rule mux_limits) (rule bridged.mux_client_axioms)

subsection \<open>Frames arrive as they were sent\<close>

lemma encode_decode:
  assumes "opn \<in> {OP_OPEN, OP_DATA, OP_CLOSE}"
  shows "decodeFrame (encodeFrame i opn pl) = Inr \<lparr>streamId = i mod 2 ^ 32, f_op = opn, payload = pl\<rparr>"
proof -
  have "unat (byte opn) = opn" using assms by (intro unat_byte) (auto simp: OP_OPEN_def OP_DATA_def OP_CLOSE_def)
  then show ?thesis using assms
    by (simp add: decodeFrame_def encodeFrame_def u32_bytes_def u32_roundtrip unat_of_nat)
qed

text \<open>C18. Decoding an encoded frame gives back its stream id modulo 2^32, its operation and its payload.\<close>

theorem frame_roundtrip:
  assumes "opn \<in> {OP_OPEN, OP_DATA, OP_CLOSE}"
  shows "decodeFrame (encodeFrame i opn pl) = Inr \<lparr>streamId = i mod 2 ^ 32, f_op = opn, payload = pl\<rparr>"
  using assms by (rule encode_decode)

theorem frame_roundtrip_witness:
  "decodeFrame (encodeFrame 4294967299 OP_DATA [7]) = Inr \<lparr>streamId = 3, f_op = OP_DATA, payload = [7]\<rparr>"
  using frame_roundtrip[of OP_DATA 4294967299 "[7]"] by simp

interpretation frame_wire: wire_format "\<lambda>f. encodeFrame (streamId f) (f_op f) (payload f)"
  "\<lambda>b. case decodeFrame b of Inl _ \<Rightarrow> None | Inr f \<Rightarrow> Some f"
  "\<lambda>f. streamId f < 2 ^ 32 \<and> f_op f \<in> {OP_OPEN, OP_DATA, OP_CLOSE}"
  by unfold_locales (auto simp: encode_decode)

text \<open>A receiver whose callbacks only take note of what they are given.\<close>

definition passive_env :: mux_env where
  "passive_env = \<lparr>rawThrows = (\<lambda>_ _. False), callData = (\<lambda>_ _. op_ret ()), callEnd = (\<lambda>_ _. op_ret ()),
     callOpen = (\<lambda>_. op_ret None)\<rparr>"

definition receive :: "nat \<Rightarrow> bytes list \<Rightarrow> mux \<Rightarrow> mux" where
  "receive i cs m = foldl (\<lambda>m c. snd (handleFrame passive_env (encodeFrame i OP_DATA c) m)) m cs"

lemma receive_simps [simp]:
  "receive i [] m = m"
  "receive i (c # cs) m = receive i cs (snd (handleFrame passive_env (encodeFrame i OP_DATA c) m))"
  by (simp_all add: receive_def)

definition listens :: "nat \<Rightarrow> nat \<Rightarrow> nat option \<Rightarrow> mux \<Rightarrow> bool" where
  "listens i b cb m \<longleftrightarrow> map_of (streams m) i = Some b \<and> b < length (objs m) \<and> \<not> isClosed (obj m b) \<and>
     dataCb (obj m b) = cb"

lemma length_encode: "length (encodeFrame i opn pl) = 5 + length pl"
  by (simp add: encodeFrame_def u32_bytes_def)

lemma handle_data:
  assumes "i < 2 ^ 32" and "map_of (streams m) i = Some b"
  shows "handleFrame env (encodeFrame i OP_DATA c) m = deliver env b c (m\<lparr>bytesIn := bytesIn m + (5 + length c)\<rparr>)"
  using assms by (simp add: handleFrame_def encode_decode length_encode OP_DATA_def OP_OPEN_def)

lemma obj_other [simp]:
  "obj (m\<lparr>bytesIn := n\<rparr>) = obj m" "obj (m\<lparr>delivered := d\<rparr>) = obj m" "obj (m\<lparr>m_pendingBytes := k\<rparr>) = obj m"
  by (auto simp: obj_def)

lemma deliver_cases:
  assumes "\<not> isClosed (obj m b)"
  shows "dataCb (obj m b) = Some cb \<Longrightarrow> deliver env b c m = pass_chunk env b cb c m"
    and "dataCb (obj m b) = None \<Longrightarrow> deliver env b [] m = (Inr (), m)"
    and "dataCb (obj m b) = None \<Longrightarrow> c \<noteq> [] \<Longrightarrow> s_pendingBytes (obj m b) + length c \<le> MAX_PENDING_STREAM_BYTES \<Longrightarrow>
      m_pendingBytes m + int (length c) \<le> int MAX_PENDING_MUX_BYTES \<Longrightarrow>
      deliver env b c m = (Inr (), upd_obj b (\<lambda>s. s\<lparr>s_pendingBytes := s_pendingBytes s + length c,
          s_pending := s_pending s @ [c]\<rparr>) (m\<lparr>m_pendingBytes := m_pendingBytes m + int (length c)\<rparr>))"
  using assms by (simp_all add: deliver_def Let_def op_ret_def reservePending_def)

lemma passing:
  "i < 2 ^ 32 \<Longrightarrow> listens i b (Some cb) m \<Longrightarrow> delivered (receive i cs m) = delivered m @ map (Pair b) cs"
proof (induction cs arbitrary: m)
  case (Cons c cs)
  let ?m = "m\<lparr>bytesIn := bytesIn m + (5 + length c), delivered := delivered m @ [(b, c)]\<rparr>"
  have "snd (handleFrame passive_env (encodeFrame i OP_DATA c) m) = ?m"
    using Cons.prems by (simp add: listens_def handle_data deliver_cases)
      (simp add: pass_chunk_def passive_env_def op_ret_def)
  moreover have "listens i b (Some cb) ?m" using Cons.prems(2) by (simp add: listens_def)
  ultimately show ?case using Cons by simp
qed simp

lemma buffering:
  assumes "i < 2 ^ 32" and "listens i b None m"
    and "s_pendingBytes (obj m b) + sum_list (map length cs) \<le> MAX_PENDING_STREAM_BYTES"
    and "m_pendingBytes m + int (sum_list (map length cs)) \<le> int MAX_PENDING_MUX_BYTES"
  shows "listens i b None (receive i cs m) \<and> delivered (receive i cs m) = delivered m \<and>
    s_pending (obj (receive i cs m) b) = s_pending (obj m b) @ filter (\<lambda>c. c \<noteq> []) cs"
  using assms
proof (induction cs arbitrary: m)
  case (Cons c cs)
  show ?case
  proof (cases "c = []")
    case True
    let ?m = "m\<lparr>bytesIn := bytesIn m + (5 + length c)\<rparr>"
    have "snd (handleFrame passive_env (encodeFrame i OP_DATA c) m) = ?m"
      using Cons.prems True by (simp add: listens_def handle_data deliver_cases)
    moreover have "listens i b None ?m" "obj ?m b = obj m b" using Cons.prems(2) by (simp_all add: listens_def)
    ultimately show ?thesis using Cons.IH[of ?m] Cons.prems True by simp
  next
    case False
    let ?m0 = "m\<lparr>bytesIn := bytesIn m + (5 + length c), m_pendingBytes := m_pendingBytes m + int (length c)\<rparr>"
    let ?m = "upd_obj b (\<lambda>s. s\<lparr>s_pendingBytes := s_pendingBytes s + length c, s_pending := s_pending s @ [c]\<rparr>) ?m0"
    have "snd (handleFrame passive_env (encodeFrame i OP_DATA c) m) = ?m"
      using Cons.prems False
      by (simp add: listens_def handle_data deliver_cases)
    moreover have "obj ?m b = (obj m b)\<lparr>s_pendingBytes := s_pendingBytes (obj m b) + length c, s_pending := s_pending (obj m b) @ [c]\<rparr>"
      "delivered ?m = delivered m"
      using Cons.prems(2) by (simp add: listens_def) (simp add: upd_obj_def)
    moreover from this have "listens i b None ?m" using Cons.prems(2) by (simp add: listens_def isClosed_def)
    ultimately show ?thesis using Cons.IH[of ?m] Cons.prems False by simp
  qed
qed simp

lemma passive_pass: "pass_chunk passive_env a cb c m = (Inr (), m\<lparr>delivered := delivered m @ [(a, c)]\<rparr>)"
  by (simp add: pass_chunk_def passive_env_def op_ret_def)

lemma flush_passive:
  "\<not> isClosed (obj m b) \<Longrightarrow> flush_pending passive_env b cb cs m =
     (Inr (), m\<lparr>delivered := delivered m @ map (Pair b) cs\<rparr>)"
  by (induction cs arbitrary: m) (simp_all add: op_ret_def op_bind_def passive_pass)

text \<open>C11. A stream loses and reorders nothing when its listener registers late: the chunks that arrived
  before (within the limits) are handed over first, in order and without the empty ones, and every later
  chunk as it arrives.\<close>

theorem late_listener_in_order:
  assumes "i < 2 ^ 32" and "listens i b None m" and "s_pending (obj m b) = []" and "s_pendingBytes (obj m b) = 0"
    and "sum_list (map length pre) \<le> MAX_PENDING_STREAM_BYTES"
    and "m_pendingBytes m + int (sum_list (map length pre)) \<le> int MAX_PENDING_MUX_BYTES"
  shows "delivered (receive i post (snd (onData passive_env b cb (receive i pre m))))
    = delivered m @ map (Pair b) (filter (\<lambda>c. c \<noteq> []) pre @ post)"
proof -
  let ?m1 = "receive i pre m"
  have b: "listens i b None ?m1" "delivered ?m1 = delivered m" "s_pending (obj ?m1 b) = filter (\<lambda>c. c \<noteq> []) pre"
    using buffering[of i b m pre] assms by auto
  let ?m2 = "clearPending b (upd_obj b (\<lambda>s. s\<lparr>dataCb := Some cb\<rparr>) ?m1)"
  have o: "obj ?m2 b = (obj ?m1 b)\<lparr>dataCb := Some cb, s_pendingBytes := 0, s_pending := []\<rparr>"
    using b(1) by (simp add: clear_upd listens_def)
  have d: "delivered ?m2 = delivered m" "streams ?m2 = streams ?m1" "length (objs ?m2) = length (objs ?m1)"
    using b by (simp_all add: clearPending_def releasePending_def upd_obj_def)
  have "\<not> isClosed (obj ?m2 b)" using b(1) o by (simp add: listens_def isClosed_def)
  then have "snd (onData passive_env b cb ?m1) = ?m2\<lparr>delivered := delivered m @ map (Pair b) (filter (\<lambda>c. c \<noteq> []) pre)\<rparr>"
    (is "_ = ?m3") using b(3) d(1) by (simp add: onData_def Let_def flush_passive)
  moreover have "listens i b (Some cb) ?m3" using b(1) o d by (simp add: listens_def isClosed_def)
  ultimately show ?thesis using passing[OF assms(1)] by simp
qed


definition example_mux :: mux where
  "example_mux = add_stream 2 (Obj [(''kind'', Str ''http''), (''port'', num_int 80)]) (new_mux 1)"

theorem late_listener_in_order_witness:
  "delivered (receive 2 [[3]] (snd (onData passive_env 0 9 (receive 2 [[1, 2], [], [7]] example_mux))))
     = [(0, [1, 2]), (0, [7]), (0, [3])]"
proof -
  have "listens 2 0 None example_mux" "s_pending (obj example_mux 0) = []"
    "s_pendingBytes (obj example_mux 0) = 0" "m_pendingBytes example_mux = 0" "delivered example_mux = []"
    by (simp_all add: listens_def example_mux_def add_stream_def new_mux_def new_stream_def obj_def isClosed_def)
  then show ?thesis
    using late_listener_in_order[of 2 0 example_mux "[[1, 2], [], [7]]" "[[3]]" 9]
    by (simp add: MAX_PENDING_STREAM_BYTES_def MAX_PENDING_MUX_BYTES_def)
qed

end
