(* ===== verification/Outbox.thy ===== *)
theory Outbox
  imports JsValue "HOL-Library.Word" "HOL-Library.Sublist"
begin

text \<open>
  \<^verbatim>\<open>src/swarmlet/control/socket-outbox.ts\<close>: the outgoing side of one agent's WebSocket. Frames go to
  the socket directly until it reports backpressure, are queued while it does, and are flushed on the
  turn after the drain callback; a lost frame closes the channel for good.

  The socket's \<open>send\<close> is a parameter \<open>raw\<close>: its answer to the \<open>n\<close>-th call. The state records the frames
  the socket took (\<open>wire\<close>) and the reasons passed to \<open>disconnect\<close>.
\<close>

datatype socket_frame = TextFrame string | BinaryFrame "8 word list"

datatype send_result = Returned int | Threw

type_synonym transport = "nat \<Rightarrow> socket_frame \<Rightarrow> send_result"

datatype outbox_failure = QueueLimitExceeded | FrameDropped | SendFailed

record outbox =
  queue :: "socket_frame option list"
  head :: nat
  ob_bytes :: nat
  blocked :: bool
  closed :: bool
  resumeTimer :: bool
  limit :: nat
  calls :: nat
  wire :: "socket_frame list"
  disconnects :: "outbox_failure list"

definition new_outbox :: "nat \<Rightarrow> outbox" where
  "new_outbox cap = \<lparr>queue = [], head = 0, ob_bytes = 0, blocked = False, closed = False,
     resumeTimer = False, limit = cap, calls = 0, wire = [], disconnects = []\<rparr>"

definition max_queued_bytes :: nat where
  "max_queued_bytes = 1024 * 1024 * 1024"

text \<open>\<open>Buffer.byteLength\<close>: code units from 128 on take two bytes of UTF-8.\<close>

fun frame_size :: "socket_frame \<Rightarrow> nat" where
  "frame_size (TextFrame s) = sum_list (map (\<lambda>c. if of_char c < (128::nat) then 1 else 2) s)"
| "frame_size (BinaryFrame bs) = length bs"

definition ob_close :: "outbox \<Rightarrow> outbox" where
  "ob_close b = b\<lparr>closed := True, resumeTimer := False, queue := [], head := 0, ob_bytes := 0\<rparr>"

definition ob_fail :: "outbox_failure \<Rightarrow> outbox \<Rightarrow> bool \<times> outbox" where
  "ob_fail reason b = (False, (ob_close b)\<lparr>disconnects := disconnects b @ [reason]\<rparr>)"

definition submit :: "transport \<Rightarrow> socket_frame \<Rightarrow> outbox \<Rightarrow> bool \<times> outbox" where
  "submit raw f b =
     (let b' = b\<lparr>calls := Suc (calls b)\<rparr> in
      case raw (calls b) f of
        Threw \<Rightarrow> ob_fail SendFailed b'
      | Returned n \<Rightarrow>
          if n = 0 then ob_fail FrameDropped b'
          else (True, b'\<lparr>blocked := n < 0, wire := wire b @ [f]\<rparr>))"

definition ob_send :: "transport \<Rightarrow> socket_frame \<Rightarrow> outbox \<Rightarrow> bool \<times> outbox" where
  "ob_send raw f b =
     (if closed b then (False, b)
      else if int (limit b) - int (ob_bytes b) < int (frame_size f) then ob_fail QueueLimitExceeded b
      else if \<not> blocked b \<and> head b = length (queue b) then submit raw f b
      else (True, b\<lparr>queue := queue b @ [Some f], ob_bytes := ob_bytes b + frame_size f\<rparr>))"

definition ob_drain :: "outbox \<Rightarrow> outbox" where
  "ob_drain b = (if closed b \<or> resumeTimer b then b else b\<lparr>resumeTimer := True\<rparr>)"

text \<open>The flush loop; the flag says whether it ended without a failed submission.\<close>

definition take_head :: "outbox \<Rightarrow> outbox" where
  "take_head b = b\<lparr>queue := (queue b)[head b := None], head := Suc (head b),
     ob_bytes := ob_bytes b - frame_size (the (queue b ! head b))\<rparr>"

lemma submit_True:
  "submit raw f b = (True, b') \<Longrightarrow>
   queue b' = queue b \<and> head b' = head b \<and> ob_bytes b' = ob_bytes b \<and> closed b' = closed b \<and>
   limit b' = limit b \<and> wire b' = wire b @ [f] \<and> resumeTimer b' = resumeTimer b"
  by (auto simp: submit_def Let_def ob_fail_def split: send_result.splits if_splits)

function flush_loop :: "transport \<Rightarrow> outbox \<Rightarrow> bool \<times> outbox" where
  "flush_loop raw b =
     (if \<not> blocked b \<and> head b < length (queue b) then
        (case submit raw (the (queue b ! head b)) (take_head b) of
           (False, b') \<Rightarrow> (False, b')
         | (True, b') \<Rightarrow> flush_loop raw b')
      else (True, b))"
  by pat_completeness auto

termination
  by (relation "measure (\<lambda>(raw, b). length (queue b) - head b)")
    (auto dest!: submit_True[OF sym] simp: take_head_def)

declare flush_loop.simps [simp del]

definition compact :: "outbox \<Rightarrow> outbox" where
  "compact b =
     (if head b = length (queue b) then b\<lparr>queue := [], head := 0\<rparr>
      else if 4096 < head b \<and> length (queue b) < head b * 2
      then b\<lparr>queue := drop (head b) (queue b), head := 0\<rparr>
      else b)"

definition flush :: "transport \<Rightarrow> outbox \<Rightarrow> outbox" where
  "flush raw b =
     (if closed b then b
      else case flush_loop raw (b\<lparr>blocked := False\<rparr>) of
             (False, b') \<Rightarrow> b'
           | (True, b') \<Rightarrow> compact b')"

definition resume :: "transport \<Rightarrow> outbox \<Rightarrow> outbox" where
  "resume raw b = (if resumeTimer b then flush raw (b\<lparr>resumeTimer := False\<rparr>) else b)"

subsection \<open>Runs\<close>

text \<open>What can happen to an outbox, paired with the frames whose \<open>send\<close> returned true.\<close>

datatype outbox_event = Send socket_frame | Drain | TimerFires | CloseBox

fun ob_step :: "transport \<Rightarrow> outbox \<times> socket_frame list \<Rightarrow> outbox_event \<Rightarrow> outbox \<times> socket_frame list" where
  "ob_step raw (b, acc) (Send f) = (let (ok, b') = ob_send raw f b in (b', if ok then acc @ [f] else acc))"
| "ob_step raw (b, acc) Drain = (ob_drain b, acc)"
| "ob_step raw (b, acc) TimerFires = (resume raw b, acc)"
| "ob_step raw (b, acc) CloseBox = (ob_close b, acc)"

definition ob_run :: "transport \<Rightarrow> nat \<Rightarrow> outbox_event list \<Rightarrow> outbox \<times> socket_frame list" where
  "ob_run raw cap es = foldl (ob_step raw) (new_outbox cap, []) es"

definition pending :: "outbox \<Rightarrow> socket_frame list" where
  "pending b = map the (drop (head b) (queue b))"

text \<open>The indices and counters agree with the frames still waiting, and nothing waits in a closed box.\<close>

definition ob_wf :: "outbox \<Rightarrow> bool" where
  "ob_wf b \<longleftrightarrow> head b \<le> length (queue b) \<and> None \<notin> set (drop (head b) (queue b)) \<and>
     ob_bytes b = sum_list (map frame_size (pending b)) \<and> ob_bytes b \<le> limit b \<and>
     (closed b \<longrightarrow> queue b = [])"

text \<open>The abstract channel: the accepted frames split into those on the wire and those waiting.\<close>

definition ob_fifo :: "outbox \<times> socket_frame list \<Rightarrow> bool" where
  "ob_fifo p \<longleftrightarrow> (case p of (b, acc) \<Rightarrow>
     if closed b then prefix (wire b) acc else wire b @ pending b = acc)"

definition ob_waits :: "outbox \<Rightarrow> bool" where
  "ob_waits b \<longleftrightarrow> closed b \<or> blocked b \<or> pending b = []"

lemma pending_nil: "ob_wf b \<Longrightarrow> pending b = [] \<longleftrightarrow> head b = length (queue b)"
  by (auto simp: pending_def ob_wf_def)

lemma ob_close_wf: "ob_wf (ob_close b)"
  by (simp add: ob_wf_def ob_close_def pending_def)

lemma submit_cases:
  "(\<exists>k. submit raw f b = (True, b\<lparr>calls := Suc (calls b), blocked := k, wire := wire b @ [f]\<rparr>)) \<or>
   (\<exists>e. submit raw f b = ob_fail e (b\<lparr>calls := Suc (calls b)\<rparr>))"
proof (cases "raw (calls b) f")
  case (Returned n)
  then show ?thesis
  proof (cases "n = 0")
    case False
    with Returned show ?thesis by (intro disjI1 exI[of _ "n < 0"]) (simp add: submit_def)
  qed (use Returned in \<open>auto simp: submit_def\<close>)
qed (auto simp: submit_def)

lemma pending_head:
  assumes "ob_wf b" and "head b < length (queue b)"
  shows "pending b = the (queue b ! head b) # pending (take_head b)" and "ob_wf (take_head b)"
proof -
  have d: "drop (head b) (queue b) = queue b ! head b # drop (Suc (head b)) (queue b)"
    using assms(2) by (simp add: Cons_nth_drop_Suc)
  then show p: "pending b = the (queue b ! head b) # pending (take_head b)"
    using assms(2) by (simp add: pending_def take_head_def)
  show "ob_wf (take_head b)"
    using assms p d by (auto simp: ob_wf_def take_head_def)
qed

lemma fail_simps [simp]:
  "fst (ob_fail e b) = False" "closed (snd (ob_fail e b))" "wire (snd (ob_fail e b)) = wire b"
  "ob_wf (snd (ob_fail e b))"
  by (simp_all add: ob_fail_def ob_close_def ob_wf_def pending_def)

lemma taken_simps [simp]:
  "pending (b\<lparr>calls := c, blocked := k, wire := w\<rparr>) = pending b"
  "ob_wf (b\<lparr>calls := c, blocked := k, wire := w\<rparr>) = ob_wf b"
  "pending (b\<lparr>blocked := k\<rparr>) = pending b" "ob_wf (b\<lparr>blocked := k\<rparr>) = ob_wf b"
  "pending (b\<lparr>resumeTimer := k\<rparr>) = pending b" "ob_wf (b\<lparr>resumeTimer := k\<rparr>) = ob_wf b"
  by (simp_all add: pending_def ob_wf_def)

lemma take_head_simps [simp]:
  "wire (take_head b) = wire b" "closed (take_head b) = closed b" "limit (take_head b) = limit b"
  by (simp_all add: take_head_def)

lemma fail_pair: "ob_fail e b = (False, snd (ob_fail e b))"
  by (simp add: ob_fail_def)

lemma flush_loop_fifo:
  assumes "ob_wf b" and "\<not> closed b" and "flush_loop raw b = (ok, b')"
  shows "ob_wf b' \<and>
    (if ok then \<not> closed b' \<and> wire b' @ pending b' = wire b @ pending b \<and> (blocked b' \<or> pending b' = [])
     else closed b' \<and> prefix (wire b') (wire b @ pending b))"
  using assms
proof (induction raw b arbitrary: ok b' rule: flush_loop.induct)
  case (1 raw b)
  show ?case
  proof (cases "\<not> blocked b \<and> head b < length (queue b)")
    case True
    note h = pending_head[OF "1.prems"(1), OF True[THEN conjunct2]]
    let ?f = "the (queue b ! head b)"
    from submit_cases[of raw ?f "take_head b"] show ?thesis
    proof (elim disjE exE conjE)
      fix k assume sub: "submit raw ?f (take_head b) =
        (True, (take_head b)\<lparr>calls := Suc (calls (take_head b)), blocked := k,
            wire := wire (take_head b) @ [?f]\<rparr>)" (is "_ = (True, ?b1)")
      have "flush_loop raw ?b1 = (ok, b')"
        using "1.prems"(3) True sub by (simp add: flush_loop.simps[of raw b])
      then show ?thesis
        using "1.IH"[OF True sub[symmetric] refl] h "1.prems"(2) by (cases ok) auto
    next
      fix e assume sub: "submit raw ?f (take_head b) = ob_fail e ((take_head b)\<lparr>calls := Suc (calls (take_head b))\<rparr>)"
        (is "_ = ob_fail e ?c")
      obtain d where d: "ob_fail e ?c = (False, d)" using fail_pair by blast
      have "ok = False" "b' = d"
        using "1.prems"(3) True sub d by (simp_all add: flush_loop.simps[of raw b])
      then have "ok = False" "b' = snd (ob_fail e ?c)" using d by simp_all
      moreover have "wire ?c = wire b" by simp
      ultimately show ?thesis by simp
    qed
  next
    case False
    then show ?thesis using 1 by (auto simp: flush_loop.simps[of raw b] pending_nil ob_wf_def)
  qed
qed

lemma compact_pending [simp]: "ob_wf b \<Longrightarrow> pending (compact b) = pending b"
  by (auto simp: compact_def pending_def ob_wf_def)

lemma compact_simps [simp]:
  "wire (compact b) = wire b" "closed (compact b) = closed b" "blocked (compact b) = blocked b"
  by (simp_all add: compact_def)

lemma compact_wf: "ob_wf b \<Longrightarrow> ob_wf (compact b)"
  using compact_pending[of b] by (auto simp: compact_def ob_wf_def pending_def)

definition ob_inv :: "outbox \<times> socket_frame list \<Rightarrow> bool" where
  "ob_inv p \<longleftrightarrow> ob_wf (fst p) \<and> ob_fifo p \<and> ob_waits (fst p)"

lemma flush_inv:
  assumes "ob_inv (b, acc)"
  shows "ob_inv (flush raw b, acc)"
proof (cases "closed b")
  case False
  obtain ok b' where l: "flush_loop raw (b\<lparr>blocked := False\<rparr>) = (ok, b')" by (meson surj_pair)
  from assms False have "ob_wf (b\<lparr>blocked := False\<rparr>)" "wire b @ pending b = acc"
    by (auto simp: ob_inv_def ob_fifo_def)
  with flush_loop_fifo[OF this(1) _ l] False show ?thesis
    by (cases ok) (auto simp: flush_def l ob_inv_def ob_fifo_def ob_waits_def compact_wf)
qed (use assms in \<open>simp add: flush_def\<close>)

lemma ob_send_inv:
  assumes "ob_inv (b, acc)"
  shows "ob_inv (snd (ob_send raw f b), if fst (ob_send raw f b) then acc @ [f] else acc)"
proof (cases "closed b \<or> int (limit b) - int (ob_bytes b) < int (frame_size f)")
  case True
  then show ?thesis using assms
    by (auto simp: ob_send_def ob_inv_def ob_fifo_def ob_waits_def)
next
  case False
  show ?thesis
  proof (cases "\<not> blocked b \<and> head b = length (queue b)")
    case True
    then have e: "ob_send raw f b = submit raw f b" "pending b = []"
      using False assms by (auto simp: ob_send_def ob_inv_def pending_nil)
    then show ?thesis using submit_cases[of raw f b] False assms
      by (auto simp: ob_inv_def ob_fifo_def ob_waits_def)
  next
    case queued: False
    then have "blocked b" using assms False by (auto simp: ob_inv_def ob_waits_def pending_nil)
    then show ?thesis using False assms
      by (auto simp: ob_send_def ob_inv_def ob_fifo_def ob_waits_def ob_wf_def pending_def)
  qed
qed

lemma ob_step_inv: "ob_inv p \<Longrightarrow> ob_inv (ob_step raw p e)"
proof -
  obtain b acc where p: "p = (b, acc)" by (cases p)
  assume inv: "ob_inv p"
  show ?thesis
  proof (cases e)
    case (Send f)
    then show ?thesis using ob_send_inv[of b acc raw f] inv p by (simp add: case_prod_beta Let_def)
  next
    case Drain
    then show ?thesis using inv p by (auto simp: ob_drain_def ob_inv_def ob_fifo_def ob_waits_def)
  next
    case TimerFires
    have "ob_inv (b\<lparr>resumeTimer := False\<rparr>, acc)"
      using inv p by (auto simp: ob_inv_def ob_fifo_def ob_waits_def)
    then show ?thesis using TimerFires inv p flush_inv by (auto simp: resume_def)
  next
    case CloseBox
    have "prefix (wire b) acc" using inv p by (auto simp: ob_inv_def ob_fifo_def split: if_splits)
    then show ?thesis using CloseBox p ob_close_wf
      by (auto simp: ob_inv_def ob_fifo_def ob_waits_def) (simp_all add: ob_close_def)
  qed
qed

interpretation outbox_run: event_machine "ob_step raw" ob_inv for raw
  by unfold_locales (rule ob_step_inv)

text \<open>C12. Whatever the socket answers and in whatever order frames, drain callbacks, timers and a
  close arrive: an open outbox has put the accepted frames on the wire in order, without loss or
  duplication, followed by those still queued; a closed one has put a prefix of them there. The byte
  counter equals what is queued and never passes the limit, and frames wait only under backpressure.\<close>

theorem outbox_fifo:
  "ob_wf (fst (ob_run raw cap es)) \<and> ob_fifo (ob_run raw cap es) \<and> ob_waits (fst (ob_run raw cap es))"
proof -
  have "ob_inv (new_outbox cap, [])"
    by (simp add: ob_inv_def ob_wf_def ob_fifo_def ob_waits_def new_outbox_def pending_def)
  then have "ob_inv (ob_run raw cap es)"
    unfolding ob_run_def by (rule outbox_run.run_inv)
  then show ?thesis by (simp add: ob_inv_def)
qed

text \<open>C20. Once a closed outbox has failed or been closed, no event makes it touch the socket again.\<close>

theorem outbox_closed_silent:
  assumes "closed b"
  shows "wire (fst (ob_step raw (b, acc) e)) = wire b \<and> calls (fst (ob_step raw (b, acc) e)) = calls b
    \<and> closed (fst (ob_step raw (b, acc) e))"
  using assms by (cases e) (simp_all add: ob_send_def ob_drain_def resume_def flush_def ob_close_def)

theorem outbox_closed_silent_witness:
  "wire (fst (ob_step (\<lambda>_ _. Returned 1) (ob_close (new_outbox 10), []) (Send (TextFrame ''x'')))) = []"
proof -
  have "closed (ob_close (new_outbox 10))" by (simp add: ob_close_def)
  then have "wire (fst (ob_step (\<lambda>_ _. Returned 1) (ob_close (new_outbox 10), []) (Send (TextFrame ''x''))))
      = wire (ob_close (new_outbox 10))"
    using outbox_closed_silent by blast
  then show ?thesis by (simp only: ob_close_def new_outbox_def) simp
qed

lemma flush_loop_all:
  assumes "ob_wf b" and "\<And>n f. \<exists>k > 0. raw n f = Returned k" and "\<not> blocked b"
  shows "fst (flush_loop raw b) \<and> pending (snd (flush_loop raw b)) = []"
  using assms
proof (induction raw b rule: flush_loop.induct)
  case (1 raw b)
  show ?case
  proof (cases "head b < length (queue b)")
    case True
    obtain k where k: "k > 0" "raw (calls (take_head b)) (the (queue b ! head b)) = Returned k"
      using "1.prems"(2) by blast
    then have sub: "submit raw (the (queue b ! head b)) (take_head b) =
        (True, (take_head b)\<lparr>calls := Suc (calls (take_head b)), blocked := False,
            wire := wire b @ [the (queue b ! head b)]\<rparr>)" (is "_ = (True, ?b1)")
      by (simp add: submit_def)
    have "flush_loop raw b = flush_loop raw ?b1"
      using True "1.prems"(3) sub by (simp add: flush_loop.simps[of raw b])
    moreover have "ob_wf ?b1" using pending_head[OF "1.prems"(1) True] by simp
    moreover have "\<not> blocked ?b1" by simp
    ultimately show ?thesis using "1.IH"[OF _ sub[symmetric] refl] True "1.prems"(2,3) by auto
  next
    case False
    then show ?thesis using 1 by (simp add: flush_loop.simps[of raw b] pending_def)
  qed
qed

text \<open>C19. When the timer set by a drain fires on an open outbox and the socket takes every frame, all
  queued frames are delivered.\<close>

theorem outbox_drains:
  assumes "ob_wf b" and "\<not> closed b" and "resumeTimer b" and "\<And>n f. \<exists>k > 0. raw n f = Returned k"
  shows "pending (resume raw b) = [] \<and> wire (resume raw b) = wire b @ pending b"
proof -
  let ?b = "b\<lparr>resumeTimer := False, blocked := False\<rparr>"
  obtain ok b' where l: "flush_loop raw ?b = (ok, b')" by (meson surj_pair)
  have wf: "ob_wf ?b" using assms(1) by (simp add: ob_wf_def pending_def)
  have "ok" "pending b' = []" using flush_loop_all[of ?b raw] assms(4) wf l by auto
  moreover have "wire b' @ pending b' = wire b @ pending b" "ob_wf b'"
    using flush_loop_fifo[OF wf _ l] assms(2) \<open>ok\<close> by (auto simp: pending_def)
  ultimately show ?thesis
    using assms(2,3) l by (simp add: resume_def flush_def)
qed

definition stalled_box :: outbox where
  "stalled_box = (new_outbox 10)\<lparr>queue := [Some (TextFrame ''hi'')], ob_bytes := 2, blocked := True,
     resumeTimer := True\<rparr>"

theorem outbox_drains_witness:
  "wire (resume (\<lambda>_ _. Returned 1) stalled_box) = [TextFrame ''hi'']"
proof -
  have "ob_wf stalled_box" "\<not> closed stalled_box" "resumeTimer stalled_box"
    by (simp_all add: ob_wf_def pending_def stalled_box_def new_outbox_def)
  from outbox_drains[OF this, of "\<lambda>_ _. Returned 1"] show ?thesis
    by (simp add: stalled_box_def new_outbox_def pending_def)
qed

end
