(* ===== verification/Profiles.thy ===== *)
theory Profiles
  imports Types
begin

text \<open>
  Model profiles: \<open>validateProfile\<close> and \<open>downloadBlock\<close> of \<^verbatim>\<open>src/swarmlet/control/planner.ts\<close>, and
  the download rules of \<^verbatim>\<open>src/swarmlet/protocol/types.ts\<close>.

  The patterns of a profile are arbitrary ECMAScript regular expressions. Compiling and matching them
  is a parameter \<open>rx\<close>: \<open>rx p = None\<close> when \<open>new RegExp(p)\<close> throws, otherwise the test it performs.
\<close>

type_synonym regexp = "string \<Rightarrow> (string \<Rightarrow> bool) option"

datatype profile_error =
    NotAnObject string
  | UnknownKey string string
  | NotANonEmptyString string string
  | NotAnIntegerFrom int string string
  | NotARegExp string string
  | FilesNotNonEmpty
  | TooManyFiles
  | NotAPlainFileName nat
  | DuplicateDownloadName nat string
  | BadKind nat
  | NameDoesNotMatch nat string
  | BadUrl nat
  | BadSha256 nat
  | NotOneGguf nat
  | EnvelopeNotNonEmpty
  | BadMaxFit nat
  | BadExtraArgs
  | RowNotBelowLayers int int

definition PROFILE_KEYS :: "string list" where
  "PROFILE_KEYS = [''id'', ''name'', ''modelName'', ''ggufPattern'', ''mtpPattern'', ''layers'', ''layerMiB'',
     ''coordinatorHostMiB'', ''boundaryBytes'', ''envelope'', ''extraArgs'', ''workerMarginMiB'', ''download'', ''rank'']"

definition ROW_KEYS :: "string list" where
  "ROW_KEYS = [''workerLayers'', ''maxCtx'', ''maxParallel'', ''maxChain'', ''maxFit'']"

definition DOWNLOAD_FILE_KEYS :: "string list" where
  "DOWNLOAD_FILE_KEYS = [''name'', ''kind'', ''url'', ''sha256'', ''bytes'']"

subsection \<open>Field readers\<close>

text \<open>The \<open>where\<close> of the messages: the profile, an envelope row, the download block, one of its files.\<close>

definition checkKeys :: "jsv \<Rightarrow> string list \<Rightarrow> string \<Rightarrow> profile_error + unit" where
  "checkKeys v allowed loc =
     (case find (\<lambda>k. k \<notin> set allowed) (keys_of v) of None \<Rightarrow> Inr () | Some k \<Rightarrow> Inl (UnknownKey loc k))"

definition pstring :: "jsv \<Rightarrow> string \<Rightarrow> string \<Rightarrow> profile_error + string" where
  "pstring v key loc =
     (case getp v key of
        Str s \<Rightarrow> if s = [] then Inl (NotANonEmptyString loc key) else Inr s
      | _ \<Rightarrow> Inl (NotANonEmptyString loc key))"

definition pint :: "jsv \<Rightarrow> string \<Rightarrow> string \<Rightarrow> int \<Rightarrow> profile_error + int" where
  "pint v key loc mn =
     (case getp v key of
        Num (Fin r) \<Rightarrow> if is_integer r \<and> of_int mn \<le> r then Inr \<lfloor>r\<rfloor> else Inl (NotAnIntegerFrom mn loc key)
      | _ \<Rightarrow> Inl (NotAnIntegerFrom mn loc key))"

definition ppattern :: "regexp \<Rightarrow> jsv \<Rightarrow> string \<Rightarrow> string \<Rightarrow> profile_error + string" where
  "ppattern rx v key loc =
     try_bind (pstring v key loc) (\<lambda>p. if rx p = None then Inl (NotARegExp loc key) else Inr p)"

definition rx_test :: "regexp \<Rightarrow> string \<Rightarrow> string \<Rightarrow> bool" where
  "rx_test rx p s = (case rx p of None \<Rightarrow> False | Some f \<Rightarrow> f s)"

subsection \<open>Download blocks\<close>

text \<open>\<open>[^\s]\<close> of the URL pattern, on Latin-1.\<close>

definition not_space :: "char \<Rightarrow> bool" where
  "not_space c \<longleftrightarrow> (let n = of_char c :: nat in \<not> (9 \<le> n \<and> n \<le> 13 \<or> n = 32 \<or> n = 160))"

fun chop :: "string \<Rightarrow> string \<Rightarrow> string option" where
  "chop [] s = Some s"
| "chop (c # cs) [] = None"
| "chop (c # cs) (d # s) = (if c = d then chop cs s else None)"

text \<open>\<open>(?::\d+)?(?:\/[^\s]*)?$\<close>: an optional port, then an optional path, then the end.\<close>

definition url_tail :: "string \<Rightarrow> bool" where
  "url_tail s =
     (let path = (\<lambda>t. t = [] \<or> hd t = CHR ''/'' \<and> list_all not_space (tl t)) in
      path s \<or> s \<noteq> [] \<and> hd s = CHR '':'' \<and> takeWhile digit_char (tl s) \<noteq> [] \<and> path (dropWhile digit_char (tl s)))"

definition download_url_ok :: "string \<Rightarrow> bool" where
  "download_url_ok s \<longleftrightarrow>
     (case chop ''https://'' s of Some t \<Rightarrow> t \<noteq> [] \<and> list_all not_space t | None \<Rightarrow> False) \<or>
     (case chop ''http://127.0.0.1'' s of Some t \<Rightarrow> url_tail t | None \<Rightarrow> False) \<or>
     (case chop ''http://localhost'' s of Some t \<Rightarrow> url_tail t | None \<Rightarrow> False)"

definition plain_name :: "string \<Rightarrow> bool" where
  "plain_name s \<longleftrightarrow> CHR ''/'' \<notin> set s \<and> CHR 0x5C \<notin> set s \<and> s \<noteq> ''.'' \<and> s \<noteq> ''..''"

definition validCatalogDownload :: "jsv \<Rightarrow> bool" where
  "validCatalogDownload f \<longleftrightarrow> (isObj f \<or> is_arr f) \<and>
     isStr (getp f ''name'') \<and> (let n = the_str (getp f ''name'') in 0 < length n \<and> length n \<le> 240 \<and> plain_name n) \<and>
     (getp f ''kind'' = Str ''gguf'' \<or> getp f ''kind'' = Str ''mtp'') \<and>
     isStr (getp f ''url'') \<and> download_url_ok (the_str (getp f ''url'')) \<and> length (the_str (getp f ''url'')) \<le> 2048 \<and>
     isStr (getp f ''sha256'') \<and> sha256_hex (the_str (getp f ''sha256'')) \<and>
     (case getp f ''bytes'' of Num (Fin r) \<Rightarrow> is_safe_integer r \<and> 0 < r | _ \<Rightarrow> False)"

text \<open>One file of the block. \<open>seen\<close> are the names before it and \<open>i\<close> its index.\<close>

definition downloadFile :: "regexp \<Rightarrow> string \<Rightarrow> string option \<Rightarrow> string list \<Rightarrow> nat \<Rightarrow> jsv
    \<Rightarrow> profile_error + model_download_file" where
  "downloadFile rx gguf mtp seen i f =
     (let loc = ''download.files'' in
      if \<not> isObj f then Inl (NotAnObject loc)
      else try_bind (checkKeys f DOWNLOAD_FILE_KEYS loc) (\<lambda>_.
        try_bind (pstring f ''name'' loc) (\<lambda>name.
          if \<not> plain_name name then Inl (NotAPlainFileName i)
          else if name \<in> set seen then Inl (DuplicateDownloadName i name)
          else try_bind (pstring f ''kind'' loc) (\<lambda>kind.
            if kind \<noteq> ''gguf'' \<and> kind \<noteq> ''mtp'' then Inl (BadKind i)
            else if kind = ''gguf'' \<and> \<not> rx_test rx gguf name then Inl (NameDoesNotMatch i name)
            else if kind = ''mtp'' \<and> (case mtp of None \<Rightarrow> True | Some p \<Rightarrow> \<not> rx_test rx p name)
            then Inl (NameDoesNotMatch i name)
            else try_bind (pstring f ''url'' loc) (\<lambda>url.
              if \<not> download_url_ok url \<or> 2048 < length url then Inl (BadUrl i)
              else try_bind (pstring f ''sha256'' loc) (\<lambda>sha.
                if \<not> sha256_hex sha then Inl (BadSha256 i)
                else try_bind (pint f ''bytes'' loc 1) (\<lambda>bytes.
                  Inr \<lparr>df_name = name, df_kind = (if kind = ''gguf'' then Gguf else Mtp), df_url = url,
                       df_sha256 = sha, df_bytes = bytes\<rparr>)))))))"

fun downloadFiles :: "regexp \<Rightarrow> string \<Rightarrow> string option \<Rightarrow> string list \<Rightarrow> nat \<Rightarrow> jsv list
    \<Rightarrow> profile_error + model_download_file list" where
  "downloadFiles rx gguf mtp seen i [] = Inr []"
| "downloadFiles rx gguf mtp seen i (f # fs) =
     try_bind (downloadFile rx gguf mtp seen i f) (\<lambda>d.
       try_bind (downloadFiles rx gguf mtp (df_name d # seen) (Suc i) fs) (\<lambda>ds. Inr (d # ds)))"

definition downloadBlock :: "regexp \<Rightarrow> jsv \<Rightarrow> string \<Rightarrow> string option
    \<Rightarrow> profile_error + model_download_file list option" where
  "downloadBlock rx raw gguf mtp =
     (let v = getp raw ''download'' in
      if v = Undefined then Inr None
      else if \<not> isObj v then Inl (NotAnObject ''download'')
      else try_bind (checkKeys v [''files''] ''download'') (\<lambda>_.
        if \<not> is_arr (getp v ''files'') \<or> elems (getp v ''files'') = [] then Inl FilesNotNonEmpty
        else if 8 < length (elems (getp v ''files'')) then Inl TooManyFiles
        else try_bind (downloadFiles rx gguf mtp [] 0 (elems (getp v ''files''))) (\<lambda>ds.
          let n = length (filter (\<lambda>d. df_kind d = Gguf) ds) in
          if n \<noteq> 1 then Inl (NotOneGguf n) else Inr (Some ds))))"

subsection \<open>Profiles\<close>

definition envelopeRow :: "nat \<Rightarrow> jsv \<Rightarrow> profile_error + envelope_row" where
  "envelopeRow i r =
     (let loc = ''envelope'' in
      if \<not> isObj r then Inl (NotAnObject loc)
      else try_bind (checkKeys r ROW_KEYS loc) (\<lambda>_.
        if getp r ''maxFit'' \<noteq> Undefined \<and> \<not> is_bool (getp r ''maxFit'') then Inl (BadMaxFit i)
        else try_bind (pint r ''workerLayers'' loc 1) (\<lambda>w.
          try_bind (pint r ''maxCtx'' loc 1) (\<lambda>c.
            try_bind (pint r ''maxParallel'' loc 1) (\<lambda>p.
              try_bind (pint r ''maxChain'' loc 0) (\<lambda>h.
                Inr \<lparr>er_workerLayers = w, er_maxCtx = c, er_maxParallel = p, er_maxChain = h,
                     er_maxFit = truthy (getp r ''maxFit'')\<rparr>))))))"

definition optional_field :: "jsv \<Rightarrow> string \<Rightarrow> ('e + 'a) \<Rightarrow> 'e + 'a option" where
  "optional_field raw key r = (if getp raw key = Undefined then Inr None else try_bind r (\<lambda>x. Inr (Some x)))"

definition indexed :: "'a list \<Rightarrow> (nat \<times> 'a) list" where
  "indexed xs = zip [0..<length xs] xs"

text \<open>The object literal of \<open>validateProfile\<close>: its initialisers run in this order.\<close>

definition profileFields :: "regexp \<Rightarrow> jsv \<Rightarrow> envelope_row list \<Rightarrow> int option \<Rightarrow> string list
    \<Rightarrow> profile_error + model_profile" where
  "profileFields rx raw env rank extra =
     (let loc = ''profile'' in
      try_bind (pstring raw ''id'' loc) (\<lambda>i.
      try_bind (pstring raw ''name'' loc) (\<lambda>nm.
      try_bind (pstring raw ''modelName'' loc) (\<lambda>mn.
      try_bind (ppattern rx raw ''ggufPattern'' loc) (\<lambda>gg.
      try_bind (pint raw ''layers'' loc 1) (\<lambda>ls.
      try_bind (pint raw ''layerMiB'' loc 1) (\<lambda>lm.
      try_bind (pint raw ''coordinatorHostMiB'' loc 0) (\<lambda>ch.
      try_bind (pint raw ''boundaryBytes'' loc 0) (\<lambda>bb.
      try_bind (pint raw ''workerMarginMiB'' loc 0) (\<lambda>wm.
        Inr \<lparr>mp_id = i, mp_rank = rank, mp_name = nm, mp_modelName = mn, mp_ggufPattern = gg,
             mp_mtpPattern = None, mp_layers = ls, mp_layerMiB = lm, mp_coordinatorHostMiB = ch,
             mp_boundaryBytes = bb, mp_envelope = env, mp_extraArgs = extra, mp_workerMarginMiB = wm,
             mp_download = None\<rparr>))))))))))"

definition rowBelowLayers :: "model_profile \<Rightarrow> profile_error + model_profile" where
  "rowBelowLayers p =
     (case find (\<lambda>r. mp_layers p \<le> er_workerLayers r) (mp_envelope p) of
        None \<Rightarrow> Inr p
      | Some r \<Rightarrow> Inl (RowNotBelowLayers (er_workerLayers r) (mp_layers p)))"

definition validateProfile :: "regexp \<Rightarrow> jsv \<Rightarrow> profile_error + model_profile" where
  "validateProfile rx raw =
     (let loc = ''profile'' in
      if \<not> isObj raw then Inl (NotAnObject loc)
      else try_bind (checkKeys raw PROFILE_KEYS loc) (\<lambda>_.
        if \<not> is_arr (getp raw ''envelope'') \<or> elems (getp raw ''envelope'') = [] then Inl EnvelopeNotNonEmpty
        else try_bind (try_map (\<lambda>(i, r). envelopeRow i r) (indexed (elems (getp raw ''envelope'')))) (\<lambda>env.
          try_bind (optional_field raw ''rank'' (pint raw ''rank'' loc 0)) (\<lambda>rank.
            if \<not> is_arr (getp raw ''extraArgs'') \<or> \<not> list_all isStr (elems (getp raw ''extraArgs'')) then Inl BadExtraArgs
            else try_bind (profileFields rx raw env rank (map the_str (elems (getp raw ''extraArgs'')))) (\<lambda>p.
              try_bind (optional_field raw ''mtpPattern'' (ppattern rx raw ''mtpPattern'' loc)) (\<lambda>mtp.
                try_bind (downloadBlock rx raw (mp_ggufPattern p) mtp) (\<lambda>dl.
                  rowBelowLayers (p\<lparr>mp_mtpPattern := mtp, mp_download := dl\<rparr>))))))))"

subsection \<open>What an accepted profile guarantees\<close>

definition row_wf :: "int \<Rightarrow> envelope_row \<Rightarrow> bool" where
  "row_wf layers r \<longleftrightarrow> 1 \<le> er_workerLayers r \<and> er_workerLayers r < layers \<and> 1 \<le> er_maxCtx r \<and>
     1 \<le> er_maxParallel r \<and> 0 \<le> er_maxChain r"

definition file_wf :: "regexp \<Rightarrow> model_profile \<Rightarrow> model_download_file \<Rightarrow> bool" where
  "file_wf rx p d \<longleftrightarrow> plain_name (df_name d) \<and> df_name d \<noteq> [] \<and> download_url_ok (df_url d) \<and> sha256_hex (df_sha256 d) \<and>
     1 \<le> df_bytes d \<and>
     (case df_kind d of
        Gguf \<Rightarrow> rx_test rx (mp_ggufPattern p) (df_name d)
      | Mtp \<Rightarrow> (\<exists>q. mp_mtpPattern p = Some q \<and> rx_test rx q (df_name d))
      | Mmproj \<Rightarrow> False)"

definition profile_wf :: "regexp \<Rightarrow> model_profile \<Rightarrow> bool" where
  "profile_wf rx p \<longleftrightarrow> 1 \<le> mp_layers p \<and> 1 \<le> mp_layerMiB p \<and> 0 \<le> mp_coordinatorHostMiB p \<and>
     0 \<le> mp_boundaryBytes p \<and> 0 \<le> mp_workerMarginMiB p \<and> mp_envelope p \<noteq> [] \<and>
     (\<forall>r \<in> set (mp_envelope p). row_wf (mp_layers p) r) \<and> rx (mp_ggufPattern p) \<noteq> None \<and>
     (\<forall>q. mp_mtpPattern p = Some q \<longrightarrow> rx q \<noteq> None) \<and>
     (\<forall>ds. mp_download p = Some ds \<longrightarrow> distinct (map df_name ds) \<and> length ds \<le> 8 \<and>
        length (filter (\<lambda>d. df_kind d = Gguf) ds) = 1 \<and> (\<forall>d \<in> set ds. file_wf rx p d))"

lemma pint_Inr: "pint v key loc mn = Inr n \<Longrightarrow> mn \<le> n"
  by (auto simp: pint_def is_integer_def split: jsv.splits js_number.splits if_splits)

lemma pstring_Inr: "pstring v key loc = Inr s \<Longrightarrow> s \<noteq> []"
  by (auto simp: pstring_def split: jsv.splits if_splits)

lemma ppattern_Inr: "ppattern rx v key loc = Inr s \<Longrightarrow> rx s \<noteq> None"
  by (auto simp: ppattern_def try_bind_Inr split: if_splits)

lemma optional_field_Some: "optional_field raw key r = Inr (Some x) \<Longrightarrow> r = Inr x"
  by (auto simp: optional_field_def try_bind_Inr split: if_splits)

lemma envelopeRow_Inr:
  "envelopeRow i r = Inr e \<Longrightarrow> 1 \<le> er_workerLayers e \<and> 1 \<le> er_maxCtx e \<and> 1 \<le> er_maxParallel e \<and> 0 \<le> er_maxChain e"
  by (auto simp: envelopeRow_def Let_def try_bind_Inr split: if_splits dest!: pint_Inr)

lemma downloadFile_Inr:
  assumes "downloadFile rx gguf mtp seen i f = Inr d" and "mp_ggufPattern p = gguf" and "mp_mtpPattern p = mtp"
  shows "df_name d \<notin> set seen \<and> file_wf rx p d"
  using assms
  by (auto simp: downloadFile_def Let_def try_bind_Inr file_wf_def split: if_splits option.splits
      dest!: pint_Inr pstring_Inr)

lemma downloadFiles_Inr:
  assumes "downloadFiles rx gguf mtp seen i fs = Inr ds" and "mp_ggufPattern p = gguf" and "mp_mtpPattern p = mtp"
  shows "distinct (map df_name ds) \<and> set (map df_name ds) \<inter> set seen = {} \<and> length ds = length fs \<and>
    (\<forall>d \<in> set ds. file_wf rx p d)"
  using assms
proof (induction fs arbitrary: seen i ds)
  case (Cons f fs)
  then obtain d es where d: "downloadFile rx gguf mtp seen i f = Inr d"
    and es: "downloadFiles rx gguf mtp (df_name d # seen) (Suc i) fs = Inr es" and ds: "ds = d # es"
    by (auto simp: try_bind_Inr)
  from downloadFile_Inr[OF d Cons.prems(2,3)] Cons.IH[OF es Cons.prems(2,3)] show ?case
    unfolding ds by auto
qed simp

lemma downloadBlock_Inr:
  assumes "downloadBlock rx raw gguf mtp = Inr (Some ds)" and "mp_ggufPattern p = gguf" and "mp_mtpPattern p = mtp"
  shows "distinct (map df_name ds) \<and> length ds \<le> 8 \<and> length (filter (\<lambda>d. df_kind d = Gguf) ds) = 1 \<and>
    (\<forall>d \<in> set ds. file_wf rx p d)"
  using assms(1) downloadFiles_Inr[OF _ assms(2,3)]
  by (fastforce simp: downloadBlock_def Let_def try_bind_Inr split: if_splits)

lemma profileFields_Inr:
  assumes "profileFields rx raw env rank extra = Inr p"
  shows "1 \<le> mp_layers p \<and> 1 \<le> mp_layerMiB p \<and> 0 \<le> mp_coordinatorHostMiB p \<and> 0 \<le> mp_boundaryBytes p \<and>
    0 \<le> mp_workerMarginMiB p \<and> mp_envelope p = env \<and> rx (mp_ggufPattern p) \<noteq> None"
  using assms
  by (auto simp: profileFields_def Let_def try_bind_Inr dest!: pint_Inr ppattern_Inr)

lemma rowBelowLayers_Inr:
  "rowBelowLayers p = Inr q \<Longrightarrow> q = p \<and> (\<forall>r \<in> set (mp_envelope p). er_workerLayers r < mp_layers p)"
  by (auto simp: rowBelowLayers_def find_None_all not_le split: option.splits)

lemma envelope_rows_Inr:
  assumes "try_map (\<lambda>(i, r). envelopeRow i r) xs = Inr env"
  shows "\<forall>e \<in> set env. 1 \<le> er_workerLayers e \<and> 1 \<le> er_maxCtx e \<and> 1 \<le> er_maxParallel e \<and> 0 \<le> er_maxChain e"
  using assms by (auto dest!: try_map_mem envelopeRow_Inr)

lemma validateProfile_wf: "validateProfile rx raw = Inr p \<Longrightarrow> profile_wf rx p"
proof -
  assume "validateProfile rx raw = Inr p"
  then obtain env rank extra q mtp dl where
      env: "try_map (\<lambda>(i, r). envelopeRow i r) (indexed (elems (getp raw ''envelope''))) = Inr env"
    and ne: "elems (getp raw ''envelope'') \<noteq> []"
    and q: "profileFields rx raw env rank extra = Inr q"
    and mtp: "optional_field raw ''mtpPattern'' (ppattern rx raw ''mtpPattern'' ''profile'') = Inr mtp"
    and dl: "downloadBlock rx raw (mp_ggufPattern q) mtp = Inr dl"
    and p: "rowBelowLayers (q\<lparr>mp_mtpPattern := mtp, mp_download := dl\<rparr>) = Inr p"
    unfolding validateProfile_def Let_def try_bind_Inr by (auto simp: try_bind_Inr split: if_splits)
  have "env \<noteq> []" using try_map_length[OF env] ne by (auto simp: indexed_def)
  moreover have "rx m \<noteq> None" if "mtp = Some m" for m
    using mtp that by (auto dest!: optional_field_Some ppattern_Inr)
  ultimately show ?thesis
    using rowBelowLayers_Inr[OF p] profileFields_Inr[OF q] envelope_rows_Inr[OF env] dl
      downloadBlock_Inr[of rx raw "mp_ggufPattern q" mtp _ p]
    by (auto simp: profile_wf_def row_wf_def)
qed


text \<open>C34. Every profile that \<open>validateProfile\<close> accepts is well formed: sizes are in range, each envelope
  row leaves the coordinator a layer, its patterns compile, and a download block names at most eight
  distinct files with exactly one GGUF, each of which the planner's own pattern will find.\<close>

theorem validateProfile_sound:
  assumes "validateProfile rx raw = Inr p"
  shows "profile_wf rx p"
  using assms by (rule validateProfile_wf)

definition any_rx :: regexp where
  "any_rx p = Some (\<lambda>_. True)"

definition example_profile_json :: jsv where
  "example_profile_json = Obj
     [(''id'', Str ''m''), (''name'', Str ''M''), (''modelName'', Str ''m''), (''ggufPattern'', Str ''m''),
      (''layers'', num_int 24), (''layerMiB'', num_int 100), (''coordinatorHostMiB'', num_int 10),
      (''boundaryBytes'', num_int 4), (''workerMarginMiB'', num_int 50), (''extraArgs'', Arr []),
      (''envelope'', Arr [Obj [(''workerLayers'', num_int 8), (''maxCtx'', num_int 2048),
         (''maxParallel'', num_int 1), (''maxChain'', num_int 0)]])]"

definition example_profile :: model_profile where
  "example_profile = \<lparr>mp_id = ''m'', mp_rank = None, mp_name = ''M'', mp_modelName = ''m'', mp_ggufPattern = ''m'',
     mp_mtpPattern = None, mp_layers = 24, mp_layerMiB = 100, mp_coordinatorHostMiB = 10, mp_boundaryBytes = 4,
     mp_envelope = [\<lparr>er_workerLayers = 8, er_maxCtx = 2048, er_maxParallel = 1, er_maxChain = 0, er_maxFit = False\<rparr>],
     mp_extraArgs = [], mp_workerMarginMiB = 50, mp_download = None\<rparr>"

lemma example_profile_accepted: "validateProfile any_rx example_profile_json = Inr example_profile"
  by code_simp

theorem validateProfile_sound_witness: "profile_wf any_rx example_profile"
  using example_profile_accepted by (rule validateProfile_sound)

end
