(* ===== verification/PhasePlan.thy ===== *)
theory PhasePlan
  imports Types
begin

text \<open>
  \<^verbatim>\<open>src/swarmlet/control/phase-plan.ts\<close>: which node prefills and which decodes, by measured speed. Times
  are binary64, so every quotient, product and sum is rounded with \<open>fl\<close>. \<open>localeCompare\<close>
  depends on the locale of the process and is a parameter. The \<open>reasons\<close> text is left out.
\<close>

record phase_candidate =
  pc_nodeId :: string
  pc_prefillTokPerSec :: "rat option"
  pc_decodeTokPerSec :: "rat option"

record phase_input =
  pi_candidates :: "phase_candidate list"
  pi_promptTokens :: rat
  pi_outputTokens :: rat
  pi_stateBytesPerToken :: rat
  pi_transferBytesPerSec :: "string \<Rightarrow> string \<Rightarrow> rat"
  pi_prefillNodeIds :: "string list option"
  pi_decodeNodeIds :: "string list option"

record phase_plan =
  pp_prefillNodeId :: string
  pp_decodeNodeId :: string
  pp_local :: bool
  pp_estimatedMs :: rat

datatype phase_error =
    NoHostNode
  | SizesNotPositive
  | SpeedsMissing "string list"
  | NoNodeWithBoth
  | NoReachablePair

definition ms :: "rat \<Rightarrow> rat \<Rightarrow> rat" where
  "ms tokens perSecond = fl (fl (tokens / perSecond) * 1000)"

definition one :: "rat \<Rightarrow> rat" where
  "one n = fl (of_int (math_round (fl (n * 10))) / 10)"

text \<open>\<open>c.prefillTokPerSec && c.prefillTokPerSec > 0\<close>.\<close>

definition measured :: "rat option \<Rightarrow> bool" where
  "measured s = (case s of None \<Rightarrow> False | Some r \<Rightarrow> 0 < r)"

definition may :: "string list option \<Rightarrow> string \<Rightarrow> bool" where
  "may ids i = (case ids of None \<Rightarrow> True | Some xs \<Rightarrow> i \<in> set xs)"

record phase_best =
  pb_prefillNodeId :: string
  pb_decodeNodeId :: string
  pb_local :: bool
  pb_total :: rat

text \<open>The body of the inner loop up to the comparison: the pair with its total, unless it is skipped.\<close>

definition phasePair :: "phase_input \<Rightarrow> phase_candidate \<Rightarrow> phase_candidate \<Rightarrow> phase_best option" where
  "phasePair inp p d =
     (case (pc_prefillTokPerSec p, pc_decodeTokPerSec d) of
        (Some ps, Some ds) \<Rightarrow>
          (if 0 < ps \<and> may (pi_prefillNodeIds inp) (pc_nodeId p) \<and> 0 < ds \<and> may (pi_decodeNodeIds inp) (pc_nodeId d) then
             (let loc = (pc_nodeId p = pc_nodeId d); rate = pi_transferBytesPerSec inp (pc_nodeId p) (pc_nodeId d);
                  stateBytes = fl (pi_promptTokens inp * pi_stateBytesPerToken inp) in
              if \<not> loc \<and> \<not> 0 < rate then None
              else let prefillMs = ms (pi_promptTokens inp) ps; decodeMs = ms (pi_outputTokens inp) ds;
                       transferMs = (if loc then 0 else ms stateBytes rate) in
                   Some \<lparr>pb_prefillNodeId = pc_nodeId p, pb_decodeNodeId = pc_nodeId d, pb_local = loc,
                         pb_total = fl (fl (prefillMs + transferMs) + decodeMs)\<rparr>)
           else None)
      | _ \<Rightarrow> None)"

definition pair_key :: "phase_best \<Rightarrow> string" where
  "pair_key b = pb_prefillNodeId b @ [CHR 0x00] @ pb_decodeNodeId b"

definition keepBest :: "phase_best option \<Rightarrow> phase_best \<Rightarrow> phase_best option" where
  "keepBest best x =
     (case best of
        None \<Rightarrow> Some x
      | Some b \<Rightarrow> if pb_total x < pb_total b \<or> pb_total x = pb_total b \<and> pair_key x < pair_key b then Some x else Some b)"

definition bestPair :: "phase_input \<Rightarrow> phase_candidate list \<Rightarrow> phase_best option" where
  "bestPair inp cs =
     foldl (\<lambda>best p. foldl (\<lambda>best d. case phasePair inp p d of None \<Rightarrow> best | Some x \<Rightarrow> keepBest best x) best cs) None cs"

text \<open>The decision on the sorted candidates, and the sort before it.\<close>

definition phaseDecision :: "phase_input \<Rightarrow> phase_candidate list \<Rightarrow> phase_error + phase_plan" where
  "phaseDecision inp cs =
     (let missingPrefill = map pc_nodeId (filter (\<lambda>c. \<not> measured (pc_prefillTokPerSec c)) cs);
          missingDecode = map pc_nodeId (filter (\<lambda>c. \<not> measured (pc_decodeTokPerSec c)) cs) in
      if cs = [] then Inl NoHostNode
      else if \<not> 0 < pi_promptTokens inp \<or> \<not> 0 < pi_outputTokens inp \<or> \<not> 0 < pi_stateBytesPerToken inp
        then Inl SizesNotPositive
      else if missingPrefill \<noteq> [] \<and> missingDecode \<noteq> [] then Inl (SpeedsMissing (uniq (missingPrefill @ missingDecode)))
      else if \<not> (\<exists>c \<in> set cs. measured (pc_prefillTokPerSec c) \<and> measured (pc_decodeTokPerSec c)) then Inl NoNodeWithBoth
      else case bestPair inp cs of
             None \<Rightarrow> Inl NoReachablePair
           | Some b \<Rightarrow> Inr \<lparr>pp_prefillNodeId = pb_prefillNodeId b, pp_decodeNodeId = pb_decodeNodeId b,
                            pp_local = pb_local b, pp_estimatedMs = one (pb_total b)\<rparr>)"

definition choosePhasePlan :: "string comparator_fn \<Rightarrow> phase_input \<Rightarrow> phase_error + phase_plan" where
  "choosePhasePlan lc inp = phaseDecision inp (sort_by (\<lambda>a b. lc (pc_nodeId a) (pc_nodeId b)) (pi_candidates inp))"

subsection \<open>The chosen pair is the best one\<close>

definition all_pairs :: "phase_input \<Rightarrow> phase_candidate list \<Rightarrow> phase_best list" where
  "all_pairs inp cs = concat (map (\<lambda>p. concat (map (opt_list \<circ> phasePair inp p) cs)) cs)"

lemma bestPair_fold: "bestPair inp cs = foldl keepBest None (all_pairs inp cs)"
  by (simp add: bestPair_def all_pairs_def foldl_option foldl_nested)

lemma mem_all_pairs: "x \<in> set (all_pairs inp cs) \<longleftrightarrow> (\<exists>p \<in> set cs. \<exists>d \<in> set cs. phasePair inp p d = Some x)"
  by (simp add: all_pairs_def set_opt_list)

definition best_le :: "phase_best \<Rightarrow> phase_best \<Rightarrow> bool" where
  "best_le b x \<longleftrightarrow> pb_total b < pb_total x \<or> pb_total b = pb_total x \<and> pair_key b \<le> pair_key x"

lemma keepBest_Some:
  "\<exists>b'. keepBest (Some b) x = Some b' \<and> best_le b' b \<and> best_le b' x \<and> (b' = b \<or> b' = x)"
  by (auto simp: keepBest_def best_le_def)

lemma best_le_trans: "best_le a b \<Longrightarrow> best_le b c \<Longrightarrow> best_le a c"
  by (auto simp: best_le_def)

lemma keepBest_fold:
  "\<exists>b'. foldl keepBest (Some b) xs = Some b' \<and> b' \<in> insert b (set xs) \<and> best_le b' b \<and> (\<forall>x \<in> set xs. best_le b' x)"
proof (induction xs arbitrary: b)
  case (Cons x xs)
  obtain c where c: "keepBest (Some b) x = Some c" "best_le c b" "best_le c x" "c = b \<or> c = x"
    using keepBest_Some by blast
  obtain b' where "foldl keepBest (Some c) xs = Some b'" "b' \<in> insert c (set xs)" "best_le b' c" "\<forall>x \<in> set xs. best_le b' x"
    using Cons.IH by blast
  moreover from this have "best_le b' b" "best_le b' x" using c best_le_trans by blast+
  ultimately show ?case using c by (simp only: foldl_Cons set_simps) blast
qed (simp add: best_le_def)

lemma bestPair_facts:
  "case bestPair inp cs of
     None \<Rightarrow> all_pairs inp cs = []
   | Some b \<Rightarrow> b \<in> set (all_pairs inp cs) \<and> (\<forall>x \<in> set (all_pairs inp cs). best_le b x)"
proof (cases "all_pairs inp cs")
  case (Cons x xs)
  obtain b where b: "foldl keepBest (Some x) xs = Some b" "b \<in> insert x (set xs)" "best_le b x" "\<forall>y \<in> set xs. best_le b y"
    using keepBest_fold by blast
  have "bestPair inp cs = Some b" using b(1) Cons by (simp add: bestPair_fold keepBest_def)
  then show ?thesis using b Cons by auto
qed (simp add: bestPair_fold)



definition example_phase :: phase_input where
  "example_phase = \<lparr>pi_candidates = [\<lparr>pc_nodeId = ''b'', pc_prefillTokPerSec = Some 100, pc_decodeTokPerSec = Some 10\<rparr>,
       \<lparr>pc_nodeId = ''a'', pc_prefillTokPerSec = Some 50, pc_decodeTokPerSec = Some 40\<rparr>],
     pi_promptTokens = 512, pi_outputTokens = 64, pi_stateBytesPerToken = 1000,
     pi_transferBytesPerSec = (\<lambda>_ _. 1000000), pi_prefillNodeIds = None, pi_decodeNodeIds = None\<rparr>"


lemma example_phase_planned: "\<not> isl (choosePhasePlan cmp_str example_phase)"
  by code_simp


end
