(* ===== verification/Planner.thy ===== *)
theory Planner
  imports Profiles Validate Json PhasePlan
begin

text \<open>
  \<^verbatim>\<open>src/swarmlet/control/planner.ts\<close>: choosing nodes, devices, layers and ports for split and replica
  deployments. The planner collects refusals in a list and throws it as a \<open>PlanError\<close>; here each step
  returns the refusals it adds, in order, next to its result. The explanations it also collects
  (\<open>reasons\<close>) influence no decision and are left out.

  Memory sizes of offers are the numbers the nodes published; the layer arithmetic divides them, so the
  quotient is rounded to binary64 (\<open>fl\<close>) before \<open>Math.floor\<close>.
\<close>

datatype node_problem = IsOffline | NoPublishedOffer | OfferDisabled | RoleMissing role | ModelMissing string

datatype row_block =
    CtxAbove int int
  | ParallelAbove int int
  | ChainAbove int int
  | NotOneLayer string
  | RamShort string rat rat
  | NoCoordinatorLayer int int
  | GpuShort string int rat

text \<open>Refusals of the request itself, of its native fields, of a native placement, and of a placement.\<close>

datatype request_refusal =
    BadCtx "js_number option"
  | BadParallel "js_number option"
  | BadChain "js_number option"
  | ReplicaMtp
  | BadSpeculation
  | SpeculationWithChain
  | BadWire string
  | NotPlanned
  | NativeFieldsOnly
  | BadWorkerNodeIds
  | LayersWithMtp
  | LayersNotSplit
  | BadWorkerLayers
  | LayersWithoutIds

datatype native_request_refusal =
    NativeField string
  | NativeProfileOnly
  | NativeLimits
  | NativeTransport
  | StagesNotTwoOrThree
  | StageFields nat
  | StageNode nat
  | StageModel nat
  | StageRange nat
  | StagesNotCovering
  | PhasePairIncomplete
  | PhaseNodesEqual
  | BadModelSha

datatype phase_rejection = PhasesMissing bool bool | PhaseRefused phase_error

datatype native_refusal =
    NativeProfileChanged
  | NoPhaseQualification
  | NoPhasePlacement "(string \<times> phase_rejection) list"
  | SingleNodeOptimal string
  | NoQualification
  | NativeGpuNotSingle string
  | NativeCpu string
  | NativeRam string rat rat
  | NativeGpu string rat rat

datatype layer_refusal =
    NoRowFits nat
  | WorkerAllows string int
  | RowSkipped envelope_row "row_block list"
  | NoRowForCount string int
  | WorkerGpuShort string int rat
  | WorkerRamShort string rat rat
  | LayersLeaveNone int int

datatype plan_refusal =
    NotEnrolled role string
  | NodeUnusable role string "node_problem list"
  | NoMtpPattern int string
  | NoDraftHead int string
  | ResidentTooLarge string int rat rat
  | HostTooLarge string int rat
  | UnusedGpu string
  | NoReplicaNode
  | NoCoordinatorNode
  | WorkerTwice string
  | CoordinatorAsWorker string
  | WorkerNoGpu string
  | NoWorkers
  | NoFreePort
  | Layer layer_refusal
  | Request request_refusal
  | NativeRequest native_request_refusal
  | Native native_refusal

definition DEFAULT_CTX :: int where "DEFAULT_CTX = 1536"
definition DEFAULT_PARALLEL :: int where "DEFAULT_PARALLEL = 1"
definition DEFAULT_CHAIN :: int where "DEFAULT_CHAIN = 0"
definition WORKER_PORT_BASE :: int where "WORKER_PORT_BASE = 50200"
definition WORKER_PORT_STEP :: int where "WORKER_PORT_STEP = 10"
definition MAX_WORKER_THREADS :: rat where "MAX_WORKER_THREADS = 10"

type_synonym used_ports = "(string \<times> int list) list"

record plan_ctx =
  cx_spec :: deployment_spec
  cx_profile :: model_profile
  cx_ctx :: int
  cx_parallel :: int
  cx_chain :: int
  cx_gguf :: "string \<Rightarrow> bool"
  cx_mtp :: "(string \<Rightarrow> bool) option"
  cx_all :: "node_row list"
  cx_eligible :: "node_row list"
  cx_usedPorts :: used_ports

record gpu_slot =
  gs_id :: string
  gs_engineName :: string
  gs_memMiB :: rat

record worker_slot =
  ws_node :: node_row
  ws_gpu :: gpu_slot

subsection \<open>Ordering and looking at nodes\<close>

definition byHost :: "node_row comparator_fn" where
  "byHost a b = cmp_then (\<lambda>a b. cmp_str (nr_hostname a) (nr_hostname b)) (\<lambda>a b. cmp_str (nr_id a) (nr_id b)) a b"

text \<open>The round-trip time; \<open>None\<close> is the infinity of an unmeasured node.\<close>

definition rttOf :: "node_row \<Rightarrow> rat option" where
  "rttOf n = Option.bind (nr_caps n) ca_rttMs"

fun rtt_less :: "rat option \<Rightarrow> rat option \<Rightarrow> bool" where
  "rtt_less (Some a) (Some b) = (a < b)"
| "rtt_less (Some a) None = True"
| "rtt_less None b = False"

definition byRtt :: "node_row comparator_fn" where
  "byRtt a b = (if rttOf a = rttOf b then byHost a b else if rtt_less (rttOf a) (rttOf b) then -1 else 1)"

definition dialableDirectly :: "node_row \<Rightarrow> bool" where
  "dialableDirectly n = (case Option.bind (nr_caps n) ca_publicEndpoints of None \<Rightarrow> False | Some es \<Rightarrow> es \<noteq> [])"

definition findModel :: "node_row \<Rightarrow> (string \<Rightarrow> bool) \<Rightarrow> model_file option" where
  "findModel n re = find (\<lambda>m. re (mf_name m)) (nr_models n)"

definition caps_gpus :: "node_row \<Rightarrow> gpu_device list" where
  "caps_gpus n = (case nr_caps n of None \<Rightarrow> [] | Some c \<Rightarrow> ca_gpus c)"

definition offer_gpus :: "node_row \<Rightarrow> gpu_offer list" where
  "offer_gpus n = (case nr_offer n of None \<Rightarrow> [] | Some f \<Rightarrow> of_gpu f)"

fun offeredGpuLoop :: "gpu_device list \<Rightarrow> gpu_offer list \<Rightarrow> gpu_slot option" where
  "offeredGpuLoop gs [] = None"
| "offeredGpuLoop gs (g # os) =
     (case find (\<lambda>d. gd_id d = go_id g) gs of
        Some d \<Rightarrow> if 0 < go_memMiB g then Some \<lparr>gs_id = gd_id d, gs_engineName = gd_engineName d, gs_memMiB = go_memMiB g\<rparr>
                  else offeredGpuLoop gs os
      | None \<Rightarrow> offeredGpuLoop gs os)"

definition offeredGpu :: "node_row \<Rightarrow> gpu_slot option" where
  "offeredGpu n = offeredGpuLoop (caps_gpus n) (offer_gpus n)"

text \<open>\<open>n.offer!\<close>: every use below is on a node that has an offer.\<close>

definition no_offer :: offer where
  "no_offer = \<lparr>of_enabled = False, of_roles = \<lparr>ro_worker = False, ro_coordinator = False, ro_replica = False\<rparr>,
     of_gpu = [], of_ramMiB = 0, of_cpuCores = 0, of_diskMiB = 0, of_modelsDir = []\<rparr>"

definition offer_of :: "node_row \<Rightarrow> offer" where
  "offer_of n = (case nr_offer n of Some f \<Rightarrow> f | None \<Rightarrow> no_offer)"

text \<open>\<open>n.offer?.enabled === true\<close>.\<close>

definition offer_enabled :: "node_row \<Rightarrow> bool" where
  "offer_enabled n = (case nr_offer n of None \<Rightarrow> False | Some f \<Rightarrow> of_enabled f)"

definition envFor :: "deployment_spec \<Rightarrow> nat \<Rightarrow> (string \<times> string) list" where
  "envFor spec workers =
     [(''GGML_RPC_FORWARD'', if sp_forwarding spec \<noteq> Some False \<and> 1 < workers then ''1'' else ''0''),
      (''GGML_RPC_PIPELINE'', ''1''),
      (''GGML_SCHED_PIPELINED_COPY'', ''1''),
      (''GGML_RPC_GET_PIPELINE'', if sp_batchedGets spec = Some False then ''0'' else ''1''),
      (''GGML_RPC_WIRE'', case sp_wire spec of None \<Rightarrow> ''off'' | Some w \<Rightarrow> w)]"

subsection \<open>Ports\<close>

definition port_free :: "int list option \<Rightarrow> int \<Rightarrow> bool" where
  "port_free used p = (case used of None \<Rightarrow> True | Some ps \<Rightarrow> p \<notin> set ps \<and> p + 1 \<notin> set ps)"

function pickPortFrom :: "int list option \<Rightarrow> int \<Rightarrow> int option" where
  "pickPortFrom used p =
     (if p + 1 < 65536 then if port_free used p then Some p else pickPortFrom used (p + WORKER_PORT_STEP)
      else None)"
  by pat_completeness auto
termination
  by (relation "measure (\<lambda>(used, p). nat (65536 - p))") (auto simp: WORKER_PORT_STEP_def)

declare pickPortFrom.simps [simp del]

definition pickPort :: "int list option \<Rightarrow> plan_refusal list + int" where
  "pickPort used = (case pickPortFrom used WORKER_PORT_BASE of None \<Rightarrow> Inl [NoFreePort] | Some p \<Rightarrow> Inr p)"

subsection \<open>Requested nodes, draft heads and residency\<close>

definition nodeProblems :: "plan_ctx \<Rightarrow> node_row \<Rightarrow> role \<Rightarrow> bool \<Rightarrow> node_problem list" where
  "nodeProblems c n r needModel =
     (if nr_online n then [] else [IsOffline]) @
     (case nr_offer n of
        None \<Rightarrow> [NoPublishedOffer]
      | Some f \<Rightarrow> (if of_enabled f then [] else [OfferDisabled]) @ (if has_role (of_roles f) r then [] else [RoleMissing r])) @
     (if needModel \<and> findModel n (cx_gguf c) = None then [ModelMissing (mp_ggufPattern (cx_profile c))] else [])"

definition requireNode :: "plan_ctx \<Rightarrow> string \<Rightarrow> role \<Rightarrow> bool \<Rightarrow> plan_refusal list \<times> node_row option" where
  "requireNode c i r needModel =
     (case find (\<lambda>n. nr_id n = i) (cx_all c) of
        None \<Rightarrow> ([NotEnrolled r i], None)
      | Some n \<Rightarrow>
          (case nodeProblems c n r needModel of
             [] \<Rightarrow> ([], Some n)
           | ps \<Rightarrow> ([NodeUnusable r (nr_hostname n) ps], None)))"

definition draftHead :: "plan_ctx \<Rightarrow> node_row \<Rightarrow> plan_refusal list \<times> string option" where
  "draftHead c n =
     (if cx_chain c = 0 then ([], None)
      else case cx_mtp c of
             None \<Rightarrow> ([NoMtpPattern (cx_chain c) (mp_id (cx_profile c))], None)
           | Some re \<Rightarrow>
               (case findModel n re of
                  None \<Rightarrow> ([NoDraftHead (cx_chain c) (nr_hostname n)], None)
                | Some f \<Rightarrow> ([], Some (mf_path f))))"

definition is_darwin :: "node_row \<Rightarrow> bool" where
  "is_darwin n \<longleftrightarrow> nr_os n = ''darwin''"

definition placeResident :: "plan_ctx \<Rightarrow> node_row \<Rightarrow> int \<Rightarrow> plan_refusal list \<times> string" where
  "placeResident c n layers =
     (let p = cx_profile c; ram = of_ramMiB (offer_of n);
          layersMiB = layers * mp_layerMiB p; host = mp_coordinatorHostMiB p;
          need = layersMiB + host in
      if is_darwin n then
        ((if of_int need \<le> ram then [] else [ResidentTooLarge (nr_hostname n) layers (of_int need) ram]),
         case caps_gpus n of [] \<Rightarrow> ''CPU'' | g # _ \<Rightarrow> gd_engineName g)
      else case offeredGpu n of
        Some g \<Rightarrow>
          ((if of_int layersMiB \<le> gs_memMiB g then [] else [ResidentTooLarge (nr_hostname n) layers (of_int layersMiB) (gs_memMiB g)])
           @ (if of_int host \<le> ram then [] else [HostTooLarge (nr_hostname n) host ram]),
           gs_engineName g)
      | None \<Rightarrow>
          if usableGpus (caps_gpus n) \<noteq> [] then ([UnusedGpu (nr_hostname n)], ''CPU'')
          else ((if of_int need \<le> ram then [] else [ResidentTooLarge (nr_hostname n) layers (of_int need) ram]), ''CPU''))"

subsection \<open>How many layers a worker gets\<close>

definition layersIn :: "model_profile \<Rightarrow> rat \<Rightarrow> int" where
  "layersIn p mib = \<lfloor>fl ((mib - of_int (mp_workerMarginMiB p)) / of_int (mp_layerMiB p))\<rfloor>"

definition maxFitLayers :: "worker_slot \<Rightarrow> model_profile \<Rightarrow> int" where
  "maxFitLayers s p =
     max 0 (min (layersIn p (gs_memMiB (ws_gpu s))) (layersIn p (of_ramMiB (offer_of (ws_node s)))))"

definition ramShortfall :: "node_row \<Rightarrow> int \<Rightarrow> row_block option" where
  "ramShortfall n needMiB =
     (case nr_offer n of
        None \<Rightarrow> None
      | Some f \<Rightarrow> if \<not> is_darwin n \<or> of_int needMiB \<le> of_ramMiB f then None
                  else Some (RamShort (nr_hostname n) (of_int needMiB) (of_ramMiB f)))"

definition fitBlocks :: "model_profile \<Rightarrow> worker_slot \<Rightarrow> row_block list" where
  "fitBlocks p s =
     (let fit = maxFitLayers s p in
      (if fit < 1 then [NotOneLayer (nr_hostname (ws_node s))] else []) @
      opt_list (ramShortfall (ws_node s) (fit * mp_layerMiB p + mp_workerMarginMiB p)))"

definition fixedBlocks :: "model_profile \<Rightarrow> envelope_row \<Rightarrow> worker_slot \<Rightarrow> row_block list" where
  "fixedBlocks p row s =
     (let need = er_workerLayers row * mp_layerMiB p + mp_workerMarginMiB p in
      (if gs_memMiB (ws_gpu s) < of_int need then [GpuShort (nr_hostname (ws_node s)) need (gs_memMiB (ws_gpu s))] else []) @
      opt_list (ramShortfall (ws_node s) need))"

definition rowBlocks :: "plan_ctx \<Rightarrow> worker_slot list \<Rightarrow> envelope_row \<Rightarrow> row_block list" where
  "rowBlocks c slots row =
     (let p = cx_profile c in
      (if er_maxCtx row < cx_ctx c then [CtxAbove (cx_ctx c) (er_maxCtx row)] else []) @
      (if er_maxParallel row < cx_parallel c then [ParallelAbove (cx_parallel c) (er_maxParallel row)] else []) @
      (if er_maxChain row < cx_chain c then [ChainAbove (cx_chain c) (er_maxChain row)] else []) @
      (if er_maxFit row then concat (map (fitBlocks p) slots)
       else (if mp_layers p - 1 < er_workerLayers row * int (length slots)
             then [NoCoordinatorLayer (er_workerLayers row) (mp_layers p)] else []) @
            concat (map (fixedBlocks p row) slots)))"

definition byRowLayers :: "(nat \<times> envelope_row) comparator_fn" where
  "byRowLayers = cmp_then (\<lambda>a b. er_workerLayers (snd b) - er_workerLayers (snd a)) (\<lambda>a b. int (fst a) - int (fst b))"

definition sortedRows :: "model_profile \<Rightarrow> envelope_row list" where
  "sortedRows p = map snd (sort_by byRowLayers (indexed (mp_envelope p)))"

definition chooseRow :: "plan_ctx \<Rightarrow> worker_slot list \<Rightarrow> plan_refusal list \<times> envelope_row option" where
  "chooseRow c slots =
     (let p = cx_profile c; rows = sortedRows p in
      case find (\<lambda>row. rowBlocks c slots row = []) rows of
        Some row \<Rightarrow> ([], Some row)
      | None \<Rightarrow>
          (Layer (NoRowFits (length slots))
           # map (\<lambda>s. Layer (WorkerAllows (nr_hostname (ws_node s)) (max 0 (layersIn p (gs_memMiB (ws_gpu s)))))) slots
           @ map (\<lambda>row. Layer (RowSkipped row (rowBlocks c slots row))) rows,
           None))"

text \<open>\<open>planSplit\<close>'s shaving loop: take a layer from the first largest worker while the coordinator would
  be left without one. (With no workers the sum is 0 and the loop does not run; the guard says so.)\<close>

fun maxIndex :: "int list \<Rightarrow> nat \<Rightarrow> nat list \<Rightarrow> nat" where
  "maxIndex ls i [] = i"
| "maxIndex ls i (j # js) = maxIndex ls (if ls ! i < ls ! j then j else i) js"

function shave :: "int \<Rightarrow> int list \<Rightarrow> int list" where
  "shave layers ls =
     (if ls \<noteq> [] \<and> layers - 1 < sum_list ls
      then let i = maxIndex ls 0 [1..<length ls] in shave layers (ls[i := ls ! i - 1])
      else ls)"
  by pat_completeness auto
termination
proof (relation "measure (\<lambda>(layers, ls). nat (sum_list ls - (layers - 1)))", goal_cases)
  case 1
  show ?case by simp
next
  case (2 layers ls i)
  have "maxIndex ls i js < length ls" if "i < length ls" "\<forall>j \<in> set js. j < length ls" for ls i js
    using that by (induction ls i js rule: maxIndex.induct) auto
  then have "i < length ls" using 2 by auto
  then show ?case using 2 by (simp add: sum_list_update_int)
qed

declare shave.simps [simp del]

subsection \<open>Replicas\<close>

definition chooseReplica :: "plan_ctx \<Rightarrow> plan_refusal list \<times> node_row option" where
  "chooseReplica c =
     (case sp_replicaNodeId (cx_spec c) of
        Some i \<Rightarrow> requireNode c i RoleReplica True
      | None \<Rightarrow>
          (case find (\<lambda>n. ro_replica (of_roles (offer_of n)) \<and> findModel n (cx_gguf c) \<noteq> None) (cx_eligible c) of
             None \<Rightarrow> ([NoReplicaNode], None)
           | Some n \<Rightarrow> ([], Some n)))"

definition model_path :: "plan_ctx \<Rightarrow> node_row \<Rightarrow> string" where
  "model_path c n = (case findModel n (cx_gguf c) of Some m \<Rightarrow> mf_path m | None \<Rightarrow> [])"

definition planReplica :: "plan_ctx \<Rightarrow> plan_refusal list + plan" where
  "planReplica c =
     (case chooseReplica c of
        (e1, None) \<Rightarrow> Inl e1
      | (e1, Some n) \<Rightarrow>
          (case draftHead c n of (e2, mtp) \<Rightarrow>
          (case placeResident c n (mp_layers (cx_profile c)) of (e3, device) \<Rightarrow>
            if e1 @ e2 @ e3 \<noteq> [] then Inl (e1 @ e2 @ e3)
            else Inr \<lparr>pl_coordinatorNodeId = nr_id n, pl_coordinatorDevice = device, pl_workers = [], pl_tensorSplit = [],
                      pl_engineTensorSplit = None, pl_ctx = cx_ctx c, pl_parallel = cx_parallel c, pl_chain = cx_chain c,
                      pl_speculation = sp_speculation (cx_spec c), pl_env = envFor (cx_spec c) 0,
                      pl_modelPath = model_path c n, pl_mtpPath = mtp, pl_nativeExecution = None, pl_allocations = None\<rparr>)))"

subsection \<open>Splits\<close>

definition has_model :: "plan_ctx \<Rightarrow> node_row \<Rightarrow> bool" where
  "has_model c n \<longleftrightarrow> findModel n (cx_gguf c) \<noteq> None"

definition byRam :: "node_row comparator_fn" where
  "byRam a b = (if of_ramMiB (offer_of b) < of_ramMiB (offer_of a) then -1
                else if of_ramMiB (offer_of a) < of_ramMiB (offer_of b) then 1 else byHost a b)"

definition coordinatorCandidates :: "plan_ctx \<Rightarrow> node_row list" where
  "coordinatorCandidates c =
     sort_by byRam (filter (\<lambda>n. ro_coordinator (of_roles (offer_of n)) \<and> has_model c n) (cx_eligible c))"

definition chooseCoordinator :: "plan_ctx \<Rightarrow> plan_refusal list \<times> node_row option" where
  "chooseCoordinator c =
     (case sp_coordinatorNodeId (cx_spec c) of
        Some i \<Rightarrow> requireNode c i RoleCoordinator True
      | None \<Rightarrow>
          (case coordinatorCandidates c of
             [] \<Rightarrow> ([NoCoordinatorNode], None)
           | n # _ \<Rightarrow> ([], Some n)))"

definition workerSlot :: "plan_ctx \<Rightarrow> node_row option \<Rightarrow> string \<Rightarrow> plan_refusal list \<times> worker_slot list" where
  "workerSlot c coord i =
     (if map_option nr_id coord = Some i then ([CoordinatorAsWorker (nr_hostname (the coord))], [])
      else case requireNode c i RoleWorker False of
             (es, None) \<Rightarrow> (es, [])
           | (es, Some n) \<Rightarrow>
               (case offeredGpu n of
                  None \<Rightarrow> (es @ [WorkerNoGpu (nr_hostname n)], [])
                | Some g \<Rightarrow> (es, [\<lparr>ws_node = n, ws_gpu = g\<rparr>])))"

fun requestedWorkers :: "plan_ctx \<Rightarrow> node_row option \<Rightarrow> string list \<Rightarrow> string list \<Rightarrow> plan_refusal list \<times> worker_slot list" where
  "requestedWorkers c coord seen [] = ([], [])"
| "requestedWorkers c coord seen (i # ids) =
     (let (e, s) = (if i \<in> set seen then ([WorkerTwice i], []) else workerSlot c coord i);
          (es, ss) = requestedWorkers c coord (i # seen) ids
      in (e @ es, s @ ss))"

definition slot_of :: "node_row \<Rightarrow> worker_slot list" where
  "slot_of n = (case offeredGpu n of None \<Rightarrow> [] | Some g \<Rightarrow> [\<lparr>ws_node = n, ws_gpu = g\<rparr>])"

definition automaticWorkers :: "plan_ctx \<Rightarrow> node_row option \<Rightarrow> worker_slot list" where
  "automaticWorkers c coord =
     (let ws = filter (\<lambda>n. coord \<noteq> Some n \<and> ro_worker (of_roles (offer_of n)) \<and> offeredGpu n \<noteq> None) (cx_eligible c);
          direct = sort_by byRtt (filter dialableDirectly ws);
          relayed = sort_by byRtt (filter (\<lambda>n. \<not> dialableDirectly n) ws)
      in concat (map slot_of (direct @ relayed)))"

definition chooseWorkers :: "plan_ctx \<Rightarrow> node_row option \<Rightarrow> plan_refusal list \<times> worker_slot list" where
  "chooseWorkers c coord =
     (let (es, ss) = (if sp_workerNodeIds (cx_spec c) \<noteq> Undefined
                      then requestedWorkers c coord [] (map the_str (elems (sp_workerNodeIds (cx_spec c))))
                      else ([], automaticWorkers c coord))
      in (es @ (if ss = [] then [NoWorkers] else []), ss))"

definition requestedCounts :: "deployment_spec \<Rightarrow> int list" where
  "requestedCounts spec = map (\<lambda>v. \<lfloor>the_rat v\<rfloor>) (elems (sp_workerLayers spec))"

definition countErrors :: "plan_ctx \<Rightarrow> worker_slot \<Rightarrow> int \<Rightarrow> plan_refusal list" where
  "countErrors c s cnt =
     (let p = cx_profile c; host = nr_hostname (ws_node s);
          need = cnt * mp_layerMiB p + mp_workerMarginMiB p in
      (if find (\<lambda>r. er_workerLayers r = cnt \<and> cx_ctx c \<le> er_maxCtx r \<and> cx_parallel c \<le> er_maxParallel r \<and>
                    cx_chain c \<le> er_maxChain r) (mp_envelope p) = None
       then [Layer (NoRowForCount host cnt)] else []) @
      (if gs_memMiB (ws_gpu s) < of_int need then [Layer (WorkerGpuShort host need (gs_memMiB (ws_gpu s)))] else []) @
      (case ramShortfall (ws_node s) need of
         Some (RamShort h a b) \<Rightarrow> [Layer (WorkerRamShort h a b)]
       | _ \<Rightarrow> []))"

definition requestedLayers :: "plan_ctx \<Rightarrow> worker_slot list \<Rightarrow> plan_refusal list \<times> int list" where
  "requestedLayers c slots =
     (let counts = requestedCounts (cx_spec c); tot = sum_list counts in
      (concat (map (\<lambda>(s, n). countErrors c s n) (zip slots counts))
       @ (if mp_layers (cx_profile c) \<le> tot then [Layer (LayersLeaveNone tot (mp_layers (cx_profile c)))] else []),
       counts))"

definition automaticLayers :: "plan_ctx \<Rightarrow> worker_slot list \<Rightarrow> envelope_row \<Rightarrow> int list" where
  "automaticLayers c slots row =
     (if er_maxFit row then shave (mp_layers (cx_profile c)) (map (\<lambda>s. maxFitLayers s (cx_profile c)) slots)
      else map (\<lambda>_. er_workerLayers row) slots)"

text \<open>The layers per worker, or the error the planner throws: \<open>errs\<close> are the refusals so far.\<close>

definition splitLayers :: "plan_ctx \<Rightarrow> plan_refusal list \<Rightarrow> worker_slot list \<Rightarrow> plan_refusal list + int list" where
  "splitLayers c errs slots =
     (if sp_workerLayers (cx_spec c) \<noteq> Undefined
      then (case requestedLayers c slots of (es, ls) \<Rightarrow> if errs @ es \<noteq> [] then Inl (errs @ es) else Inr ls)
      else case chooseRow c slots of
             (es, None) \<Rightarrow> Inl (errs @ es)
           | (es, Some row) \<Rightarrow> Inr (automaticLayers c slots row))"

definition worker_threads :: "node_row \<Rightarrow> rat" where
  "worker_threads n = max 1 (min (of_cpuCores (offer_of n)) MAX_WORKER_THREADS)"

definition planWorker :: "plan_ctx \<Rightarrow> bool \<Rightarrow> worker_slot \<times> int \<Rightarrow> plan_refusal list + plan_worker" where
  "planWorker c forwarding p =
     (case p of (s, layers) \<Rightarrow>
      try_bind (pickPort (map_of (cx_usedPorts c) (nr_id (ws_node s)))) (\<lambda>port.
        Inr \<lparr>pw_nodeId = nr_id (ws_node s), pw_device = gs_engineName (ws_gpu s), pw_layers = layers, pw_port = port,
             pw_peerPort = (if forwarding then Some (port + 1) else None), pw_threads = worker_threads (ws_node s),
             pw_memCapMiB = gs_memMiB (ws_gpu s)\<rparr>))"

definition splitPlan :: "plan_ctx \<Rightarrow> node_row \<Rightarrow> string \<Rightarrow> string option \<Rightarrow> int list \<Rightarrow> plan_worker list \<Rightarrow> plan" where
  "splitPlan c coord device mtp layers workers =
     (let remaining = mp_layers (cx_profile c) - sum_list layers in
      \<lparr>pl_coordinatorNodeId = nr_id coord, pl_coordinatorDevice = device, pl_workers = workers,
       pl_tensorSplit = map pw_layers workers @ [remaining],
       pl_engineTensorSplit = (if sp_workerLayers (cx_spec c) \<noteq> Undefined then Some (layers @ [remaining + 1]) else None),
       pl_ctx = cx_ctx c, pl_parallel = cx_parallel c, pl_chain = cx_chain c,
       pl_speculation = sp_speculation (cx_spec c), pl_env = envFor (cx_spec c) (length workers),
       pl_modelPath = model_path c coord, pl_mtpPath = mtp, pl_nativeExecution = None, pl_allocations = None\<rparr>)"

definition planSplit :: "plan_ctx \<Rightarrow> plan_refusal list + plan" where
  "planSplit c =
     (case chooseCoordinator c of (e1, coord) \<Rightarrow>
     (case chooseWorkers c coord of (e2, slots) \<Rightarrow>
      (case coord of
         None \<Rightarrow> Inl (e1 @ e2)
       | Some k \<Rightarrow>
           if e1 @ e2 \<noteq> [] then Inl (e1 @ e2)
           else (case draftHead c k of (e3, mtp) \<Rightarrow>
             try_bind (splitLayers c e3 slots) (\<lambda>layers.
               (case placeResident c k (mp_layers (cx_profile c) - sum_list layers) of (e4, device) \<Rightarrow>
                 if e3 @ e4 \<noteq> [] then Inl (e3 @ e4)
                 else try_bind
                   (try_map (planWorker c (sp_forwarding (cx_spec c) \<noteq> Some False \<and> 1 < length slots)) (zip slots layers))
                   (\<lambda>workers. Inr (splitPlan c k device mtp layers workers))))))))"

text \<open>\<open>planDevices\<close>: the engine's device list.\<close>

definition planDevices :: "plan \<Rightarrow> string list" where
  "planDevices p = map (\<lambda>i. ''RPC'' @ nat_str i) [0..<length (pl_workers p)] @ [pl_coordinatorDevice p]"

subsection \<open>Ports are free\<close>

lemma pickPortFrom_Some:
  "pickPortFrom used p = Some q \<Longrightarrow>
   p \<le> q \<and> q + 1 < 65536 \<and> port_free used q \<and> (\<exists>k. q = p + 10 * int k) \<and>
   (\<forall>k. p + 10 * int k < q \<longrightarrow> \<not> port_free used (p + 10 * int k))"
proof (induction used p rule: pickPortFrom.induct)
  case (1 used p)
  show ?case
  proof (cases "port_free used p \<or> \<not> p + 1 < 65536")
    case True
    then have "q = p" "p + 1 < 65536" "port_free used p"
      using "1.prems" by (auto simp: pickPortFrom.simps[of used p] split: if_splits)
    then show ?thesis by (auto intro: exI[of _ 0])
  next
    case False
    then have "pickPortFrom used (p + 10) = Some q"
      using "1.prems" by (auto simp: pickPortFrom.simps[of used p] WORKER_PORT_STEP_def)
    with "1.IH" False have ih: "p + 10 \<le> q" "q + 1 < 65536" "port_free used q" "\<exists>k. q = p + 10 + 10 * int k"
      "\<forall>k. p + 10 + 10 * int k < q \<longrightarrow> \<not> port_free used (p + 10 + 10 * int k)"
      by (auto simp: WORKER_PORT_STEP_def)
    from ih(4) obtain k where "q = p + 10 * int (Suc k)" by auto
    moreover have "\<not> port_free used (p + 10 * int k)" if "p + 10 * int k < q" for k
      using that False ih(5)[rule_format, of "k - 1"] by (cases k) (auto simp: algebra_simps)
    ultimately show ?thesis using ih(1-3) by (intro conjI exI[of _ "Suc k"]) auto
  qed
qed

lemma pickPortFrom_None:
  "pickPortFrom used p = None \<Longrightarrow> p + 10 * int k + 1 < 65536 \<Longrightarrow> \<not> port_free used (p + 10 * int k)"
proof (induction used p arbitrary: k rule: pickPortFrom.induct)
  case (1 used p)
  have p: "p + 1 < 65536" using "1.prems"(2) by simp
  with "1.prems" have f: "\<not> port_free used p" "pickPortFrom used (p + 10) = None"
    by (auto simp: pickPortFrom.simps[of used p] WORKER_PORT_STEP_def split: if_splits)
  show ?case
  proof (cases k)
    case (Suc j)
    then show ?thesis using "1.IH"[OF p f(1), of j] f(2) "1.prems"(2)
      by (simp add: WORKER_PORT_STEP_def algebra_simps)
  qed (use f in simp)
qed

lemma pickPort_free: "pickPort used = Inr p \<Longrightarrow> port_free used p \<and> WORKER_PORT_BASE \<le> p \<and> p + 1 < 65536"
  by (auto simp: pickPort_def split: option.splits dest!: pickPortFrom_Some)

text \<open>C33. The port a worker gets is the first of 50200, 50210, ... whose pair of ports is free on that
  node, it fits 16 bits with its peer port, and planning fails exactly when every step is taken.\<close>

theorem pickPort_first_free:
  "(case pickPort used of
      Inr p \<Rightarrow> port_free used p \<and> p + 1 < 65536 \<and> (\<exists>k. p = 50200 + 10 * int k) \<and>
        (\<forall>k. 50200 + 10 * int k < p \<longrightarrow> \<not> port_free used (50200 + 10 * int k))
    | Inl e \<Rightarrow> e = [NoFreePort] \<and> (\<forall>k. 50200 + 10 * int k + 1 < 65536 \<longrightarrow> \<not> port_free used (50200 + 10 * int k)))"
  using pickPortFrom_Some[of used WORKER_PORT_BASE] pickPortFrom_None[of used WORKER_PORT_BASE]
  by (auto simp: pickPort_def WORKER_PORT_BASE_def split: option.splits)

subsection \<open>Chosen nodes\<close>

definition usable :: "role \<Rightarrow> node_row \<Rightarrow> bool" where
  "usable r n \<longleftrightarrow> nr_online n \<and> (\<exists>f. nr_offer n = Some f \<and> of_enabled f \<and> has_role (of_roles f) r)"

definition ctx_wf :: "plan_ctx \<Rightarrow> bool" where
  "ctx_wf c \<longleftrightarrow> distinct (map nr_id (cx_all c)) \<and>
     cx_eligible c = filter (\<lambda>n. nr_online n \<and> offer_enabled n) (sort_by byHost (cx_all c))"

lemma eligible_facts:
  "ctx_wf c \<Longrightarrow> n \<in> set (cx_eligible c) \<Longrightarrow> n \<in> set (cx_all c) \<and> nr_online n \<and> (\<exists>f. nr_offer n = Some f \<and> of_enabled f \<and> offer_of n = f)"
  by (auto simp: ctx_wf_def offer_of_def offer_enabled_def split: option.splits)

lemma requireNode_Some:
  "requireNode c i r m = (es, Some n) \<Longrightarrow>
   es = [] \<and> n \<in> set (cx_all c) \<and> nr_id n = i \<and> usable r n \<and> (m \<longrightarrow> has_model c n)"
  by (auto simp: requireNode_def nodeProblems_def usable_def has_model_def
      split: option.splits list.splits if_splits dest!: list_all_find)

lemma requireNode_None: "requireNode c i r m = (es, None) \<Longrightarrow> es \<noteq> []"
  by (auto simp: requireNode_def split: option.splits list.splits)

lemma chooseCoordinator_Some:
  assumes "ctx_wf c" and "chooseCoordinator c = (es, Some k)"
  shows "k \<in> set (cx_all c) \<and> usable RoleCoordinator k \<and> has_model c k"
proof (cases "sp_coordinatorNodeId (cx_spec c)")
  case None
  then have "k \<in> set (coordinatorCandidates c)"
    using assms(2) by (auto simp: chooseCoordinator_def split: list.splits)
  then show ?thesis using eligible_facts[OF assms(1), of k]
    by (auto simp: coordinatorCandidates_def usable_def)
qed (use assms(2) requireNode_Some in \<open>auto simp: chooseCoordinator_def\<close>)

definition slot_ok :: "plan_ctx \<Rightarrow> worker_slot \<Rightarrow> bool" where
  "slot_ok c s \<longleftrightarrow> ws_node s \<in> set (cx_all c) \<and> usable RoleWorker (ws_node s) \<and> offeredGpu (ws_node s) = Some (ws_gpu s)"

lemma workerSlot_facts:
  assumes "workerSlot c coord i = (es, ss)"
  shows "(\<forall>s \<in> set ss. slot_ok c s \<and> nr_id (ws_node s) = i \<and> map_option nr_id coord \<noteq> Some i) \<and> length ss \<le> 1 \<and>
    (es = [] \<longrightarrow> length ss = 1)"
  using assms requireNode_None
  by (auto simp: workerSlot_def slot_ok_def split: if_splits prod.splits option.splits dest!: requireNode_Some)

lemma requestedWorkers_facts:
  assumes "requestedWorkers c coord seen ids = (es, ss)"
  shows "(\<forall>s \<in> set ss. slot_ok c s \<and> nr_id (ws_node s) \<notin> set seen \<and> map_option nr_id coord \<noteq> Some (nr_id (ws_node s))) \<and>
    distinct (map (\<lambda>s. nr_id (ws_node s)) ss) \<and> (es = [] \<longrightarrow> map (\<lambda>s. nr_id (ws_node s)) ss = ids)"
  using assms
proof (induction c coord seen ids arbitrary: es ss rule: requestedWorkers.induct)
  case (2 c coord seen i ids)
  obtain e s where e: "(if i \<in> set seen then ([WorkerTwice i], []) else workerSlot c coord i) = (e, s)" by (meson surj_pair)
  obtain es' ss' where r: "requestedWorkers c coord (i # seen) ids = (es', ss')" by (meson surj_pair)
  have 3: "es = e @ es'" "ss = s @ ss'" using "2.prems" e r by (auto simp: Let_def)
  have s: "(\<forall>x \<in> set s. slot_ok c x \<and> nr_id (ws_node x) = i \<and> i \<notin> set seen \<and> map_option nr_id coord \<noteq> Some i) \<and>
      length s \<le> 1 \<and> (e = [] \<longrightarrow> length s = 1)"
    using e workerSlot_facts[of c coord i e s] by (auto split: if_splits)
  note ih = "2.IH"[OF e[symmetric] refl r]
  have "s = [] \<or> (\<exists>x. s = [x])" using s by (cases s) auto
  then show ?case using s ih 3 by auto
qed simp


lemma concat_slots: "\<forall>n \<in> set ns. offeredGpu n \<noteq> None \<Longrightarrow> map ws_node (concat (map slot_of ns)) = ns"
  by (induction ns) (auto simp: slot_of_def)

lemma automaticWorkers_facts:
  assumes wf: "ctx_wf c"
  shows "(\<forall>s \<in> set (automaticWorkers c coord). slot_ok c s \<and> coord \<noteq> Some (ws_node s)) \<and>
    distinct (map (\<lambda>s. nr_id (ws_node s)) (automaticWorkers c coord))"
proof -
  define ws where "ws = filter (\<lambda>n. coord \<noteq> Some n \<and> ro_worker (of_roles (offer_of n)) \<and> offeredGpu n \<noteq> None) (cx_eligible c)"
  define ns where "ns = sort_by byRtt (filter dialableDirectly ws) @ sort_by byRtt (filter (\<lambda>n. \<not> dialableDirectly n) ws)"
  have a: "automaticWorkers c coord = concat (map slot_of ns)"
    by (simp add: automaticWorkers_def ws_def ns_def Let_def)
  have nodes: "map ws_node (automaticWorkers c coord) = ns"
    unfolding a by (rule concat_slots) (auto simp: ns_def ws_def)
  have d: "distinct (cx_all c)" "inj_on nr_id (set (cx_all c))" using wf by (auto simp: ctx_wf_def distinct_map)
  have sub: "set ns \<subseteq> set (cx_all c)" using eligible_facts[OF wf] by (auto simp: ns_def ws_def)
  have "distinct (cx_eligible c)" using wf d(1) by (simp add: ctx_wf_def)
  then have "distinct ns" by (auto simp: ns_def ws_def)
  then have "distinct (map nr_id ns)" using d(2) sub by (simp add: distinct_map inj_on_subset)
  then have "distinct (map (\<lambda>s. nr_id (ws_node s)) (automaticWorkers c coord))"
    unfolding nodes[symmetric] by (simp add: comp_def)
  moreover have "slot_ok c s \<and> coord \<noteq> Some (ws_node s)" if s: "s \<in> set (automaticWorkers c coord)" for s
  proof -
    have "ws_node s \<in> set ns" using s nodes by (metis image_eqI list.set_map)
    then have n: "ws_node s \<in> set ws" by (auto simp: ns_def)
    moreover have "offeredGpu (ws_node s) = Some (ws_gpu s)"
      using s unfolding a by (auto simp: slot_of_def split: option.splits)
    ultimately show ?thesis using eligible_facts[OF wf, of "ws_node s"]
      by (auto simp: ws_def slot_ok_def usable_def)
  qed
  ultimately show ?thesis by blast
qed

definition slots_ok :: "plan_ctx \<Rightarrow> node_row \<Rightarrow> worker_slot list \<Rightarrow> bool" where
  "slots_ok c k ss \<longleftrightarrow> ss \<noteq> [] \<and> (\<forall>s \<in> set ss. slot_ok c s) \<and> distinct (nr_id k # map (\<lambda>s. nr_id (ws_node s)) ss)"

lemma chooseWorkers_facts:
  assumes wf: "ctx_wf c" and k: "k \<in> set (cx_all c)" and w: "chooseWorkers c (Some k) = ([], ss)"
  shows "slots_ok c k ss \<and>
    (sp_workerNodeIds (cx_spec c) \<noteq> Undefined \<longrightarrow> length ss = length (elems (sp_workerNodeIds (cx_spec c))))"
proof (cases "sp_workerNodeIds (cx_spec c) = Undefined")
  case True
  then have ss: "ss = automaticWorkers c (Some k)" "ss \<noteq> []"
    using w by (auto simp: chooseWorkers_def split: if_splits)
  moreover have "nr_id k \<noteq> nr_id (ws_node s)" if "s \<in> set ss" for s
  proof
    assume "nr_id k = nr_id (ws_node s)"
    moreover have "ws_node s \<in> set (cx_all c)" "ws_node s \<noteq> k"
      using automaticWorkers_facts[OF wf, of "Some k"] ss that by (auto simp: slot_ok_def)
    ultimately show False using wf k by (auto simp: ctx_wf_def distinct_map inj_on_def)
  qed
  ultimately show ?thesis using automaticWorkers_facts[OF wf, of "Some k"] True by (auto simp: slots_ok_def)
next
  case False
  then have r: "requestedWorkers c (Some k) [] (map the_str (elems (sp_workerNodeIds (cx_spec c)))) = ([], ss)" "ss \<noteq> []"
    using w by (auto simp: chooseWorkers_def Let_def split: if_splits prod.splits)
  note f = requestedWorkers_facts[OF r(1)]
  have "length ss = length (elems (sp_workerNodeIds (cx_spec c)))" using f by (metis length_map)
  then show ?thesis using f r(2) by (simp add: slots_ok_def) (metis (no_types, lifting) image_iff list.set_map)
qed

subsection \<open>Layers fit\<close>

text \<open>Offers counted in whole MiB, as \<open>validateOffer\<close> leaves them.\<close>

definition whole :: "rat \<Rightarrow> bool" where
  "whole x \<longleftrightarrow> (\<exists>n. x = of_int n \<and> n < 2 ^ 53)"

definition offer_whole :: "node_row \<Rightarrow> bool" where
  "offer_whole n \<longleftrightarrow> (\<forall>f. nr_offer n = Some f \<longrightarrow> whole (of_ramMiB f) \<and> (\<forall>g \<in> set (of_gpu f). whole (go_memMiB g)))"

definition slot_fits :: "model_profile \<Rightarrow> worker_slot \<Rightarrow> int \<Rightarrow> bool" where
  "slot_fits p s l \<longleftrightarrow> 0 \<le> l \<and> of_int (l * mp_layerMiB p + mp_workerMarginMiB p) \<le> gs_memMiB (ws_gpu s) \<and>
     (is_darwin (ws_node s) \<longrightarrow> of_int (l * mp_layerMiB p + mp_workerMarginMiB p) \<le> of_ramMiB (offer_of (ws_node s)))"

lemma layersIn_fit:
  assumes "0 < mp_layerMiB p" and "0 \<le> mp_workerMarginMiB p" and "whole mib" and "0 < layersIn p mib"
  shows "of_int (layersIn p mib * mp_layerMiB p + mp_workerMarginMiB p) \<le> mib"
proof -
  obtain n where n: "mib = of_int n" "n < 2 ^ 53" using assms(3) by (auto simp: whole_def)
  let ?a = "n - mp_workerMarginMiB p"
  have l: "layersIn p mib = \<lfloor>fl (of_int ?a / of_int (mp_layerMiB p))\<rfloor>" by (simp add: layersIn_def n)
  have "layersIn p mib * mp_layerMiB p \<le> ?a"
    unfolding l by (rule floor_fl_div) (use assms n l in auto)
  then have "layersIn p mib * mp_layerMiB p + mp_workerMarginMiB p \<le> n" by simp
  then show ?thesis unfolding n by (simp only: of_int_le_iff)
qed

lemma slot_fits_mono:
  assumes "slot_fits p s l" and "0 \<le> l'" and "l' \<le> l" and "0 \<le> mp_layerMiB p"
  shows "slot_fits p s l'"
proof -
  have "l' * mp_layerMiB p + mp_workerMarginMiB p \<le> l * mp_layerMiB p + mp_workerMarginMiB p"
    using assms(3,4) by (simp add: mult_right_mono)
  then have "(of_int (l' * mp_layerMiB p + mp_workerMarginMiB p) :: rat) \<le> of_int (l * mp_layerMiB p + mp_workerMarginMiB p)"
    by (simp only: of_int_le_iff)
  then show ?thesis using assms by (auto simp: slot_fits_def intro: order_trans)
qed

lemma ramShortfall_None:
  "ramShortfall n mib = None \<Longrightarrow> nr_offer n \<noteq> None \<Longrightarrow> is_darwin n \<Longrightarrow> of_int mib \<le> of_ramMiB (offer_of n)"
  by (auto simp: ramShortfall_def offer_of_def split: option.splits if_splits)

lemma offeredGpuLoop_mem: "offeredGpuLoop gs os = Some g \<Longrightarrow> \<exists>x \<in> set os. gs_memMiB g = go_memMiB x \<and> gs_id g = go_id x"
  by (induction gs os rule: offeredGpuLoop.induct) (auto split: option.splits if_splits dest!: list_all_find)

lemma offeredGpu_whole: "offeredGpu n = Some g \<Longrightarrow> offer_whole n \<Longrightarrow> whole (gs_memMiB g)"
  by (auto simp: offeredGpu_def offer_gpus_def offer_whole_def split: option.splits dest!: offeredGpuLoop_mem)

lemma fitBlocks_Nil:
  assumes "fitBlocks p s = []" and "0 < mp_layerMiB p" and "0 \<le> mp_workerMarginMiB p"
    and "whole (gs_memMiB (ws_gpu s))" and "nr_offer (ws_node s) \<noteq> None"
  shows "1 \<le> maxFitLayers s p \<and> slot_fits p s (maxFitLayers s p)"
proof -
  have f: "1 \<le> maxFitLayers s p"
    and r: "ramShortfall (ws_node s) (maxFitLayers s p * mp_layerMiB p + mp_workerMarginMiB p) = None"
    using assms(1) by (auto simp: fitBlocks_def Let_def split: if_splits)
  let ?l = "layersIn p (gs_memMiB (ws_gpu s))"
  have le: "maxFitLayers s p \<le> ?l" "0 < ?l" using f by (auto simp: maxFitLayers_def)
  have "maxFitLayers s p * mp_layerMiB p + mp_workerMarginMiB p \<le> ?l * mp_layerMiB p + mp_workerMarginMiB p"
    using le(1) assms(2) by (simp add: mult_right_mono)
  then have "(of_int (maxFitLayers s p * mp_layerMiB p + mp_workerMarginMiB p) :: rat) \<le> of_int (?l * mp_layerMiB p + mp_workerMarginMiB p)"
    by (simp only: of_int_le_iff)
  also have "\<dots> \<le> gs_memMiB (ws_gpu s)" using assms(2-4) le(2) by (intro layersIn_fit)
  finally show ?thesis using f ramShortfall_None[OF r assms(5)] by (auto simp: slot_fits_def)
qed


lemma maxIndex_facts:
  assumes "i < length ls" and "\<forall>j \<in> set js. j < length ls"
  shows "maxIndex ls i js < length ls \<and> ls ! i \<le> ls ! maxIndex ls i js \<and> (\<forall>j \<in> set js. ls ! j \<le> ls ! maxIndex ls i js)"
  using assms
proof (induction ls i js rule: maxIndex.induct)
  case (2 ls i j js)
  then show ?case by (auto split: if_splits)
qed simp

lemma maxIndex_max:
  assumes "ls \<noteq> []"
  shows "maxIndex ls 0 [1..<length ls] < length ls" and "x \<in> set ls \<Longrightarrow> x \<le> ls ! maxIndex ls 0 [1..<length ls]"
proof -
  note f = maxIndex_facts[of 0 ls "[1..<length ls]"]
  show "maxIndex ls 0 [1..<length ls] < length ls" using f assms by auto
  assume "x \<in> set ls"
  then obtain j where "j < length ls" "x = ls ! j" by (auto simp: in_set_conv_nth)
  then show "x \<le> ls ! maxIndex ls 0 [1..<length ls]" using f assms by (cases "j = 0") auto
qed

lemma sum_nonpos: "\<forall>x \<in> set xs. x \<le> (0::int) \<Longrightarrow> sum_list xs \<le> 0"
  by (induction xs) auto

lemma shave_facts:
  assumes "1 \<le> layers" and "\<forall>x \<in> set ls. 0 \<le> x"
  shows "sum_list (shave layers ls) \<le> layers - 1 \<and> length (shave layers ls) = length ls \<and>
    list_all2 (\<lambda>a b. 0 \<le> a \<and> a \<le> b) (shave layers ls) ls"
  using assms
proof (induction layers ls rule: shave.induct)
  case (1 layers ls)
  show ?case
  proof (cases "ls \<noteq> [] \<and> layers - 1 < sum_list ls")
    case True
    let ?i = "maxIndex ls 0 [1..<length ls]"
    let ?ls = "ls[?i := ls ! ?i - 1]"
    have i: "?i < length ls" and mx: "\<forall>x \<in> set ls. x \<le> ls ! ?i" using True maxIndex_max[of ls] by auto
    have "0 < ls ! ?i"
    proof (rule ccontr)
      assume "\<not> 0 < ls ! ?i"
      then have "sum_list ls \<le> 0" using mx by (intro sum_nonpos) force
      then show False using True "1.prems"(1) by simp
    qed
    then have nn: "\<forall>x \<in> set ?ls. 0 \<le> x" using "1.prems"(2) by (auto dest: set_update_subset_insert[THEN subsetD])
    have step: "shave layers ls = shave layers ?ls" using True by (subst shave.simps) (simp add: Let_def)
    have le: "list_all2 (\<lambda>a b. a \<le> b) ?ls ls"
      using i by (auto simp: list_all2_conv_all_nth nth_list_update)
    note ih = "1.IH"[OF True refl "1.prems"(1) nn]
    have "list_all2 (\<lambda>a b. 0 \<le> a \<and> a \<le> b) (shave layers ?ls) ls"
      by (rule list_all2_trans[OF _ _ le, where ?P1.0 = "\<lambda>a b. 0 \<le> a \<and> a \<le> b"]) (use ih in auto)
    then show ?thesis using ih unfolding step by simp
  next
    case False
    then have "shave layers ls = ls" by (subst shave.simps) (simp only: if_False)
    then show ?thesis using False "1.prems" by (auto simp: list_all2_same)
  qed
qed

text \<open>What \<open>planSplit\<close> needs of the request once \<open>planDeployment\<close> has checked it.\<close>

definition counts_ok :: "plan_ctx \<Rightarrow> bool" where
  "counts_ok c \<longleftrightarrow> sp_workerLayers (cx_spec c) \<noteq> Undefined \<longrightarrow>
     sp_workerNodeIds (cx_spec c) \<noteq> Undefined \<and>
     length (requestedCounts (cx_spec c)) = length (elems (sp_workerNodeIds (cx_spec c))) \<and>
     (\<forall>n \<in> set (requestedCounts (cx_spec c)). 1 \<le> n)"

definition profile_ok :: "model_profile \<Rightarrow> bool" where
  "profile_ok p \<longleftrightarrow> 1 \<le> mp_layers p \<and> 1 \<le> mp_layerMiB p \<and> 0 \<le> mp_workerMarginMiB p \<and>
     (\<forall>r \<in> set (mp_envelope p). 1 \<le> er_workerLayers r)"

lemma countErrors_fits:
  assumes "countErrors c s n = []" and "nr_offer (ws_node s) \<noteq> None" and "1 \<le> n"
  shows "slot_fits (cx_profile c) s n"
proof -
  have r: "ramShortfall (ws_node s) k \<in> {None} \<union> {Some (RamShort h a b) | h a b. True}" for k
    by (auto simp: ramShortfall_def split: option.splits)
  show ?thesis
    using assms ramShortfall_None[OF _ assms(2)] r[of "n * mp_layerMiB (cx_profile c) + mp_workerMarginMiB (cx_profile c)"]
    by (auto simp: countErrors_def Let_def slot_fits_def simp del: of_int_add of_int_mult split: if_splits)
qed

lemma fixedBlocks_fits:
  assumes "fixedBlocks p row s = []" and "nr_offer (ws_node s) \<noteq> None" and "1 \<le> er_workerLayers row"
  shows "slot_fits p s (er_workerLayers row)"
  using assms ramShortfall_None[OF _ assms(2)]
  by (auto simp: fixedBlocks_def Let_def slot_fits_def simp del: of_int_add of_int_mult split: if_splits)

lemma slot_ok_offer: "slot_ok c s \<Longrightarrow> nr_offer (ws_node s) \<noteq> None"
  by (auto simp: slot_ok_def usable_def)

lemma set_sortedRows: "set (sortedRows p) = set (mp_envelope p)"
  by (force simp: sortedRows_def indexed_def set_zip in_set_conv_nth image_iff)

lemma chooseRow_Some:
  "chooseRow c slots = (es, Some row) \<Longrightarrow> es = [] \<and> row \<in> set (mp_envelope (cx_profile c)) \<and> rowBlocks c slots row = []"
  using set_sortedRows by (auto simp: chooseRow_def Let_def split: option.splits dest!: list_all_find)

lemma chooseRow_None: "chooseRow c slots = (es, None) \<Longrightarrow> es \<noteq> []"
  by (auto simp: chooseRow_def Let_def split: option.splits)

definition layers_ok :: "model_profile \<Rightarrow> worker_slot list \<Rightarrow> int list \<Rightarrow> bool" where
  "layers_ok p ss ls \<longleftrightarrow> list_all2 (slot_fits p) ss ls \<and> sum_list ls \<le> mp_layers p - 1"

lemma automaticLayers_ok:
  assumes "profile_ok (cx_profile c)" and ok: "\<forall>s \<in> set ss. slot_ok c s \<and> offer_whole (ws_node s)"
    and "chooseRow c ss = (es, Some row)"
  shows "layers_ok (cx_profile c) ss (automaticLayers c ss row)"
proof -
  let ?p = "cx_profile c"
  have p: "1 \<le> mp_layers ?p" "0 < mp_layerMiB ?p" "0 \<le> mp_workerMarginMiB ?p" using assms(1) by (auto simp: profile_ok_def)
  have row: "row \<in> set (mp_envelope ?p)" "rowBlocks c ss row = []" using chooseRow_Some[OF assms(3)] by auto
  have w: "1 \<le> er_workerLayers row" using assms(1) row(1) by (auto simp: profile_ok_def)
  show ?thesis
  proof (cases "er_maxFit row")
    case True
    have fit: "1 \<le> maxFitLayers s ?p \<and> slot_fits ?p s (maxFitLayers s ?p)" if "s \<in> set ss" for s
    proof -
      have "fitBlocks ?p s = []" using row(2) True that by (auto simp: rowBlocks_def Let_def)
      moreover have "whole (gs_memMiB (ws_gpu s))" "nr_offer (ws_node s) \<noteq> None"
        using ok that offeredGpu_whole slot_ok_offer by (auto simp: slot_ok_def)
      ultimately show ?thesis using p by (intro fitBlocks_Nil)
    qed
    let ?ls = "map (\<lambda>s. maxFitLayers s ?p) ss"
    have sh: "sum_list (shave (mp_layers ?p) ?ls) \<le> mp_layers ?p - 1" "length (shave (mp_layers ?p) ?ls) = length ss"
      "list_all2 (\<lambda>a b. 0 \<le> a \<and> a \<le> b) (shave (mp_layers ?p) ?ls) ?ls"
      using shave_facts[of "mp_layers ?p" ?ls] p(1) fit by (auto simp: order_trans[of 0 1])
    have "slot_fits ?p (ss ! j) (shave (mp_layers ?p) ?ls ! j)" if "j < length ss" for j
    proof (rule slot_fits_mono)
      show "slot_fits ?p (ss ! j) (maxFitLayers (ss ! j) ?p)" using fit that by simp
      show "0 \<le> shave (mp_layers ?p) ?ls ! j" "shave (mp_layers ?p) ?ls ! j \<le> maxFitLayers (ss ! j) ?p"
        using list_all2_nthD2[OF sh(3), of j] that by auto
    qed (use p in simp)
    then show ?thesis using sh True by (simp add: automaticLayers_def layers_ok_def list_all2_conv_all_nth)
  next
    case False
    have "slot_fits ?p s (er_workerLayers row)" if "s \<in> set ss" for s
    proof (rule fixedBlocks_fits)
      show "fixedBlocks ?p row s = []" using row(2) False that by (auto simp: rowBlocks_def Let_def)
    qed (use ok that w slot_ok_offer in auto)
    moreover have "er_workerLayers row * int (length ss) \<le> mp_layers ?p - 1"
      using row(2) False by (auto simp: rowBlocks_def Let_def split: if_splits)
    moreover have "sum_list (map (\<lambda>_. er_workerLayers row) ss) = er_workerLayers row * int (length ss)"
      by (induction ss) (auto simp: algebra_simps)
    ultimately show ?thesis using False
      by (simp add: automaticLayers_def layers_ok_def list_all2_conv_all_nth)
  qed
qed

subsection \<open>Orders\<close>

lemma byHost_sign: "sign_comparator byHost"
  using cmp_then_sign[OF cmp_str_sign cmp_str_sign] by (simp add: byHost_def[abs_def])

interpretation host_order: sign_comparator byHost
  by (rule byHost_sign)

lemma byRowLayers_sign: "sign_comparator byRowLayers"
proof -
  have "sign_comparator (\<lambda>a b :: nat \<times> envelope_row. - er_workerLayers (snd a) - - er_workerLayers (snd b))"
    by (rule cmp_num_sign)
  then have "sign_comparator (\<lambda>a b :: nat \<times> envelope_row. er_workerLayers (snd b) - er_workerLayers (snd a))"
    by (simp add: algebra_simps)
  from cmp_then_sign[OF this cmp_num_sign] show ?thesis by (simp add: byRowLayers_def)
qed

interpretation row_order: sign_comparator byRowLayers
  by (rule byRowLayers_sign)

lemma chooseRow_most:
  assumes "chooseRow c slots = (es, Some row)" and r: "r \<in> set (mp_envelope (cx_profile c))" "rowBlocks c slots r = []"
  shows "er_workerLayers r \<le> er_workerLayers row"
proof -
  let ?xs = "sort_by byRowLayers (indexed (mp_envelope (cx_profile c)))"
  have "sorted_wrt (\<lambda>x y. er_workerLayers y \<le> er_workerLayers x) (map snd ?xs)"
    unfolding sorted_wrt_map
    by (rule sorted_wrt_mono_rel[OF _ row_order.sort_by_sorted[of "indexed (mp_envelope (cx_profile c))"]])
      (auto simp: byRowLayers_def cmp_then_def split: if_splits)
  moreover have "find (\<lambda>row. rowBlocks c slots row = []) (map snd ?xs) = Some row"
    using assms(1) by (auto simp: chooseRow_def Let_def sortedRows_def split: option.splits)
  moreover have "r \<in> set (map snd ?xs)"
    using r(1) by (force simp: indexed_def set_zip in_set_conv_nth image_iff)
  ultimately show ?thesis using sorted_find_first r(2) by fastforce
qed

subsection \<open>A split plan is placed on what the nodes offer\<close>

lemma zip_concat_Nil:
  "concat (map (\<lambda>(s, n). f s n) (zip ss ns)) = [] \<Longrightarrow> length ss = length ns \<Longrightarrow> list_all2 (\<lambda>s n. f s n = []) ss ns"
  by (auto simp: list_all2_iff)

lemma requestedLayers_ok:
  assumes "requestedLayers c ss = ([], ls)" and ok: "\<forall>s \<in> set ss. slot_ok c s"
    and "counts_ok c" and "sp_workerLayers (cx_spec c) \<noteq> Undefined"
    and "length ss = length (elems (sp_workerNodeIds (cx_spec c)))"
  shows "layers_ok (cx_profile c) ss ls"
proof -
  have ls: "ls = requestedCounts (cx_spec c)" and s: "sum_list ls \<le> mp_layers (cx_profile c) - 1"
    and e: "concat (map (\<lambda>(s, n). countErrors c s n) (zip ss ls)) = []"
    using assms(1) by (auto simp: requestedLayers_def Let_def split: if_splits)
  have len: "length ss = length ls" and pos: "\<forall>n \<in> set ls. 1 \<le> n"
    using assms(3-5) ls by (auto simp: counts_ok_def)
  note e' = zip_concat_Nil[OF e len]
  have "slot_fits (cx_profile c) (ss ! j) (ls ! j)" if "j < length ss" for j
  proof (rule countErrors_fits)
    show "countErrors c (ss ! j) (ls ! j) = []" using list_all2_nthD[OF e'] that by simp
    show "nr_offer (ws_node (ss ! j)) \<noteq> None" using ok that slot_ok_offer[of c "ss ! j"] by simp
    show "1 \<le> ls ! j" using pos that len by simp
  qed
  then show ?thesis using s len by (simp add: layers_ok_def list_all2_conv_all_nth)
qed

lemma splitLayers_ok:
  assumes "splitLayers c e ss = Inr ls" and wf: "ctx_wf c" "counts_ok c" "profile_ok (cx_profile c)"
    and whole: "\<forall>n \<in> set (cx_all c). offer_whole n"
    and ss: "slots_ok c k ss"
    and len: "sp_workerNodeIds (cx_spec c) \<noteq> Undefined \<longrightarrow> length ss = length (elems (sp_workerNodeIds (cx_spec c)))"
  shows "layers_ok (cx_profile c) ss ls"
proof (cases "sp_workerLayers (cx_spec c) = Undefined")
  case True
  then obtain es row where r: "chooseRow c ss = (es, Some row)" "ls = automaticLayers c ss row"
    using assms(1) by (auto simp: splitLayers_def split: prod.splits option.splits)
  show ?thesis unfolding r(2) using wf ss whole r(1)
    by (intro automaticLayers_ok) (auto simp: slots_ok_def slot_ok_def)
next
  case False
  then have "requestedLayers c ss = ([], ls)"
    using assms(1) by (auto simp: splitLayers_def split: prod.splits if_splits)
  then show ?thesis using wf ss len False by (intro requestedLayers_ok) (auto simp: slots_ok_def counts_ok_def)
qed

text \<open>The specification: what a node must offer to carry its part of the model.\<close>

definition resident_fits :: "model_profile \<Rightarrow> node_row \<Rightarrow> int \<Rightarrow> bool" where
  "resident_fits p n layers \<longleftrightarrow>
     (let ram = of_ramMiB (offer_of n); w = layers * mp_layerMiB p; h = mp_coordinatorHostMiB p in
      if is_darwin n then of_int (w + h) \<le> ram
      else case offeredGpu n of
             Some g \<Rightarrow> of_int w \<le> gs_memMiB g \<and> of_int h \<le> ram
           | None \<Rightarrow> usableGpus (caps_gpus n) = [] \<and> of_int (w + h) \<le> ram)"

definition worker_placed :: "plan_ctx \<Rightarrow> plan_worker \<Rightarrow> bool" where
  "worker_placed c w \<longleftrightarrow> (\<exists>s. slot_ok c s \<and> nr_id (ws_node s) = pw_nodeId w \<and>
     pw_device w = gs_engineName (ws_gpu s) \<and> pw_memCapMiB w = gs_memMiB (ws_gpu s) \<and>
     slot_fits (cx_profile c) s (pw_layers w) \<and>
     port_free (map_of (cx_usedPorts c) (pw_nodeId w)) (pw_port w) \<and> pw_port w + 1 < 65536)"

definition split_placed :: "plan_ctx \<Rightarrow> plan \<Rightarrow> bool" where
  "split_placed c pl \<longleftrightarrow>
     (\<exists>k \<in> set (cx_all c). nr_id k = pl_coordinatorNodeId pl \<and> usable RoleCoordinator k \<and> has_model c k \<and>
        resident_fits (cx_profile c) k (last (pl_tensorSplit pl))) \<and>
     (\<forall>w \<in> set (pl_workers pl). worker_placed c w) \<and> pl_workers pl \<noteq> [] \<and>
     distinct (pl_coordinatorNodeId pl # map pw_nodeId (pl_workers pl)) \<and>
     butlast (pl_tensorSplit pl) = map pw_layers (pl_workers pl) \<and>
     sum_list (pl_tensorSplit pl) = mp_layers (cx_profile c) \<and> 1 \<le> last (pl_tensorSplit pl)"

lemma placeResident_fits: "placeResident c n l = ([], d) \<Longrightarrow> resident_fits (cx_profile c) n l"
  by (auto simp: placeResident_def resident_fits_def Let_def split: if_splits option.splits)

lemma planWorker_facts:
  assumes "planWorker c f (s, l) = Inr w"
  shows "pw_nodeId w = nr_id (ws_node s) \<and> pw_layers w = l \<and>
    (slot_ok c s \<and> slot_fits (cx_profile c) s l \<longrightarrow> worker_placed c w)"
proof -
  obtain p where p: "pickPort (map_of (cx_usedPorts c) (nr_id (ws_node s))) = Inr p"
    using assms by (auto simp: planWorker_def try_bind_Inr)
  show ?thesis using assms p pickPort_free[OF p]
    by (auto simp: planWorker_def worker_placed_def)
qed

lemma planSplit_Inr:
  assumes "planSplit c = Inr pl"
  obtains k ss mtp ls device ws where "chooseCoordinator c = ([], Some k)" and "chooseWorkers c (Some k) = ([], ss)"
    and "splitLayers c [] ss = Inr ls" and "placeResident c k (mp_layers (cx_profile c) - sum_list ls) = ([], device)"
    and "draftHead c k = ([], mtp)"
    and "try_map (planWorker c (sp_forwarding (cx_spec c) \<noteq> Some False \<and> 1 < length ss)) (zip ss ls) = Inr ws"
    and "pl = splitPlan c k device mtp ls ws"
proof -
  obtain e1 e2 e3 k ss mtp where 1: "chooseCoordinator c = (e1, Some k)" "chooseWorkers c (Some k) = (e2, ss)"
    "e1 @ e2 = []" "draftHead c k = (e3, mtp)"
    using assms by (auto simp: planSplit_def split: prod.splits option.splits if_splits)
  then obtain ls where 2: "splitLayers c e3 ss = Inr ls" using assms by (auto simp: planSplit_def try_bind_Inr)
  obtain e4 device where 3: "placeResident c k (mp_layers (cx_profile c) - sum_list ls) = (e4, device)" by (meson surj_pair)
  obtain ws where "e3 = []" "e4 = []" "pl = splitPlan c k device mtp ls ws"
    "try_map (planWorker c (sp_forwarding (cx_spec c) \<noteq> Some False \<and> 1 < length ss)) (zip ss ls) = Inr ws"
    using assms 1 2 3 by (auto simp: planSplit_def try_bind_Inr split: if_splits)
  then show thesis using 1 2 3 by (intro that[of k ss ls device mtp ws]) auto
qed

lemma planned_workers:
  assumes "try_map (planWorker c f) (zip ss ls) = Inr ws" and "layers_ok (cx_profile c) ss ls"
    and ok: "\<forall>s \<in> set ss. slot_ok c s"
  shows "map pw_layers ws = ls \<and> map pw_nodeId ws = map (\<lambda>s. nr_id (ws_node s)) ss \<and> (\<forall>w \<in> set ws. worker_placed c w)"
proof -
  have len: "length ss = length ls" and fit: "list_all2 (slot_fits (cx_profile c)) ss ls"
    using assms(2) by (auto simp: layers_ok_def list_all2_lengthD)
  have w: "list_all2 (\<lambda>x y. planWorker c f x = Inr y) (zip ss ls) ws" using assms(1) by (simp add: try_map_Inr)
  have lw: "length ws = length ss" using len list_all2_lengthD[OF w] by simp
  have each: "pw_nodeId (ws ! j) = nr_id (ws_node (ss ! j)) \<and> pw_layers (ws ! j) = ls ! j \<and> worker_placed c (ws ! j)"
    if "j < length ss" for j
    using planWorker_facts[of c f "ss ! j" "ls ! j" "ws ! j"] list_all2_nthD[OF w, of j] list_all2_nthD[OF fit, of j] ok that len
    by simp
  have "\<forall>w \<in> set ws. worker_placed c w" using each lw by (auto simp: in_set_conv_nth)
  moreover have "map pw_layers ws = ls" "map pw_nodeId ws = map (\<lambda>s. nr_id (ws_node s)) ss"
    using each lw len by (auto intro!: nth_equalityI)
  ultimately show ?thesis by blast
qed

lemma planSplit_placed:
  assumes "planSplit c = Inr pl" and wf: "ctx_wf c" "counts_ok c" "profile_ok (cx_profile c)"
    and whole: "\<forall>n \<in> set (cx_all c). offer_whole n"
  shows "split_placed c pl"
proof (rule planSplit_Inr[OF assms(1)])
  fix k ss mtp ls device ws
  assume k: "chooseCoordinator c = ([], Some k)" and s: "chooseWorkers c (Some k) = ([], ss)"
    and l: "splitLayers c [] ss = Inr ls" and r: "placeResident c k (mp_layers (cx_profile c) - sum_list ls) = ([], device)"
    and w: "try_map (planWorker c (sp_forwarding (cx_spec c) \<noteq> Some False \<and> 1 < length ss)) (zip ss ls) = Inr ws"
    and pl: "pl = splitPlan c k device mtp ls ws"
  have kk: "k \<in> set (cx_all c)" "usable RoleCoordinator k" "has_model c k" using chooseCoordinator_Some[OF wf(1) k] by auto
  note ss = chooseWorkers_facts[OF wf(1) kk(1) s]
  have lo: "layers_ok (cx_profile c) ss ls" using ss by (intro splitLayers_ok[OF l wf whole, of k]) auto
  have ws: "map pw_layers ws = ls" "map pw_nodeId ws = map (\<lambda>s. nr_id (ws_node s)) ss" "\<forall>x \<in> set ws. worker_placed c x"
    using planned_workers[OF w lo] ss by (auto simp: slots_ok_def)
  have "ws \<noteq> []" using ws(2) ss by (auto simp: slots_ok_def)
  then show ?thesis using kk ws ss lo placeResident_fits[OF r] pl
    by (auto simp: split_placed_def splitPlan_def Let_def slots_ok_def layers_ok_def simp flip: ws(2))
qed

text \<open>A replica carries the whole model.\<close>

definition replica_placed :: "plan_ctx \<Rightarrow> plan \<Rightarrow> bool" where
  "replica_placed c pl \<longleftrightarrow> pl_workers pl = [] \<and> pl_tensorSplit pl = [] \<and>
     (\<exists>n \<in> set (cx_all c). nr_id n = pl_coordinatorNodeId pl \<and> usable RoleReplica n \<and>
        resident_fits (cx_profile c) n (mp_layers (cx_profile c)) \<and>
        (\<exists>m. findModel n (cx_gguf c) = Some m \<and> pl_modelPath pl = mf_path m))"

lemma chooseReplica_Some:
  assumes "ctx_wf c" and "chooseReplica c = (es, Some n)"
  shows "n \<in> set (cx_all c) \<and> usable RoleReplica n \<and> has_model c n"
proof (cases "sp_replicaNodeId (cx_spec c)")
  case None
  then have "n \<in> set (cx_eligible c)" "ro_replica (of_roles (offer_of n))" "findModel n (cx_gguf c) \<noteq> None"
    using assms(2) by (auto simp: chooseReplica_def split: option.splits dest!: list_all_find)
  then show ?thesis using eligible_facts[OF assms(1), of n] by (auto simp: usable_def has_model_def)
qed (use assms(2) requireNode_Some in \<open>auto simp: chooseReplica_def\<close>)

lemma planReplica_placed:
  assumes "planReplica c = Inr pl" and "ctx_wf c"
  shows "replica_placed c pl"
proof -
  obtain e1 n e2 mtp e3 d where n: "chooseReplica c = (e1, Some n)" and h: "draftHead c n = (e2, mtp)"
    and r: "placeResident c n (mp_layers (cx_profile c)) = (e3, d)"
    using assms(1) by (auto simp: planReplica_def split: prod.splits option.splits)
  then have e: "e3 = []" and f: "pl_coordinatorNodeId pl = nr_id n" "pl_workers pl = []" "pl_tensorSplit pl = []"
    "pl_modelPath pl = model_path c n"
    using assms(1) by (auto simp: planReplica_def split: if_splits)
  show ?thesis using chooseReplica_Some[OF assms(2) n] placeResident_fits[of c n] r f unfolding e
    by (auto simp: replica_placed_def has_model_def model_path_def intro!: bexI[of _ n])
qed

lemma pickPort_example: "pickPort (Some [50200]) = Inr 50210"
  by code_simp

theorem pickPort_first_free_witness:
  "pickPort (Some [50200]) = Inr 50210 \<and> port_free (Some [50200]) 50210 \<and> \<not> port_free (Some [50200]) 50200"
proof -
  have "\<not> port_free (Some [50200]) (50200 + 10 * int 0)"
    using pickPort_first_free[of "Some [50200]"] unfolding pickPort_example sum.case by (elim conjE allE[of _ 0]) simp
  then show ?thesis using pickPort_first_free[of "Some [50200]"] by (simp add: pickPort_example)
qed

end
