(* ===== verification/Placement.thy ===== *)
theory Placement
  imports Planner
begin

text \<open>
  The native half of \<^verbatim>\<open>src/swarmlet/control/planner.ts\<close> (stage chains and prefill/decode pairs on
  qualified artifacts, with the records of \<^verbatim>\<open>src/swarmlet/control/profiles/qwen35-native.ts\<close>) and
  \<open>planDeployment\<close>, which checks the request and dispatches. The regular expressions of profiles (\<open>rx\<close>) and
  \<open>localeCompare\<close> (\<open>lc\<close>) are parameters. A qualification is a typed record: only its numbers can be
  malformed. \<open>basename\<close> is the POSIX one.
\<close>

record qualified_artifact =
  qa_name :: string
  qa_sha256 :: string
  qa_start :: rat
  qa_end :: rat

record qualified_endpoint =
  qe_artifact :: qualified_artifact
  qe_binarySha256 :: string

record qualification =
  qq_mode :: native_mode
  qq_sourceSha256 :: string
  qq_sourceSizeBytes :: rat
  qq_engine :: string
  qq_ctx :: rat
  qq_workspaceMiB :: rat
  qq_hostMiB :: rat
  qq_endpoints :: "qualified_endpoint list"
  qq_evidenceSha256 :: string

subsection \<open>The controller's own records\<close>

definition proof_record :: "native_mode \<Rightarrow> qualified_endpoint list \<Rightarrow> qualification" where
  "proof_record mode es =
     \<lparr>qq_mode = mode,
      qq_sourceSha256 = ''1b04acba824817554f4ce23639bc8495ff70453b8fcb047900c731521021f2c1'',
      qq_sourceSizeBytes = 2012012800,
      qq_engine = ''fefcec450d5b009e1f6fd2853c892e7d4be45d6a765ce9f7207d94e9589f9a3c'',
      qq_ctx = 1024, qq_workspaceMiB = 512, qq_hostMiB = 3072, qq_endpoints = es,
      qq_evidenceSha256 = ''5bddb3bec4a3bd437af76f8dd3b045e5e73fbbc9365bb725e6780d34d5ea3d79''\<rparr>"

definition metal :: string where
  "metal = ''0121c1cbb375040fa78a16f19f71b6b40bd95804831b1f3638b71dc73f30d430''"

definition cuda :: string where
  "cuda = ''35b5bcf5c7740390465193df9efb837d5a5cb77ec089fdd43bb6d70d25ed2b64''"

definition full_artifact :: qualified_artifact where
  "full_artifact = \<lparr>qa_name = ''Qwen3.5-2B-Q8_0.gguf'',
     qa_sha256 = ''1b04acba824817554f4ce23639bc8495ff70453b8fcb047900c731521021f2c1'', qa_start = 0, qa_end = 24\<rparr>"

definition first_artifact :: qualified_artifact where
  "first_artifact = \<lparr>qa_name = ''stage-0-3.gguf'',
     qa_sha256 = ''c57aea57890507cc8baf08691349ad6be21052fa1611f56974f41b2946c01e46'', qa_start = 0, qa_end = 3\<rparr>"

definition middle_artifact :: qualified_artifact where
  "middle_artifact = \<lparr>qa_name = ''stage-3-6.gguf'',
     qa_sha256 = ''f979c19916871ac08ce9f37d55c19513b35db1773a086feed4def9eaa0028593'', qa_start = 3, qa_end = 6\<rparr>"

definition last21 :: qualified_artifact where
  "last21 = \<lparr>qa_name = ''stage-3-24.gguf'',
     qa_sha256 = ''228c3c76c249a24da4746afe76d7144bdb4f12b2520f8acc2e863766f9227f6b'', qa_start = 3, qa_end = 24\<rparr>"

definition last18 :: qualified_artifact where
  "last18 = \<lparr>qa_name = ''stage-6-24.gguf'',
     qa_sha256 = ''d1baa07f6abececc46f9fe31212448a26933b79aa3bac2285e4e1241272fa40c'', qa_start = 6, qa_end = 24\<rparr>"

definition endpoint :: "qualified_artifact \<Rightarrow> string \<Rightarrow> qualified_endpoint" where
  "endpoint a b = \<lparr>qe_artifact = a, qe_binarySha256 = b\<rparr>"

definition QWEN35_NATIVE_QUALIFICATIONS :: "qualification list" where
  "QWEN35_NATIVE_QUALIFICATIONS =
     [proof_record ModeStages [endpoint first_artifact cuda, endpoint last21 metal],
      proof_record ModeStages [endpoint first_artifact cuda, endpoint middle_artifact cuda, endpoint last18 metal],
      proof_record ModePrefillDecode [endpoint full_artifact metal, endpoint full_artifact cuda],
      proof_record ModePrefillDecode [endpoint full_artifact cuda, endpoint full_artifact metal]]"

subsection \<open>Checking a native request\<close>

text \<open>\<open>basename\<close> of \<open>node:path\<close>: the last component, trailing slashes ignored.\<close>

definition basename :: "string \<Rightarrow> string" where
  "basename s = rev (takeWhile (\<lambda>c. c \<noteq> CHR ''/'') (dropWhile (\<lambda>c. c = CHR ''/'') (rev s)))"

fun js_is_integer :: "jsv \<Rightarrow> bool" where
  "js_is_integer (Num (Fin r)) = is_integer r"
| "js_is_integer _ = False"

definition sha_field :: "jsv \<Rightarrow> bool" where
  "sha_field v \<longleftrightarrow> isStr v \<and> sha256_hex (the_str v)"

definition stageEntryErrors :: "nat \<Rightarrow> jsv \<Rightarrow> jsv \<Rightarrow> string list \<Rightarrow> native_request_refusal list" where
  "stageEntryErrors i s endp nodes =
     err_if (\<not> isStr (getp s ''nodeId'') \<or> the_str (getp s ''nodeId'') = [] \<or> the_str (getp s ''nodeId'') \<in> set nodes) (StageNode i) @
     err_if (\<not> isStr (getp s ''modelPath'') \<or> the_str (getp s ''modelPath'') = [] \<or> \<not> sha_field (getp s ''modelSha256'')) (StageModel i) @
     err_if (\<not> js_is_integer (getp s ''start'') \<or> \<not> js_is_integer (getp s ''end'') \<or> \<not> strict_eq (getp s ''start'') endp \<or>
       the_rat (getp s ''end'') \<le> the_rat (getp s ''start'') \<or> 24 < the_rat (getp s ''end'')) (StageRange i)"

fun stageListErrors :: "nat \<Rightarrow> jsv \<Rightarrow> string list \<Rightarrow> jsv list \<Rightarrow> native_request_refusal list" where
  "stageListErrors i endp nodes [] = err_if (\<not> strict_eq endp (num_int 24)) StagesNotCovering"
| "stageListErrors i endp nodes (s # ss) =
     (if \<not> isObj s \<or> \<not> only_keys s [''nodeId'', ''modelPath'', ''modelSha256'', ''start'', ''end'']
      then StageFields i # stageListErrors (Suc i) endp nodes ss
      else stageEntryErrors i s endp nodes @
           stageListErrors (Suc i) (getp s ''end'')
             (if isStr (getp s ''nodeId'') \<and> the_str (getp s ''nodeId'') \<noteq> [] \<and> the_str (getp s ''nodeId'') \<notin> set nodes
              then the_str (getp s ''nodeId'') # nodes else nodes) ss)"

definition phaseNodeErrors :: "deployment_spec \<Rightarrow> native_request_refusal list" where
  "phaseNodeErrors spec =
     (let p = sp_prefillNodeId spec; d = sp_decodeNodeId spec;
          hasPrefill = (isStr p \<and> the_str p \<noteq> []); hasDecode = (isStr d \<and> the_str d \<noteq> []) in
      (if hasPrefill \<noteq> hasDecode then [PhasePairIncomplete]
       else if hasPrefill \<and> strict_eq p d then [PhaseNodesEqual] else []) @
      err_if (sp_modelSha256 spec \<noteq> Undefined \<and> \<not> sha_field (sp_modelSha256 spec)) BadModelSha)"

definition native_keys :: "deployment_kind \<Rightarrow> string list" where
  "native_keys k = [''name'', ''profile'', ''kind'', ''ctx'', ''parallel'', ''chain'', ''transport''] @
     (if k = Stages then [''stages''] else [''prefillNodeId'', ''decodeNodeId'', ''modelSha256''])"

definition nativeRequestErrors :: "deployment_spec \<Rightarrow> js_number \<Rightarrow> js_number \<Rightarrow> js_number \<Rightarrow> native_request_refusal list" where
  "nativeRequestErrors spec ctx parallel chain =
     map NativeField (filter (\<lambda>k. k \<notin> set (native_keys (sp_kind spec))) (sp_keys spec)) @
     err_if (sp_profile spec \<noteq> ''qwen35-2b-q8'') NativeProfileOnly @
     err_if (ctx \<noteq> Fin 1024 \<or> parallel \<noteq> Fin 1 \<or> chain \<noteq> Fin 0) NativeLimits @
     err_if (sp_transport spec \<noteq> None \<and> sp_transport spec \<noteq> Some ''relay'') NativeTransport @
     (if sp_kind spec = Stages
      then if \<not> is_arr (sp_stages spec) \<or> length (elems (sp_stages spec)) \<notin> {2, 3} then [StagesNotTwoOrThree]
           else stageListErrors 0 (num_int 0) [] (elems (sp_stages spec))
      else phaseNodeErrors spec)"

subsection \<open>Qualifications\<close>

fun endpointsValid :: "qualification \<Rightarrow> rat \<Rightarrow> qualified_endpoint list \<Rightarrow> bool" where
  "endpointsValid q endp [] = (qq_mode q \<noteq> ModeStages \<or> endp = 24)"
| "endpointsValid q endp (e # es) =
     (let a = qe_artifact e in
      sha256_hex (qe_binarySha256 e) \<and> qa_name a \<noteq> [] \<and> basename (qa_name a) = qa_name a \<and> sha256_hex (qa_sha256 a) \<and>
      is_integer (qa_start a) \<and> is_integer (qa_end a) \<and> 0 \<le> qa_start a \<and> qa_start a < qa_end a \<and> qa_end a \<le> 24 \<and>
      (if qq_mode q = ModeStages then qa_start a = endp \<and> endpointsValid q (qa_end a) es
       else qa_start a = 0 \<and> qa_end a = 24 \<and> qa_sha256 a = qq_sourceSha256 q \<and> endpointsValid q endp es))"

definition validNativeQualification :: "qualification \<Rightarrow> bool" where
  "validNativeQualification q \<longleftrightarrow>
     sha256_hex (qq_sourceSha256 q) \<and> sha256_hex (qq_evidenceSha256 q) \<and> sha256_hex (qq_engine q) \<and> qq_ctx q = 1024 \<and>
     is_safe_integer (qq_sourceSizeBytes q) \<and> 1 \<le> qq_sourceSizeBytes q \<and>
     is_safe_integer (qq_workspaceMiB q) \<and> 1 \<le> qq_workspaceMiB q \<and>
     is_safe_integer (qq_hostMiB q) \<and> 1 \<le> qq_hostMiB q \<and>
     (if qq_mode q = ModeStages then length (qq_endpoints q) \<in> {2, 3} else length (qq_endpoints q) = 2) \<and>
     endpointsValid q 0 (qq_endpoints q)"

definition NATIVE_STATE_TRANSFER_BYTES_PER_SEC :: rat where
  "NATIVE_STATE_TRANSFER_BYTES_PER_SEC = fl (fl (9 / 10) * 1048576)"

text \<open>\<open>Math.ceil(q.sourceSizeBytes / 1048576) + q.workspaceMiB\<close>: the division by a power of two is exact.\<close>

definition gpuNeed :: "qualification \<Rightarrow> rat" where
  "gpuNeed q = of_int \<lceil>qq_sourceSizeBytes q / 1048576\<rceil> + qq_workspaceMiB q"

definition stage_abi :: "node_row \<Rightarrow> string option" where
  "stage_abi n = Option.bind (nr_caps n) (\<lambda>c. Option.bind (ca_engine c) en_stages)"

definition stage_binary :: "node_row \<Rightarrow> string option" where
  "stage_binary n = Option.bind (nr_caps n) (\<lambda>c. Option.bind (ca_engine c) (\<lambda>e. map_of (en_sha256 e) ''mesh-stage-worker''))"

definition has_artifact :: "node_row \<Rightarrow> qualified_artifact \<Rightarrow> string option \<Rightarrow> model_file option" where
  "has_artifact n a path = find (\<lambda>m. mf_kind m = Gguf \<and> mf_name m = qa_name a \<and> mf_sha256 m = Some (qa_sha256 a) \<and>
     (case path of None \<Rightarrow> True | Some p \<Rightarrow> mf_path m = p)) (nr_models n)"

definition single_gpu :: "node_row \<Rightarrow> bool" where
  "single_gpu n \<longleftrightarrow> length (caps_gpus n) = 1 \<and> map_option gs_id (offeredGpu n) = Some (gd_id (hd (caps_gpus n)))"

definition nativeEndpointFits :: "node_row \<Rightarrow> qualification \<Rightarrow> qualified_endpoint \<Rightarrow> bool" where
  "nativeEndpointFits n q e =
     (case nr_offer n of None \<Rightarrow> False | Some f \<Rightarrow>
      nr_online n \<and> of_enabled f \<and> ro_replica (of_roles f) \<and>
      stage_abi n = Some (qq_engine q) \<and> stage_binary n = Some (qe_binarySha256 e) \<and>
      has_artifact n (qe_artifact e) None \<noteq> None \<and> 2 \<le> of_cpuCores f \<and> length (caps_gpus n) = 1 \<and>
      (case offeredGpu n of None \<Rightarrow> False | Some g \<Rightarrow>
       gs_id g = gd_id (hd (caps_gpus n)) \<and>
       (if is_darwin n then gpuNeed q + qq_hostMiB q \<le> of_ramMiB f \<and> gpuNeed q \<le> gs_memMiB g
        else gpuNeed q \<le> gs_memMiB g \<and> qq_hostMiB q \<le> of_ramMiB f)))"

subsection \<open>Automatic phase placement\<close>

definition nodes_by_id :: "node_row list \<Rightarrow> node_row list" where
  "nodes_by_id ns = map snd (foldl (\<lambda>m n. AList.update (nr_id n) n m) [] ns)"

definition candidate_of :: "node_row \<Rightarrow> phase_candidate" where
  "candidate_of n = \<lparr>pc_nodeId = nr_id n,
     pc_prefillTokPerSec = Option.bind (nr_metrics n) me_prefillTokPerSec,
     pc_decodeTokPerSec = Option.bind (nr_metrics n) me_tokPerSec\<rparr>"

definition phaseChoice :: "string comparator_fn \<Rightarrow> plan_ctx \<Rightarrow> node_row list \<Rightarrow> node_row list \<Rightarrow> phase_error + phase_plan" where
  "phaseChoice lc c prefill decode =
     choosePhasePlan lc
       \<lparr>pi_candidates = map candidate_of (nodes_by_id (prefill @ decode)), pi_promptTokens = 512, pi_outputTokens = 64,
        pi_stateBytesPerToken = of_int (mp_boundaryBytes (cx_profile c)),
        pi_transferBytesPerSec = (\<lambda>_ _. NATIVE_STATE_TRANSFER_BYTES_PER_SEC),
        pi_prefillNodeIds = Some (map nr_id prefill), pi_decodeNodeIds = Some (map nr_id decode)\<rparr>"

definition phaseStep :: "string comparator_fn \<Rightarrow> plan_ctx \<Rightarrow> (string \<times> phase_rejection) list \<times> phase_plan option \<Rightarrow> qualification
    \<Rightarrow> (string \<times> phase_rejection) list \<times> phase_plan option" where
  "phaseStep lc c st q =
     (case st of (rejections, best) \<Rightarrow>
      (let prefill = filter (\<lambda>n. nativeEndpointFits n q (qq_endpoints q ! 0)) (cx_eligible c);
           decode = filter (\<lambda>n. nativeEndpointFits n q (qq_endpoints q ! 1)) (cx_eligible c) in
       if prefill = [] \<or> decode = []
         then (rejections @ [(qq_evidenceSha256 q, PhasesMissing (prefill = []) (decode = []))], best)
       else case phaseChoice lc c prefill decode of
              Inl e \<Rightarrow> (rejections @ [(qq_evidenceSha256 q, PhaseRefused e)], best)
            | Inr choice \<Rightarrow>
                (rejections,
                 case best of
                   None \<Rightarrow> Some choice
                 | Some b \<Rightarrow> if pp_estimatedMs choice < pp_estimatedMs b then Some choice else Some b)))"

definition usablePhaseQualifications :: "plan_ctx \<Rightarrow> qualification list \<Rightarrow> qualification list" where
  "usablePhaseQualifications c qs =
     filter (\<lambda>q. validNativeQualification q \<and> qq_mode q = ModePrefillDecode \<and> qq_ctx q = of_int (cx_ctx c) \<and>
       length (qq_endpoints q) = 2) qs"

definition chooseNativePhaseNodes :: "string comparator_fn \<Rightarrow> plan_ctx \<Rightarrow> qualification list \<Rightarrow> native_refusal + string \<times> string" where
  "chooseNativePhaseNodes lc c qs =
     (let usable = usablePhaseQualifications c qs in
      if usable = [] then Inl NoPhaseQualification
      else case foldl (phaseStep lc c) ([], None) usable of
             (rejections, None) \<Rightarrow> Inl (NoPhasePlacement rejections)
           | (_, Some b) \<Rightarrow>
               if pp_local b
               then Inl (SingleNodeOptimal (case find (\<lambda>n. nr_id n = pp_prefillNodeId b) (cx_eligible c) of
                                              Some n \<Rightarrow> nr_hostname n | None \<Rightarrow> pp_prefillNodeId b))
               else Inr (pp_prefillNodeId b, pp_decodeNodeId b))"

subsection \<open>Native plans\<close>

text \<open>\<open>c.spec.stages?.[i]\<close>.\<close>

definition requestedStage :: "deployment_spec \<Rightarrow> nat \<Rightarrow> jsv option" where
  "requestedStage spec i = (if i < length (elems (sp_stages spec)) then Some (elems (sp_stages spec) ! i) else None)"

definition stage_path :: "jsv option \<Rightarrow> string option" where
  "stage_path r = map_option (\<lambda>s. the_str (getp s ''modelPath'')) r"

definition endpointMatches :: "deployment_spec \<Rightarrow> qualification \<Rightarrow> nat \<Rightarrow> qualified_endpoint \<Rightarrow> node_row \<Rightarrow> bool" where
  "endpointMatches spec q i e n =
     (let a = qe_artifact e; r = requestedStage spec i in
      stage_abi n = Some (qq_engine q) \<and> stage_binary n = Some (qe_binarySha256 e) \<and>
      (case r of
         Some s \<Rightarrow> getp s ''modelSha256'' = Str (qa_sha256 a) \<and> getp s ''start'' = Num (Fin (qa_start a)) \<and>
                   getp s ''end'' = Num (Fin (qa_end a)) \<and> basename (the_str (getp s ''modelPath'')) = qa_name a
       | None \<Rightarrow> truthy (sp_modelSha256 spec) \<longrightarrow> sp_modelSha256 spec = Str (qq_sourceSha256 q)) \<and>
      has_artifact n a (stage_path r) \<noteq> None)"

definition mode_of :: "deployment_kind \<Rightarrow> native_mode option" where
  "mode_of k = (case k of Stages \<Rightarrow> Some ModeStages | PrefillDecode \<Rightarrow> Some ModePrefillDecode | _ \<Rightarrow> None)"

definition qualificationFor :: "plan_ctx \<Rightarrow> qualification list \<Rightarrow> node_row list \<Rightarrow> qualification option" where
  "qualificationFor c qs nodes =
     find (\<lambda>q. list_all (\<lambda>(i, e). endpointMatches (cx_spec c) q i e (nodes ! i)) (indexed (qq_endpoints q)))
       (filter (\<lambda>q. validNativeQualification q \<and> Some (qq_mode q) = mode_of (sp_kind (cx_spec c)) \<and>
                    qq_ctx q = of_int (cx_ctx c) \<and> length (qq_endpoints q) = length nodes) qs)"

definition nativeFitErrors :: "qualification \<Rightarrow> node_row \<Rightarrow> plan_refusal list" where
  "nativeFitErrors q n =
     (let offered = offeredGpu n; f = offer_of n; host = nr_hostname n; fit = gpuNeed q + qq_hostMiB q;
          gpuShort = (case offered of None \<Rightarrow> [] | Some g \<Rightarrow> err_if (gs_memMiB g < gpuNeed q) (Native (NativeGpu host (gpuNeed q) (gs_memMiB g)))) in
      err_if (offered = None \<or> length (caps_gpus n) \<noteq> 1 \<or> map_option gs_id offered \<noteq> Some (gd_id (hd (caps_gpus n))))
        (Native (NativeGpuNotSingle host)) @
      err_if (of_cpuCores f < 2) (Native (NativeCpu host)) @
      (if is_darwin n
       then err_if (of_ramMiB f < fit) (Native (NativeRam host fit (of_ramMiB f))) @ gpuShort
       else gpuShort @ err_if (of_ramMiB f < qq_hostMiB q) (Native (NativeRam host (qq_hostMiB q) (of_ramMiB f)))))"

definition block_text :: "plan_ctx \<Rightarrow> rat \<Rightarrow> string" where
  "block_text c b = (if sp_kind (cx_spec c) = Stages then nat_str (nat \<lfloor>b\<rfloor>) else '''')"

definition nativeEndpoint :: "plan_ctx \<Rightarrow> qualification \<Rightarrow> nat \<Rightarrow> qualified_endpoint \<Rightarrow> node_row \<Rightarrow> plan_refusal list + native_stage_worker" where
  "nativeEndpoint c q i e n =
     try_bind (pickPort (map_of (cx_usedPorts c) (nr_id n))) (\<lambda>port.
       Inr \<lparr>nw_nodeId = nr_id n, nw_port = port,
            nw_identity = \<lparr>ni_engine = qq_engine q, ni_model_sha256 = qa_sha256 (qe_artifact e), ni_source_sha256 = qq_sourceSha256 q,
              ni_ctx = 1024, ni_stage_start = block_text c (qa_start (qe_artifact e)),
              ni_stage_end = block_text c (qa_end (qe_artifact e)), ni_stage_total = block_text c 24\<rparr>,
            nw_binarySha256 = qe_binarySha256 e,
            nw_modelPath = (case has_artifact n (qe_artifact e) (stage_path (requestedStage (cx_spec c) i)) of
                              Some m \<Rightarrow> mf_path m | None \<Rightarrow> []),
            nw_device = (case caps_gpus n of [] \<Rightarrow> [] | g # _ \<Rightarrow> gd_engineName g),
            nw_fitMiB = (if is_darwin n then Some (gpuNeed q + qq_hostMiB q) else None),
            nw_ramMiB = of_ramMiB (offer_of n), nw_cpuCores = 2\<rparr>)"

definition nativeIds :: "string comparator_fn \<Rightarrow> plan_ctx \<Rightarrow> qualification list \<Rightarrow> plan_refusal list + string list" where
  "nativeIds lc c qs =
     (let spec = cx_spec c in
      if sp_kind spec = Stages then Inr (map (\<lambda>s. the_str (getp s ''nodeId'')) (elems (sp_stages spec)))
      else if sp_kind spec = PrefillDecode \<and> \<not> truthy (sp_prefillNodeId spec) \<and> \<not> truthy (sp_decodeNodeId spec)
        then (case chooseNativePhaseNodes lc c qs of
                Inl e \<Rightarrow> Inl [Native e]
              | Inr (p, d) \<Rightarrow> Inr [p, d])
      else Inr [the_str (sp_prefillNodeId spec), the_str (sp_decodeNodeId spec)])"

definition requireNodes :: "plan_ctx \<Rightarrow> role \<Rightarrow> string list \<Rightarrow> plan_refusal list + node_row list" where
  "requireNodes c r ids =
     (let rs = map (\<lambda>i. requireNode c i r False) ids; errs = concat (map fst rs) in
      if errs \<noteq> [] then Inl errs else Inr (concat (map (opt_list \<circ> snd) rs)))"

definition nativePlan :: "qualification \<Rightarrow> native_stage_worker list \<Rightarrow> plan" where
  "nativePlan q endpoints =
     \<lparr>pl_coordinatorNodeId = nw_nodeId (hd endpoints), pl_coordinatorDevice = nw_device (hd endpoints), pl_workers = [],
      pl_tensorSplit = [], pl_engineTensorSplit = None, pl_ctx = 1024, pl_parallel = 1, pl_chain = 0,
      pl_speculation = Undefined, pl_env = [], pl_modelPath = nw_modelPath (hd endpoints), pl_mtpPath = None,
      pl_nativeExecution = Some \<lparr>nx_mode = qq_mode q, nx_endpoints = endpoints, nx_evidenceSha256 = qq_evidenceSha256 q,
        nx_stateTransfer = (if qq_mode q = ModePrefillDecode
          then Some (qe_binarySha256 (qq_endpoints q ! 0), qe_binarySha256 (qq_endpoints q ! 1), qq_evidenceSha256 q) else None)\<rparr>,
      pl_allocations = None\<rparr>"

definition planNative :: "string comparator_fn \<Rightarrow> plan_ctx \<Rightarrow> qualification list \<Rightarrow> plan_refusal list + plan" where
  "planNative lc c qs =
     (if mp_id (cx_profile c) \<noteq> ''qwen35-2b-q8'' \<or> mp_layers (cx_profile c) \<noteq> 24 then Inl [Native NativeProfileChanged]
      else try_bind (nativeIds lc c qs) (\<lambda>ids.
        try_bind (requireNodes c (if sp_kind (cx_spec c) = Stages then RoleWorker else RoleReplica) ids) (\<lambda>nodes.
          case qualificationFor c qs nodes of
            None \<Rightarrow> Inl [Native NoQualification]
          | Some q \<Rightarrow>
              try_bind (try_map (\<lambda>((i, e), n). nativeEndpoint c q i e n) (zip (indexed (qq_endpoints q)) nodes)) (\<lambda>endpoints.
                (let errs = concat (map (nativeFitErrors q) nodes) in
                 if errs \<noteq> [] then Inl errs else Inr (nativePlan q endpoints))))))"

subsection \<open>Requests\<close>

record plan_input =
  in_spec :: deployment_spec
  in_profile :: model_profile
  in_nodes :: "node_row list"
  in_usedPorts :: used_ports
  in_nativeQualifications :: "qualification list option"

definition js_int_at_least :: "int \<Rightarrow> js_number \<Rightarrow> bool" where
  "js_int_at_least k x = (case x of Fin r \<Rightarrow> is_integer r \<and> of_int k \<le> r | _ \<Rightarrow> False)"

definition js_positive :: "js_number \<Rightarrow> bool" where
  "js_positive x = (case x of Fin r \<Rightarrow> 0 < r | PosInf \<Rightarrow> True | _ \<Rightarrow> False)"

definition is_native :: "deployment_spec \<Rightarrow> bool" where
  "is_native spec \<longleftrightarrow> sp_kind spec = Stages \<or> sp_kind spec = PrefillDecode"

definition default_num :: "js_number option \<Rightarrow> int \<Rightarrow> js_number" where
  "default_num x d = (case x of Some v \<Rightarrow> v | None \<Rightarrow> Fin (of_int d))"

definition ctxOf :: "deployment_spec \<Rightarrow> js_number" where
  "ctxOf spec = default_num (sp_ctx spec) (if is_native spec then 1024 else DEFAULT_CTX)"

definition parallelOf :: "deployment_spec \<Rightarrow> js_number" where
  "parallelOf spec = default_num (sp_parallel spec) DEFAULT_PARALLEL"

definition chainOf :: "deployment_spec \<Rightarrow> js_number" where
  "chainOf spec = default_num (sp_chain spec) DEFAULT_CHAIN"

definition speculationErrors :: "deployment_spec \<Rightarrow> request_refusal list" where
  "speculationErrors spec =
     (let s = sp_speculation spec in
      if s = Undefined then []
      else err_if (\<not> isObj s \<or> getp s ''type'' \<noteq> Str ''ngram-simple'' \<or> \<not> only_keys s [''type'']) BadSpeculation @
           err_if (js_positive (chainOf spec)) SpeculationWithChain)"

definition workerListErrors :: "deployment_spec \<Rightarrow> request_refusal list" where
  "workerListErrors spec =
     (let ids = sp_workerNodeIds spec; ls = sp_workerLayers spec in
      err_if (ids \<noteq> Undefined \<and> (\<not> is_arr ids \<or> (\<exists>i \<in> set (elems ids). \<not> isStr i \<or> the_str i = []))) BadWorkerNodeIds @
      (if ls = Undefined then []
       else err_if (js_positive (chainOf spec)) LayersWithMtp @
            err_if (sp_kind spec \<noteq> Split) LayersNotSplit @
            err_if (\<not> is_arr ls \<or> elems ls = [] \<or> (\<exists>n \<in> set (elems ls). \<not> (isNum n \<and> is_safe_integer (the_rat n)) \<or> the_rat n < 1)) BadWorkerLayers @
            err_if (\<not> is_arr ids \<or> \<not> is_arr ls \<or> length (elems ids) \<noteq> length (elems ls)) LayersWithoutIds))"

definition requestErrors :: "deployment_spec \<Rightarrow> plan_refusal list" where
  "requestErrors spec =
     map Request
       (err_if (\<not> js_int_at_least 1 (ctxOf spec)) (BadCtx (sp_ctx spec)) @
        err_if (\<not> js_int_at_least 1 (parallelOf spec)) (BadParallel (sp_parallel spec)) @
        err_if (\<not> js_int_at_least 0 (chainOf spec)) (BadChain (sp_chain spec)) @
        err_if (sp_kind spec = Replica \<and> js_positive (chainOf spec)) ReplicaMtp @
        speculationErrors spec @
        (case sp_wire spec of None \<Rightarrow> [] | Some w \<Rightarrow> err_if (w \<notin> {''off'', ''f16'', ''q8''}) (BadWire w)) @
        err_if (sp_kind spec = External) NotPlanned) @
     (if is_native spec then map NativeRequest (nativeRequestErrors spec (ctxOf spec) (parallelOf spec) (chainOf spec))
      else map Request (err_if (sp_stages spec \<noteq> Undefined \<or> sp_prefillNodeId spec \<noteq> Undefined \<or>
             sp_decodeNodeId spec \<noteq> Undefined \<or> sp_modelSha256 spec \<noteq> Undefined) NativeFieldsOnly)) @
     map Request (workerListErrors spec)"

definition planCtx :: "regexp \<Rightarrow> plan_input \<Rightarrow> plan_ctx" where
  "planCtx rx inp =
     \<lparr>cx_spec = in_spec inp, cx_profile = in_profile inp,
      cx_ctx = \<lfloor>fin_val (ctxOf (in_spec inp))\<rfloor>, cx_parallel = \<lfloor>fin_val (parallelOf (in_spec inp))\<rfloor>,
      cx_chain = \<lfloor>fin_val (chainOf (in_spec inp))\<rfloor>,
      cx_gguf = rx_test rx (mp_ggufPattern (in_profile inp)),
      cx_mtp = (case mp_mtpPattern (in_profile inp) of None \<Rightarrow> None | Some p \<Rightarrow> if p = [] then None else Some (rx_test rx p)),
      cx_all = in_nodes inp,
      cx_eligible = filter (\<lambda>n. nr_online n \<and> offer_enabled n) (sort_by byHost (in_nodes inp)),
      cx_usedPorts = in_usedPorts inp\<rparr>"

definition planDeployment :: "regexp \<Rightarrow> string comparator_fn \<Rightarrow> plan_input \<Rightarrow> plan_refusal list + plan" where
  "planDeployment rx lc inp =
     (let spec = in_spec inp; c = planCtx rx inp in
      if requestErrors spec \<noteq> [] then Inl (requestErrors spec)
      else if is_native spec
        then planNative lc c (case in_nativeQualifications inp of Some qs \<Rightarrow> qs | None \<Rightarrow> QWEN35_NATIVE_QUALIFICATIONS)
      else if sp_kind spec = Replica then planReplica c
      else planSplit c)"

subsection \<open>Split and replica plans\<close>

lemma requestErrors_counts:
  assumes "requestErrors spec = []" and "cx_spec c = spec"
  shows "counts_ok c"
proof -
  have w: "workerListErrors spec = []" using assms(1) by (simp add: requestErrors_def)
  show ?thesis unfolding counts_ok_def assms(2)
  proof
    assume ls: "sp_workerLayers spec \<noteq> Undefined"
    then have a: "is_arr (sp_workerNodeIds spec)" "length (elems (sp_workerNodeIds spec)) = length (elems (sp_workerLayers spec))"
      and n: "\<And>x. x \<in> set (elems (sp_workerLayers spec)) \<Longrightarrow> 1 \<le> the_rat x"
      using w by (auto simp: workerListErrors_def Let_def not_less)
    have "1 \<le> \<lfloor>the_rat x\<rfloor>" if "x \<in> set (elems (sp_workerLayers spec))" for x using n[OF that] by (simp add: le_floor_iff)
    then show "sp_workerNodeIds spec \<noteq> Undefined \<and> length (requestedCounts spec) = length (elems (sp_workerNodeIds spec)) \<and>
      (\<forall>n \<in> set (requestedCounts spec). 1 \<le> n)"
      using a by (auto simp: requestedCounts_def)
  qed
qed

lemma planCtx_wf: "distinct (map nr_id (in_nodes inp)) \<Longrightarrow> ctx_wf (planCtx rx inp)"
  by (simp add: ctx_wf_def planCtx_def)

lemma planCtx_simps [simp]:
  "cx_spec (planCtx rx inp) = in_spec inp"
  "cx_profile (planCtx rx inp) = in_profile inp"
  "cx_all (planCtx rx inp) = in_nodes inp"
  "cx_usedPorts (planCtx rx inp) = in_usedPorts inp"
  by (simp_all add: planCtx_def)

lemma profile_wf_ok: "profile_wf rx p \<Longrightarrow> profile_ok p"
  by (auto simp: profile_wf_def profile_ok_def row_wf_def)

text \<open>C6. A split that is planned fits what the nodes offer: the layers of all workers and the coordinator
  sum to the model's, every worker's layers and margin fit the GPU it offers (on a Mac also its RAM), the
  coordinator holds at least one layer within its own offer and has the model file, every node is
  online with the role it plays, no node is used twice, and the ports are free.\<close>

theorem planDeployment_split:
  assumes "planDeployment rx lc inp = Inr pl" and "sp_kind (in_spec inp) = Split"
    and "distinct (map nr_id (in_nodes inp))" and "profile_wf rx (in_profile inp)"
    and "\<forall>n \<in> set (in_nodes inp). offer_whole n"
  shows "split_placed (planCtx rx inp) pl"
proof (rule planSplit_placed)
  show "planSplit (planCtx rx inp) = Inr pl"
    using assms(1,2) by (auto simp: planDeployment_def Let_def is_native_def split: if_splits)
  show "counts_ok (planCtx rx inp)"
    using assms(1) by (intro requestErrors_counts[OF _ refl]) (auto simp: planDeployment_def Let_def split: if_splits)
qed (use assms planCtx_wf profile_wf_ok in auto)

text \<open>C27. A planned replica sits on one online node that offers the role, has the model file, and holds the
  whole model within its offer.\<close>

theorem planDeployment_replica:
  assumes "planDeployment rx lc inp = Inr pl" and "sp_kind (in_spec inp) = Replica"
    and "distinct (map nr_id (in_nodes inp))"
  shows "replica_placed (planCtx rx inp) pl"
  using assms by (intro planReplica_placed planCtx_wf) (auto simp: planDeployment_def Let_def is_native_def split: if_splits)


subsection \<open>Native plans are qualified\<close>

text \<open>Consecutive nonempty ranges from one block to another.\<close>

fun tiles :: "rat \<Rightarrow> (rat \<times> rat) list \<Rightarrow> rat \<Rightarrow> bool" where
  "tiles a [] b = (a = b)"
| "tiles a ((s, e) # rs) b = (s = a \<and> s < e \<and> tiles e rs b)"

definition block_range :: "qualified_endpoint \<Rightarrow> rat \<times> rat" where
  "block_range e = (qa_start (qe_artifact e), qa_end (qe_artifact e))"

lemma endpointsValid_tiles:
  "endpointsValid q a es \<Longrightarrow> qq_mode q = ModeStages \<Longrightarrow> tiles a (map block_range es) 24"
  by (induction q a es rule: endpointsValid.induct) (auto simp: Let_def block_range_def)

lemma endpointsValid_full:
  "endpointsValid q a es \<Longrightarrow> qq_mode q = ModePrefillDecode \<Longrightarrow> e \<in> set es \<Longrightarrow>
   block_range e = (0, 24) \<and> qa_sha256 (qe_artifact e) = qq_sourceSha256 q"
  by (induction q a es rule: endpointsValid.induct) (auto simp: Let_def block_range_def)

text \<open>What one endpoint of a native plan rests on.\<close>

definition native_fits :: "qualification \<Rightarrow> node_row \<Rightarrow> bool" where
  "native_fits q n \<longleftrightarrow> 2 \<le> of_cpuCores (offer_of n) \<and> single_gpu n \<and>
     (\<exists>g. offeredGpu n = Some g \<and> gpuNeed q \<le> gs_memMiB g) \<and>
     (if is_darwin n then gpuNeed q + qq_hostMiB q else qq_hostMiB q) \<le> of_ramMiB (offer_of n)"

definition endpoint_placed :: "plan_ctx \<Rightarrow> qualification \<Rightarrow> qualified_endpoint \<Rightarrow> native_stage_worker \<Rightarrow> bool" where
  "endpoint_placed c q e w \<longleftrightarrow>
     (\<exists>n \<in> set (cx_all c). nr_id n = nw_nodeId w \<and>
        usable (if sp_kind (cx_spec c) = Stages then RoleWorker else RoleReplica) n \<and>
        stage_abi n = Some (qq_engine q) \<and> stage_binary n = Some (qe_binarySha256 e) \<and> native_fits q n \<and>
        (\<exists>m \<in> set (nr_models n). mf_path m = nw_modelPath w \<and> mf_sha256 m = Some (qa_sha256 (qe_artifact e)))) \<and>
     nw_binarySha256 w = qe_binarySha256 e \<and> ni_model_sha256 (nw_identity w) = qa_sha256 (qe_artifact e) \<and>
     port_free (map_of (cx_usedPorts c) (nw_nodeId w)) (nw_port w)"

lemma nativeFitErrors_Nil: "nativeFitErrors q n = [] \<Longrightarrow> native_fits q n"
  by (auto simp: nativeFitErrors_def native_fits_def single_gpu_def Let_def not_less split: if_splits option.splits)

lemma requireNodes_Inr:
  assumes "requireNodes c r ids = Inr ns"
  shows "list_all2 (\<lambda>i n. n \<in> set (cx_all c) \<and> nr_id n = i \<and> usable r n) ids ns"
proof -
  have "concat (map fst (map (\<lambda>i. requireNode c i r False) ids)) = []"
    and ns: "ns = concat (map (opt_list \<circ> snd) (map (\<lambda>i. requireNode c i r False) ids))"
    using assms by (auto simp: requireNodes_def Let_def comp_def split: if_splits)
  then have none: "fst (requireNode c i r False) = []" if "i \<in> set ids" for i using that by auto
  have some: "\<exists>n. requireNode c i r False = ([], Some n) \<and> n \<in> set (cx_all c) \<and> nr_id n = i \<and> usable r n" if "i \<in> set ids" for i
    using none[OF that] requireNode_None[of c i r False] requireNode_Some[of c i r False]
    by (cases "requireNode c i r False"; cases "snd (requireNode c i r False)") auto
  show ?thesis unfolding ns using some
  proof (induction ids)
    case (Cons i ids)
    then obtain n where "requireNode c i r False = ([], Some n)" "n \<in> set (cx_all c)" "nr_id n = i" "usable r n" by auto
    then show ?case using Cons by (simp add: opt_list_def)
  qed simp
qed

lemma qualificationFor_Some:
  assumes "qualificationFor c qs nodes = Some q"
  shows "q \<in> set qs \<and> validNativeQualification q \<and> Some (qq_mode q) = mode_of (sp_kind (cx_spec c)) \<and>
    length (qq_endpoints q) = length nodes \<and>
    (\<forall>i < length nodes. endpointMatches (cx_spec c) q i (qq_endpoints q ! i) (nodes ! i))"
proof -
  have "(i, qq_endpoints q ! i) \<in> set (indexed (qq_endpoints q))" if "i < length (qq_endpoints q)" for i
    using that by (auto simp: indexed_def set_zip intro!: exI[of _ i])
  moreover have "validNativeQualification q \<and> Some (qq_mode q) = mode_of (sp_kind (cx_spec c)) \<and> q \<in> set qs \<and>
      length (qq_endpoints q) = length nodes"
    and all: "\<forall>x \<in> set (indexed (qq_endpoints q)). endpointMatches (cx_spec c) q (fst x) (snd x) (nodes ! fst x)"
    using assms unfolding qualificationFor_def by (auto dest!: list_all_find simp: list_all_iff split_def)
  ultimately show ?thesis using bspec[OF all] by fastforce
qed

lemma nativeEndpoint_placed:
  assumes "nativeEndpoint c q i e n = Inr w" and "endpointMatches (cx_spec c) q i e n"
    and "n \<in> set (cx_all c)" and "usable (if sp_kind (cx_spec c) = Stages then RoleWorker else RoleReplica) n"
    and "nativeFitErrors q n = []"
  shows "endpoint_placed c q e w \<and> nw_nodeId w = nr_id n"
proof -
  obtain p where p: "pickPort (map_of (cx_usedPorts c) (nr_id n)) = Inr p"
    using assms(1) by (auto simp: nativeEndpoint_def try_bind_Inr)
  obtain m where m: "has_artifact n (qe_artifact e) (stage_path (requestedStage (cx_spec c) i)) = Some m"
    using assms(2) by (auto simp: endpointMatches_def Let_def)
  have mm: "m \<in> set (nr_models n)" "mf_sha256 m = Some (qa_sha256 (qe_artifact e))"
    using m by (auto simp: has_artifact_def dest!: list_all_find)
  have w: "nw_nodeId w = nr_id n" "nw_port w = p" "nw_modelPath w = mf_path m" "nw_binarySha256 w = qe_binarySha256 e"
    "ni_model_sha256 (nw_identity w) = qa_sha256 (qe_artifact e)"
    using assms(1) p m by (auto simp: nativeEndpoint_def)
  have "stage_abi n = Some (qq_engine q)" "stage_binary n = Some (qe_binarySha256 e)"
    using assms(2) by (simp_all add: endpointMatches_def Let_def)
  then show ?thesis
    unfolding endpoint_placed_def w using assms(3,4) nativeFitErrors_Nil[OF assms(5)] mm pickPort_free[OF p] by auto
qed

definition native_placed :: "plan_ctx \<Rightarrow> qualification list \<Rightarrow> plan \<Rightarrow> bool" where
  "native_placed c qs pl \<longleftrightarrow>
     (\<exists>q ws. q \<in> set qs \<and> validNativeQualification q \<and> pl = nativePlan q ws \<and> ws \<noteq> [] \<and>
        Some (qq_mode q) = mode_of (sp_kind (cx_spec c)) \<and>
        (qq_mode q = ModeStages \<longrightarrow> tiles 0 (map block_range (qq_endpoints q)) 24) \<and>
        list_all2 (endpoint_placed c q) (qq_endpoints q) ws \<and> distinct (map nw_nodeId ws))"

lemma planNative_Inr:
  assumes "planNative lc c qs = Inr pl"
  obtains ids nodes q ws where "nativeIds lc c qs = Inr ids"
    and "requireNodes c (if sp_kind (cx_spec c) = Stages then RoleWorker else RoleReplica) ids = Inr nodes"
    and "qualificationFor c qs nodes = Some q"
    and "try_map (\<lambda>((i, e), n). nativeEndpoint c q i e n) (zip (indexed (qq_endpoints q)) nodes) = Inr ws"
    and "\<forall>n \<in> set nodes. nativeFitErrors q n = []" and "pl = nativePlan q ws"
  using assms by (auto simp: planNative_def try_bind_Inr Let_def split: if_splits option.splits)

lemma planNative_placed:
  assumes pl: "planNative lc c qs = Inr pl" 
    and ids: "\<And>r ids nodes. nativeIds lc c qs = Inr ids \<Longrightarrow> requireNodes c r ids = Inr nodes \<Longrightarrow> distinct ids"
  shows "native_placed c qs pl"
proof (rule planNative_Inr[OF pl])
  fix xs nodes q ws
  let ?r = "if sp_kind (cx_spec c) = Stages then RoleWorker else RoleReplica"
  assume i: "nativeIds lc c qs = Inr xs" and n: "requireNodes c ?r xs = Inr nodes"
    and q: "qualificationFor c qs nodes = Some q"
    and w: "try_map (\<lambda>((i, e), n). nativeEndpoint c q i e n) (zip (indexed (qq_endpoints q)) nodes) = Inr ws"
    and f: "\<forall>n \<in> set nodes. nativeFitErrors q n = []" and p: "pl = nativePlan q ws"
  note ns = requireNodes_Inr[OF n] and qq = qualificationFor_Some[OF q]
  have w2: "list_all2 (\<lambda>x y. (case x of ((i, e), n) \<Rightarrow> nativeEndpoint c q i e n) = Inr y) (zip (indexed (qq_endpoints q)) nodes) ws"
    using w by (simp add: try_map_Inr split_def)
  have len: "length (qq_endpoints q) = length nodes" "length xs = length nodes" using qq list_all2_lengthD[OF ns] by auto
  have lw: "length ws = length nodes" using list_all2_lengthD[OF w2] len by (simp add: indexed_def)
  have each: "endpoint_placed c q (qq_endpoints q ! j) (ws ! j) \<and> nw_nodeId (ws ! j) = xs ! j" if j: "j < length nodes" for j
  proof -
    have "nativeEndpoint c q j (qq_endpoints q ! j) (nodes ! j) = Inr (ws ! j)"
      using list_all2_nthD[OF w2, of j] j len by (simp add: indexed_def)
    moreover have "nodes ! j \<in> set (cx_all c)" "usable ?r (nodes ! j)" "nr_id (nodes ! j) = xs ! j"
      using list_all2_nthD2[OF ns j] by auto
    ultimately show ?thesis using nativeEndpoint_placed[of c q j "qq_endpoints q ! j" "nodes ! j" "ws ! j"] qq f j by simp
  qed
  have "map nw_nodeId ws = xs" using each lw len by (auto intro!: nth_equalityI)
  then have "distinct (map nw_nodeId ws)" using ids[OF i n] by simp
  moreover have "list_all2 (endpoint_placed c q) (qq_endpoints q) ws" using each lw len by (simp add: list_all2_conv_all_nth)
  moreover have "endpointsValid q 0 (qq_endpoints q)" "qq_endpoints q \<noteq> []"
    using qq by (auto simp: validNativeQualification_def split: if_splits)
  moreover from this(2) have "ws \<noteq> []" using lw len by auto
  ultimately show ?thesis unfolding native_placed_def using qq p endpointsValid_tiles[of q 0 "qq_endpoints q"]
    by (intro exI[of _ q] exI[of _ ws]) simp
qed


lemma phasePair_local:
  "phasePair inp p d = Some b \<Longrightarrow> pb_local b \<longleftrightarrow> pb_prefillNodeId b = pb_decodeNodeId b"
  by (auto simp: phasePair_def Let_def split: option.splits if_splits)

lemma choosePhasePlan_local:
  assumes "choosePhasePlan lc inp = Inr pl"
  shows "pp_local pl \<longleftrightarrow> pp_prefillNodeId pl = pp_decodeNodeId pl"
proof -
  obtain cs b where b: "bestPair inp cs = Some b" "pp_local pl = pb_local b"
    "pp_prefillNodeId pl = pb_prefillNodeId b" "pp_decodeNodeId pl = pb_decodeNodeId b"
    using assms by (auto simp: choosePhasePlan_def phaseDecision_def Let_def split: if_splits option.splits)
  then show ?thesis using bestPair_facts[of inp cs] phasePair_local by (auto simp: mem_all_pairs)
qed

lemma phaseSteps_local:
  assumes "foldl (phaseStep lc c) st qs = (rs, Some b)"
    and "\<And>b. snd st = Some b \<Longrightarrow> pp_local b \<longleftrightarrow> pp_prefillNodeId b = pp_decodeNodeId b"
  shows "pp_local b \<longleftrightarrow> pp_prefillNodeId b = pp_decodeNodeId b"
  using assms
proof (induction qs arbitrary: st)
  case (Cons q qs)
  show ?case
  proof (rule Cons.IH)
    show "foldl (phaseStep lc c) (phaseStep lc c st q) qs = (rs, Some b)" using Cons.prems(1) by simp
    show "pp_local b' \<longleftrightarrow> pp_prefillNodeId b' = pp_decodeNodeId b'" if "snd (phaseStep lc c st q) = Some b'" for b'
      using that Cons.prems(2) choosePhasePlan_local
      by (auto simp: phaseStep_def phaseChoice_def Let_def split: prod.splits if_splits sum.splits option.splits)
  qed
qed simp

lemma chooseNativePhaseNodes_distinct: "chooseNativePhaseNodes lc c qs = Inr (p, d) \<Longrightarrow> p \<noteq> d"
  using phaseSteps_local[of lc c "([], None)"]
  by (auto simp: chooseNativePhaseNodes_def Let_def split: if_splits prod.splits option.splits)

lemma stageListErrors_distinct:
  assumes "stageListErrors i endp nodes ss = []"
  shows "distinct (map (\<lambda>s. the_str (getp s ''nodeId'')) ss) \<and>
    (\<forall>s \<in> set ss. the_str (getp s ''nodeId'') \<notin> set nodes)"
  using assms
proof (induction i endp nodes ss rule: stageListErrors.induct)
  case (2 i endp nodes s ss)
  then have ok: "isObj s" "only_keys s [''nodeId'', ''modelPath'', ''modelSha256'', ''start'', ''end'']"
    and e: "stageEntryErrors i s endp nodes = []" by (auto split: if_splits)
  from e have n: "isStr (getp s ''nodeId'')" "the_str (getp s ''nodeId'') \<noteq> []" "the_str (getp s ''nodeId'') \<notin> set nodes"
    by (auto simp: stageEntryErrors_def)
  have "stageListErrors (Suc i) (getp s ''end'') (the_str (getp s ''nodeId'') # nodes) ss = []"
    using "2.prems" ok e n by simp
  then show ?case using "2.IH"(2) ok n by auto
qed simp

lemma nativeIds_distinct:
  assumes r: "requestErrors (cx_spec c) = []" "is_native (cx_spec c)" and i: "nativeIds lc c qs = Inr ids"
    and n: "requireNodes c r ids = Inr nodes" and ne: "\<forall>n \<in> set (cx_all c). nr_id n \<noteq> []"
  shows "distinct ids"
proof (cases "sp_kind (cx_spec c) = Stages")
  case True
  then have "stageListErrors 0 (num_int 0) [] (elems (sp_stages (cx_spec c))) = []"
    using r by (auto simp: requestErrors_def nativeRequestErrors_def split: if_splits)
  then show ?thesis using stageListErrors_distinct True i by (auto simp: nativeIds_def Let_def)
next
  case False
  then have k: "sp_kind (cx_spec c) = PrefillDecode" using r(2) by (simp add: is_native_def)
  have e: "phaseNodeErrors (cx_spec c) = []"
    using r k by (auto simp: requestErrors_def nativeRequestErrors_def split: if_splits)
  have pos: "[] \<notin> set ids"
  proof
    assume "[] \<in> set ids"
    then obtain j where "j < length ids" "ids ! j = []" by (auto simp: in_set_conv_nth)
    then show False using list_all2_nthD[OF requireNodes_Inr[OF n], of j] ne by auto
  qed
  show ?thesis
  proof (cases "\<exists>p d. chooseNativePhaseNodes lc c qs = Inr (p, d) \<and> ids = [p, d]")
    case True
    then show ?thesis using chooseNativePhaseNodes_distinct by auto
  next
    case 2: False
    then have x: "ids = [the_str (sp_prefillNodeId (cx_spec c)), the_str (sp_decodeNodeId (cx_spec c))]"
      using i k by (auto simp: nativeIds_def Let_def split: if_splits sum.splits)
    then have "the_str (sp_prefillNodeId (cx_spec c)) \<noteq> []" "the_str (sp_decodeNodeId (cx_spec c)) \<noteq> []" using pos by auto
    then have "\<exists>a b. sp_prefillNodeId (cx_spec c) = Str a \<and> sp_decodeNodeId (cx_spec c) = Str b \<and> a \<noteq> []"
      by (cases "sp_prefillNodeId (cx_spec c)"; cases "sp_decodeNodeId (cx_spec c)") auto
    then show ?thesis using e x by (auto simp: phaseNodeErrors_def Let_def split: if_splits)
  qed
qed


subsection \<open>The order in which nodes are listed does not matter\<close>

text \<open>The context of a permuted node list differs only in \<open>cx_all\<close>, which the planner only searches
  by id.\<close>

definition same_find :: "node_row list \<Rightarrow> plan_ctx \<Rightarrow> bool" where
  "same_find a c \<longleftrightarrow> (\<forall>i. find (\<lambda>n. nr_id n = i) a = find (\<lambda>n. nr_id n = i) (cx_all c))"

lemma find_mem_unique:
  assumes "distinct (map nr_id xs)" and "n \<in> set xs"
  shows "find (\<lambda>m. nr_id m = nr_id n) xs = Some n"
  using assms by (induction xs) auto

lemma find_perm:
  assumes "distinct (map nr_id xs)" and "mset ys = mset xs"
  shows "find (\<lambda>n. nr_id n = i) ys = find (\<lambda>n. nr_id n = i) xs"
proof -
  have eq: "set ys = set xs" using assms(2) by (metis set_mset_mset)
  have "mset (map nr_id ys) = mset (map nr_id xs)" using assms(2) by simp
  then have d: "distinct (map nr_id ys)" using assms(1) mset_eq_imp_distinct_iff by blast
  show ?thesis
  proof (cases "find (\<lambda>n. nr_id n = i) xs")
    case None
    then have "find (\<lambda>n. nr_id n = i) ys = None" using eq by (simp add: find_None_all)
    then show ?thesis using None by simp
  next
    case (Some n)
    then have "n \<in> set ys" "nr_id n = i" using list_all_find[OF Some] eq by auto
    then show ?thesis using Some find_mem_unique[OF d, of n] by simp
  qed
qed

lemmas branch_congs = if_cong option.case_cong prod.case_cong list.case_cong sum.case_cong

lemma nodeProblems_all [simp]: "nodeProblems (c\<lparr>cx_all := a\<rparr>) n r m = nodeProblems c n r m"
  by (simp add: nodeProblems_def)

lemma draftHead_all [simp]: "draftHead (c\<lparr>cx_all := a\<rparr>) n = draftHead c n"
  by (simp add: draftHead_def cong: branch_congs)

lemma placeResident_all [simp]: "placeResident (c\<lparr>cx_all := a\<rparr>) n l = placeResident c n l"
  by (simp add: placeResident_def Let_def cong: branch_congs)

lemma rowBlocks_all [simp]: "rowBlocks (c\<lparr>cx_all := a\<rparr>) ss row = rowBlocks c ss row"
  by (simp add: rowBlocks_def Let_def cong: branch_congs)

lemma chooseRow_all [simp]: "chooseRow (c\<lparr>cx_all := a\<rparr>) ss = chooseRow c ss"
  by (simp add: chooseRow_def Let_def cong: branch_congs)

lemma model_all [simp]:
  "model_path (c\<lparr>cx_all := a\<rparr>) n = model_path c n"
  "has_model (c\<lparr>cx_all := a\<rparr>) n = has_model c n"
  by (simp_all add: model_path_def has_model_def cong: branch_congs)

lemma coordinatorCandidates_all [simp]: "coordinatorCandidates (c\<lparr>cx_all := a\<rparr>) = coordinatorCandidates c"
  by (simp add: coordinatorCandidates_def cong: branch_congs)

lemma automaticWorkers_all [simp]: "automaticWorkers (c\<lparr>cx_all := a\<rparr>) k = automaticWorkers c k"
  by (simp add: automaticWorkers_def cong: branch_congs)

lemma countErrors_all [simp]: "countErrors (c\<lparr>cx_all := a\<rparr>) s n = countErrors c s n"
  by (simp add: countErrors_def Let_def cong: branch_congs)

lemma splitLayers_all [simp]: "splitLayers (c\<lparr>cx_all := a\<rparr>) es ss = splitLayers c es ss"
  by (simp add: splitLayers_def requestedLayers_def automaticLayers_def Let_def cong: branch_congs)

lemma planWorker_all [simp]: "planWorker (c\<lparr>cx_all := a\<rparr>) f = planWorker c f"
  by (intro ext) (simp add: planWorker_def cong: branch_congs)

lemma splitPlan_all [simp]: "splitPlan (c\<lparr>cx_all := a\<rparr>) k d m ls ws = splitPlan c k d m ls ws"
  by (simp add: splitPlan_def Let_def cong: branch_congs)

lemma phase_all [simp]: "chooseNativePhaseNodes lc (c\<lparr>cx_all := a\<rparr>) qs = chooseNativePhaseNodes lc c qs"
proof -
  have "phaseStep lc (c\<lparr>cx_all := a\<rparr>) = phaseStep lc c"
    by (intro ext) (simp add: phaseStep_def phaseChoice_def Let_def cong: branch_congs)
  then show ?thesis by (simp add: chooseNativePhaseNodes_def usablePhaseQualifications_def cong: branch_congs)
qed

lemma native_all [simp]:
  "nativeIds lc (c\<lparr>cx_all := a\<rparr>) qs = nativeIds lc c qs"
  "qualificationFor (c\<lparr>cx_all := a\<rparr>) qs ns = qualificationFor c qs ns"
  "nativeEndpoint (c\<lparr>cx_all := a\<rparr>) q i e n = nativeEndpoint c q i e n"
  by (simp_all add: nativeIds_def qualificationFor_def nativeEndpoint_def block_text_def Let_def cong: branch_congs)

lemma requireNode_all: "same_find a c \<Longrightarrow> requireNode (c\<lparr>cx_all := a\<rparr>) = requireNode c"
  by (intro ext) (simp add: requireNode_def same_find_def cong: branch_congs)

lemma requestedWorkers_all:
  "same_find a c \<Longrightarrow> requestedWorkers (c\<lparr>cx_all := a\<rparr>) k seen ids = requestedWorkers c k seen ids"
  by (induction ids arbitrary: seen) (simp_all add: workerSlot_def requireNode_all cong: branch_congs)

lemma planSplit_all: "same_find a c \<Longrightarrow> planSplit (c\<lparr>cx_all := a\<rparr>) = planSplit c"
  by (simp add: planSplit_def chooseCoordinator_def chooseWorkers_def requireNode_all requestedWorkers_all cong: branch_congs)

lemma planReplica_all: "same_find a c \<Longrightarrow> planReplica (c\<lparr>cx_all := a\<rparr>) = planReplica c"
  by (simp add: planReplica_def chooseReplica_def requireNode_all cong: branch_congs)

lemma planNative_all: "same_find a c \<Longrightarrow> planNative lc (c\<lparr>cx_all := a\<rparr>) qs = planNative lc c qs"
  by (simp add: planNative_def requireNodes_def requireNode_all cong: branch_congs)

text \<open>C29. Planning does not depend on the order in which the registry lists its nodes: a permuted list gives
  the same plan, or the same refusals.\<close>

theorem planDeployment_order_independent:
  assumes "distinct (map nr_id (in_nodes inp))" and "mset ns = mset (in_nodes inp)"
  shows "planDeployment rx lc (inp\<lparr>in_nodes := ns\<rparr>) = planDeployment rx lc inp"
proof -
  have eq: "x = y" if "x \<in> set ns" "y \<in> set ns" "byHost x y = 0" for x y
  proof -
    have "nr_id x = nr_id y" using that(3) by (auto simp: byHost_def cmp_then_def split: if_splits)
    moreover have "x \<in> set (in_nodes inp)" "y \<in> set (in_nodes inp)" using that assms(2) by (metis set_mset_mset)+
    ultimately show ?thesis using assms(1) by (auto simp: distinct_map dest: inj_onD)
  qed
  have "sort_by byHost ns = sort_by byHost (in_nodes inp)" using eq by (intro host_order.sort_by_perm[OF assms(2)])
  then have c: "planCtx rx (inp\<lparr>in_nodes := ns\<rparr>) = (planCtx rx inp)\<lparr>cx_all := ns\<rparr>" by (simp add: planCtx_def)
  have "same_find ns (planCtx rx inp)" using find_perm[OF assms] by (simp add: same_find_def planCtx_def)
  then show ?thesis by (simp add: planDeployment_def Let_def c planSplit_all planReplica_all planNative_all)
qed

subsection \<open>Examples\<close>

definition example_node :: "string \<Rightarrow> string \<Rightarrow> offer_roles \<Rightarrow> rat \<Rightarrow> node_row" where
  "example_node i os roles mib =
     \<lparr>nr_id = i, nr_pubJwk = Null, nr_certFp = i, nr_hostname = i, nr_os = os, nr_online = True,
      nr_caps = Some \<lparr>ca_allocationVersion = None, ca_os = Linux, ca_ramMiB = 65536, ca_ramReserveMiB = 1024, ca_cpuCores = 8,
        ca_gpus = [\<lparr>gd_id = ''gpu0'', gd_name = ''gpu'', gd_backend = Cuda, gd_engineName = ''CUDA0'', gd_totalMiB = 24576\<rparr>],
        ca_diskFreeMiB = 100000, ca_privateIps = [], ca_publicIp = None, ca_dataPort = None, ca_publicEndpoints = None,
        ca_engine = Some \<lparr>en_sha256 = [(''mesh-stage-worker'', if i = ''a'' then cuda else metal)],
          en_stages = Some (qq_engine (QWEN35_NATIVE_QUALIFICATIONS ! 0))\<rparr>,
        ca_rttMs = Some 5, ca_netMeasuredAt = None, ca_bench = None\<rparr>,
      nr_offer = Some \<lparr>of_enabled = True, of_roles = roles, of_gpu = [\<lparr>go_id = ''gpu0'', go_memMiB = mib\<rparr>],
        of_ramMiB = 32768, of_cpuCores = 8, of_diskMiB = 1000, of_modelsDir = ''models''\<rparr>,
      nr_models = [\<lparr>mf_name = ''m.gguf'', mf_path = ''models/m.gguf'', mf_sizeBytes = 1000, mf_sha256 = None, mf_kind = Gguf\<rparr>,
        \<lparr>mf_name = ''stage-0-3.gguf'', mf_path = ''models/stage-0-3.gguf'', mf_sizeBytes = 1000, mf_sha256 = Some (qa_sha256 first_artifact), mf_kind = Gguf\<rparr>,
        \<lparr>mf_name = ''stage-3-24.gguf'', mf_path = ''models/stage-3-24.gguf'', mf_sizeBytes = 1000, mf_sha256 = Some (qa_sha256 last21), mf_kind = Gguf\<rparr>],
      nr_metrics = None\<rparr>"

definition example_spec :: "deployment_kind \<Rightarrow> jsv \<Rightarrow> deployment_spec" where
  "example_spec k stages =
     \<lparr>sp_keys = [''name'', ''profile'', ''kind''], sp_name = ''d'', sp_profile = ''qwen35-2b-q8'', sp_kind = k,
      sp_coordinatorNodeId = None, sp_workerNodeIds = Undefined, sp_workerLayers = Undefined, sp_replicaNodeId = None,
      sp_allocations = Undefined, sp_stages = stages, sp_prefillNodeId = Undefined, sp_decodeNodeId = Undefined,
      sp_modelSha256 = Undefined, sp_ctx = None, sp_parallel = None, sp_chain = None, sp_speculation = Undefined,
      sp_wire = None, sp_batchedGets = None, sp_forwarding = None, sp_stopExternal = None, sp_transport = None,
      sp_autoTopology = None, sp_autoModel = None, sp_external = None\<rparr>"

definition all_roles :: offer_roles where
  "all_roles = \<lparr>ro_worker = True, ro_coordinator = True, ro_replica = True\<rparr>"

definition example_stages :: jsv where
  "example_stages = Arr
     [Obj [(''nodeId'', Str ''a''), (''modelPath'', Str ''models/stage-0-3.gguf''), (''modelSha256'', Str (qa_sha256 first_artifact)),
           (''start'', num_int 0), (''end'', num_int 3)],
      Obj [(''nodeId'', Str ''b''), (''modelPath'', Str ''models/stage-3-24.gguf''), (''modelSha256'', Str (qa_sha256 last21)),
           (''start'', num_int 3), (''end'', num_int 24)]]"

definition native_profile :: model_profile where
  "native_profile = example_profile\<lparr>mp_id := ''qwen35-2b-q8'', mp_layers := 24\<rparr>"

definition example_input :: "deployment_kind \<Rightarrow> plan_input" where
  "example_input k =
     \<lparr>in_spec = example_spec k (if k = Stages then example_stages else Undefined), in_profile = native_profile,
      in_nodes = [example_node ''b'' ''darwin'' all_roles 20000, example_node ''a'' ''linux'' all_roles 20000],
      in_usedPorts = [], in_nativeQualifications = None\<rparr>"

lemma example_planned:
  "\<not> isl (planDeployment any_rx cmp_str (example_input Split))"
  "\<not> isl (planDeployment any_rx cmp_str (example_input Replica))"
  "\<not> isl (planDeployment any_rx cmp_str (example_input Stages))"
  by code_simp+

lemma example_nodes:
  "distinct (map nr_id (in_nodes (example_input k)))" "\<forall>n \<in> set (in_nodes (example_input k)). offer_whole n \<and> nr_id n \<noteq> []"
  "sp_kind (in_spec (example_input k)) = k" "profile_wf any_rx (in_profile (example_input k))"
  by (auto simp: example_input_def example_node_def offer_whole_def whole_def example_spec_def native_profile_def
      example_profile_def profile_wf_def row_wf_def any_rx_def intro: exI[of _ 20000] exI[of _ 32768])

lemma not_isl_Inr: "\<not> isl r \<Longrightarrow> r = Inr (projr r)"
  by (cases r) auto

theorem planDeployment_split_witness:
  "\<exists>pl. planDeployment any_rx cmp_str (example_input Split) = Inr pl \<and> split_placed (planCtx any_rx (example_input Split)) pl"
  using planDeployment_split[OF not_isl_Inr[OF example_planned(1)]] example_nodes[of Split] not_isl_Inr[OF example_planned(1)] by blast

theorem planDeployment_replica_witness:
  "\<exists>pl. planDeployment any_rx cmp_str (example_input Replica) = Inr pl \<and> replica_placed (planCtx any_rx (example_input Replica)) pl"
  using planDeployment_replica[OF not_isl_Inr[OF example_planned(2)]] example_nodes[of Replica] not_isl_Inr[OF example_planned(2)] by blast


theorem planDeployment_order_independent_witness:
  "planDeployment any_rx cmp_str (example_input Split\<lparr>in_nodes := rev (in_nodes (example_input Split))\<rparr>) =
   planDeployment any_rx cmp_str (example_input Split)"
  by (rule planDeployment_order_independent) (use example_nodes(1) in auto)

end
