(* ===== verification/Resources.thy ===== *)
theory Resources
  imports Placement
begin

text \<open>
  \<^verbatim>\<open>src/swarmlet/control/resources.ts\<close>: what each node has promised to running deployments, what is left,
  and planning against what is left. A JavaScript \<open>Map\<close> is its entries in insertion order. Budgets are whole
  MiB and cores (\<open>validateOffer\<close> rounds down, \<open>parseAllocations\<close> asks for safe integers), so sums and
  differences are exact.
\<close>

type_synonym ledger = "(string \<times> node_allocation) list"

definition emptyAllocation :: "string \<Rightarrow> node_allocation" where
  "emptyAllocation i = \<lparr>na_nodeId = i, na_ramMiB = 0, na_cpuCores = 0, na_gpu = []\<rparr>"

text \<open>The budget of a device in a list of budgets: the first entry of that id, or nothing.\<close>

fun gpu_mib :: "gpu_offer list \<Rightarrow> string \<Rightarrow> rat" where
  "gpu_mib [] i = 0"
| "gpu_mib (g # gs) i = (if go_id g = i then go_memMiB g else gpu_mib gs i)"

fun addGpu :: "gpu_offer list \<Rightarrow> gpu_offer \<Rightarrow> gpu_offer list" where
  "addGpu [] g = [g]"
| "addGpu (x # xs) g = (if go_id x = go_id g then x\<lparr>go_memMiB := go_memMiB x + go_memMiB g\<rparr> # xs else x # addGpu xs g)"

definition allocation_of :: "ledger \<Rightarrow> string \<Rightarrow> node_allocation" where
  "allocation_of l i = (case map_of l i of None \<Rightarrow> emptyAllocation i | Some a \<Rightarrow> a)"

definition addAllocation :: "ledger \<Rightarrow> node_allocation \<Rightarrow> ledger" where
  "addAllocation l v =
     (let current = allocation_of l (na_nodeId v) in
      AList.update (na_nodeId v)
        (current\<lparr>na_ramMiB := na_ramMiB current + na_ramMiB v, na_cpuCores := na_cpuCores current + na_cpuCores v,
                 na_gpu := foldl addGpu (na_gpu current) (na_gpu v)\<rparr>) l)"

definition addAllocations :: "ledger \<Rightarrow> node_allocation list \<Rightarrow> ledger" where
  "addAllocations l vs = foldl addAllocation l vs"

definition offeredAllocation :: "node_row \<Rightarrow> node_allocation" where
  "offeredAllocation n =
     (case nr_offer n of
        None \<Rightarrow> emptyAllocation (nr_id n)
      | Some f \<Rightarrow> \<lparr>na_nodeId = nr_id n, na_ramMiB = of_ramMiB f, na_cpuCores = of_cpuCores f, na_gpu = of_gpu f\<rparr>)"

definition planNodeIds :: "plan \<Rightarrow> string list" where
  "planNodeIds p =
     (case pl_nativeExecution p of
        Some x \<Rightarrow> uniq (map nw_nodeId (nx_endpoints x))
      | None \<Rightarrow> pl_coordinatorNodeId p # map pw_nodeId (pl_workers p))"

subsection \<open>What is reserved\<close>

definition healthWatch :: "assignment_row \<Rightarrow> bool" where
  "healthWatch r \<longleftrightarrow> ar_kind r = KReplica \<and> ar_external r"

definition liveRows :: "assignment_row list \<Rightarrow> (string \<times> assignment_row list) list" where
  "liveRows rows = foldl (\<lambda>m r. AList.update (ar_deploymentId r) (case map_of m (ar_deploymentId r) of None \<Rightarrow> [r] | Some rs \<Rightarrow> rs @ [r]) m) []
     (filter (\<lambda>r. ar_state r \<noteq> Reported AStopped \<and> \<not> healthWatch r) rows)"

definition node_by_id :: "node_row list \<Rightarrow> string \<Rightarrow> node_row option" where
  "node_by_id ns i = map_of (rev (map (\<lambda>n. (nr_id n, n)) ns)) i"

definition addOffers :: "node_row list \<Rightarrow> ledger \<Rightarrow> string list \<Rightarrow> ledger" where
  "addOffers ns l ids =
     foldl (\<lambda>l i. case node_by_id ns i of None \<Rightarrow> l | Some n \<Rightarrow> addAllocations l [offeredAllocation n]) l ids"

definition is_active :: "deployment_state \<Rightarrow> bool" where
  "is_active s \<longleftrightarrow> s \<in> {Placing, Loading, Ready, Draining}"

definition rows_of :: "(string \<times> assignment_row list) list \<Rightarrow> string \<Rightarrow> assignment_row list" where
  "rows_of live i = (case map_of live i of None \<Rightarrow> [] | Some rs \<Rightarrow> rs)"

definition reserveDeployment :: "(string \<times> assignment_row list) list \<Rightarrow> node_row list \<Rightarrow> string list \<Rightarrow> ledger \<Rightarrow> deployment \<Rightarrow> ledger" where
  "reserveDeployment live ns exclude l d =
     (let rows = rows_of live (dp_id d); active = is_active (dp_state d) in
      if dp_id d \<in> set exclude \<or> sp_kind (dp_spec d) = External then l
      else if \<not> active \<and> rows = [] then l
      else case Option.bind (dp_plan d) pl_allocations of
             Some as \<Rightarrow>
               addOffers ns (addAllocations l as)
                 (uniq (map ar_nodeId (filter (\<lambda>r. ar_nodeId r \<notin> na_nodeId ` set as) rows)))
           | None \<Rightarrow>
               addOffers ns l
                 (uniq (map ar_nodeId rows @ (case dp_plan d of Some p \<Rightarrow> if active then planNodeIds p else [] | None \<Rightarrow> []))))"

definition reservedResources :: "deployment list \<Rightarrow> assignment_row list \<Rightarrow> node_row list \<Rightarrow> string list \<Rightarrow> ledger" where
  "reservedResources ds rows ns exclude =
     (let live = liveRows rows;
          l = foldl (reserveDeployment live ns exclude) [] ds in
      foldl (\<lambda>l (i, rs). if i \<notin> dp_id ` set ds \<and> i \<notin> set exclude then addOffers ns l (uniq (map ar_nodeId rs)) else l) l live)"

subsection \<open>What is left\<close>

definition availableNode :: "ledger \<Rightarrow> node_row \<Rightarrow> node_row" where
  "availableNode l n =
     (case nr_offer n of
        None \<Rightarrow> n
      | Some f \<Rightarrow>
          (let used = allocation_of l (nr_id n);
               ram = max 0 (of_ramMiB f - na_ramMiB used); cpu = max 0 (of_cpuCores f - na_cpuCores used);
               gpu = filter (\<lambda>g. 0 < go_memMiB g) (map (\<lambda>g. g\<lparr>go_memMiB := max 0 (go_memMiB g - gpu_mib (na_gpu used) (go_id g))\<rparr>) (of_gpu f)) in
           n\<lparr>nr_offer := Some (f\<lparr>of_enabled := of_enabled f \<and> 0 < ram \<and> 1 \<le> cpu, of_ramMiB := ram, of_cpuCores := cpu, of_gpu := gpu\<rparr>),
             nr_caps := map_option (\<lambda>c. c\<lparr>ca_gpus := filter (\<lambda>d. gd_id d \<in> go_id ` set gpu) (ca_gpus c)\<rparr>) (nr_caps n)\<rparr>))"

definition availableNodes :: "node_row list \<Rightarrow> ledger \<Rightarrow> node_row list" where
  "availableNodes ns l = map (availableNode l) ns"

subsection \<open>Explicit budgets\<close>

datatype resource_error =
    BadAllocationCount
  | BadAllocation
  | BadGpuAllocation
  | NodeNotOffering string
  | AllocationTooLarge string
  | GpuTooLarge string string
  | UnknownAllocationNode string
  | AgentTooOld string
  | NotPlannable "plan_refusal list"
  | AllocationsDoNotMatch
  | BudgetBelowModel string
  | NodeMissing

definition js_safe :: "jsv \<Rightarrow> bool" where
  "js_safe v \<longleftrightarrow> isNum v \<and> is_safe_integer (the_rat v)"

definition parseGpu :: "string list \<Rightarrow> jsv \<Rightarrow> resource_error + gpu_offer" where
  "parseGpu seen g =
     (if \<not> isObj g \<or> \<not> only_keys g [''id'', ''memMiB''] \<or> \<not> isStr (getp g ''id'') \<or> the_str (getp g ''id'') = [] \<or>
        the_str (getp g ''id'') \<in> set seen \<or> \<not> js_safe (getp g ''memMiB'') \<or> the_rat (getp g ''memMiB'') < 1
        then Inl BadGpuAllocation
      else Inr \<lparr>go_id = the_str (getp g ''id''), go_memMiB = the_rat (getp g ''memMiB'')\<rparr>)"

fun parseGpus :: "string list \<Rightarrow> jsv list \<Rightarrow> resource_error + gpu_offer list" where
  "parseGpus seen [] = Inr []"
| "parseGpus seen (g # gs) =
     try_bind (parseGpu seen g) (\<lambda>x. try_bind (parseGpus (go_id x # seen) gs) (\<lambda>xs. Inr (x # xs)))"

definition parseAllocation :: "string list \<Rightarrow> jsv \<Rightarrow> resource_error + node_allocation" where
  "parseAllocation seen a =
     (if \<not> isObj a \<or> \<not> only_keys a [''nodeId'', ''ramMiB'', ''cpuCores'', ''gpu''] \<or>
        \<not> isStr (getp a ''nodeId'') \<or> the_str (getp a ''nodeId'') = [] \<or> the_str (getp a ''nodeId'') \<in> set seen \<or>
        \<not> js_safe (getp a ''ramMiB'') \<or> the_rat (getp a ''ramMiB'') < 1 \<or>
        \<not> js_safe (getp a ''cpuCores'') \<or> the_rat (getp a ''cpuCores'') < 1 \<or>
        \<not> is_arr (getp a ''gpu'') \<or> 64 < length (elems (getp a ''gpu''))
      then Inl BadAllocation
      else try_bind (parseGpus [] (elems (getp a ''gpu''))) (\<lambda>gpu.
        Inr \<lparr>na_nodeId = the_str (getp a ''nodeId''), na_ramMiB = the_rat (getp a ''ramMiB''),
             na_cpuCores = the_rat (getp a ''cpuCores''), na_gpu = gpu\<rparr>))"

fun parseAllocationList :: "string list \<Rightarrow> jsv list \<Rightarrow> resource_error + node_allocation list" where
  "parseAllocationList seen [] = Inr []"
| "parseAllocationList seen (a # as) =
     try_bind (parseAllocation seen a) (\<lambda>x. try_bind (parseAllocationList (na_nodeId x # seen) as) (\<lambda>xs. Inr (x # xs)))"

definition parseAllocations :: "jsv \<Rightarrow> resource_error + node_allocation list" where
  "parseAllocations v =
     (if \<not> is_arr v \<or> elems v = [] \<or> 1000 < length (elems v) then Inl BadAllocationCount
      else parseAllocationList [] (elems v))"

definition assertFits :: "node_allocation \<Rightarrow> node_row \<Rightarrow> resource_error + unit" where
  "assertFits a n =
     (case nr_offer n of
        None \<Rightarrow> Inl (NodeNotOffering (nr_hostname n))
      | Some f \<Rightarrow>
          if \<not> nr_online n \<or> \<not> of_enabled f then Inl (NodeNotOffering (nr_hostname n))
          else if of_ramMiB f < na_ramMiB a \<or> of_cpuCores f < na_cpuCores a then Inl (AllocationTooLarge (nr_hostname n))
          else case find (\<lambda>g. gpu_mib (of_gpu f) (go_id g) < go_memMiB g) (na_gpu a) of
                 Some g \<Rightarrow> Inl (GpuTooLarge (nr_hostname n) (go_id g))
               | None \<Rightarrow> Inr ())"

definition minimumFor :: "plan \<Rightarrow> model_profile \<Rightarrow> node_row \<Rightarrow> node_allocation" where
  "minimumFor pl p n =
     (let worker = find (\<lambda>w. pw_nodeId w = nr_id n) (pl_workers pl);
          layers = (case worker of Some w \<Rightarrow> pw_layers w | None \<Rightarrow> if pl_workers pl \<noteq> [] then last (pl_tensorSplit pl) else mp_layers p);
          device = (case worker of Some w \<Rightarrow> pw_device w | None \<Rightarrow> pl_coordinatorDevice pl);
          gpu = find (\<lambda>g. gd_engineName g = device) (caps_gpus n);
          draft = (case (worker, pl_mtpPath pl) of
                     (None, Some path) \<Rightarrow>
                       if path = [] then 0
                       else \<lceil>(case find (\<lambda>m. mf_path m = path) (nr_models n) of Some m \<Rightarrow> mf_sizeBytes m | None \<Rightarrow> 0) / 1048576\<rceil>
                   | _ \<Rightarrow> 0);
          resident = layers * mp_layerMiB p + draft;
          gpuMiB = (if gpu \<noteq> None then resident + mp_workerMarginMiB p else 0);
          ram = (if worker \<noteq> None then max 1024 gpuMiB
                 else (if is_darwin n \<or> gpu = None then resident else max resident (mp_coordinatorHostMiB p)) + mp_coordinatorHostMiB p) in
      \<lparr>na_nodeId = nr_id n, na_ramMiB = of_int ram, na_cpuCores = 1,
       na_gpu = (case gpu of Some g \<Rightarrow> [\<lparr>go_id = gd_id g, go_memMiB = of_int gpuMiB\<rparr>] | None \<Rightarrow> [])\<rparr>)"

definition minimumAllocations :: "plan \<Rightarrow> model_profile \<Rightarrow> node_row list \<Rightarrow> resource_error + node_allocation list" where
  "minimumAllocations pl p ns =
     (case pl_nativeExecution pl of
        Some x \<Rightarrow>
          try_map (\<lambda>e. case node_by_id ns (nw_nodeId e) of
                         None \<Rightarrow> Inl NodeMissing
                       | Some n \<Rightarrow> Inr \<lparr>na_nodeId = nw_nodeId e, na_ramMiB = nw_ramMiB e, na_cpuCores = nw_cpuCores e,
                                        na_gpu = na_gpu (offeredAllocation n)\<rparr>) (nx_endpoints x)
      | None \<Rightarrow>
          try_map (\<lambda>i. case node_by_id ns i of None \<Rightarrow> Inl NodeMissing | Some n \<Rightarrow> Inr (minimumFor pl p n)) (planNodeIds pl))"

definition checkBudget :: "node_allocation list \<Rightarrow> node_allocation \<Rightarrow> resource_error + unit" where
  "checkBudget explicit m =
     (case find (\<lambda>a. na_nodeId a = na_nodeId m) explicit of
        None \<Rightarrow> Inl NodeMissing
      | Some a \<Rightarrow>
          if na_ramMiB a < na_ramMiB m \<or> (\<exists>g \<in> set (na_gpu m). gpu_mib (na_gpu a) (go_id g) < go_memMiB g)
          then Inl (BudgetBelowModel (na_nodeId a)) else Inr ())"

definition admitBudget :: "node_row list \<Rightarrow> node_allocation \<Rightarrow> resource_error + unit" where
  "admitBudget ns a =
     (case node_by_id ns (na_nodeId a) of
        None \<Rightarrow> Inl (UnknownAllocationNode (na_nodeId a))
      | Some n \<Rightarrow>
          if Option.bind (nr_caps n) ca_allocationVersion \<noteq> Some 1 then Inl (AgentTooOld (nr_hostname n))
          else assertFits a n)"

definition boundNode :: "node_allocation list \<Rightarrow> node_row \<Rightarrow> node_row" where
  "boundNode explicit n =
     (case (find (\<lambda>a. na_nodeId a = nr_id n) explicit, nr_offer n) of
        (Some a, Some f) \<Rightarrow>
          n\<lparr>nr_offer := Some (f\<lparr>of_ramMiB := na_ramMiB a, of_cpuCores := na_cpuCores a, of_gpu := na_gpu a\<rparr>),
            nr_caps := map_option (\<lambda>c. c\<lparr>ca_gpus := filter (\<lambda>d. gd_id d \<in> go_id ` set (na_gpu a)) (ca_gpus c)\<rparr>) (nr_caps n)\<rparr>
      | _ \<Rightarrow> n\<lparr>nr_online := False\<rparr>)"

definition matchesPlacement :: "node_allocation list \<Rightarrow> string list \<Rightarrow> bool" where
  "matchesPlacement explicit ids \<longleftrightarrow> length (uniq ids) = length explicit \<and> (\<forall>a \<in> set explicit. na_nodeId a \<in> set ids)"

definition planNodes :: "regexp \<Rightarrow> string comparator_fn \<Rightarrow> plan_input \<Rightarrow> node_row list \<Rightarrow> resource_error + plan" where
  "planNodes rx lc inp ns =
     (case planDeployment rx lc (inp\<lparr>in_nodes := ns\<rparr>) of Inl es \<Rightarrow> Inl (NotPlannable es) | Inr pl \<Rightarrow> Inr pl)"

definition planWithResources :: "regexp \<Rightarrow> string comparator_fn \<Rightarrow> plan_input \<Rightarrow> ledger \<Rightarrow> resource_error + plan" where
  "planWithResources rx lc inp reserved =
     (let available = availableNodes (in_nodes inp) reserved in
      if sp_allocations (in_spec inp) = Undefined then
        try_bind (planNodes rx lc inp available) (\<lambda>pl.
        try_bind (try_map (\<lambda>i. case node_by_id available i of None \<Rightarrow> Inl NodeMissing | Some n \<Rightarrow> Inr (offeredAllocation n))
                    (uniq (planNodeIds pl))) (\<lambda>as.
        Inr (pl\<lparr>pl_allocations := Some as\<rparr>)))
      else
        try_bind (parseAllocations (sp_allocations (in_spec inp))) (\<lambda>explicit.
        try_bind (try_map (admitBudget available) explicit) (\<lambda>_.
        try_bind (planNodes rx lc inp (map (boundNode explicit) available)) (\<lambda>pl.
        if \<not> matchesPlacement explicit (planNodeIds pl) then Inl AllocationsDoNotMatch
        else try_bind (minimumAllocations pl (in_profile inp) (map (boundNode explicit) available)) (\<lambda>ms.
        try_bind (try_map (checkBudget explicit) ms) (\<lambda>_.
        Inr (pl\<lparr>pl_allocations := Some explicit\<rparr>)))))))"

subsection \<open>Admission keeps every node within its offer\<close>

definition fits_in :: "node_allocation \<Rightarrow> node_allocation \<Rightarrow> bool" where
  "fits_in a b \<longleftrightarrow> na_ramMiB a \<le> na_ramMiB b \<and> na_cpuCores a \<le> na_cpuCores b \<and>
     (\<forall>i. gpu_mib (na_gpu a) i \<le> gpu_mib (na_gpu b) i)"

definition within_offers :: "node_row list \<Rightarrow> ledger \<Rightarrow> bool" where
  "within_offers ns l \<longleftrightarrow> (\<forall>n \<in> set ns. fits_in (allocation_of l (nr_id n)) (offeredAllocation n))"

lemma gpu_mib_addGpu: "gpu_mib (addGpu xs g) i = gpu_mib xs i + (if go_id g = i then go_memMiB g else 0)"
  by (induction xs) auto

lemma gpu_mib_none: "i \<notin> go_id ` set gs \<Longrightarrow> gpu_mib gs i = 0"
  by (induction gs) auto

lemma gpu_mib_mem: "distinct (map go_id gs) \<Longrightarrow> g \<in> set gs \<Longrightarrow> gpu_mib gs (go_id g) = go_memMiB g"
  by (induction gs) (auto simp: image_iff)

lemma gpu_mib_fold: "distinct (map go_id gs) \<Longrightarrow> gpu_mib (foldl addGpu xs gs) i = gpu_mib xs i + gpu_mib gs i"
  by (induction gs arbitrary: xs) (auto simp: gpu_mib_addGpu gpu_mib_none)

text \<open>The sum of two budgets.\<close>

definition plus_alloc :: "node_allocation \<Rightarrow> node_allocation \<Rightarrow> node_allocation" where
  "plus_alloc a b = a\<lparr>na_ramMiB := na_ramMiB a + na_ramMiB b, na_cpuCores := na_cpuCores a + na_cpuCores b,
     na_gpu := foldl addGpu (na_gpu a) (na_gpu b)\<rparr>"

lemma allocation_of_add:
  "allocation_of (addAllocation l v) i = (if i = na_nodeId v then plus_alloc (allocation_of l i) v else allocation_of l i)"
  by (simp add: addAllocation_def allocation_of_def Let_def update_conv' plus_alloc_def)

lemma allocation_of_adds:
  "distinct (map na_nodeId vs) \<Longrightarrow>
   allocation_of (addAllocations l vs) i =
     (case find (\<lambda>v. na_nodeId v = i) vs of None \<Rightarrow> allocation_of l i | Some v \<Rightarrow> plus_alloc (allocation_of l i) v)"
proof (induction vs arbitrary: l)
  case (Cons v vs)
  then have ih: "allocation_of (addAllocations (addAllocation l v) vs) i =
      (case find (\<lambda>v. na_nodeId v = i) vs of None \<Rightarrow> allocation_of (addAllocation l v) i
       | Some w \<Rightarrow> plus_alloc (allocation_of (addAllocation l v) i) w)"
    by auto
  have "find (\<lambda>w. na_nodeId w = na_nodeId v) vs = None" unfolding find_None_all using Cons.prems by (metis distinct.simps(2) image_eqI list.set_map list.simps(9))
  then show ?case using ih by (auto simp: addAllocations_def allocation_of_add split: option.splits)
qed (simp add: addAllocations_def)

subsection \<open>What is left and what is used make up the offer\<close>

definition offer_gpus_distinct :: "node_row \<Rightarrow> bool" where
  "offer_gpus_distinct n \<longleftrightarrow> distinct (map go_id (na_gpu (offeredAllocation n)))"

lemma remaining_gpu:
  fixes u :: "string \<Rightarrow> rat"
  assumes "distinct (map go_id gs)"
  shows "gpu_mib (filter (\<lambda>g. 0 < go_memMiB g) (map (\<lambda>g. g\<lparr>go_memMiB := max 0 (go_memMiB g - u (go_id g))\<rparr>) gs)) i =
    (if i \<in> go_id ` set gs then max 0 (gpu_mib gs i - u i) else 0)"
  using assms by (induction gs) (auto simp: gpu_mib_none)

lemma plus_alloc_fits:
  assumes "fits_in used (offeredAllocation n)" and "used = allocation_of l (nr_id n)"
    and "fits_in a (offeredAllocation (availableNode l n))" and "distinct (map go_id (na_gpu a))" and "offer_gpus_distinct n"
  shows "fits_in (plus_alloc used a) (offeredAllocation n)"
proof (cases "nr_offer n")
  case None
  then have "availableNode l n = n" by (simp add: availableNode_def)
  then show ?thesis using assms None
    by (auto simp: fits_in_def plus_alloc_def gpu_mib_fold offeredAllocation_def emptyAllocation_def add_nonpos_nonpos)
next
  case (Some f)
  have g: "gpu_mib (na_gpu (offeredAllocation (availableNode l n))) i =
      (if i \<in> go_id ` set (of_gpu f) then max 0 (gpu_mib (of_gpu f) i - gpu_mib (na_gpu used) i) else 0)" for i
    using assms(2,5) Some by (simp add: availableNode_def offeredAllocation_def Let_def offer_gpus_distinct_def remaining_gpu)
  have "gpu_mib (na_gpu used) i + gpu_mib (na_gpu a) i \<le> gpu_mib (of_gpu f) i" for i
  proof -
    have "gpu_mib (na_gpu used) i \<le> gpu_mib (of_gpu f) i" "gpu_mib (na_gpu a) i \<le> gpu_mib (na_gpu (offeredAllocation (availableNode l n))) i"
      using assms(1,3) Some by (simp_all add: fits_in_def offeredAllocation_def)
    then show ?thesis using g[of i] gpu_mib_none[of i "of_gpu f"] by (auto simp: max_def split: if_splits)
  qed
  moreover have "na_ramMiB used + na_ramMiB a \<le> of_ramMiB f" "na_cpuCores used + na_cpuCores a \<le> of_cpuCores f"
    using assms(1,3) Some unfolding assms(2)
    by (auto simp: fits_in_def availableNode_def offeredAllocation_def Let_def max_def split: if_splits)
  ultimately show ?thesis using assms(4) Some by (simp add: fits_in_def plus_alloc_def gpu_mib_fold offeredAllocation_def)
qed

text \<open>A list of budgets, each for another node and within what is left there.\<close>

definition admissible :: "node_row list \<Rightarrow> ledger \<Rightarrow> node_allocation list \<Rightarrow> bool" where
  "admissible ns l as \<longleftrightarrow> distinct (map na_nodeId as) \<and>
     (\<forall>a \<in> set as. distinct (map go_id (na_gpu a)) \<and>
        (\<exists>n \<in> set ns. nr_id n = na_nodeId a \<and> fits_in a (offeredAllocation (availableNode l n))))"

lemma admissible_within:
  assumes "admissible ns l as" and w: "within_offers ns l" and d: "distinct (map nr_id ns)"
    and g: "\<forall>n \<in> set ns. offer_gpus_distinct n"
  shows "within_offers ns (addAllocations l as)"
  unfolding within_offers_def
proof
  fix n assume n: "n \<in> set ns"
  have used: "fits_in (allocation_of l (nr_id n)) (offeredAllocation n)" using w n by (simp add: within_offers_def)
  show "fits_in (allocation_of (addAllocations l as) (nr_id n)) (offeredAllocation n)"
  proof (cases "find (\<lambda>v. na_nodeId v = nr_id n) as")
    case None
    then show ?thesis using used assms(1) by (simp add: allocation_of_adds admissible_def)
  next
    case (Some a)
    then have a: "a \<in> set as" "na_nodeId a = nr_id n" using list_all_find by fastforce+
    then obtain m where "m \<in> set ns" "nr_id m = nr_id n" "fits_in a (offeredAllocation (availableNode l m))"
      and da: "distinct (map go_id (na_gpu a))"
      using assms(1) by (auto simp: admissible_def)
    then have fit: "fits_in a (offeredAllocation (availableNode l n))" using d n by (auto simp: distinct_map dest: inj_onD)
    show ?thesis using plus_alloc_fits[OF used refl fit da] Some assms(1) g n by (simp add: allocation_of_adds admissible_def)
  qed
qed

lemma nr_id_available [simp]: "nr_id (availableNode l n) = nr_id n"
  by (simp add: availableNode_def Let_def split: option.splits)

lemma node_by_id_Some: "node_by_id ns i = Some n \<Longrightarrow> n \<in> set ns \<and> nr_id n = i"
  by (auto simp: node_by_id_def dest!: map_of_SomeD)

lemma parseGpu_new: "parseGpu seen g = Inr x \<Longrightarrow> go_id x \<notin> set seen"
  by (auto simp: parseGpu_def split: if_splits)

lemma parseGpus_facts:
  "parseGpus seen gs = Inr xs \<Longrightarrow> distinct (map go_id xs) \<and> (\<forall>x \<in> set xs. go_id x \<notin> set seen)"
proof (induction gs arbitrary: seen xs)
  case (Cons g gs)
  then obtain x ys where "parseGpu seen g = Inr x" "parseGpus (go_id x # seen) gs = Inr ys" "xs = x # ys"
    by (auto simp: try_bind_Inr)
  then show ?case using Cons.IH[of "go_id x # seen" ys] parseGpu_new by fastforce
qed simp

lemma parseAllocation_facts:
  "parseAllocation seen a = Inr x \<Longrightarrow> na_nodeId x \<notin> set seen \<and> distinct (map go_id (na_gpu x))"
  using parseGpus_facts by (auto simp: parseAllocation_def try_bind_Inr split: if_splits)

lemma parseAllocationList_facts:
  "parseAllocationList seen as = Inr xs \<Longrightarrow>
   distinct (map na_nodeId xs) \<and> (\<forall>x \<in> set xs. na_nodeId x \<notin> set seen \<and> distinct (map go_id (na_gpu x)))"
proof (induction as arbitrary: seen xs)
  case (Cons a as)
  then obtain x ys where x: "parseAllocation seen a = Inr x" "parseAllocationList (na_nodeId x # seen) as = Inr ys" "xs = x # ys"
    by (auto simp: try_bind_Inr)
  then show ?case using Cons.IH[OF x(2)] parseAllocation_facts[OF x(1)] by fastforce
qed simp

lemma gpu_mib_nonneg: "\<forall>g \<in> set gs. 0 \<le> go_memMiB g \<Longrightarrow> 0 \<le> gpu_mib gs i"
  by (induction gs) auto

lemma gpu_mib_cases: "gpu_mib gs i = 0 \<or> (\<exists>g \<in> set gs. go_id g = i \<and> gpu_mib gs i = go_memMiB g)"
  by (induction gs) auto

lemma available_gpu_nonneg:
  "nr_offer (availableNode l n) = Some f \<Longrightarrow> 0 \<le> gpu_mib (of_gpu f) i"
  by (rule gpu_mib_nonneg) (auto simp: availableNode_def Let_def split: option.splits)

lemma assertFits_fits:
  assumes "assertFits a (availableNode l n) = Inr u"
  shows "fits_in a (offeredAllocation (availableNode l n))"
proof -
  obtain f where f: "nr_offer (availableNode l n) = Some f" "na_ramMiB a \<le> of_ramMiB f" "na_cpuCores a \<le> of_cpuCores f"
    "\<forall>g \<in> set (na_gpu a). go_memMiB g \<le> gpu_mib (of_gpu f) (go_id g)"
    using assms by (auto simp: assertFits_def find_None_all not_less split: option.splits if_splits)
  have "gpu_mib (na_gpu a) i \<le> gpu_mib (of_gpu f) i" for i
    using gpu_mib_cases[of "na_gpu a" i] f(4) available_gpu_nonneg[OF f(1), of i] by auto
  then show ?thesis using f by (simp add: fits_in_def offeredAllocation_def)
qed

lemma admitted_admissible:
  assumes "parseAllocations v = Inr as" and "try_map (admitBudget (availableNodes ns l)) as = Inr us"
  shows "admissible ns l as"
proof -
  have p: "distinct (map na_nodeId as)" "\<forall>a \<in> set as. distinct (map go_id (na_gpu a))"
    using assms(1) parseAllocationList_facts[of "[]"] by (auto simp: parseAllocations_def split: if_splits)
  have "\<exists>n \<in> set ns. nr_id n = na_nodeId a \<and> fits_in a (offeredAllocation (availableNode l n))" if "a \<in> set as" for a
  proof -
    have "\<exists>u. admitBudget (availableNodes ns l) a = Inr u"
      using assms(2) that by (auto simp: try_map_Inr list_all2_conv_all_nth in_set_conv_nth)
    then obtain u m where m: "node_by_id (availableNodes ns l) (na_nodeId a) = Some m" "assertFits a m = Inr u"
      by (auto simp: admitBudget_def split: option.splits if_splits)
    then obtain n where n: "n \<in> set ns" "m = availableNode l n" "nr_id n = na_nodeId a"
      using node_by_id_Some[OF m(1)] by (auto simp: availableNodes_def)
    then show ?thesis using assertFits_fits[of a l n u] m by auto
  qed
  then show ?thesis using p by (simp add: admissible_def)
qed

lemma matches_same_nodes:
  assumes "matchesPlacement as ids" and "distinct (map na_nodeId as)"
  shows "na_nodeId ` set as = set ids"
proof (rule card_subset_eq)
  show "na_nodeId ` set as \<subseteq> set ids" using assms(1) by (auto simp: matchesPlacement_def)
  have "card (na_nodeId ` set as) = length as" using assms(2) distinct_card[of "map na_nodeId as"] by simp
  also have "\<dots> = card (set ids)" using assms(1) distinct_card[OF distinct_uniq[of ids]] by (simp add: matchesPlacement_def)
  finally show "card (na_nodeId ` set as) = card (set ids)" .
qed simp

lemma available_gpus_distinct:
  "offer_gpus_distinct n \<Longrightarrow> distinct (map go_id (na_gpu (offeredAllocation (availableNode l n))))"
  by (cases "nr_offer n")
    (auto simp: offer_gpus_distinct_def availableNode_def offeredAllocation_def emptyAllocation_def Let_def comp_def filter_map
      intro: distinct_map_filter)

lemma offered_admissible:
  assumes "try_map (\<lambda>i. case node_by_id (availableNodes ns l) i of None \<Rightarrow> Inl NodeMissing | Some n \<Rightarrow> Inr (offeredAllocation n)) (uniq ids) = Inr as"
    and g: "\<forall>n \<in> set ns. offer_gpus_distinct n"
  shows "admissible ns l as \<and> na_nodeId ` set as = set ids"
proof -
  have one: "\<exists>n \<in> set ns. nr_id n = i \<and> x = offeredAllocation (availableNode l n)"
    if h: "(case node_by_id (availableNodes ns l) i of None \<Rightarrow> Inl NodeMissing | Some n \<Rightarrow> Inr (offeredAllocation n)) = Inr x" for i x
  proof -
    obtain m where m: "node_by_id (availableNodes ns l) i = Some m" "x = offeredAllocation m"
      using h by (auto split: option.splits)
    then show ?thesis using node_by_id_Some[OF m(1)] by (auto simp: availableNodes_def)
  qed
  have a: "list_all2 (\<lambda>i a. \<exists>n \<in> set ns. nr_id n = i \<and> a = offeredAllocation (availableNode l n)) (uniq ids) as"
    using assms(1) one unfolding try_map_Inr by (rule list_all2_mono)
  have id: "na_nodeId (offeredAllocation (availableNode l n)) = nr_id n" for n
    by (simp add: offeredAllocation_def emptyAllocation_def split: option.splits)
  have ids: "map na_nodeId as = uniq ids"
    using a by (auto simp: list_all2_conv_all_nth id intro!: nth_equalityI)
  have each: "distinct (map go_id (na_gpu x)) \<and> (\<exists>n \<in> set ns. nr_id n = na_nodeId x \<and> fits_in x (offeredAllocation (availableNode l n)))"
    if x: "x \<in> set as" for x
  proof -
    obtain n where n: "n \<in> set ns" "x = offeredAllocation (availableNode l n)"
      using a x by (auto simp: list_all2_conv_all_nth in_set_conv_nth)
    then show ?thesis using g available_gpus_distinct id by (auto simp: fits_in_def)
  qed
  have "distinct (map na_nodeId as)" unfolding ids by simp
  then have "admissible ns l as" using each unfolding admissible_def by blast
  moreover have "na_nodeId ` set as = set (uniq ids)" using ids by (metis list.set_map)
  ultimately show ?thesis by simp
qed

lemma planNodeIds_allocations [simp]: "planNodeIds (pl\<lparr>pl_allocations := x\<rparr>) = planNodeIds pl"
  by (simp add: planNodeIds_def split: option.splits)

lemma planWithResources_admissible:
  assumes "planWithResources rx lc inp l = Inr pl" and "\<forall>n \<in> set (in_nodes inp). offer_gpus_distinct n"
  shows "\<exists>as. pl_allocations pl = Some as \<and> admissible (in_nodes inp) l as \<and> na_nodeId ` set as = set (planNodeIds pl)"
proof (cases "sp_allocations (in_spec inp) = Undefined")
  case True
  then obtain p as where "pl = p\<lparr>pl_allocations := Some as\<rparr>"
    "try_map (\<lambda>i. case node_by_id (availableNodes (in_nodes inp) l) i of None \<Rightarrow> Inl NodeMissing | Some n \<Rightarrow> Inr (offeredAllocation n))
       (uniq (planNodeIds p)) = Inr as"
    using assms(1) by (auto simp: planWithResources_def Let_def try_bind_Inr)
  then show ?thesis using offered_admissible[OF _ assms(2)] by auto
next
  case False
  then obtain p as us where "pl = p\<lparr>pl_allocations := Some as\<rparr>" "parseAllocations (sp_allocations (in_spec inp)) = Inr as"
    "try_map (admitBudget (availableNodes (in_nodes inp) l)) as = Inr us" "matchesPlacement as (planNodeIds p)"
    using assms(1) by (auto simp: planWithResources_def Let_def try_bind_Inr split: if_splits)
  then show ?thesis using admitted_admissible[of "sp_allocations (in_spec inp)" as "in_nodes inp" l us] matches_same_nodes[of as "planNodeIds p"]
    by (auto simp: admissible_def)
qed

text \<open>Admitting requests one after the other, the ledger starting empty: a request that cannot be planned
  leaves it as it was.\<close>

definition admit :: "regexp \<Rightarrow> string comparator_fn \<Rightarrow> node_row list \<Rightarrow> ledger \<Rightarrow> plan_input \<Rightarrow> ledger" where
  "admit rx lc ns l inp =
     (case planWithResources rx lc (inp\<lparr>in_nodes := ns\<rparr>) l of
        Inl _ \<Rightarrow> l
      | Inr pl \<Rightarrow> addAllocations l (case pl_allocations pl of Some as \<Rightarrow> as | None \<Rightarrow> []))"

definition nodes_ok :: "node_row list \<Rightarrow> bool" where
  "nodes_ok ns \<longleftrightarrow> distinct (map nr_id ns) \<and> (\<forall>n \<in> set ns. offer_gpus_distinct n \<and> fits_in (emptyAllocation (nr_id n)) (offeredAllocation n))"

lemma admit_within:
  assumes "nodes_ok ns" and "within_offers ns l"
  shows "within_offers ns (admit rx lc ns l inp)"
proof (cases "planWithResources rx lc (inp\<lparr>in_nodes := ns\<rparr>) l")
  case (Inr pl)
  then obtain as where "pl_allocations pl = Some as" "admissible ns l as"
    using planWithResources_admissible[OF Inr] assms(1) by (auto simp: nodes_ok_def)
  then show ?thesis using Inr assms by (auto simp: admit_def nodes_ok_def intro: admissible_within)
qed (use assms in \<open>simp add: admit_def\<close>)

text \<open>With the node rows part of the state the contract of \<open>event_machine\<close> is met for every fleet.\<close>

interpretation admission: event_machine
  "\<lambda>(rx, lc, ns, l) inp. (rx, lc, ns, admit rx lc ns l inp)"
  "\<lambda>(rx, lc, ns, l). nodes_ok ns \<and> within_offers ns l"
  by unfold_locales (auto intro: admit_within)

lemma admission_fold:
  "foldl (\<lambda>(rx, lc, ns, l) inp. (rx, lc, ns, admit rx lc ns l inp)) (rx, lc, ns, l) inps =
   (rx, lc, ns, foldl (admit rx lc ns) l inps)"
  by (induction inps arbitrary: l) auto

text \<open>C5. However many requests are admitted, one after the other and whatever they ask for, no node is promised
  beyond its offer: RAM, CPU cores and every GPU stay within what the owner published.\<close>

theorem admissions_within_offers:
  assumes "nodes_ok ns"
  shows "within_offers ns (foldl (admit rx lc ns) [] inps)"
proof -
  have "within_offers ns []" using assms by (simp add: nodes_ok_def within_offers_def allocation_of_def)
  then show ?thesis using admission.run_inv[of "(rx, lc, ns, [])" inps] assms by (simp add: admission_fold)
qed

theorem admissions_within_offers_witness:
  "within_offers (in_nodes (example_input Split)) (foldl (admit any_rx cmp_str (in_nodes (example_input Split))) [] [example_input Split, example_input Replica])"
  by (rule admissions_within_offers)
    (auto simp: nodes_ok_def example_input_def example_node_def offer_gpus_distinct_def offeredAllocation_def fits_in_def emptyAllocation_def)

text \<open>C35. The budgets of an admitted plan are for exactly the nodes of its placement, and each fits what the
  ledger leaves of that node's offer.\<close>

theorem plan_budgets_match_placement:
  assumes "planWithResources rx lc inp l = Inr pl" and "\<forall>n \<in> set (in_nodes inp). offer_gpus_distinct n"
  shows "\<exists>as. pl_allocations pl = Some as \<and> na_nodeId ` set as = set (planNodeIds pl) \<and> admissible (in_nodes inp) l as"
  using planWithResources_admissible[OF assms] by blast

lemma example_resources_planned: "\<not> isl (planWithResources any_rx cmp_str (example_input Split) [])"
  by code_simp

theorem plan_budgets_match_placement_witness:
  "\<exists>pl as. planWithResources any_rx cmp_str (example_input Split) [] = Inr pl \<and> pl_allocations pl = Some as \<and>
     na_nodeId ` set as = set (planNodeIds pl)"
proof -
  note p = not_isl_Inr[OF example_resources_planned]
  have "\<forall>n \<in> set (in_nodes (example_input Split)). offer_gpus_distinct n"
    by (simp add: example_input_def example_node_def offer_gpus_distinct_def offeredAllocation_def)
  then show ?thesis using plan_budgets_match_placement[OF p] p by blast
qed

end
