(* ===== verification/Topology.thy ===== *)
theory Topology
  imports Resources
begin

text \<open>
  \<^verbatim>\<open>src/swarmlet/control/topology.ts\<close>: pricing every admissible topology and choosing the local-first winner.
  Estimates are binary64 (\<open>fl\<close>). \<open>localeCompare\<close> is the parameter \<open>lc\<close>. The order in which
  \<open>Array.prototype.sort\<close> leaves elements under an inconsistent comparator is left to the engine, so the sort
  itself is a parameter too (\<open>srt\<close>) of which the ECMAScript contract \<open>js_sort\<close> is assumed where needed. The
  explanation strings and the hash of the decision are left out. A spec's \<open>modelSha256\<close> is the string its type
  promises.
\<close>

type_synonym 'a sorter = "'a comparator_fn \<Rightarrow> 'a list \<Rightarrow> 'a list"

definition consistent_on :: "'a set \<Rightarrow> 'a comparator_fn \<Rightarrow> bool" where
  "consistent_on S c \<longleftrightarrow> (\<forall>x \<in> S. \<forall>y \<in> S. (0 < c y x \<longleftrightarrow> c x y < 0)) \<and>
     (\<forall>x \<in> S. \<forall>y \<in> S. \<forall>z \<in> S. c x y \<le> 0 \<longrightarrow> c y z \<le> 0 \<longrightarrow> c x z \<le> 0)"

definition js_sort :: "'a sorter \<Rightarrow> bool" where
  "js_sort srt \<longleftrightarrow> (\<forall>c xs. mset (srt c xs) = mset xs \<and>
     (consistent_on (set xs) c \<longrightarrow> sorted_wrt (\<lambda>x y. c x y \<le> 0) (srt c xs)))"

definition LAN_MIB_PER_SEC :: rat where "LAN_MIB_PER_SEC = 1"
definition RELAY_MIB_PER_SEC :: rat where "RELAY_MIB_PER_SEC = fl (1 / 10)"
definition RELAY_PENALTY :: rat where "RELAY_PENALTY = 5 / 4"
definition EPSILON_MS :: rat where "EPSILON_MS = 1"

subsection \<open>Networks\<close>

fun split_on :: "char \<Rightarrow> string \<Rightarrow> string list" where
  "split_on c [] = [[]]"
| "split_on c (x # xs) =
     (if x = c then [] # split_on c xs
      else case split_on c xs of [] \<Rightarrow> [[x]] | p # ps \<Rightarrow> (x # p) # ps)"

fun join_on :: "char \<Rightarrow> string list \<Rightarrow> string" where
  "join_on c [] = []"
| "join_on c [p] = p"
| "join_on c (p # ps) = p @ c # join_on c ps"

definition octet_text :: "string \<Rightarrow> bool" where
  "octet_text s \<longleftrightarrow> list_all digit_char s \<and> length s \<in> {1, 2, 3}"

definition isPrivateV4 :: "string \<Rightarrow> bool" where
  "isPrivateV4 ip =
     (let ps = split_on CHR ''.'' ip in
      length ps = 4 \<and> list_all octet_text ps \<and>
      (let a = dec_val (ps ! 0); b = dec_val (ps ! 1) in
       a = 10 \<or> a = 192 \<and> b = 168 \<or> a = 172 \<and> 16 \<le> b \<and> b \<le> 31))"

definition private_ips :: "node_row \<Rightarrow> string list" where
  "private_ips n = (case nr_caps n of None \<Rightarrow> [] | Some c \<Rightarrow> ca_privateIps c)"

definition subnetsOf :: "node_row \<Rightarrow> string list" where
  "subnetsOf n = sort_by cmp_str (uniq (map (\<lambda>ip. join_on CHR ''.'' (take 3 (split_on CHR ''.'' ip))) (filter isPrivateV4 (private_ips n))))"

definition sameLan :: "node_row \<Rightarrow> node_row \<Rightarrow> bool" where
  "sameLan a b \<longleftrightarrow> (\<exists>s \<in> set (subnetsOf b). s \<in> set (subnetsOf a))"

subsection \<open>Measurements\<close>

definition server_binary :: "node_row \<Rightarrow> string option" where
  "server_binary n = Option.bind (nr_caps n) (\<lambda>c. Option.bind (ca_engine c) (\<lambda>e. map_of (en_sha256 e) ''llama-server''))"

definition bench_entries :: "node_row \<Rightarrow> bench_result list" where
  "bench_entries n = (case Option.bind (nr_caps n) ca_bench of None \<Rightarrow> [] | Some bs \<Rightarrow> bs)"

text \<open>Newest first among the largest context: the order of \<open>b.ctx - a.ctx || b.measuredAt.localeCompare(a.measuredAt)\<close>.\<close>

definition byFreshness :: "string comparator_fn \<Rightarrow> bench_result comparator_fn" where
  "byFreshness lc = cmp_then (\<lambda>a b. if be_ctx b < be_ctx a then -1 else if be_ctx a < be_ctx b then 1 else 0)
     (\<lambda>a b. lc (be_measuredAt b) (be_measuredAt a))"

definition benchFor :: "string comparator_fn \<Rightarrow> node_row \<Rightarrow> string \<Rightarrow> (rat \<times> rat) option" where
  "benchFor lc n sha =
     (let engine = server_binary n;
          entries = filter (\<lambda>b. be_modelSha256 b = sha \<and> (engine = None \<or> engine = Some [] \<or> engine = Some (be_engineSha256 b)) \<and>
            0 < be_prefillTokPerSec b \<and> 0 < be_decodeTokPerSec b) (bench_entries n) in
      case sort_by (byFreshness lc) entries of
        [] \<Rightarrow> None
      | b # _ \<Rightarrow> Some (be_prefillTokPerSec b, be_decodeTokPerSec b))"

definition linkRtt :: "node_row \<Rightarrow> rat" where
  "linkRtt n =
     (case Option.bind (nr_metrics n) me_linkRttMs of
        Some r \<Rightarrow> r
      | None \<Rightarrow> (case Option.bind (nr_caps n) ca_rttMs of Some r \<Rightarrow> r | None \<Rightarrow> 50))"

definition byName :: "string comparator_fn \<Rightarrow> node_row comparator_fn" where
  "byName lc = cmp_then (\<lambda>a b. lc (nr_hostname a) (nr_hostname b)) (\<lambda>a b. lc (nr_id a) (nr_id b))"

definition orderNodes :: "string comparator_fn \<Rightarrow> node_row list \<Rightarrow> node_row list" where
  "orderNodes lc ns = sort_by (byName lc) ns"

subsection \<open>Candidates\<close>

datatype topo_kind = TReplica | TPrefillDecode | TSplit

definition kind_text :: "topo_kind \<Rightarrow> string" where
  "kind_text k = (case k of TReplica \<Rightarrow> ''replica'' | TPrefillDecode \<Rightarrow> ''prefill-decode'' | TSplit \<Rightarrow> ''split'')"

record topo_candidate =
  tc_kind :: topo_kind
  tc_nodes :: "string list"
  tc_estimatedMs :: rat
  tc_local :: bool

record topo_input =
  ti_spec :: deployment_spec
  ti_profile :: model_profile
  ti_nodes :: "node_row list"
  ti_usedPorts :: used_ports
  ti_qualifications :: "qualification list option"
  ti_reference :: "(rat \<times> rat) option"

definition scoreCandidate :: "topo_candidate \<Rightarrow> rat" where
  "scoreCandidate c = fl (tc_estimatedMs c * (if tc_local c then 1 else RELAY_PENALTY))"

definition reference :: "topo_input \<Rightarrow> rat \<times> rat" where
  "reference inp = (case ti_reference inp of Some r \<Rightarrow> r | None \<Rightarrow> (512, 64))"

fun chain_lan :: "node_row list \<Rightarrow> bool" where
  "chain_lan (a # b # ns) = (sameLan a b \<and> chain_lan (b # ns))"
| "chain_lan _ = True"

definition is_local :: "topo_kind \<Rightarrow> node_row list \<Rightarrow> bool" where
  "is_local k ns \<longleftrightarrow> k = TReplica \<or> 1 < length ns \<and> chain_lan ns"

definition list_min :: "rat list \<Rightarrow> rat" where
  "list_min xs = foldr min (tl xs) (hd xs)"

definition list_max :: "rat list \<Rightarrow> rat" where
  "list_max xs = foldr max (tl xs) (hd xs)"

definition estimateReplica :: "string comparator_fn \<Rightarrow> topo_input \<Rightarrow> node_row \<Rightarrow> string \<Rightarrow> rat option" where
  "estimateReplica lc inp n sha =
     (case (reference inp, benchFor lc n sha) of
        ((prompt, out), Some (p, d)) \<Rightarrow> Some (fl (ms prompt p + ms out d))
      | _ \<Rightarrow> None)"

definition estimatePhases :: "string comparator_fn \<Rightarrow> topo_input \<Rightarrow> node_row \<Rightarrow> node_row \<Rightarrow> string \<Rightarrow> rat option" where
  "estimatePhases lc inp a b sha =
     (case (reference inp, benchFor lc a sha, benchFor lc b sha) of
        ((prompt, out), Some (pa, da), Some (pb, db)) \<Rightarrow>
          (case choosePhasePlan lc
              \<lparr>pi_candidates = [\<lparr>pc_nodeId = nr_id a, pc_prefillTokPerSec = Some pa, pc_decodeTokPerSec = Some da\<rparr>,
                 \<lparr>pc_nodeId = nr_id b, pc_prefillTokPerSec = Some pb, pc_decodeTokPerSec = Some db\<rparr>],
               pi_promptTokens = prompt, pi_outputTokens = out,
               pi_stateBytesPerToken = of_int (mp_boundaryBytes (ti_profile inp)),
               pi_transferBytesPerSec = (\<lambda>_ _. fl ((if is_local TPrefillDecode [a, b] then LAN_MIB_PER_SEC else RELAY_MIB_PER_SEC) * 1048576)),
               pi_prefillNodeIds = Some [nr_id a], pi_decodeNodeIds = Some [nr_id b]\<rparr> of
             Inl _ \<Rightarrow> None
           | Inr pl \<Rightarrow> Some (pp_estimatedMs pl))
      | _ \<Rightarrow> None)"

definition estimateSplit :: "string comparator_fn \<Rightarrow> topo_input \<Rightarrow> node_row list \<Rightarrow> string \<Rightarrow> rat option" where
  "estimateSplit lc inp ns sha =
     (let bs = map (\<lambda>n. benchFor lc n sha) ns in
      if None \<in> set bs then None
      else case reference inp of (prompt, out) \<Rightarrow>
        (let speeds = map the bs; prefill = list_min (map fst speeds); decode = list_min (map snd speeds);
             hops = of_nat (length ns - 1); rtt = list_max (map linkRtt ns);
             crossings = of_int \<lceil>fl (prompt / 64)\<rceil> + out in
         Some (fl (fl (ms prompt prefill + ms out decode) + fl (fl (hops * crossings) * rtt)))))"

definition estimate :: "string comparator_fn \<Rightarrow> topo_input \<Rightarrow> topo_kind \<Rightarrow> node_row list \<Rightarrow> string \<Rightarrow> rat option" where
  "estimate lc inp k ns sha =
     (case k of
        TReplica \<Rightarrow> estimateReplica lc inp (ns ! 0) sha
      | TPrefillDecode \<Rightarrow> estimatePhases lc inp (ns ! 0) (ns ! 1) sha
      | TSplit \<Rightarrow> estimateSplit lc inp ns sha)"

text \<open>The spec of a candidate, built key by key: the trial plan and the answer use the same one.\<close>

definition trial_keys :: "topo_kind \<Rightarrow> string list" where
  "trial_keys k = [''name'', ''profile'', ''kind'', ''ctx'', ''parallel'', ''chain'', ''transport''] @
     (case k of TReplica \<Rightarrow> [''replicaNodeId''] | TPrefillDecode \<Rightarrow> [''prefillNodeId'', ''decodeNodeId'', ''modelSha256'']
      | TSplit \<Rightarrow> [''coordinatorNodeId'', ''workerNodeIds''])"

definition trialSpec :: "topo_input \<Rightarrow> topo_kind \<Rightarrow> string list \<Rightarrow> string \<Rightarrow> deployment_spec" where
  "trialSpec inp k ids sha =
     (let spec = ti_spec inp in
      \<lparr>sp_keys = trial_keys k, sp_name = sp_name spec, sp_profile = mp_id (ti_profile inp),
       sp_kind = (case k of TReplica \<Rightarrow> Replica | TPrefillDecode \<Rightarrow> PrefillDecode | TSplit \<Rightarrow> Split),
       sp_coordinatorNodeId = (if k = TSplit then Some (ids ! 0) else None),
       sp_workerNodeIds = (if k = TSplit then Arr (map Str (tl ids)) else Undefined),
       sp_workerLayers = Undefined,
       sp_replicaNodeId = (if k = TReplica then Some (ids ! 0) else None),
       sp_allocations = Undefined, sp_stages = Undefined,
       sp_prefillNodeId = (if k = TPrefillDecode then Str (ids ! 0) else Undefined),
       sp_decodeNodeId = (if k = TPrefillDecode then Str (ids ! 1) else Undefined),
       sp_modelSha256 = (if k = TPrefillDecode then Str sha else Undefined),
       sp_ctx = Some (default_num (sp_ctx spec) 1024), sp_parallel = Some (default_num (sp_parallel spec) 1),
       sp_chain = Some (default_num (sp_chain spec) 0), sp_speculation = Undefined, sp_wire = None, sp_batchedGets = None,
       sp_forwarding = None, sp_stopExternal = None, sp_transport = sp_transport spec, sp_autoTopology = None,
       sp_autoModel = None, sp_external = None\<rparr>)"

definition topo_qualifications :: "topo_input \<Rightarrow> qualification list" where
  "topo_qualifications inp = (case ti_qualifications inp of Some qs \<Rightarrow> qs | None \<Rightarrow> QWEN35_NATIVE_QUALIFICATIONS)"

definition trialInput :: "topo_input \<Rightarrow> topo_kind \<Rightarrow> string list \<Rightarrow> string \<Rightarrow> plan_input" where
  "trialInput inp k ids sha =
     \<lparr>in_spec = trialSpec inp k ids sha, in_profile = ti_profile inp, in_nodes = ti_nodes inp,
      in_usedPorts = ti_usedPorts inp, in_nativeQualifications = Some (topo_qualifications inp)\<rparr>"

definition considerTopology :: "regexp \<Rightarrow> string comparator_fn \<Rightarrow> topo_input \<Rightarrow> string \<Rightarrow> topo_kind \<Rightarrow> node_row list \<Rightarrow> topo_candidate list" where
  "considerTopology rx lc inp sha k picked =
     (case estimate lc inp k picked sha of
        None \<Rightarrow> []
      | Some t \<Rightarrow>
          (case planDeployment rx lc (trialInput inp k (map nr_id picked) sha) of
             Inl _ \<Rightarrow> []
           | Inr _ \<Rightarrow> [\<lparr>tc_kind = k, tc_nodes = map nr_id picked, tc_estimatedMs = t, tc_local = is_local k picked\<rparr>]))"

definition profileModelSha :: "regexp \<Rightarrow> model_profile \<Rightarrow> node_row list \<Rightarrow> string option" where
  "profileModelSha rx p ns =
     (case find (\<lambda>m. mf_kind m = Gguf \<and> rx_test rx (mp_ggufPattern p) (mf_name m) \<and> mf_sha256 m \<noteq> None \<and> mf_sha256 m \<noteq> Some [])
        (concat (map nr_models ns)) of
        Some m \<Rightarrow> mf_sha256 m
      | None \<Rightarrow> None)"

definition pairFits :: "qualification \<Rightarrow> node_row \<Rightarrow> qualified_endpoint \<Rightarrow> bool" where
  "pairFits q n e \<longleftrightarrow> (case nr_offer n of Some f \<Rightarrow> ro_replica (of_roles f) | None \<Rightarrow> False) \<and>
     stage_abi n = Some (qq_engine q) \<and> stage_binary n = Some (qe_binarySha256 e) \<and> has_artifact n (qe_artifact e) None \<noteq> None"

definition qualificationPairs :: "node_row list \<Rightarrow> qualification list \<Rightarrow> string \<Rightarrow> (node_row \<times> node_row) list" where
  "qualificationPairs ns qs sha =
     concat (map (\<lambda>q. if qq_mode q \<noteq> ModePrefillDecode \<or> qq_sourceSha256 q \<noteq> sha then []
       else concat (map (\<lambda>a. concat (map (\<lambda>b.
         if nr_id a \<noteq> nr_id b \<and> pairFits q a (qq_endpoints q ! 0) \<and> pairFits q b (qq_endpoints q ! 1) then [(a, b)] else []) ns)) ns)) qs)"

text \<open>The loop over all nodes: a node already grouped is skipped.\<close>

fun lanGroupLoop :: "string comparator_fn \<Rightarrow> node_row list \<Rightarrow> string list \<Rightarrow> node_row list \<Rightarrow> node_row list list" where
  "lanGroupLoop lc ns seen [] = []"
| "lanGroupLoop lc ns seen (n # rest) =
     (if nr_id n \<in> set seen then lanGroupLoop lc ns seen rest
      else let group = n # filter (\<lambda>m. nr_id m \<noteq> nr_id n \<and> nr_id m \<notin> set seen \<and> sameLan n m) ns
           in orderNodes lc group # lanGroupLoop lc ns (map nr_id group @ seen) rest)"

definition lanGroups :: "string comparator_fn \<Rightarrow> node_row list \<Rightarrow> node_row list list" where
  "lanGroups lc ns = lanGroupLoop lc ns [] ns"

definition topoCandidates :: "regexp \<Rightarrow> string comparator_fn \<Rightarrow> topo_input \<Rightarrow> string \<Rightarrow> node_row list \<Rightarrow> topo_candidate list" where
  "topoCandidates rx lc inp sha eligible =
     concat (map (\<lambda>n. considerTopology rx lc inp sha TReplica [n]) eligible) @
     concat (map (\<lambda>(a, b). considerTopology rx lc inp sha TPrefillDecode [a, b] @ considerTopology rx lc inp sha TPrefillDecode [b, a])
       (qualificationPairs eligible (topo_qualifications inp) sha)) @
     concat (map (\<lambda>group. if length group < 2 then []
         else concat (map (\<lambda>k. considerTopology rx lc inp sha TSplit (k # filter (\<lambda>n. nr_id n \<noteq> nr_id k) group)) group))
       (lanGroups lc eligible))"

definition topoCmp :: "string comparator_fn \<Rightarrow> topo_candidate comparator_fn" where
  "topoCmp lc a b =
     (let sa = scoreCandidate a; sb = scoreCandidate b in
      if EPSILON_MS < \<bar>fl (sa - sb)\<bar> then (if sa < sb then -1 else 1)
      else cmp_then (\<lambda>a b. lc (kind_text (tc_kind a)) (kind_text (tc_kind b)))
             (\<lambda>a b. lc (join_on CHR '','' (tc_nodes a)) (join_on CHR '','' (tc_nodes b))) a b)"

datatype topo_error = NoModelSha | NoEligibleNode | NoTopology

definition topoModelSha :: "regexp \<Rightarrow> topo_input \<Rightarrow> string option" where
  "topoModelSha rx inp =
     (case sp_modelSha256 (ti_spec inp) of
        Undefined \<Rightarrow> profileModelSha rx (ti_profile inp) (ti_nodes inp)
      | Null \<Rightarrow> profileModelSha rx (ti_profile inp) (ti_nodes inp)
      | v \<Rightarrow> Some (the_str v))"

definition chooseTopology :: "topo_candidate sorter \<Rightarrow> regexp \<Rightarrow> string comparator_fn \<Rightarrow> topo_input
    \<Rightarrow> topo_error + topo_candidate \<times> deployment_spec \<times> topo_candidate list" where
  "chooseTopology srt rx lc inp =
     (let eligible = orderNodes lc (filter (\<lambda>n. nr_online n \<and> offer_enabled n) (ti_nodes inp)) in
      case topoModelSha rx inp of
        None \<Rightarrow> Inl NoModelSha
      | Some s \<Rightarrow>
          if s = [] then Inl NoModelSha
          else if eligible = [] then Inl NoEligibleNode
          else (case srt (topoCmp lc) (topoCandidates rx lc inp s eligible) of
                  [] \<Rightarrow> Inl NoTopology
                | best # others \<Rightarrow> Inr (best, trialSpec inp (tc_kind best) (tc_nodes best) s, best # others)))"

subsection \<open>The winner is admitted and cheapest\<close>

lemma considerTopology_planned:
  "x \<in> set (considerTopology rx lc inp sha k picked) \<Longrightarrow>
   \<exists>pl. planDeployment rx lc (trialInput inp (tc_kind x) (tc_nodes x) sha) = Inr pl"
  by (auto simp: considerTopology_def split: option.splits sum.splits) metis

lemma topoCandidates_planned:
  "x \<in> set (topoCandidates rx lc inp sha ns) \<Longrightarrow>
   \<exists>pl. planDeployment rx lc (trialInput inp (tc_kind x) (tc_nodes x) sha) = Inr pl"
  using considerTopology_planned by (fastforce simp: topoCandidates_def split: if_splits)

lemma chooseTopology_Inr:
  assumes "chooseTopology srt rx lc inp = Inr (best, spec, cs)"
  obtains sha ns where "spec = trialSpec inp (tc_kind best) (tc_nodes best) sha"
    and "srt (topoCmp lc) (topoCandidates rx lc inp sha ns) = cs" and "hd cs = best" and "best \<in> set cs"
proof -
  define ns where "ns = orderNodes lc (filter (\<lambda>n. nr_online n \<and> offer_enabled n) (ti_nodes inp))"
  obtain s where s: "topoModelSha rx inp = Some s" "s \<noteq> []" "ns \<noteq> []"
    using assms by (auto simp: chooseTopology_def Let_def ns_def split: option.splits if_splits)
  obtain b others where b: "srt (topoCmp lc) (topoCandidates rx lc inp s ns) = b # others"
    using assms s unfolding ns_def by (auto simp: chooseTopology_def Let_def split: list.splits)
  have "b = best" "cs = b # others" "spec = trialSpec inp (tc_kind best) (tc_nodes best) s"
    using assms s b unfolding ns_def by (auto simp: chooseTopology_def Let_def)
  then show thesis using b by (intro that[of s ns]) auto
qed

lemma srt_set: "js_sort srt \<Longrightarrow> set (srt c xs) = set xs"
  by (metis js_sort_def set_mset_mset)

text \<open>C36. The topology that is chosen can be deployed: the ordinary planner accepts the spec it returns,
  whatever order the engine's sort leaves the candidates in.\<close>

theorem chosen_topology_plans:
  assumes "chooseTopology srt rx lc inp = Inr (best, spec, cs)" and "js_sort srt"
  shows "\<exists>pl. planDeployment rx lc
    \<lparr>in_spec = spec, in_profile = ti_profile inp, in_nodes = ti_nodes inp, in_usedPorts = ti_usedPorts inp,
     in_nativeQualifications = Some (topo_qualifications inp)\<rparr> = Inr pl"
proof (rule chooseTopology_Inr[OF assms(1)])
  fix sha ns
  assume s: "spec = trialSpec inp (tc_kind best) (tc_nodes best) sha"
    and c: "srt (topoCmp lc) (topoCandidates rx lc inp sha ns) = cs" and b: "best \<in> set cs"
  have "best \<in> set (topoCandidates rx lc inp sha ns)" using b srt_set[OF assms(2)] unfolding c[symmetric] by blast
  from topoCandidates_planned[OF this] show ?thesis by (simp add: s trialInput_def)
qed

definition well_separated :: "topo_candidate set \<Rightarrow> bool" where
  "well_separated S \<longleftrightarrow> (\<forall>a \<in> S. \<forall>b \<in> S. a = b \<or> EPSILON_MS < \<bar>fl (scoreCandidate a - scoreCandidate b)\<bar>)"

lemma topoCmp_separated:
  assumes "well_separated S" and "sign_comparator lc" and "a \<in> S" and "b \<in> S"
  shows "topoCmp lc a b = (if a = b then 0 else if scoreCandidate a < scoreCandidate b then -1 else 1)"
    and "a \<noteq> b \<Longrightarrow> scoreCandidate a \<noteq> scoreCandidate b"
proof -
  have sep: "a = b \<or> 1 < \<bar>fl (scoreCandidate a - scoreCandidate b)\<bar>"
    using assms(1,3,4) unfolding well_separated_def EPSILON_MS_def by blast
  have refl: "lc x x = 0" for x using sign_comparator.flip[OF assms(2), of x x] by linarith
  show "a \<noteq> b \<Longrightarrow> scoreCandidate a \<noteq> scoreCandidate b"
    using sep by auto
  show "topoCmp lc a b = (if a = b then 0 else if scoreCandidate a < scoreCandidate b then -1 else 1)"
    using sep refl by (auto simp: topoCmp_def Let_def cmp_then_def EPSILON_MS_def)
qed

lemma topoCmp_consistent:
  assumes "well_separated S" and "sign_comparator lc"
  shows "consistent_on S (topoCmp lc)"
proof -
  note c = topoCmp_separated[OF assms]
  show ?thesis unfolding consistent_on_def
  proof (intro conjI ballI impI)
    fix x y assume xy: "x \<in> S" "y \<in> S"
    then show "0 < topoCmp lc y x \<longleftrightarrow> topoCmp lc x y < 0" using c(2)[OF xy] by (auto simp: c(1))
  next
    fix x y z assume "x \<in> S" "y \<in> S" "z \<in> S" and "topoCmp lc x y \<le> 0" "topoCmp lc y z \<le> 0"
    then show "topoCmp lc x z \<le> 0" by (auto simp: c(1) split: if_splits)
  qed
qed

text \<open>C37. When no two candidates score within a millisecond of each other, the chosen one has the least score,
  relayed plans carrying their penalty.\<close>

theorem chosen_topology_least:
  assumes "chooseTopology srt rx lc inp = Inr (best, spec, cs)" and "js_sort srt" and "sign_comparator lc"
    and "well_separated (set cs)" and "c \<in> set cs"
  shows "scoreCandidate best \<le> scoreCandidate c"
proof (rule chooseTopology_Inr[OF assms(1)])
  fix sha ns
  assume cs: "srt (topoCmp lc) (topoCandidates rx lc inp sha ns) = cs" and h: "hd cs = best" and b: "best \<in> set cs"
  have "set (topoCandidates rx lc inp sha ns) = set cs" using srt_set[OF assms(2)] unfolding cs[symmetric] by blast
  then have "sorted_wrt (\<lambda>x y. topoCmp lc x y \<le> 0) cs"
    using assms(2) topoCmp_consistent[OF assms(4,3)] unfolding cs[symmetric] js_sort_def by simp
  then have "c = best \<or> topoCmp lc best c \<le> 0" using h b assms(5) by (cases cs) auto
  then show ?thesis using topoCmp_separated(1)[OF assms(4,3) b assms(5)] by (auto split: if_splits)
qed

definition cyclic_candidate :: "topo_kind \<Rightarrow> rat \<Rightarrow> topo_candidate" where
  "cyclic_candidate k t = \<lparr>tc_kind = k, tc_nodes = [''a''], tc_estimatedMs = t, tc_local = True\<rparr>"


subsection \<open>LAN groups\<close>

lemma lanGroupLoop_facts:
  assumes "distinct (map nr_id ns)" and "set rest \<subseteq> set ns" and "distinct (map nr_id rest)"
    and "\<And>m. m \<in> set ns \<Longrightarrow> nr_id m \<notin> set seen \<Longrightarrow> m \<in> set rest"
  shows "set (concat (lanGroupLoop lc ns seen rest)) = {m \<in> set rest. nr_id m \<notin> set seen} \<and>
    distinct (map nr_id (concat (lanGroupLoop lc ns seen rest)))"
  using assms
proof (induction rest arbitrary: seen)
  case (Cons n rest)
  have inj: "m = m'" if "m \<in> set ns" "m' \<in> set ns" "nr_id m = nr_id m'" for m m'
    using that Cons.prems(1) by (auto simp: distinct_map dest: inj_onD)
  show ?case
  proof (cases "nr_id n \<in> set seen")
    case True
    have "m \<in> set rest" if "m \<in> set ns" "nr_id m \<notin> set seen" for m using Cons.prems(4)[OF that] that True by auto
    then show ?thesis using Cons.IH[of seen] Cons.prems True by auto
  next
    case False
    define group where "group = n # filter (\<lambda>m. nr_id m \<noteq> nr_id n \<and> nr_id m \<notin> set seen \<and> sameLan n m) ns"
    have loop: "lanGroupLoop lc ns seen (n # rest) = orderNodes lc group # lanGroupLoop lc ns (map nr_id group @ seen) rest"
      using False by (simp add: group_def Let_def)
    have sub: "set group \<subseteq> {m \<in> set (n # rest). nr_id m \<notin> set seen}" using Cons.prems(4) False by (auto simp: group_def)
    have dg: "distinct (map nr_id group)" using Cons.prems(1) by (auto simp: group_def distinct_map inj_on_def)
    have "m \<in> set rest" if "m \<in> set ns" "nr_id m \<notin> set (map nr_id group @ seen)" for m
      using Cons.prems(4)[OF that(1)] that(2) by (auto simp: group_def)
    then have ih: "set (concat (lanGroupLoop lc ns (map nr_id group @ seen) rest)) = {m \<in> set rest. nr_id m \<notin> set (map nr_id group @ seen)}"
      "distinct (map nr_id (concat (lanGroupLoop lc ns (map nr_id group @ seen) rest)))"
      using Cons.IH[of "map nr_id group @ seen"] Cons.prems by auto
    have ordered: "set (orderNodes lc group) = set group" "distinct (map nr_id (orderNodes lc group))"
      using dg by (simp_all add: orderNodes_def distinct_map)
    have "set (concat (lanGroupLoop lc ns seen (n # rest))) = {m \<in> set (n # rest). nr_id m \<notin> set seen}"
    proof (rule set_eqI)
      fix m
      have "m \<in> set group \<or> nr_id m \<notin> nr_id ` set group" if "m \<in> set (n # rest)"
        using inj that Cons.prems(2) sub by (smt (verit) image_iff mem_Collect_eq subset_iff)
      then show "m \<in> set (concat (lanGroupLoop lc ns seen (n # rest))) \<longleftrightarrow> m \<in> {m \<in> set (n # rest). nr_id m \<notin> set seen}"
        using ih(1) ordered(1) sub unfolding loop by (auto simp: group_def)
    qed
    moreover have "distinct (map nr_id (concat (lanGroupLoop lc ns seen (n # rest))))"
    proof -
      have "nr_id ` set (orderNodes lc group) \<inter> nr_id ` set (concat (lanGroupLoop lc ns (map nr_id group @ seen) rest)) = {}"
        unfolding ordered(1) ih(1) by (auto; metis image_eqI)
      then show ?thesis using ih(2) ordered(2) unfolding loop by simp
    qed
    ultimately show ?thesis by blast
  qed
qed simp

text \<open>C38. The LAN groups partition the nodes: every node is in exactly one group, once.\<close>

theorem lan_groups_partition:
  assumes "distinct (map nr_id ns)"
  shows "mset (concat (lanGroups lc ns)) = mset ns"
proof -
  have "set (concat (lanGroups lc ns)) = set ns" "distinct (map nr_id (concat (lanGroups lc ns)))"
    using lanGroupLoop_facts[OF assms subset_refl assms, of "[]" lc] by (simp_all add: lanGroups_def)
  then show ?thesis using assms by (metis distinct_map set_eq_iff_mset_eq_distinct)
qed

theorem lan_groups_partition_witness:
  "mset (concat (lanGroups cmp_str (in_nodes (example_input Split)))) = mset (in_nodes (example_input Split))"
  by (rule lan_groups_partition) (rule example_nodes(1))

subsection \<open>A sort that meets the contract, and an example\<close>

lemma insert_by_sorted_on:
  assumes "consistent_on S c" and "insert x (set ys) \<subseteq> S" and "sorted_wrt (\<lambda>x y. c x y \<le> 0) ys"
  shows "sorted_wrt (\<lambda>x y. c x y \<le> 0) (insert_by c x ys)"
  using assms(2,3)
proof (induction ys)
  case (Cons y ys)
  have "x \<in> S" "y \<in> S" using Cons.prems(1) by auto
  then have "0 < c x y \<longleftrightarrow> c y x < 0" using assms(1) unfolding consistent_on_def by blast
  then have flip: "c x y \<le> 0 \<or> c y x \<le> 0" by linarith
  have trans: "c a b \<le> 0 \<Longrightarrow> c b d \<le> 0 \<Longrightarrow> c a d \<le> 0" if "a \<in> S" "b \<in> S" "d \<in> S" for a b d
    using assms(1) that unfolding consistent_on_def by blast
  show ?case
  proof (cases "c x y \<le> 0")
    case True
    have "c x z \<le> 0" if "z \<in> set ys" for z using trans[of x y z] True that Cons.prems by auto
    then show ?thesis using True Cons.prems by simp
  next
    case False
    have "sorted_wrt (\<lambda>x y. c x y \<le> 0) (insert_by c x ys)" using Cons.IH Cons.prems by simp
    then show ?thesis using flip False Cons.prems by auto
  qed
qed simp

lemma js_sort_sort_by: "js_sort sort_by"
proof -
  have "sorted_wrt (\<lambda>x y. c x y \<le> 0) (sort_by c xs)" if "consistent_on S c" "set xs \<subseteq> S" for S and c :: "'a comparator_fn" and xs
    using that(2) by (induction xs) (auto intro!: insert_by_sorted_on[OF that(1)])
  then show ?thesis unfolding js_sort_def by (auto simp: mset_sort_by)
qed

definition bench_node :: "string \<Rightarrow> rat \<Rightarrow> node_row" where
  "bench_node i speed =
     \<lparr>nr_id = i, nr_pubJwk = Null, nr_certFp = i, nr_hostname = i, nr_os = ''l'', nr_online = True,
      nr_caps = Some \<lparr>ca_allocationVersion = None, ca_os = Linux, ca_ramMiB = 65536, ca_ramReserveMiB = 1024, ca_cpuCores = 8,
        ca_gpus = [], ca_diskFreeMiB = 100000, ca_privateIps = [], ca_publicIp = None, ca_dataPort = None, ca_publicEndpoints = None, ca_engine = None, ca_rttMs = None, ca_netMeasuredAt = None,
        ca_bench = Some [\<lparr>be_modelSha256 = ''s'', be_engineSha256 = ''e'', be_ctx = 1024, be_prefillTokPerSec = speed,
          be_decodeTokPerSec = speed, be_measuredAt = ''t''\<rparr>]\<rparr>,
      nr_offer = Some \<lparr>of_enabled = True, of_roles = \<lparr>ro_worker = False, ro_coordinator = False, ro_replica = True\<rparr>, of_gpu = [],
        of_ramMiB = 32768, of_cpuCores = 8, of_diskMiB = 1000, of_modelsDir = ''m''\<rparr>,
      nr_models = [\<lparr>mf_name = ''m'', mf_path = ''m'', mf_sizeBytes = 1, mf_sha256 = Some ''s'', mf_kind = Gguf\<rparr>],
      nr_metrics = None\<rparr>"

definition example_topo :: topo_input where
  "example_topo = \<lparr>ti_spec = example_spec Replica Undefined, ti_profile = example_profile,
     ti_nodes = [bench_node ''a'' 64, bench_node ''b'' 128], ti_usedPorts = [], ti_qualifications = Some [], ti_reference = None\<rparr>"

definition example_candidates :: "topo_candidate list" where
  "example_candidates =
     [\<lparr>tc_kind = TReplica, tc_nodes = [''b''], tc_estimatedMs = 4500, tc_local = True\<rparr>,
      \<lparr>tc_kind = TReplica, tc_nodes = [''a''], tc_estimatedMs = 9000, tc_local = True\<rparr>]"

lemma example_topo_chosen:
  "chooseTopology sort_by any_rx cmp_str example_topo =
   Inr (hd example_candidates, trialSpec example_topo TReplica [''b''] ''s'', example_candidates)"
  by code_simp

lemma example_scores: "map scoreCandidate example_candidates = [4500, 9000]"
  by code_simp

lemma example_separated: "well_separated (set example_candidates)"
proof -
  have "fl 4500 = 4500" "fl (- 4500) = - 4500" by (simp_all add: fl_safe_int is_safe_integer_def is_integer_def max_safe_def)
  then show ?thesis using example_scores by (simp add: well_separated_def example_candidates_def EPSILON_MS_def)
qed

theorem chosen_topology_plans_witness:
  "\<exists>pl. planDeployment any_rx cmp_str
    \<lparr>in_spec = trialSpec example_topo TReplica [''b''] ''s'', in_profile = ti_profile example_topo, in_nodes = ti_nodes example_topo,
     in_usedPorts = ti_usedPorts example_topo, in_nativeQualifications = Some (topo_qualifications example_topo)\<rparr> = Inr pl"
  by (rule chosen_topology_plans[OF example_topo_chosen js_sort_sort_by])

theorem chosen_topology_least_witness:
  "scoreCandidate (hd example_candidates) \<le> scoreCandidate (example_candidates ! 1)"
  by (rule chosen_topology_least[OF example_topo_chosen js_sort_sort_by _ example_separated])
    (use cmp_str_sign[of "\<lambda>x. x"] in \<open>auto simp: example_candidates_def\<close>)

end
