(* ===== verification/Registry.thy ===== *)
theory Registry
  imports Types
begin

text \<open>
  \<^verbatim>\<open>src/swarmlet/control/registry.ts\<close>: the control plane's tables and the statements that change them. A table is
  the list of its rows; an \<open>UPDATE ... WHERE id\<close> maps over it. \<open>Date.now()\<close> is the argument \<open>t\<close>. Rows that compare
  equal under \<open>ORDER BY\<close> keep their insertion order. The event log and the columns nothing modelled reads
  (architecture, agent version, first and last contact) are left out.
\<close>

record intent =
  it_running :: bool
  it_attempts :: int
  it_retryAt :: int

record join_code =
  jc_expiresAt :: int
  jc_usedBy :: "string option"

record registry =
  rg_nodes :: "node_row list"
  rg_deployments :: "deployment list"
  rg_intents :: "(string \<times> intent) list"
  rg_assignments :: "assignment_row list"
  rg_joinCodes :: "(string \<times> join_code) list"
  rg_apiKeys :: "(string \<times> string) list"

subsection \<open>Join codes\<close>

definition upper_char :: "char \<Rightarrow> char" where
  "upper_char c = (let n = of_char c :: nat in if 97 \<le> n \<and> n \<le> 122 then char_of (n - 32) else c)"

definition createJoinCode :: "string \<Rightarrow> int \<Rightarrow> int \<Rightarrow> registry \<Rightarrow> registry" where
  "createJoinCode code ttlMs t r = r\<lparr>rg_joinCodes := rg_joinCodes r @ [(code, \<lparr>jc_expiresAt = t + ttlMs, jc_usedBy = None\<rparr>)]\<rparr>"

datatype join_refusal = UnknownCode | CodeUsed | CodeExpired

definition consumeJoinCode :: "string \<Rightarrow> string \<Rightarrow> int \<Rightarrow> registry \<Rightarrow> join_refusal option \<times> registry" where
  "consumeJoinCode code nodeId t r =
     (let c = map upper_char code in
      case map_of (rg_joinCodes r) c of
        None \<Rightarrow> (Some UnknownCode, r)
      | Some row \<Rightarrow>
          if jc_usedBy row \<noteq> None \<and> jc_usedBy row \<noteq> Some [] \<and> jc_usedBy row \<noteq> Some nodeId then (Some CodeUsed, r)
          else if jc_expiresAt row < t then (Some CodeExpired, r)
          else (None, r\<lparr>rg_joinCodes := map (\<lambda>(k, v). if k = c then (k, v\<lparr>jc_usedBy := Some nodeId\<rparr>) else (k, v)) (rg_joinCodes r)\<rparr>))"

subsection \<open>Nodes\<close>

definition update_node :: "string \<Rightarrow> (node_row \<Rightarrow> node_row) \<Rightarrow> registry \<Rightarrow> registry" where
  "update_node i f r = r\<lparr>rg_nodes := map (\<lambda>n. if nr_id n = i then f n else n) (rg_nodes r)\<rparr>"

definition getNode :: "registry \<Rightarrow> string \<Rightarrow> node_row option" where
  "getNode r i = find (\<lambda>n. nr_id n = i) (rg_nodes r)"

definition listNodes :: "registry \<Rightarrow> node_row list" where
  "listNodes r = sort_by (\<lambda>a b. cmp_str (nr_hostname a) (nr_hostname b)) (rg_nodes r)"

definition upsertNode :: "string \<Rightarrow> jsv \<Rightarrow> string \<Rightarrow> string \<Rightarrow> string \<Rightarrow> capabilities option \<Rightarrow> registry \<Rightarrow> registry" where
  "upsertNode i pubJwk certFp host os caps r =
     (if getNode r i = None
      then r\<lparr>rg_nodes := rg_nodes r @ [\<lparr>nr_id = i, nr_pubJwk = pubJwk, nr_certFp = certFp, nr_hostname = host, nr_os = os, nr_online = False,
             nr_caps = caps, nr_offer = None, nr_models = [], nr_metrics = None\<rparr>]\<rparr>
      else update_node i (\<lambda>n. n\<lparr>nr_pubJwk := pubJwk, nr_certFp := certFp, nr_hostname := host, nr_os := os,
             nr_caps := (if caps = None then nr_caps n else caps)\<rparr>) r)"

definition setOnline :: "string \<Rightarrow> bool \<Rightarrow> registry \<Rightarrow> registry" where
  "setOnline i b = update_node i (\<lambda>n. n\<lparr>nr_online := b\<rparr>)"

definition setCaps :: "string \<Rightarrow> capabilities \<Rightarrow> registry \<Rightarrow> registry" where
  "setCaps i c = update_node i (\<lambda>n. n\<lparr>nr_caps := Some c\<rparr>)"

definition setOffer :: "string \<Rightarrow> offer \<Rightarrow> registry \<Rightarrow> registry" where
  "setOffer i f = update_node i (\<lambda>n. n\<lparr>nr_offer := Some f\<rparr>)"

definition setModels :: "string \<Rightarrow> model_file list \<Rightarrow> registry \<Rightarrow> registry" where
  "setModels i ms = update_node i (\<lambda>n. n\<lparr>nr_models := ms\<rparr>)"

text \<open>A partial capability patch is the function that applies it.\<close>

definition setMetrics :: "string \<Rightarrow> node_metrics \<Rightarrow> (capabilities \<Rightarrow> capabilities) option \<Rightarrow> registry \<Rightarrow> registry" where
  "setMetrics i m patch r =
     update_node i (\<lambda>n. n\<lparr>nr_metrics := Some m, nr_online := True\<rparr>)
       (case patch of
          None \<Rightarrow> r
        | Some f \<Rightarrow> update_node i (\<lambda>n. n\<lparr>nr_caps := map_option f (nr_caps n)\<rparr>) r)"

subsection \<open>Deployments\<close>

definition getDeployment :: "registry \<Rightarrow> string \<Rightarrow> deployment option" where
  "getDeployment r i = find (\<lambda>d. dp_id d = i) (rg_deployments r)"

definition listDeployments :: "registry \<Rightarrow> deployment list" where
  "listDeployments r = sort_by (\<lambda>a b. dp_createdAt b - dp_createdAt a) (rg_deployments r)"

text \<open>A spec is stored as JSON, which drops the keys that hold \<open>undefined\<close>.\<close>

definition key_defined :: "deployment_spec \<Rightarrow> string \<Rightarrow> bool" where
  "key_defined s k \<longleftrightarrow>
     (k = ''coordinatorNodeId'' \<longrightarrow> sp_coordinatorNodeId s \<noteq> None) \<and> (k = ''workerNodeIds'' \<longrightarrow> sp_workerNodeIds s \<noteq> Undefined) \<and>
     (k = ''workerLayers'' \<longrightarrow> sp_workerLayers s \<noteq> Undefined) \<and> (k = ''replicaNodeId'' \<longrightarrow> sp_replicaNodeId s \<noteq> None) \<and>
     (k = ''allocations'' \<longrightarrow> sp_allocations s \<noteq> Undefined) \<and> (k = ''stages'' \<longrightarrow> sp_stages s \<noteq> Undefined) \<and>
     (k = ''prefillNodeId'' \<longrightarrow> sp_prefillNodeId s \<noteq> Undefined) \<and> (k = ''decodeNodeId'' \<longrightarrow> sp_decodeNodeId s \<noteq> Undefined) \<and>
     (k = ''modelSha256'' \<longrightarrow> sp_modelSha256 s \<noteq> Undefined) \<and> (k = ''ctx'' \<longrightarrow> sp_ctx s \<noteq> None) \<and>
     (k = ''parallel'' \<longrightarrow> sp_parallel s \<noteq> None) \<and> (k = ''chain'' \<longrightarrow> sp_chain s \<noteq> None) \<and>
     (k = ''speculation'' \<longrightarrow> sp_speculation s \<noteq> Undefined) \<and> (k = ''wire'' \<longrightarrow> sp_wire s \<noteq> None) \<and>
     (k = ''batchedGets'' \<longrightarrow> sp_batchedGets s \<noteq> None) \<and> (k = ''forwarding'' \<longrightarrow> sp_forwarding s \<noteq> None) \<and>
     (k = ''stopExternal'' \<longrightarrow> sp_stopExternal s \<noteq> None) \<and> (k = ''transport'' \<longrightarrow> sp_transport s \<noteq> None) \<and>
     (k = ''autoTopology'' \<longrightarrow> sp_autoTopology s \<noteq> None) \<and> (k = ''autoModel'' \<longrightarrow> sp_autoModel s \<noteq> None) \<and>
     (k = ''external'' \<longrightarrow> sp_external s \<noteq> None)"

definition stored_spec :: "deployment_spec \<Rightarrow> deployment_spec" where
  "stored_spec s = s\<lparr>sp_keys := filter (key_defined s) (sp_keys s)\<rparr>"

definition createDeployment :: "string \<Rightarrow> deployment_spec \<Rightarrow> int \<Rightarrow> registry \<Rightarrow> registry" where
  "createDeployment i spec t r =
     r\<lparr>rg_deployments := rg_deployments r @ [\<lparr>dp_id = i, dp_spec = stored_spec spec, dp_state = Planned, dp_plan = None, dp_endpoint = None,
         dp_error = None, dp_savedDistribution = Undefined, dp_createdAt = t, dp_updatedAt = t\<rparr>],
       rg_intents := AList.update i \<lparr>it_running = False, it_attempts = 0, it_retryAt = 0\<rparr> (rg_intents r)\<rparr>"

text \<open>A patch: a field that is \<open>None\<close> is left alone.\<close>

record dep_patch =
  dpp_state :: "deployment_state option"
  dpp_plan :: "plan option option"
  dpp_endpoint :: "route_endpoint option option"
  dpp_error :: "string option option"
  dpp_spec :: "deployment_spec option"

definition no_patch :: dep_patch where
  "no_patch = \<lparr>dpp_state = None, dpp_plan = None, dpp_endpoint = None, dpp_error = None, dpp_spec = None\<rparr>"

definition patched :: "'a option \<Rightarrow> 'a \<Rightarrow> 'a" where
  "patched x y = (case x of None \<Rightarrow> y | Some v \<Rightarrow> v)"

definition update_dep :: "string \<Rightarrow> (deployment \<Rightarrow> deployment) \<Rightarrow> registry \<Rightarrow> registry" where
  "update_dep i f r = r\<lparr>rg_deployments := map (\<lambda>d. if dp_id d = i then f d else d) (rg_deployments r)\<rparr>"

definition updateDeployment :: "string \<Rightarrow> dep_patch \<Rightarrow> int \<Rightarrow> registry \<Rightarrow> registry" where
  "updateDeployment i p t =
     update_dep i (\<lambda>d. d\<lparr>dp_state := patched (dpp_state p) (dp_state d), dp_plan := patched (dpp_plan p) (dp_plan d),
       dp_endpoint := patched (dpp_endpoint p) (dp_endpoint d), dp_error := patched (dpp_error p) (dp_error d),
       dp_spec := patched (map_option stored_spec (dpp_spec p)) (dp_spec d), dp_updatedAt := t\<rparr>)"

definition saveDistribution :: "string \<Rightarrow> jsv \<Rightarrow> int \<Rightarrow> registry \<Rightarrow> registry" where
  "saveDistribution i v t = update_dep i (\<lambda>d. d\<lparr>dp_savedDistribution := v, dp_updatedAt := t\<rparr>)"

definition applyDistributionSpec :: "string \<Rightarrow> deployment_spec \<Rightarrow> int \<Rightarrow> registry \<Rightarrow> registry" where
  "applyDistributionSpec i spec t =
     update_dep i (\<lambda>d. d\<lparr>dp_spec := stored_spec spec, dp_state := Planned, dp_plan := None, dp_endpoint := None, dp_error := None, dp_updatedAt := t\<rparr>)"

definition applyFleetSpecs :: "(string \<times> deployment_spec) list \<Rightarrow> int \<Rightarrow> registry \<Rightarrow> registry" where
  "applyFleetSpecs es t r = foldl (\<lambda>r (i, spec). applyDistributionSpec i spec t r) r es"

definition deleteDeployment :: "string \<Rightarrow> registry \<Rightarrow> registry" where
  "deleteDeployment i r =
     r\<lparr>rg_intents := filter (\<lambda>(k, _). k \<noteq> i) (rg_intents r),
       rg_assignments := filter (\<lambda>a. ar_deploymentId a \<noteq> i) (rg_assignments r),
       rg_deployments := filter (\<lambda>d. dp_id d \<noteq> i) (rg_deployments r)\<rparr>"

definition deploymentIntent :: "registry \<Rightarrow> string \<Rightarrow> intent" where
  "deploymentIntent r i =
     (case map_of (rg_intents r) i of Some x \<Rightarrow> x | None \<Rightarrow> \<lparr>it_running = False, it_attempts = 0, it_retryAt = 0\<rparr>)"

definition setDeploymentIntent :: "string \<Rightarrow> bool option \<Rightarrow> int option \<Rightarrow> int option \<Rightarrow> registry \<Rightarrow> registry" where
  "setDeploymentIntent i running attempts retryAt r =
     (let cur = deploymentIntent r i in
      r\<lparr>rg_intents := AList.update i \<lparr>it_running = patched running (it_running cur), it_attempts = patched attempts (it_attempts cur),
          it_retryAt = patched retryAt (it_retryAt cur)\<rparr> (rg_intents r)\<rparr>)"

subsection \<open>Assignments\<close>

definition getAssignment :: "registry \<Rightarrow> string \<Rightarrow> assignment_row option" where
  "getAssignment r i = find (\<lambda>a. ar_id a = i) (rg_assignments r)"

definition update_row :: "string \<Rightarrow> (assignment_row \<Rightarrow> assignment_row) \<Rightarrow> registry \<Rightarrow> registry" where
  "update_row i f r = r\<lparr>rg_assignments := map (\<lambda>a. if ar_id a = i then f a else a) (rg_assignments r)\<rparr>"

definition putAssignment :: "assignment_row \<Rightarrow> registry \<Rightarrow> registry" where
  "putAssignment a r =
     (if getAssignment r (ar_id a) = None then r\<lparr>rg_assignments := rg_assignments r @ [a\<lparr>ar_retired := False\<rparr>]\<rparr>
      else update_row (ar_id a) (\<lambda>b. a\<lparr>ar_deploymentId := ar_deploymentId b, ar_detail := ar_detail b, ar_retired := False\<rparr>) r)"

definition setAssignmentState :: "string \<Rightarrow> assignment_state \<Rightarrow> string option \<Rightarrow> int \<Rightarrow> registry \<Rightarrow> registry" where
  "setAssignmentState i st detail t =
     update_row i (\<lambda>a. a\<lparr>ar_state := Reported st, ar_detail := (if detail = None then ar_detail a else detail), ar_updatedAt := t\<rparr>)"

definition retireAssignment :: "string \<Rightarrow> registry \<Rightarrow> registry" where
  "retireAssignment i = update_row i (\<lambda>a. a\<lparr>ar_retired := True\<rparr>)"

definition listAssignments :: "registry \<Rightarrow> assignment_row list" where
  "listAssignments r = sort_by (\<lambda>a b. ar_updatedAt a - ar_updatedAt b) (rg_assignments r)"

definition assignmentsOf :: "registry \<Rightarrow> string \<Rightarrow> assignment_row list" where
  "assignmentsOf r i = filter (\<lambda>a. ar_deploymentId a = i) (listAssignments r)"

subsection \<open>API keys\<close>

definition hasApiKey :: "registry \<Rightarrow> string \<Rightarrow> bool" where
  "hasApiKey r k \<longleftrightarrow> k \<in> fst ` set (rg_apiKeys r)"

definition createApiKey :: "string \<Rightarrow> string \<Rightarrow> registry \<Rightarrow> registry" where
  "createApiKey key name r = r\<lparr>rg_apiKeys := rg_apiKeys r @ [(key, name)]\<rparr>"

text \<open>\<open>fresh\<close> is the random key that is created when the node has none yet.\<close>

definition nodeApiKey :: "string \<Rightarrow> string \<Rightarrow> registry \<Rightarrow> (string \<times> registry) option" where
  "nodeApiKey nodeId fresh r =
     (if getNode r nodeId = None then None
      else case find (\<lambda>(k, name). name = ''node:'' @ nodeId) (rg_apiKeys r) of
             Some (k, _) \<Rightarrow> Some (k, r)
           | None \<Rightarrow> Some (fresh, createApiKey fresh (''node:'' @ nodeId) r))"

subsection \<open>Opening the database\<close>

text \<open>A deployment without an intent gets one from its state, and no node is online.\<close>

definition openRegistry :: "registry \<Rightarrow> registry" where
  "openRegistry r =
     r\<lparr>rg_intents := rg_intents r @ map (\<lambda>d. (dp_id d, \<lparr>it_running = (dp_state d \<in> {Placing, Loading, Ready}), it_attempts = 0, it_retryAt = 0\<rparr>))
         (filter (\<lambda>d. dp_id d \<notin> fst ` set (rg_intents r)) (rg_deployments r)),
       rg_nodes := map (\<lambda>n. n\<lparr>nr_online := False\<rparr>) (rg_nodes r)\<rparr>"

end
