(* ===== verification/Manager.thy ===== *)
theory Manager
  imports Topology Registry
begin

text \<open>
  The deployment manager of \<^verbatim>\<open>src/swarmlet/control/deployments.ts\<close>: its state, the decisions it takes, and the handlers
  that change deployments. A handler runs to its first \<open>await\<close>; what it starts in the background is an \<open>effect\<close>
  in its result, and the later stages of a start or a stop are handlers of their own. \<open>t\<close> is
  \<open>Date.now()\<close>; what \<open>crypto\<close> generates is an argument. Event-log lines and log lines are left out. The error stored with a
  deployment is its text.
\<close>

subsection \<open>State\<close>

record reconnect =
  rc_deadline :: int
  rc_cleanupDeadline :: "int option"
  rc_nodes :: "string list"
  rc_reason :: string

record lease =
  le_nodeId :: string
  le_token :: string
  le_expiresAt :: int

record block_entry =
  bl_until :: int
  bl_cooldownMs :: int
  bl_why :: string

record excluded =
  xc_nodes :: "string list"
  xc_at :: int

record timing =
  tm_recoveryDelayMs :: int
  tm_stopTimeoutMs :: int
  tm_reconnectGraceMs :: int
  tm_moveIntervalMs :: int
  tm_crashCooldownMs :: int
  tm_moveSettleMs :: int
  tm_wedgedLoadMs :: int

text \<open>A start that is past its first \<open>await\<close>: the deployment as it was read, its generation, what it waits for, the
  plan and nodes it chose, and the endpoint it will publish.\<close>

datatype start_stage = Cleaning | WorkersLaunching | EngineLoading

record pending_start =
  ps_dep :: deployment
  ps_generation :: nat
  ps_stage :: start_stage
  ps_plan :: "plan option"
  ps_nodes :: "node_row list"
  ps_endpoint :: "route_endpoint option"

record manager =
  mg_reg :: registry
  mg_online :: "string list"
  mg_inflight :: "(string \<times> int) list"
  mg_lease :: "lease option"
  mg_updateRecovery :: "string list"
  mg_operations :: "string list"
  mg_distributions :: "string list"
  mg_generations :: "(string \<times> nat) list"
  mg_starting :: "pending_start list"
  mg_closed :: bool
  mg_fleetBusy :: bool
  mg_fleetPlanning :: bool
  mg_native :: "string list"
  mg_reconnecting :: "(string \<times> reconnect) list"
  mg_lastMove :: "(string \<times> int) list"
  mg_blocked :: "(string \<times> (string \<times> block_entry) list) list"
  mg_moveExcluded :: "(string \<times> excluded) list"
  mg_tokens :: "(string \<times> (int \<times> rat) list) list"

definition default_timing :: timing where
  "default_timing = \<lparr>tm_recoveryDelayMs = 5000, tm_stopTimeoutMs = 120000, tm_reconnectGraceMs = 30000, tm_moveIntervalMs = 600000,
     tm_crashCooldownMs = 3600000, tm_moveSettleMs = 60000, tm_wedgedLoadMs = 300000\<rparr>"

definition MAX_RECOVERY_ATTEMPTS :: int where "MAX_RECOVERY_ATTEMPTS = 5"
definition CRASH_COOLDOWN_MAX_MS :: int where "CRASH_COOLDOWN_MAX_MS = 86400000"

datatype effect =
    SendStop string string string
  | Assign string string
  | Wake string assignment_state
  | Teardown string
  | StartAgain string
  | Redistribute string

text \<open>Running a handler for each element, the effects one after the other.\<close>

fun each :: "('a \<Rightarrow> manager \<Rightarrow> manager \<times> effect list) \<Rightarrow> 'a list \<Rightarrow> manager \<Rightarrow> manager \<times> effect list" where
  "each f [] m = (m, [])"
| "each f (x # xs) m = (let (m1, e1) = f x m; (m2, e2) = each f xs m1 in (m2, e1 @ e2))"

definition lookup :: "(string \<times> 'a) list \<Rightarrow> string \<Rightarrow> 'a \<Rightarrow> 'a" where
  "lookup kvs k d = (case map_of kvs k of Some v \<Rightarrow> v | None \<Rightarrow> d)"

definition del :: "string \<Rightarrow> (string \<times> 'a) list \<Rightarrow> (string \<times> 'a) list" where
  "del k kvs = filter (\<lambda>(k', _). k' \<noteq> k) kvs"

definition with_reg :: "(registry \<Rightarrow> registry) \<Rightarrow> manager \<Rightarrow> manager" where
  "with_reg f m = m\<lparr>mg_reg := f (mg_reg m)\<rparr>"

definition running :: "manager \<Rightarrow> string \<Rightarrow> bool" where
  "running m i = it_running (deploymentIntent (mg_reg m) i)"

definition isReconnecting :: "manager \<Rightarrow> string \<Rightarrow> bool" where
  "isReconnecting m i \<longleftrightarrow> map_of (mg_reconnecting m) i \<noteq> None"

definition generation :: "manager \<Rightarrow> string \<Rightarrow> nat" where
  "generation m i = lookup (mg_generations m) i 0"

definition node_online :: "manager \<Rightarrow> string \<Rightarrow> bool" where
  "node_online m i \<longleftrightarrow> i \<in> set (mg_online m) \<and> (case getNode (mg_reg m) i of Some n \<Rightarrow> nr_online n | None \<Rightarrow> False)"

subsection \<open>Plans\<close>

definition planNodeList :: "plan \<Rightarrow> string list" where
  "planNodeList p =
     (case pl_nativeExecution p of
        Some x \<Rightarrow> map nw_nodeId (nx_endpoints x)
      | None \<Rightarrow> pl_coordinatorNodeId p # map pw_nodeId (pl_workers p))"

definition engineSplit :: "plan \<Rightarrow> int list" where
  "engineSplit p = (case pl_engineTensorSplit p of Some s \<Rightarrow> s | None \<Rightarrow> pl_tensorSplit p)"

definition worker_shape :: "plan_worker \<Rightarrow> string \<times> int \<times> string \<times> rat" where
  "worker_shape w = (pw_nodeId w, pw_layers w, pw_device w, pw_threads w)"

text \<open>\<open>JSON.stringify(plan.speculation ?? null)\<close>. The native execution is compared as the record whose JSON text
  the code compares.\<close>

definition speculation_text :: "plan \<Rightarrow> string" where
  "speculation_text p = json_stringify (if pl_speculation p = Undefined then Null else pl_speculation p)"

definition sameRequest :: "plan \<Rightarrow> plan \<Rightarrow> bool" where
  "sameRequest a b \<longleftrightarrow> pl_modelPath a = pl_modelPath b \<and> pl_mtpPath a = pl_mtpPath b \<and> pl_ctx a = pl_ctx b \<and>
     pl_parallel a = pl_parallel b \<and> pl_chain a = pl_chain b \<and> speculation_text a = speculation_text b \<and>
     pl_nativeExecution a = pl_nativeExecution b"

definition samePlacement :: "plan option \<Rightarrow> plan option \<Rightarrow> bool" where
  "samePlacement x y =
     (case (x, y) of
        (Some a, Some b) \<Rightarrow>
          pl_coordinatorNodeId a = pl_coordinatorNodeId b \<and> pl_coordinatorDevice a = pl_coordinatorDevice b \<and>
          sameRequest a b \<and> map worker_shape (pl_workers a) = map worker_shape (pl_workers b) \<and>
          engineSplit a = engineSplit b
      | _ \<Rightarrow> False)"

definition number_text :: "rat \<Rightarrow> string" where
  "number_text x = num_str (Fin x)"

definition planFingerprint :: "plan \<Rightarrow> string" where
  "planFingerprint p =
     (let int_text = (\<lambda>k. number_text (of_int k));
          workers = join_with '','' (map (\<lambda>w. join_with ''/'' [pw_nodeId w, pw_device w, int_text (pw_layers w), number_text (pw_threads w)]) (pl_workers p));
          split = join_with ''-'' (map int_text (engineSplit p)) in
      join_with ''|'' [pl_coordinatorNodeId p, pl_coordinatorDevice p, workers, split, int_text (pl_ctx p), int_text (pl_parallel p),
        int_text (pl_chain p), pl_modelPath p])"

definition pinsNodes :: "deployment_spec \<Rightarrow> bool" where
  "pinsNodes spec =
     (case sp_kind spec of
        External \<Rightarrow> True
      | Stages \<Rightarrow> True
      | PrefillDecode \<Rightarrow> True
      | Replica \<Rightarrow> sp_replicaNodeId spec \<noteq> None \<and> sp_replicaNodeId spec \<noteq> Some []
      | Split \<Rightarrow> (sp_coordinatorNodeId spec \<noteq> None \<and> sp_coordinatorNodeId spec \<noteq> Some []) \<or> elems (sp_workerNodeIds spec) \<noteq> [])"

definition servingLayers :: "plan option \<Rightarrow> int option" where
  "servingLayers p =
     (case p of None \<Rightarrow> None | Some q \<Rightarrow> if engineSplit q = [] then None else Some (last (engineSplit q)))"

definition moveMarginLayers :: int where "moveMarginLayers = 2"

definition offer_ram :: "registry \<Rightarrow> string \<Rightarrow> rat" where
  "offer_ram r i = (case Option.bind (getNode r i) nr_offer of Some f \<Rightarrow> of_ramMiB f | None \<Rightarrow> 0)"

definition placementGain :: "registry \<Rightarrow> plan option \<Rightarrow> plan \<Rightarrow> bool" where
  "placementGain r cur cand \<longleftrightarrow>
     (case (servingLayers cur, servingLayers (Some cand)) of
        (Some a, Some b) \<Rightarrow> b \<le> a - moveMarginLayers
      | _ \<Rightarrow> False) \<or>
     (pl_coordinatorNodeId cand \<noteq> [] \<and> map_option pl_coordinatorNodeId cur \<noteq> Some (pl_coordinatorNodeId cand) \<and>
      (let a = offer_ram r (case cur of Some p \<Rightarrow> pl_coordinatorNodeId p | None \<Rightarrow> []); b = offer_ram r (pl_coordinatorNodeId cand) in
       0 < a \<and> fl (a * (5 / 4)) \<le> b))"

definition fitNeedMiB :: "plan \<Rightarrow> model_profile \<Rightarrow> deployment_kind \<Rightarrow> int" where
  "fitNeedMiB pl p k =
     (let layers = (if k = Replica then mp_layers p
                    else if engineSplit pl = [] then mp_layers p else last (engineSplit pl))
      in layers * mp_layerMiB p + mp_coordinatorHostMiB p)"

definition fitsNow :: "registry \<Rightarrow> plan \<Rightarrow> model_profile \<Rightarrow> deployment_kind \<Rightarrow> bool" where
  "fitsNow r pl p k =
     (case getNode r (pl_coordinatorNodeId pl) of
        None \<Rightarrow> True
      | Some n \<Rightarrow>
          if nr_os n \<noteq> ''darwin'' then True
          else (case Option.bind (nr_metrics n) me_freeRamMiB of
                  None \<Rightarrow> True
                | Some free \<Rightarrow> of_int (fitNeedMiB pl p k) \<le> free))"

subsection \<open>Crashed placements\<close>

definition blockPlacement :: "timing \<Rightarrow> string \<Rightarrow> plan \<Rightarrow> string \<Rightarrow> int \<Rightarrow> manager \<Rightarrow> manager" where
  "blockPlacement tm i p why t m =
     (let fp = planFingerprint p; per = lookup (mg_blocked m) i [];
          cooldown = (case map_of per fp of
                        Some b \<Rightarrow> min (bl_cooldownMs b * 4) CRASH_COOLDOWN_MAX_MS
                      | None \<Rightarrow> tm_crashCooldownMs tm) in
      m\<lparr>mg_blocked := AList.update i (AList.update fp \<lparr>bl_until = t + cooldown, bl_cooldownMs = cooldown, bl_why = why\<rparr> per) (mg_blocked m)\<rparr>)"

definition blockedUntil :: "string \<Rightarrow> plan \<Rightarrow> int \<Rightarrow> manager \<Rightarrow> block_entry option \<times> manager" where
  "blockedUntil i p t m =
     (let fp = planFingerprint p in
      case map_of (lookup (mg_blocked m) i []) fp of
        None \<Rightarrow> (None, m)
      | Some b \<Rightarrow>
          if bl_until b \<le> t
          then (None, m\<lparr>mg_blocked := AList.update i (del fp (lookup (mg_blocked m) i [])) (mg_blocked m)\<rparr>)
          else (Some b, m))"

subsection \<open>Planning for a deployment\<close>

text \<open>What \<open>new URL(text)\<close> yields, as far as it is used. A port that is not given is \<open>None\<close>.\<close>

record url_parts =
  ur_protocol :: string
  ur_hostname :: string
  ur_port :: "int option"

text \<open>What the manager is constructed with, and what it takes from its surroundings: regular expressions, the collation, the
  URL parser, and the text of a planner's reasons.\<close>

record deps =
  dd_rx :: regexp
  dd_lc :: "string comparator_fn"
  dd_profiles :: "(string \<times> model_profile) list"
  dd_qualifications :: "qualification list option"
  dd_timing :: timing
  dd_serverPortBase :: int
  dd_reverseDial :: bool
  dd_url :: "string \<Rightarrow> url_parts"
  dd_reasons :: "resource_error \<Rightarrow> string"

definition updatingNode :: "int \<Rightarrow> manager \<Rightarrow> string option \<times> manager" where
  "updatingNode t m =
     (let m' = (case mg_lease m of Some l \<Rightarrow> if le_expiresAt l \<le> t then m\<lparr>mg_lease := None\<rparr> else m | None \<Rightarrow> m)
      in (map_option le_nodeId (mg_lease m'), m'))"

definition fleetNodes :: "int \<Rightarrow> manager \<Rightarrow> node_row list" where
  "fleetNodes t m =
     map (\<lambda>n. n\<lparr>nr_online := (nr_online n \<and> nr_id n \<in> set (mg_online m) \<and> Some (nr_id n) \<noteq> fst (updatingNode t m))\<rparr>)
       (listNodes (mg_reg m))"

definition row_ports :: "assignment_row \<Rightarrow> int list" where
  "row_ports a =
     (case ar_kind a of
        KWorker \<Rightarrow> ar_port a # (case ar_peerPort a of Some p \<Rightarrow> if p = 0 then [] else [p] | None \<Rightarrow> [])
      | KStop \<Rightarrow> []
      | _ \<Rightarrow> [ar_port a])"

definition usedPorts :: "registry \<Rightarrow> used_ports" where
  "usedPorts r =
     foldl (\<lambda>u a. AList.update (ar_nodeId a) (lookup u (ar_nodeId a) [] @ row_ports a) u) []
       (filter (\<lambda>a. ar_state a \<noteq> Reported AStopped) (listAssignments r))"

function freePortFrom :: "int list \<Rightarrow> int \<Rightarrow> int" where
  "freePortFrom s p = (if p \<in> set s then freePortFrom s (p + 1) else p)"
  by pat_completeness auto
termination
proof (relation "measure (\<lambda>(s, p). card {q \<in> set s. p \<le> q})", goal_cases)
  case (2 s p)
  have "p \<in> {q \<in> set s. p \<le> q}" "p \<notin> {q \<in> set s. p + 1 \<le> q}" using 2 by auto
  moreover have "{q \<in> set s. p + 1 \<le> q} \<subseteq> {q \<in> set s. p \<le> q}" by auto
  ultimately have "{q \<in> set s. p + 1 \<le> q} \<subset> {q \<in> set s. p \<le> q}" by blast
  from psubset_card_mono[OF _ this] show ?case by simp
qed simp

declare freePortFrom.simps [simp del]

definition freePort :: "string \<Rightarrow> int \<Rightarrow> used_ports \<Rightarrow> int \<times> used_ports" where
  "freePort i from used =
     (let s = lookup used i []; p = freePortFrom s from in (p, AList.update i (s @ [p]) used))"

datatype plan_error = UnknownProfile string | NoPlan resource_error | PlacementBlocked int string

definition freshExclusion :: "string option \<Rightarrow> int \<Rightarrow> manager \<Rightarrow> string list \<times> manager" where
  "freshExclusion replacing t m =
     (case replacing of
        None \<Rightarrow> ([], m)
      | Some i \<Rightarrow>
          (case map_of (mg_moveExcluded m) i of
             None \<Rightarrow> ([], m)
           | Some x \<Rightarrow> if t - xc_at x \<le> 600000 then (xc_nodes x, m) else ([], m\<lparr>mg_moveExcluded := del i (mg_moveExcluded m)\<rparr>)))"

definition planSpec :: "deps \<Rightarrow> deployment_spec \<Rightarrow> string option \<Rightarrow> string list \<Rightarrow> int \<Rightarrow> manager \<Rightarrow> (plan_error + plan) \<times> manager" where
  "planSpec D spec replacing extra t m =
     (case map_of (dd_profiles D) (sp_profile spec) of
        None \<Rightarrow> (Inl (UnknownProfile (sp_profile spec)), m)
      | Some p \<Rightarrow>
          (let (remembered, m') = freshExclusion replacing t m;
               exclude = extra @ remembered; all = fleetNodes t m;
               nodes = filter (\<lambda>n. nr_id n \<notin> set exclude) all;
               reserved = reservedResources (listDeployments (mg_reg m)) (listAssignments (mg_reg m)) all (opt_list replacing) in
           (case planWithResources (dd_rx D) (dd_lc D) \<lparr>in_spec = spec, in_profile = p, in_nodes = nodes,
                   in_usedPorts = usedPorts (mg_reg m), in_nativeQualifications = dd_qualifications D\<rparr> reserved of
              Inl e \<Rightarrow> (Inl (NoPlan e), m')
            | Inr pl \<Rightarrow> (Inr pl, m'))))"

definition js_round :: "rat \<Rightarrow> int" where
  "js_round x = \<lfloor>x + 1 / 2\<rfloor>"

definition plan_error_text :: "deps \<Rightarrow> plan_error \<Rightarrow> string" where
  "plan_error_text D e =
     (case e of
        UnknownProfile p \<Rightarrow> ''unknown profile '' @ p
      | NoPlan r \<Rightarrow> (case r of NotPlannable _ \<Rightarrow> ''no plan: '' | _ \<Rightarrow> []) @ dd_reasons D r
      | PlacementBlocked n why \<Rightarrow>
          ''refusing a placement this deployment crashed on '' @ number_text (of_int n) @ '' min ago: '' @ why)"

definition planFor :: "deps \<Rightarrow> deployment \<Rightarrow> int \<Rightarrow> manager \<Rightarrow> (plan_error + plan) \<times> manager" where
  "planFor D d t m =
     (case planSpec D (dp_spec d) (Some (dp_id d)) [] t m of
        (Inl e, m1) \<Rightarrow> (Inl e, m1)
      | (Inr pl, m1) \<Rightarrow>
          (case blockedUntil (dp_id d) pl t m1 of
             (Some b, m2) \<Rightarrow> (Inl (PlacementBlocked (max 1 (js_round (of_int (bl_until b - t) / 60000))) (bl_why b)), m2)
           | (None, m2) \<Rightarrow> (Inr pl, m2)))"

text \<open>Ranked profiles, best first; a whole-model replica before a split.\<close>

definition rankedProfiles :: "deps \<Rightarrow> model_profile list" where
  "rankedProfiles D =
     sort_by (\<lambda>a b. the (mp_rank b) - the (mp_rank a)) (filter (\<lambda>p. mp_rank p \<noteq> None) (map snd (dd_profiles D)))"

definition autoSpec :: "deployment_spec \<Rightarrow> model_profile \<Rightarrow> deployment_kind \<Rightarrow> deployment_spec" where
  "autoSpec base p k = base\<lparr>sp_keys := uniq (sp_keys base @
       [''profile'', ''kind'', ''autoModel'', ''replicaNodeId'', ''workerNodeIds'', ''workerLayers'']), sp_profile := mp_id p, sp_kind := k, sp_autoModel := Some True, sp_replicaNodeId := None,
     sp_workerNodeIds := Undefined, sp_workerLayers := Undefined\<rparr>"

fun chooseAutoLoop :: "deps \<Rightarrow> deployment_spec \<Rightarrow> string option \<Rightarrow> string list \<Rightarrow> int \<Rightarrow> (model_profile \<times> deployment_kind) list
    \<Rightarrow> manager \<Rightarrow> deployment_spec option \<times> manager" where
  "chooseAutoLoop D base replacing exclude t [] m = (None, m)"
| "chooseAutoLoop D base replacing exclude t ((p, k) # rest) m =
     (case planSpec D (autoSpec base p k) replacing exclude t m of
        (Inr pl, m') \<Rightarrow>
          if fitsNow (mg_reg m') pl p k then (Some (autoSpec base p k), m')
          else chooseAutoLoop D base replacing exclude t rest m'
      | (Inl _, m') \<Rightarrow> chooseAutoLoop D base replacing exclude t rest m')"

definition chooseAuto :: "deps \<Rightarrow> deployment_spec \<Rightarrow> string option \<Rightarrow> string list \<Rightarrow> int \<Rightarrow> manager \<Rightarrow> deployment_spec option \<times> manager" where
  "chooseAuto D base replacing exclude t m =
     chooseAutoLoop D base replacing exclude t (concat (map (\<lambda>p. [(p, Replica), (p, Split)]) (rankedProfiles D))) m"

subsection \<open>Update leases\<close>

definition depNodes :: "deployment \<Rightarrow> string list" where
  "depNodes d = (case dp_plan d of Some p \<Rightarrow> planNodeList p | None \<Rightarrow> (case dp_endpoint d of Some e \<Rightarrow> [ep_nodeId e] | None \<Rightarrow> []))"

definition stillRecovering :: "manager \<Rightarrow> string \<Rightarrow> bool" where
  "stillRecovering m i =
     (case getDeployment (mg_reg m) i of None \<Rightarrow> False | Some d \<Rightarrow> dp_state d \<noteq> Ready \<and> running m i)"

definition acquireUpdate :: "string \<Rightarrow> string \<Rightarrow> int \<Rightarrow> manager \<Rightarrow> lease option \<times> manager" where
  "acquireUpdate nodeId token t m0 =
     (if mg_closed m0 \<or> nodeId \<notin> set (mg_online m0) \<or> getNode (mg_reg m0) nodeId = None then (None, m0)
      else
        (let (busy, m) = updatingNode t m0 in
         if busy \<noteq> None then (None, m)
         else if mg_operations m \<noteq> [] \<or> mg_distributions m \<noteq> [] \<or> mg_reconnecting m \<noteq> [] \<or> mg_fleetBusy m \<or> mg_fleetPlanning m
           then (None, m)
         else
           (let m1 = m\<lparr>mg_updateRecovery := filter (stillRecovering m) (mg_updateRecovery m)\<rparr> in
            if mg_updateRecovery m1 \<noteq> [] then (None, m1)
            else
              (let ds = filter (\<lambda>d. nodeId \<in> set (depNodes d)) (listDeployments (mg_reg m1)) in
               if \<exists>d \<in> set ds. 0 < lookup (mg_inflight m1) (dp_id d) 0 then (None, m1)
               else
                 (let l = \<lparr>le_nodeId = nodeId, le_token = token, le_expiresAt = t + 120000\<rparr> in
                  (Some l, m1\<lparr>mg_lease := Some l,
                     mg_updateRecovery := map dp_id (filter (\<lambda>d. dp_state d = Ready \<and> running m1 (dp_id d)) ds)\<rparr>))))))"

definition releaseUpdate :: "string \<Rightarrow> string \<Rightarrow> manager \<Rightarrow> bool \<times> manager" where
  "releaseUpdate nodeId token m =
     (case mg_lease m of
        Some l \<Rightarrow> if le_nodeId l = nodeId \<and> le_token l = token then (True, m\<lparr>mg_lease := None\<rparr>) else (False, m)
      | None \<Rightarrow> (False, m))"

subsection \<open>Token rate\<close>

definition recordTokens :: "string \<Rightarrow> rat \<Rightarrow> int \<Rightarrow> manager \<Rightarrow> manager" where
  "recordTokens i n t m =
     (if n \<le> 0 then m
      else let sec = t div 1000; b = lookup (mg_tokens m) i [];
               v = (case map_of b sec of Some x \<Rightarrow> x | None \<Rightarrow> 0);
               b' = filter (\<lambda>(k, _). \<not> k < sec - 30) (AList.update sec (fl (v + n)) b)
           in m\<lparr>mg_tokens := AList.update i b' (mg_tokens m)\<rparr>)"

definition liveTokPerSec :: "string \<Rightarrow> int \<Rightarrow> int \<Rightarrow> manager \<Rightarrow> rat" where
  "liveTokPerSec i windowSec t m =
     (case map_of (mg_tokens m) i of
        None \<Rightarrow> 0
      | Some b \<Rightarrow>
          let now = t div 1000;
              total = foldl (\<lambda>s (k, v). if now - windowSec < k \<and> k \<le> now then fl (s + v) else s) 0 b
          in fl (of_int (js_round (fl (fl (total / of_int windowSec) * 10))) / 10))"

definition liveTokPerSecByNode :: "int \<Rightarrow> manager \<Rightarrow> (string \<times> rat) list" where
  "liveTokPerSecByNode t m =
     foldl (\<lambda>out d.
       case dp_endpoint d of
         Some e \<Rightarrow>
           if dp_state d \<noteq> Ready then out
           else (let r = liveTokPerSec (dp_id d) 5 t m in
                 if 0 < r then AList.update (ep_nodeId e) (fl (lookup out (ep_nodeId e) 0 + r)) out else out)
       | None \<Rightarrow> out) [] (listDeployments (mg_reg m))"

subsection \<open>Routing\<close>

record route =
  rt_id :: string
  rt_name :: string
  rt_kind :: deployment_kind
  rt_nodeId :: string
  rt_port :: int
  rt_nodes :: "string list"
  rt_inflight :: int
  rt_tokPerSec :: rat
  rt_rttMs :: "rat option"
  rt_upstreamModel :: "string option"

record model_routes =
  mr_created :: int
  mr_deployments :: "route list"

definition routable :: "int \<Rightarrow> manager \<Rightarrow> deployment \<Rightarrow> bool" where
  "routable t m d \<longleftrightarrow> dp_state d = Ready \<and> dp_endpoint d \<noteq> None \<and>
     (case fst (updatingNode t m) of Some n \<Rightarrow> n | None \<Rightarrow> []) \<notin> set (depNodes d)"

definition routeOf :: "int \<Rightarrow> manager \<Rightarrow> deployment \<Rightarrow> route_endpoint \<Rightarrow> route" where
  "routeOf t m d e =
     \<lparr>rt_id = dp_id d, rt_name = sp_name (dp_spec d), rt_kind = sp_kind (dp_spec d), rt_nodeId = ep_nodeId e, rt_port = ep_port e,
      rt_nodes = depNodes d, rt_inflight = lookup (mg_inflight m) (dp_id d) 0, rt_tokPerSec = liveTokPerSec (dp_id d) 5 t m,
      rt_rttMs = Option.bind (getNode (mg_reg m) (ep_nodeId e)) (\<lambda>n. Option.bind (nr_caps n) ca_rttMs),
      rt_upstreamModel = (case Option.bind (sp_external (dp_spec d)) ex_upstreamModel of
        Some u \<Rightarrow> if u = [] then None else Some u | None \<Rightarrow> None)\<rparr>"

text \<open>Grouped by model name, in the order the names first appear.\<close>

definition addRoute :: "int \<Rightarrow> manager \<Rightarrow> (string \<times> model_routes) list \<Rightarrow> deployment \<Rightarrow> (string \<times> model_routes) list" where
  "addRoute t m g d =
     (case dp_endpoint d of
        None \<Rightarrow> g
      | Some e \<Rightarrow>
          if \<not> routable t m d then g
          else (let registered = dp_createdAt d div 1000; r = routeOf t m d e in
                AList.update (ep_modelName e)
                  (case map_of g (ep_modelName e) of
                     None \<Rightarrow> \<lparr>mr_created = registered, mr_deployments = [r]\<rparr>
                   | Some x \<Rightarrow> \<lparr>mr_created = min (mr_created x) registered, mr_deployments = mr_deployments x @ [r]\<rparr>) g))"

definition routing :: "int \<Rightarrow> manager \<Rightarrow> (string \<times> model_routes) list" where
  "routing t m = foldl (addRoute t m) [] (listDeployments (mg_reg m))"

definition trackInflight :: "string \<Rightarrow> int \<Rightarrow> manager \<Rightarrow> manager" where
  "trackInflight i delta m = m\<lparr>mg_inflight := AList.update i (max 0 (lookup (mg_inflight m) i 0 + delta)) (mg_inflight m)\<rparr>"

end
