(* ===== verification/Lifecycle.thy ===== *)
theory Lifecycle
  imports Manager
begin

text \<open>
  The handlers of the deployment manager (\<^verbatim>\<open>src/swarmlet/control/deployments.ts\<close>): the messages a node's channel delivers, the
  recovery machinery, and \<open>start\<close>, \<open>stop\<close> and \<open>remove\<close> with the stages that follow their awaits. A handler
  runs without interruption to its end or its first \<open>await\<close>; the stages that run after an \<open>await\<close> take the started operation from
  \<open>mg_starting\<close> and check it as \<open>assertRunning\<close> does. The theory \<open>Routes\<close> proves what holds for every interleaving of them.
\<close>

subsection \<open>Text matched in an assignment's detail\<close>

definition lower_char :: "char \<Rightarrow> char" where
  "lower_char c = (let n = of_char c :: nat in if 65 \<le> n \<and> n \<le> 90 then char_of (n + 32) else c)"

fun begins :: "string \<Rightarrow> string \<Rightarrow> bool" where
  "begins [] s = True"
| "begins (c # cs) [] = False"
| "begins (c # cs) (d # ds) = (c = d \<and> begins cs ds)"

fun occurs :: "(string \<Rightarrow> bool) \<Rightarrow> string \<Rightarrow> bool" where
  "occurs p [] = p []"
| "occurs p (c # cs) = (p (c # cs) \<or> occurs p cs)"

definition leaving_text :: "string \<Rightarrow> bool" where
  "leaving_text s =
     (let l = map lower_char s in
      occurs (begins ''shutting down'') l \<or> occurs (begins ''going offline'') l \<or> occurs (begins ''agent stopping'') l)"

text \<open>The white space of \<open>\s\<close> within the character set of the model.\<close>

definition is_space :: "char \<Rightarrow> bool" where
  "is_space c = ((of_char c :: nat) \<in> {9, 10, 11, 12, 13, 32, 160})"

definition in_range :: "nat \<Rightarrow> nat \<Rightarrow> string \<Rightarrow> bool" where
  "in_range a b s = (case s of [] \<Rightarrow> False | c # _ \<Rightarrow> a \<le> of_char c \<and> of_char c \<le> b)"

text \<open>\<open>/code\s*(?!0[,\s)])[1-9]|SIG[A-Z]+/\<close>: the lookahead excludes nothing that \<open>[1-9]\<close> admits.\<close>

definition crash_text :: "string \<Rightarrow> bool" where
  "crash_text = occurs (\<lambda>s.
     (begins ''code'' s \<and> in_range 49 57 (dropWhile is_space (drop 4 s))) \<or>
     (begins ''SIG'' s \<and> in_range 65 90 (drop 3 s)))"

subsection \<open>Recovery\<close>

definition set_dep :: "string \<Rightarrow> dep_patch \<Rightarrow> int \<Rightarrow> manager \<Rightarrow> manager" where
  "set_dep i p t = with_reg (updateDeployment i p t)"

abbreviation patch_route :: "deployment_state \<Rightarrow> dep_patch" where
  "patch_route s \<equiv> no_patch\<lparr>dpp_state := Some s, dpp_endpoint := Some None\<rparr>"

definition set_intent :: "string \<Rightarrow> bool option \<Rightarrow> int option \<Rightarrow> int option \<Rightarrow> manager \<Rightarrow> manager" where
  "set_intent i r a y = with_reg (setDeploymentIntent i r a y)"

definition recoveryDelay :: "timing \<Rightarrow> int \<Rightarrow> int" where
  "recoveryDelay tm attempts = min 60000 (tm_recoveryDelayMs tm * 2 ^ nat (max 0 (attempts - 1)))"

definition scheduleRecovery :: "deps \<Rightarrow> string \<Rightarrow> int \<Rightarrow> manager \<Rightarrow> manager" where
  "scheduleRecovery D i t m =
     (let x = deploymentIntent (mg_reg m) i in
      if \<not> it_running x then m else set_intent i None None (Some (t + recoveryDelay (dd_timing D) (it_attempts x))) m)"

definition recordFailure :: "deps \<Rightarrow> string \<Rightarrow> string \<Rightarrow> int \<Rightarrow> manager \<Rightarrow> manager" where
  "recordFailure D i why t m =
     scheduleRecovery D i t
       (set_dep i ((patch_route Failed)\<lparr>dpp_error := Some (Some why)\<rparr>) t (m\<lparr>mg_reconnecting := del i (mg_reconnecting m)\<rparr>))"

text \<open>\<open>operations\<close> holds a deployment while work queued for it has not finished.\<close>

definition enqueue :: "string \<Rightarrow> manager \<Rightarrow> manager" where
  "enqueue i m = m\<lparr>mg_operations := mg_operations m @ [i]\<rparr>"

definition operationDone :: "string \<Rightarrow> manager \<Rightarrow> manager" where
  "operationDone i m = m\<lparr>mg_operations := remove1 i (mg_operations m)\<rparr>"

definition cancel :: "string \<Rightarrow> manager \<Rightarrow> manager \<times> effect list" where
  "cancel i m =
     (m\<lparr>mg_native := removeAll i (mg_native m), mg_generations := AList.update i (Suc (generation m i)) (mg_generations m)\<rparr>,
      map (\<lambda>r. Wake (ar_id r) AFailed) (assignmentsOf (mg_reg m) i))"

definition dispose :: "manager \<Rightarrow> manager \<times> effect list" where
  "dispose m = each (\<lambda>d. cancel (dp_id d)) (listDeployments (mg_reg m)) (m\<lparr>mg_closed := True\<rparr>)"

definition fail :: "deps \<Rightarrow> string \<Rightarrow> string \<Rightarrow> int \<Rightarrow> manager \<Rightarrow> manager \<times> effect list" where
  "fail D i why t m =
     (case getDeployment (mg_reg m) i of
        None \<Rightarrow> (m, [])
      | Some d \<Rightarrow>
          if dp_state d \<in> {Failed, Stopped, Draining} \<or> mg_closed m then (m, [])
          else (let (m1, e) = cancel i m in (enqueue i (recordFailure D i why t m1), e @ [Teardown i])))"

definition finishDraining :: "string \<Rightarrow> int \<Rightarrow> manager \<Rightarrow> manager" where
  "finishDraining i t m =
     (if map_option dp_state (getDeployment (mg_reg m) i) = Some Draining \<and> \<not> running m i \<and>
         list_all (\<lambda>a. ar_state a = Reported AStopped) (assignmentsOf (mg_reg m) i)
      then set_dep i ((patch_route Stopped)\<lparr>dpp_error := Some None\<rparr>) t m else m)"

definition pending_rows :: "manager \<Rightarrow> string \<Rightarrow> assignment_row list" where
  "pending_rows m i = filter (\<lambda>a. ar_state a \<noteq> Reported AStopped) (assignmentsOf (mg_reg m) i)"

definition observeReconnect :: "deps \<Rightarrow> string \<Rightarrow> int \<Rightarrow> manager \<Rightarrow> manager" where
  "observeReconnect D i t m =
     (case map_of (mg_reconnecting m) i of
        None \<Rightarrow> m
      | Some x \<Rightarrow>
          if rc_cleanupDeadline x \<noteq> None \<or> rc_deadline x \<le> t \<or> list_ex (\<lambda>n. \<not> node_online m n) (rc_nodes x) then m
          else m\<lparr>mg_reconnecting := AList.update i
                 (x\<lparr>rc_cleanupDeadline := Some (t + max 1 (int (length (pending_rows m i))) * tm_stopTimeoutMs (dd_timing D))\<rparr>)
                 (mg_reconnecting m)\<rparr>)"

subsection \<open>External servers\<close>

definition urlPort :: "deps \<Rightarrow> string \<Rightarrow> int" where
  "urlPort D u = (case ur_port (dd_url D u) of Some p \<Rightarrow> p | None \<Rightarrow> 0)"

text \<open>The origin, as its three parts.\<close>

definition externalOrigin :: "deps \<Rightarrow> string \<Rightarrow> string \<times> string \<times> int option" where
  "externalOrigin D u =
     (let p = dd_url D u; h = (if ur_hostname p \<in> {''localhost'', ''[::1]''} then ''127.0.0.1'' else ur_hostname p)
      in (ur_protocol p, h, ur_port p))"

definition externalOptionsOk :: "deployment_spec \<Rightarrow> bool" where
  "externalOptionsOk s \<longleftrightarrow> sp_workerLayers s = Undefined \<and> sp_speculation s = Undefined \<and> (sp_chain s = None \<or> sp_chain s = Some (Fin 0))"

definition duplicateExternal :: "deps \<Rightarrow> deployment_spec \<Rightarrow> string option \<Rightarrow> manager \<Rightarrow> deployment option" where
  "duplicateExternal D s except m =
     (case sp_external s of
        None \<Rightarrow> None
      | Some x \<Rightarrow>
          find (\<lambda>d. Some (dp_id d) \<noteq> except \<and> sp_kind (dp_spec d) = External \<and>
              (case sp_external (dp_spec d) of
                 Some y \<Rightarrow> ex_nodeId y = ex_nodeId x \<and> externalOrigin D (ex_url y) = externalOrigin D (ex_url x)
               | None \<Rightarrow> False) \<and>
              (running m (dp_id d) \<or> dp_state d \<notin> {Failed, Stopped}))
            (listDeployments (mg_reg m)))"

subsection \<open>Messages from the channel\<close>

definition all_external :: "assignment_row list \<Rightarrow> bool" where
  "all_external rows \<longleftrightarrow> rows \<noteq> [] \<and> list_all (\<lambda>a. ar_kind a = KReplica \<and> ar_external a) rows"

definition offlineOne :: "deps \<Rightarrow> string \<Rightarrow> int \<Rightarrow> deployment \<Rightarrow> manager \<Rightarrow> manager \<times> effect list" where
  "offlineOne D n t d m =
     (let i = dp_id d in
      if mg_closed m \<or> \<not> running m i \<or> dp_state d \<in> {Stopped, Failed, Planned, Draining} \<or> isReconnecting m i then (m, [])
      else
        (let rows = filter (\<lambda>a. ar_nodeId a = n) (pending_rows m i);
             planned = (case dp_plan d of Some p \<Rightarrow> n \<in> set (planNodeList p) | None \<Rightarrow> False) in
         if rows = [] \<and> \<not> planned then (m, [])
         else if all_external rows
           then (set_dep i ((patch_route Loading)\<lparr>dpp_error := Some (Some (''external agent '' @ n @ '' offline''))\<rparr>) t m, [])
         else
           (let (m1, e) = cancel i m;
                nodes = (case dp_plan d of
                           Some p \<Rightarrow> planNodeList p
                         | None \<Rightarrow> uniq (map ar_nodeId (filter (\<lambda>a. \<not> ar_retired a) (assignmentsOf (mg_reg m1) i))));
                lease_end = (case mg_lease m1 of Some l \<Rightarrow> if le_nodeId l = n then le_expiresAt l else 0 | None \<Rightarrow> 0);
                x = \<lparr>rc_deadline = max t lease_end + tm_reconnectGraceMs (dd_timing D), rc_cleanupDeadline = None, rc_nodes = nodes,
                      rc_reason = ''node '' @ n @ '' went offline''\<rparr>;
                m2 = m1\<lparr>mg_reconnecting := AList.update i x (mg_reconnecting m1)\<rparr>;
                m3 = set_dep i ((patch_route Loading)\<lparr>dpp_error :=
                       Some (Some (''node '' @ n @ '' went offline; reconnecting with fresh placement required''))\<rparr>) t m2 in
            (enqueue i m3, e @ [Teardown i]))))"

definition onOffline :: "deps \<Rightarrow> string \<Rightarrow> int \<Rightarrow> manager \<Rightarrow> manager \<times> effect list" where
  "onOffline D n t m = each (offlineOne D n t) (listDeployments (mg_reg m)) m"

definition engineLost :: "deps \<Rightarrow> string \<Rightarrow> string \<Rightarrow> string option \<Rightarrow> int \<Rightarrow> deployment \<Rightarrow> manager \<Rightarrow> manager \<times> effect list" where
  "engineLost D n rid detail t d m =
     (let text = (case detail of Some s \<Rightarrow> s | None \<Rightarrow> []) in
      if n \<notin> set (mg_online m) \<or> leaving_text text then onOffline D n t m
      else
        (let m1 = (case dp_plan d of
                     Some p \<Rightarrow> if crash_text text then blockPlacement (dd_timing D) (dp_id d) p text t m else m
                   | None \<Rightarrow> m) in
         fail D (dp_id d) (''assignment '' @ rid @ '' on '' @ n @ '' failed: '' @ (case detail of Some s \<Rightarrow> s | None \<Rightarrow> ''no detail'')) t m1))"

definition externalWatch :: "deps \<Rightarrow> string \<Rightarrow> assignment_state \<Rightarrow> string option \<Rightarrow> int \<Rightarrow> deployment \<Rightarrow> manager \<Rightarrow> manager" where
  "externalWatch D n st detail t d m =
     (if (st = AFailed \<or> st = AStopped) \<and> dp_state d = Ready
      then set_dep (dp_id d) ((patch_route Loading)\<lparr>dpp_error :=
             Some (Some (''external server unhealthy: '' @ (case detail of Some s \<Rightarrow> s | None \<Rightarrow> [])))\<rparr>) t m
      else
        (case sp_external (dp_spec d) of
           Some x \<Rightarrow>
             if st = AReady \<and> dp_state d = Loading
             then set_dep (dp_id d) (no_patch\<lparr>dpp_state := Some Ready, dpp_error := Some None,
                    dpp_endpoint := Some (Some \<lparr>ep_nodeId = n, ep_port = urlPort D (ex_url x), ep_modelName = ex_modelName x\<rparr>)\<rparr>) t m
             else m
         | None \<Rightarrow> m))"

definition stateForDeployment :: "deps \<Rightarrow> string \<Rightarrow> assignment_row \<Rightarrow> assignment_state \<Rightarrow> string option \<Rightarrow> int \<Rightarrow> deployment
    \<Rightarrow> manager \<Rightarrow> manager \<times> effect list" where
  "stateForDeployment D n row st detail t d m0 =
     (let m = (if st = AStopped then finishDraining (dp_id d) t m0 else m0) in
      if ar_retired row \<or> isReconnecting m (dp_id d) then (m, [])
      else if ar_kind row = KReplica \<and> ar_external row \<and> running m (dp_id d) \<and> (dp_state d = Ready \<or> dp_state d = Loading)
        then (externalWatch D n st detail t d m, [])
      else if (st = AFailed \<or> (st = AStopped \<and> \<not> ar_retired row)) \<and> dp_state d \<notin> {Stopped, Failed, Draining}
        then engineLost D n (ar_id row) detail t d m
      else (m, []))"

definition onAssignmentState :: "deps \<Rightarrow> string \<Rightarrow> string \<Rightarrow> assignment_state \<Rightarrow> string option \<Rightarrow> int \<Rightarrow> manager
    \<Rightarrow> manager \<times> effect list" where
  "onAssignmentState D n i st detail t m =
     (case getAssignment (mg_reg m) i of
        None \<Rightarrow> (m, [])
      | Some row \<Rightarrow>
          if ar_nodeId row \<noteq> n then (m, [])
          else if ar_retired row \<and> st \<noteq> AStopped then (m, [SendStop n i (ar_deploymentId row)])
          else
            (case getDeployment (mg_reg m) (ar_deploymentId row) of
               None \<Rightarrow> (m, [Wake i st])
             | Some d \<Rightarrow> (let (m1, e) = stateForDeployment D n row st detail t d m in (m1, Wake i st # e))))"

text \<open>One row of the node that said hello. \<open>seen\<close> are the deployments whose external watch was met already.\<close>

definition helloRow :: "deps \<Rightarrow> string \<Rightarrow> (string \<times> assignment_state) list \<Rightarrow> int \<Rightarrow> assignment_row
    \<Rightarrow> string list \<Rightarrow> manager \<Rightarrow> string list \<times> manager \<times> effect list" where
  "helloRow D n reported t row seen m =
     (let dep = getDeployment (mg_reg m) (ar_deploymentId row);
          health = (ar_kind row = KReplica \<and> ar_external row);
          wants = (case dep of
                     None \<Rightarrow> False
                   | Some d \<Rightarrow> \<not> isReconnecting m (dp_id d) \<and> \<not> ar_retired row \<and> running m (dp_id d) \<and>
                       dp_state d \<notin> {Failed, Stopped, Planned, Draining});
          duplicate = (health \<and> ar_deploymentId row \<in> set seen);
          seen' = (if health \<and> wants \<and> \<not> duplicate then seen @ [ar_deploymentId row] else seen);
          have_state = map_of (rev reported) (ar_id row) in
      if have_state = None \<or> have_state = Some AStopped then
        (let m1 = with_reg (setAssignmentState (ar_id row) AStopped (Some ''agent confirmed assignment absent'') t)
                    (with_reg (retireAssignment (ar_id row)) m);
             expected = (wants \<and> ar_state row \<noteq> Reported AStopped) in
         if expected \<and> health \<and> \<not> duplicate
           then (seen', with_reg (putAssignment (row\<lparr>ar_nodeId := n, ar_state := Sent, ar_updatedAt := t\<rparr>)) m1,
                 [Wake (ar_id row) AStopped, Assign n (ar_id row)])
         else if expected \<and> \<not> health then
           (let (m2, e) = fail D (ar_deploymentId row) (''node '' @ n @ '' restarted without assignment '' @ ar_id row) t m1
            in (seen', m2, Wake (ar_id row) AStopped # e))
         else (seen', m1, [Wake (ar_id row) AStopped]))
      else if \<not> wants \<or> duplicate \<or> ar_state row = Reported AStopped then
        (seen', with_reg (retireAssignment (ar_id row)) (with_reg (setAssignmentState (ar_id row) (the have_state) None t) m),
         [SendStop n (ar_id row) (ar_deploymentId row)])
      else if health then
        (let (m1, e) = onAssignmentState D n (ar_id row) (the have_state) None t m in (seen', m1, e))
      else if have_state = Some AFailed then
        (let (m1, e) = fail D (ar_deploymentId row) (''node '' @ n @ '' reported failed assignment '' @ ar_id row) t m in (seen', m1, e))
      else (seen', m, []))"

fun helloRows :: "deps \<Rightarrow> string \<Rightarrow> (string \<times> assignment_state) list \<Rightarrow> int \<Rightarrow> assignment_row list \<Rightarrow> string list
    \<Rightarrow> manager \<Rightarrow> manager \<times> effect list" where
  "helloRows D n reported t [] seen m = (m, [])"
| "helloRows D n reported t (r # rs) seen m =
     (let (seen1, m1, e1) = helloRow D n reported t r seen m; (m2, e2) = helloRows D n reported t rs seen1 m1 in (m2, e1 @ e2))"

definition helloOrder :: "deps \<Rightarrow> assignment_row \<Rightarrow> assignment_row \<Rightarrow> int" where
  "helloOrder D a b =
     (let r = (if ar_retired a then 1 else 0) - (if ar_retired b then 1 else 0) in if r \<noteq> 0 then r else dd_lc D (ar_id a) (ar_id b))"

definition onHello :: "deps \<Rightarrow> string \<Rightarrow> (string \<times> assignment_state) list \<Rightarrow> int \<Rightarrow> manager \<Rightarrow> manager \<times> effect list" where
  "onHello D n reported t m =
     (let m1 = foldl (\<lambda>m (i, x). if n \<in> set (rc_nodes x) then observeReconnect D i t m else m) m (mg_reconnecting m);
          orphans = map (\<lambda>(i, st). SendStop n i ''orphan'')
            (filter (\<lambda>(i, st). getAssignment (mg_reg m1) i = None \<and> st \<noteq> AStopped) reported);
          rows = filter (\<lambda>r. ar_nodeId r = n) (sort_by (helloOrder D) (listAssignments (mg_reg m1)));
          (m2, e) = helloRows D n reported t rows [] m1
      in (m2, orphans @ e))"

subsection \<open>Control restart\<close>

definition hasWatch :: "manager \<Rightarrow> string \<Rightarrow> bool" where
  "hasWatch m i = list_ex (\<lambda>a. \<not> ar_retired a \<and> ar_kind a = KReplica \<and> ar_external a) (assignmentsOf (mg_reg m) i)"

definition restoreOne :: "deps \<Rightarrow> int \<Rightarrow> deployment \<Rightarrow> (string \<times> string \<times> string \<times> int option) list \<Rightarrow> manager
    \<Rightarrow> (string \<times> string \<times> string \<times> int option) list \<times> manager" where
  "restoreOne D t d seen m =
     (let i = dp_id d in
      if \<not> running m i then
        (seen, if dp_state d \<in> {Ready, Placing, Loading, Draining} then set_dep i (patch_route Draining) t m
               else if dp_endpoint d \<noteq> None then set_dep i (no_patch\<lparr>dpp_endpoint := Some None\<rparr>) t m else m)
      else
        (case (sp_kind (dp_spec d), sp_external (dp_spec d)) of
           (External, Some x) \<Rightarrow>
             (let key = (ex_nodeId x, externalOrigin D (ex_url x)) in
              if key \<in> set seen then
                (seen, set_dep i ((patch_route Stopped)\<lparr>dpp_error := Some (Some ''duplicate external endpoint; health watch retired'')\<rparr>) t
                         (set_intent i (Some False) None None m))
              else if hasWatch m i then (seen @ [key], set_dep i (patch_route Loading) t m)
              else (seen @ [key], scheduleRecovery D i t (set_dep i (patch_route Failed) t m)))
         | _ \<Rightarrow>
             if dp_state d \<noteq> Failed then
               (seen, scheduleRecovery D i t
                  (set_dep i ((patch_route Failed)\<lparr>dpp_error := Some (Some ''control restarted; awaiting node reconciliation'')\<rparr>) t m))
             else (seen, m)))"

definition restoreOrder :: "deps \<Rightarrow> deployment \<Rightarrow> deployment \<Rightarrow> int" where
  "restoreOrder D a b = (if dp_createdAt a \<noteq> dp_createdAt b then dp_createdAt a - dp_createdAt b else dd_lc D (dp_id a) (dp_id b))"

definition restore :: "deps \<Rightarrow> int \<Rightarrow> manager \<Rightarrow> manager" where
  "restore D t m =
     snd (foldl (\<lambda>(seen, m) d. restoreOne D t d seen m) ([], m) (sort_by (restoreOrder D) (listDeployments (mg_reg m))))"

subsection \<open>Starting and stopping\<close>

datatype api_error = FleetApplying | UnknownDeployment string | ShuttingDown | NodeUpdating | OperationInProgress
  | CannotStart deployment_state | ExternalOptions | DuplicateExternal string string | StopFirst

definition clearExclusions :: "string \<Rightarrow> manager \<Rightarrow> manager" where
  "clearExclusions i m =
     (case map_of (mg_moveExcluded m) i of
        Some x \<Rightarrow> if xc_nodes x \<noteq> [] then m\<lparr>mg_moveExcluded := del i (mg_moveExcluded m)\<rparr> else m
      | None \<Rightarrow> m)"

text \<open>\<open>token\<close> says that the caller is the fleet allocation that is being applied.\<close>

definition restartable :: "manager \<Rightarrow> deployment \<Rightarrow> bool \<Rightarrow> bool \<Rightarrow> bool" where
  "restartable m d recovering fromReady \<longleftrightarrow>
     dp_state d \<in> {Planned, Stopped, Failed} \<or>
     (recovering \<and> isReconnecting m (dp_id d) \<and> dp_state d = Loading) \<or>
     (fromReady \<and> dp_state d \<in> {Ready, Placing, Loading})"

definition startRefusal :: "deps \<Rightarrow> deployment \<Rightarrow> bool \<Rightarrow> bool \<Rightarrow> string option \<Rightarrow> manager \<Rightarrow> api_error option" where
  "startRefusal D d recovering fromReady updating m =
     (if mg_closed m then Some ShuttingDown
      else if updating \<noteq> None then Some NodeUpdating
      else if dp_id d \<in> set (mg_operations m) then Some OperationInProgress
      else if \<not> restartable m d recovering fromReady then Some (CannotStart (dp_state d))
      else if sp_kind (dp_spec d) = External
        then (if \<not> externalOptionsOk (dp_spec d) then Some ExternalOptions
              else map_option (\<lambda>x. DuplicateExternal (sp_name (dp_spec x)) (dp_id x)) (duplicateExternal D (dp_spec d) (Some (dp_id d)) m))
      else None)"

definition admitStart :: "deployment \<Rightarrow> bool \<Rightarrow> int \<Rightarrow> manager \<Rightarrow> manager" where
  "admitStart d recovering t m =
     (let i = dp_id d;
          m1 = m\<lparr>mg_reconnecting := del i (mg_reconnecting m)\<rparr>;
          m2 = (if recovering then set_intent i (Some True) None None m1 else set_intent i (Some True) (Some 0) (Some 0) m1);
          m3 = set_dep i ((patch_route Placing)\<lparr>dpp_error := Some None\<rparr>) t m2 in
      enqueue i (m3\<lparr>mg_starting := mg_starting m3 @
        [\<lparr>ps_dep = d, ps_generation = generation m3 i, ps_stage = Cleaning, ps_plan = None, ps_nodes = [], ps_endpoint = None\<rparr>]\<rparr>))"

definition start :: "deps \<Rightarrow> string \<Rightarrow> bool \<Rightarrow> bool \<Rightarrow> bool \<Rightarrow> int \<Rightarrow> manager \<Rightarrow> api_error option \<times> manager" where
  "start D i recovering token fromReady t m0 =
     (let m = (if recovering then m0 else clearExclusions i m0) in
      if mg_fleetBusy m \<and> \<not> token then (Some FleetApplying, m)
      else
        (case getDeployment (mg_reg m) i of
           None \<Rightarrow> (Some (UnknownDeployment i), m)
         | Some d \<Rightarrow>
             (let (updating, m1) = (if mg_closed m then (None, m) else updatingNode t m) in
              case startRefusal D d recovering fromReady updating m1 of
                Some e \<Rightarrow> (Some e, m1)
              | None \<Rightarrow> (None, admitStart d recovering t m1))))"

definition stop :: "string \<Rightarrow> bool \<Rightarrow> int \<Rightarrow> manager \<Rightarrow> api_error option \<times> manager \<times> effect list" where
  "stop i token t m =
     (if mg_fleetBusy m \<and> \<not> token then (Some FleetApplying, m, [])
      else if getDeployment (mg_reg m) i = None then (Some (UnknownDeployment i), m, [])
      else
        (let m1 = m\<lparr>mg_reconnecting := del i (mg_reconnecting m), mg_blocked := del i (mg_blocked m)\<rparr>;
             (m2, e) = cancel i (set_intent i (Some False) (Some 0) (Some 0) m1) in
         (None, enqueue i (set_dep i (patch_route Draining) t m2), e @ [Teardown i])))"

definition removeRefusal :: "string \<Rightarrow> manager \<Rightarrow> api_error option" where
  "removeRefusal i m =
     (case getDeployment (mg_reg m) i of
        None \<Rightarrow> Some (UnknownDeployment i)
      | Some d \<Rightarrow> if dp_state d \<in> {Planned, Stopped, Failed} then None else Some StopFirst)"

subsection \<open>Teardown\<close>

definition teardownOrder :: "manager \<Rightarrow> string \<Rightarrow> assignment_row list" where
  "teardownOrder m i =
     (let rows = pending_rows m i in filter (\<lambda>r. ar_kind r = KCoordinator) rows @ filter (\<lambda>r. ar_kind r \<noteq> KCoordinator) rows)"

definition teardownRow :: "assignment_row \<Rightarrow> manager \<Rightarrow> manager \<times> effect list" where
  "teardownRow r m = (with_reg (retireAssignment (ar_id r)) m, [SendStop (ar_nodeId r) (ar_id r) (ar_deploymentId r)])"

text \<open>The rows that keep a teardown from succeeding once it has waited for each.\<close>

definition unacknowledged :: "bool \<Rightarrow> manager \<Rightarrow> string \<Rightarrow> assignment_row list" where
  "unacknowledged abandonOffline m i =
     filter (\<lambda>r. \<not> (abandonOffline \<and> ar_nodeId r \<notin> set (mg_online m))) (pending_rows m i)"

text \<open>The continuations of \<open>stop\<close> and of \<open>remove\<close>, once the teardown has gone through its rows.\<close>

definition stopFinished :: "string \<Rightarrow> int \<Rightarrow> manager \<Rightarrow> manager" where
  "stopFinished i t m =
     (if mg_closed m \<or> unacknowledged False m i \<noteq> [] then operationDone i m
      else operationDone i (set_dep i (no_patch\<lparr>dpp_state := Some Stopped\<rparr>) t m))"

definition removeFinished :: "string \<Rightarrow> int \<Rightarrow> manager \<Rightarrow> manager" where
  "removeFinished i t m =
     (if mg_closed m \<or> unacknowledged False m i \<noteq> [] then operationDone i m
      else with_reg (deleteDeployment i) (stopFinished i t m))"

end
