(* ===== verification/Starters.thy ===== *)
theory Starters
  imports Lifecycle
begin

text \<open>
  The starters of \<^verbatim>\<open>src/swarmlet/control/deployments.ts\<close> (\<open>startExternal\<close>, \<open>startReplica\<close>, \<open>startNative\<close>, \<open>startSplit\<close>): the
  assignments they build and the stages they go through. Identifiers from \<open>newId\<close> are the argument \<open>ids\<close>;
  \<open>ok n\<close> says whether the socket of node \<open>n\<close> takes the message. A stage that throws yields the message of the error and the state
  it left behind.
\<close>

subsection \<open>Assignments of a split\<close>

definition AGENT_DATA_PORT :: int where "AGENT_DATA_PORT = 47801"

record peer_endpoint =
  pe_nodeId :: string
  pe_certFp :: string
  pe_port :: int
  pe_direct :: "(string \<times> int) list"
  pe_relay :: bool

definition directPaths :: "capabilities \<Rightarrow> (string \<times> int) list" where
  "directPaths c =
     (let dp = (case ca_dataPort c of Some p \<Rightarrow> p | None \<Rightarrow> AGENT_DATA_PORT) in
      map (\<lambda>h. (h, dp)) (ca_privateIps c) @
      (case ca_publicIp c of Some h \<Rightarrow> if h = [] then [] else [(h, dp)] | None \<Rightarrow> []) @
      filter (\<lambda>(h, p). h \<noteq> [] \<and> 0 < p \<and> p < 65536) (case ca_publicEndpoints c of Some es \<Rightarrow> es | None \<Rightarrow> []))"

definition endpointFor :: "node_row \<Rightarrow> int \<Rightarrow> peer_endpoint" where
  "endpointFor n port =
     \<lparr>pe_nodeId = nr_id n, pe_certFp = nr_certFp n, pe_port = port,
      pe_direct = (case nr_caps n of Some c \<Rightarrow> directPaths c | None \<Rightarrow> []), pe_relay = True\<rparr>"

record worker_assignment =
  wa_id :: string
  wa_nodeId :: string
  wa_port :: int
  wa_device :: string
  wa_threads :: rat
  wa_memCapMiB :: rat
  wa_peerPort :: "int option"
  wa_peers :: "(nat \<times> peer_endpoint) list option"
  wa_allow :: "string list"
  wa_serve :: "peer_endpoint option"
  wa_ramMiB :: "rat option"
  wa_cpuCores :: "rat option"
  wa_layers :: int
  wa_modelLayers :: int

definition planAllocation :: "plan \<Rightarrow> string \<Rightarrow> node_allocation option" where
  "planAllocation pl n = Option.bind (pl_allocations pl) (find (\<lambda>a. na_nodeId a = n))"

definition enforce_ram :: "plan \<Rightarrow> node_row \<Rightarrow> rat option" where
  "enforce_ram pl n = (case planAllocation pl (nr_id n) of Some a \<Rightarrow> Some (na_ramMiB a) | None \<Rightarrow> map_option of_ramMiB (nr_offer n))"

definition enforce_cpu :: "plan \<Rightarrow> node_row \<Rightarrow> rat option" where
  "enforce_cpu pl n = (case planAllocation pl (nr_id n) of Some a \<Rightarrow> Some (na_cpuCores a) | None \<Rightarrow> map_option of_cpuCores (nr_offer n))"

text \<open>A peer port counts when it is given and not zero.\<close>

definition peer_port :: "plan_worker \<Rightarrow> int option" where
  "peer_port w = (case pw_peerPort w of Some p \<Rightarrow> if p = 0 then None else Some p | None \<Rightarrow> None)"

definition workerAssignment :: "bool \<Rightarrow> node_row \<Rightarrow> plan \<Rightarrow> model_profile \<Rightarrow> (plan_worker \<times> node_row) list \<Rightarrow> string \<Rightarrow> nat \<Rightarrow> worker_assignment" where
  "workerAssignment rd coord pl prof ws aid i =
     (let (w, n) = ws ! i in
      \<lparr>wa_id = aid, wa_nodeId = nr_id n, wa_port = pw_port w, wa_device = pw_device w, wa_threads = pw_threads w,
       wa_memCapMiB = pw_memCapMiB w, wa_peerPort = pw_peerPort w,
       wa_peers = (if Suc i < length ws then
                     (case (peer_port w, peer_port (fst (ws ! Suc i))) of
                        (Some _, Some q) \<Rightarrow> Some [(Suc i, endpointFor (snd (ws ! Suc i)) q)]
                      | _ \<Rightarrow> None)
                   else None),
       wa_allow = nr_certFp coord # (if 0 < i then [nr_certFp (snd (ws ! (i - 1)))] else []),
       wa_serve = (if rd then Some (endpointFor coord (pw_port w)) else None),
       wa_ramMiB = enforce_ram pl n, wa_cpuCores = enforce_cpu pl n,
       wa_layers = pw_layers w, wa_modelLayers = mp_layers prof\<rparr>)"

definition workerAssignments :: "bool \<Rightarrow> node_row \<Rightarrow> plan \<Rightarrow> model_profile \<Rightarrow> (plan_worker \<times> node_row) list \<Rightarrow> string list \<Rightarrow> worker_assignment list" where
  "workerAssignments rd coord pl prof ws ids = map (\<lambda>i. workerAssignment rd coord pl prof ws (ids ! i) i) [0..<length ws]"

record coordinator_assignment =
  ka_id :: string
  ka_modelPath :: string
  ka_rpc :: "(peer_endpoint \<times> bool) list"
  ka_devices :: "string list"
  ka_tensorSplit :: "int list"
  ka_ctx :: int
  ka_parallel :: int
  ka_mtp :: "(string \<times> int) option"
  ka_speculation :: jsv
  ka_env :: "(string \<times> string) list"
  ka_extraArgs :: "string list"
  ka_port :: int
  ka_modelName :: string
  ka_fitMiB :: "rat option"
  ka_stopExternal :: "string option"
  ka_ramMiB :: "rat option"
  ka_cpuCores :: "rat option"

text \<open>\<open>mtp\<close> is passed with a chain and a head to run it.\<close>

definition mtpOf :: "plan \<Rightarrow> (string \<times> int) option" where
  "mtpOf pl = (case pl_mtpPath pl of Some p \<Rightarrow> if 0 < pl_chain pl \<and> p \<noteq> [] then Some (p, pl_chain pl) else None | None \<Rightarrow> None)"

definition stopExternalName :: "manager \<Rightarrow> deployment_spec \<Rightarrow> string \<Rightarrow> string option" where
  "stopExternalName m spec n =
     (if sp_stopExternal spec \<noteq> Some True then None
      else map_option (\<lambda>d. sp_name (dp_spec d))
        (find (\<lambda>d. sp_kind (dp_spec d) = External \<and> map_option ex_nodeId (sp_external (dp_spec d)) = Some n) (listDeployments (mg_reg m))))"

definition fitGate :: "deployment_spec \<Rightarrow> plan \<Rightarrow> node_row \<Rightarrow> int \<Rightarrow> model_profile \<Rightarrow> rat option" where
  "fitGate spec pl n layers prof =
     (if nr_os n \<noteq> ''darwin'' then None
      else if truthy (sp_allocations spec) then map_option na_ramMiB (planAllocation pl (nr_id n))
      else Some (of_int (layers * mp_layerMiB prof + mp_coordinatorHostMiB prof)))"

definition coordinatorAssignment :: "deps \<Rightarrow> manager \<Rightarrow> deployment_spec \<Rightarrow> node_row \<Rightarrow> plan \<Rightarrow> model_profile
    \<Rightarrow> (plan_worker \<times> node_row) list \<Rightarrow> string \<Rightarrow> int \<Rightarrow> coordinator_assignment" where
  "coordinatorAssignment D m spec coord pl prof ws aid port =
     \<lparr>ka_id = aid, ka_modelPath = pl_modelPath pl,
      ka_rpc = map (\<lambda>(w, n). (endpointFor n (pw_port w), dd_reverseDial D)) ws,
      ka_devices = map (\<lambda>i. ''RPC'' @ number_text (of_nat i)) [0..<length ws] @ [pl_coordinatorDevice pl],
      ka_tensorSplit = engineSplit pl, ka_ctx = pl_ctx pl, ka_parallel = pl_parallel pl, ka_mtp = mtpOf pl,
      ka_speculation = pl_speculation pl,
      ka_env = (if pl_engineTensorSplit pl \<noteq> None then AList.update ''LLAMA_ARG_LOG_VERBOSITY'' ''4'' (pl_env pl) else pl_env pl),
      ka_extraArgs = mp_extraArgs prof, ka_port = port, ka_modelName = mp_modelName prof,
      ka_fitMiB = fitGate spec pl coord (if pl_tensorSplit pl = [] then 0 else last (pl_tensorSplit pl)) prof,
      ka_stopExternal = stopExternalName m spec (nr_id coord),
      ka_ramMiB = enforce_ram pl coord, ka_cpuCores = enforce_cpu pl coord\<rparr>"

subsection \<open>Dispatch\<close>

definition nodeFor :: "manager \<Rightarrow> string \<Rightarrow> string + node_row" where
  "nodeFor m i =
     (case getNode (mg_reg m) i of
        None \<Rightarrow> Inl (''unknown node '' @ i)
      | Some n \<Rightarrow>
          if \<not> nr_online n \<or> i \<notin> set (mg_online m)
          then Inl (''node '' @ nr_hostname n @ '' ('' @ i @ '') is offline or awaiting hello'') else Inr n)"

definition new_row :: "string \<Rightarrow> string \<Rightarrow> string \<Rightarrow> assignment_kind \<Rightarrow> bool \<Rightarrow> int \<Rightarrow> int option \<Rightarrow> string list \<Rightarrow> int \<Rightarrow> assignment_row" where
  "new_row aid i n k ext port peer allow t =
     \<lparr>ar_id = aid, ar_deploymentId = i, ar_nodeId = n, ar_kind = k, ar_external = ext, ar_port = port, ar_peerPort = peer, ar_allow = allow,
      ar_state = Sent, ar_detail = None, ar_updatedAt = t, ar_retired = False\<rparr>"

type_synonym staged = "string option \<times> manager \<times> effect list"

text \<open>\<open>channel.assign\<close>: the row is stored before the message is sent.\<close>

fun assignAll :: "(string \<Rightarrow> bool) \<Rightarrow> (string \<Rightarrow> string) \<Rightarrow> assignment_row list \<Rightarrow> manager \<Rightarrow> staged" where
  "assignAll ok offline [] m = (None, m, [])"
| "assignAll ok offline (r # rs) m =
     (let m1 = with_reg (putAssignment r) m in
      if \<not> ok (ar_nodeId r) then (Some (offline (ar_nodeId r)), m1, [])
      else (let (x, m2, e) = assignAll ok offline rs m1 in (x, m2, Assign (ar_nodeId r) (ar_id r) # e)))"

definition offline_text :: "string \<Rightarrow> string" where
  "offline_text n = ''node '' @ n @ '' is offline''"

definition isRunning :: "manager \<Rightarrow> pending_start \<Rightarrow> bool" where
  "isRunning m p \<longleftrightarrow> \<not> mg_closed m \<and> running m (dp_id (ps_dep p)) \<and> ps_generation p = generation m (dp_id (ps_dep p))"

definition advance :: "pending_start \<Rightarrow> pending_start \<Rightarrow> manager \<Rightarrow> manager" where
  "advance p q m = m\<lparr>mg_starting := map (\<lambda>x. if x = p then q else x) (mg_starting m)\<rparr>"

text \<open>A dispatch that went through leaves the start in its next stage.\<close>

definition then_advance :: "pending_start \<Rightarrow> pending_start \<Rightarrow> staged \<Rightarrow> staged" where
  "then_advance p q r = (case r of (None, m, e) \<Rightarrow> (None, advance p q m, e) | _ \<Rightarrow> r)"

subsection \<open>The stages of a start\<close>

definition startExternal :: "deps \<Rightarrow> (string \<Rightarrow> bool) \<Rightarrow> string list \<Rightarrow> pending_start \<Rightarrow> int \<Rightarrow> manager \<Rightarrow> staged" where
  "startExternal D ok ids p t m =
     (let i = dp_id (ps_dep p) in
      case sp_external (dp_spec (ps_dep p)) of
        None \<Rightarrow> (Some ''undefined is not an object'', m, [])
      | Some x \<Rightarrow>
          (case nodeFor m (ex_nodeId x) of
             Inl e \<Rightarrow> (Some e, m, [])
           | Inr n \<Rightarrow>
               (let port = urlPort D (ex_url x);
                    m1 = set_dep i (no_patch\<lparr>dpp_state := Some Loading, dpp_plan := Some None\<rparr>) t m;
                    q = p\<lparr>ps_stage := EngineLoading, ps_endpoint := Some \<lparr>ep_nodeId = nr_id n, ep_port = port, ep_modelName = ex_modelName x\<rparr>\<rparr> in
                then_advance p q (assignAll ok offline_text [new_row (ids ! 0) i (nr_id n) KReplica True port None [] t] m1))))"

definition startReplica :: "deps \<Rightarrow> (string \<Rightarrow> bool) \<Rightarrow> string list \<Rightarrow> pending_start \<Rightarrow> int \<Rightarrow> manager \<Rightarrow> staged" where
  "startReplica D ok ids p t m =
     (let d = ps_dep p; i = dp_id d in
      case planFor D d t m of
        (Inl e, m1) \<Rightarrow> (Some (plan_error_text D e), m1, [])
      | (Inr pl, m1) \<Rightarrow>
          (let m2 = set_dep i (no_patch\<lparr>dpp_plan := Some (Some pl), dpp_state := Some Loading\<rparr>) t m1 in
           case nodeFor m2 (pl_coordinatorNodeId pl) of
             Inl e \<Rightarrow> (Some e, m2, [])
           | Inr n \<Rightarrow>
               (let port = fst (freePort (nr_id n) (dd_serverPortBase D) (usedPorts (mg_reg m2)));
                    name = (case map_of (dd_profiles D) (sp_profile (dp_spec d)) of Some pr \<Rightarrow> mp_modelName pr | None \<Rightarrow> []);
                    q = p\<lparr>ps_stage := EngineLoading, ps_plan := Some pl, ps_nodes := [n],
                          ps_endpoint := Some \<lparr>ep_nodeId = nr_id n, ep_port = port, ep_modelName = name\<rparr>\<rparr> in
                then_advance p q (assignAll ok offline_text [new_row (ids ! 0) i (nr_id n) KReplica False port None [] t] m2))))"

definition startNative :: "deps \<Rightarrow> (string \<Rightarrow> bool) \<Rightarrow> string list \<Rightarrow> pending_start \<Rightarrow> int \<Rightarrow> manager \<Rightarrow> staged" where
  "startNative D ok ids p t m =
     (let d = ps_dep p; i = dp_id d in
      case planSpec D (dp_spec d) (Some i) [] t m of
        (Inl e, m1) \<Rightarrow> (Some (plan_error_text D e), m1, [])
      | (Inr pl, m1) \<Rightarrow>
          (case pl_nativeExecution pl of
             None \<Rightarrow> (Some ''native execution plan missing'', m1, [])
           | Some x \<Rightarrow>
               (let m2 = set_dep i (no_patch\<lparr>dpp_plan := Some (Some pl), dpp_state := Some Loading\<rparr>) t m1;
                    es = nx_endpoints x;
                    rows = map (\<lambda>k. new_row (ids ! k) i (nw_nodeId (es ! k)) KStage False (nw_port (es ! k)) None [] t) [0..<length es];
                    name = (case map_of (dd_profiles D) (sp_profile (dp_spec d)) of Some pr \<Rightarrow> mp_modelName pr | None \<Rightarrow> []);
                    q = p\<lparr>ps_stage := EngineLoading, ps_plan := Some pl,
                          ps_endpoint := (case es of [] \<Rightarrow> None
                            | f # _ \<Rightarrow> Some \<lparr>ep_nodeId = nw_nodeId f, ep_port = nw_port f, ep_modelName = name\<rparr>)\<rparr> in
                then_advance p q (assignAll ok offline_text rows m2))))"

definition splitNodes :: "manager \<Rightarrow> plan \<Rightarrow> string + node_row list" where
  "splitNodes m pl = try_map (nodeFor m) (pl_coordinatorNodeId pl # map pw_nodeId (pl_workers pl))"

definition worker_row :: "string \<Rightarrow> int \<Rightarrow> worker_assignment \<Rightarrow> assignment_row" where
  "worker_row i t a = new_row (wa_id a) i (wa_nodeId a) KWorker False (wa_port a) (wa_peerPort a) (wa_allow a) t"

definition profileFor :: "deps \<Rightarrow> deployment \<Rightarrow> model_profile" where
  "profileFor D d = the (map_of (dd_profiles D) (sp_profile (dp_spec d)))"

definition startSplit :: "deps \<Rightarrow> (string \<Rightarrow> bool) \<Rightarrow> string list \<Rightarrow> pending_start \<Rightarrow> int \<Rightarrow> manager \<Rightarrow> staged" where
  "startSplit D ok ids p t m =
     (let d = ps_dep p; i = dp_id d in
      case planFor D d t m of
        (Inl e, m1) \<Rightarrow> (Some (plan_error_text D e), m1, [])
      | (Inr pl, m1) \<Rightarrow>
          (let m2 = set_dep i (no_patch\<lparr>dpp_plan := Some (Some pl)\<rparr>) t m1 in
           case splitNodes m2 pl of
             Inl e \<Rightarrow> (Some e, m2, [])
           | Inr ns \<Rightarrow>
               (let as = workerAssignments (dd_reverseDial D) (hd ns) pl (profileFor D d) (zip (pl_workers pl) (tl ns)) ids;
                    q = p\<lparr>ps_stage := WorkersLaunching, ps_plan := Some pl, ps_nodes := ns\<rparr> in
                then_advance p q (assignAll ok offline_text (map (worker_row i t) as) m2))))"

definition startCoordinator :: "deps \<Rightarrow> (string \<Rightarrow> bool) \<Rightarrow> string list \<Rightarrow> pending_start \<Rightarrow> int \<Rightarrow> manager \<Rightarrow> staged" where
  "startCoordinator D ok ids p t m =
     (let d = ps_dep p; i = dp_id d; m1 = set_dep i (no_patch\<lparr>dpp_state := Some Loading\<rparr>) t m;
          coord = hd (ps_nodes p); pl = the (ps_plan p); ws = zip (pl_workers pl) (tl (ps_nodes p));
          port = fst (freePort (nr_id coord) (dd_serverPortBase D) (usedPorts (mg_reg m1)));
          c = coordinatorAssignment D m1 (dp_spec d) coord pl (profileFor D d) ws (ids ! 0) port;
          q = p\<lparr>ps_stage := EngineLoading,
                ps_endpoint := Some \<lparr>ep_nodeId = nr_id coord, ep_port = ka_port c, ep_modelName = ka_modelName c\<rparr>\<rparr> in
      then_advance p q (assignAll ok (\<lambda>n. ''coordinator '' @ n @ '' is offline'')
        [new_row (ka_id c) i (nr_id coord) KCoordinator False (ka_port c) None [] t] m1))"

text \<open>The engine answered: the route is published.\<close>

definition engineReady :: "pending_start \<Rightarrow> int \<Rightarrow> manager \<Rightarrow> staged" where
  "engineReady p t m =
     (let i = dp_id (ps_dep p);
          m1 = (if sp_kind (dp_spec (ps_dep p)) \<in> {Stages, PrefillDecode} then m\<lparr>mg_native := i # removeAll i (mg_native m)\<rparr> else m) in
      case ps_endpoint p of
        None \<Rightarrow> (Some ''undefined is not an object'', m1, [])
      | Some e \<Rightarrow>
          (let m2 = set_dep i (no_patch\<lparr>dpp_state := Some Ready, dpp_endpoint := Some (Some e)\<rparr>) t m1 in
           (None, operationDone i (m2\<lparr>mg_starting := remove1 p (mg_starting m2)\<rparr>), [])))"

text \<open>The stage of a start that runs when what it waited for has resolved.\<close>

definition stage :: "deps \<Rightarrow> (string \<Rightarrow> bool) \<Rightarrow> string list \<Rightarrow> pending_start \<Rightarrow> int \<Rightarrow> manager \<Rightarrow> staged" where
  "stage D ok ids p t m =
     (if ps_stage p = Cleaning \<and> unacknowledged True m (dp_id (ps_dep p)) \<noteq> []
      then (Some (''cleanup pending acknowledgement: '' @ join_with '', '' (map ar_id (unacknowledged True m (dp_id (ps_dep p))))), m, [])
      else if \<not> isRunning m p then (Some ''deployment operation cancelled'', m, [])
      else
        (case ps_stage p of
           EngineLoading \<Rightarrow> engineReady p t m
         | WorkersLaunching \<Rightarrow> startCoordinator D ok ids p t m
         | Cleaning \<Rightarrow>
             (case sp_kind (dp_spec (ps_dep p)) of
                External \<Rightarrow> startExternal D ok ids p t m
              | Replica \<Rightarrow> startReplica D ok ids p t m
              | Split \<Rightarrow> startSplit D ok ids p t m
              | _ \<Rightarrow> startNative D ok ids p t m)))"

text \<open>The \<open>catch\<close> of a start: the failure is recorded while the start is still the current one, and its remains are torn down.\<close>

definition startFailed :: "deps \<Rightarrow> pending_start \<Rightarrow> string \<Rightarrow> int \<Rightarrow> manager \<Rightarrow> manager \<times> effect list" where
  "startFailed D p why t m =
     (let i = dp_id (ps_dep p); m1 = m\<lparr>mg_starting := remove1 p (mg_starting m)\<rparr> in
      if \<not> mg_closed m1 \<and> ps_generation p = generation m1 i then (recordFailure D i why t m1, [Teardown i]) else (operationDone i m1, []))"

definition stageStep :: "deps \<Rightarrow> (string \<Rightarrow> bool) \<Rightarrow> string list \<Rightarrow> pending_start \<Rightarrow> int \<Rightarrow> manager \<Rightarrow> manager \<times> effect list" where
  "stageStep D ok ids p t m =
     (if p \<notin> set (mg_starting m) then (m, [])
      else (case stage D ok ids p t m of
              (None, m1, e) \<Rightarrow> (m1, e)
            | (Some why, m1, e) \<Rightarrow> (let (m2, e2) = startFailed D p why t m1 in (m2, e @ e2))))"

end
