(* ===== verification/Moves.thy ===== *)
theory Moves
  imports Starters
begin

text \<open>
  How the deployment manager of \<^verbatim>\<open>src/swarmlet/control/deployments.ts\<close> moves deployments: the re-decision of a placement
  (\<open>redistribute\<close>), the reaction to a node that joins, and the periodic reconciliation. A call of \<open>redistribute\<close> runs to the
  \<open>await\<close> of the start it makes; \<open>moveFailed\<close> is the \<open>catch\<close> behind it.
\<close>

subsection \<open>Re-deciding a placement\<close>

datatype move_result = Kept | Launched | Refused api_error

definition autoTruthy :: "bool option \<Rightarrow> bool" where
  "autoTruthy b \<longleftrightarrow> b = Some True"

definition rankOf :: "deps \<Rightarrow> string \<Rightarrow> int option" where
  "rankOf D p = (if p = [] then None else Option.bind (map_of (dd_profiles D) p) mp_rank)"

definition placementIntact :: "manager \<Rightarrow> deployment \<Rightarrow> bool" where
  "placementIntact m d \<longleftrightarrow> dp_state d = Ready \<and>
     (case dp_plan d of
        None \<Rightarrow> False
      | Some p \<Rightarrow> list_all (\<lambda>n. case getNode (mg_reg m) n of Some r \<Rightarrow> nr_online r | None \<Rightarrow> False) (planNodeList p))"

text \<open>Whether a model change is adopted: never a lower rank or another kind under a deployment that is serving.\<close>

definition adoptsModel :: "deps \<Rightarrow> manager \<Rightarrow> deployment \<Rightarrow> deployment_spec \<Rightarrow> bool" where
  "adoptsModel D m d c =
     (let kindChanged = (sp_kind c \<noteq> sp_kind (dp_spec d)); profileChanged = (sp_profile c \<noteq> sp_profile (dp_spec d)) in
      if profileChanged \<and> placementIntact m d \<and>
         (case (rankOf D (sp_profile (dp_spec d)), rankOf D (sp_profile c)) of (Some cur, Some new) \<Rightarrow> new < cur | _ \<Rightarrow> False)
      then False
      else if kindChanged \<and> dp_state d = Ready then False
      else profileChanged \<or> kindChanged)"

text \<open>\<open>None\<close> when nothing can be placed; otherwise the deployment as it is now, and whether its model changed.\<close>

definition redecideModel :: "deps \<Rightarrow> deployment \<Rightarrow> int \<Rightarrow> manager \<Rightarrow> (deployment \<times> bool) option \<times> manager" where
  "redecideModel D d t m =
     (if \<not> autoTruthy (sp_autoModel (dp_spec d)) then (Some (d, False), m)
      else
        (let i = dp_id d; exclude = (case map_of (mg_moveExcluded m) i of Some x \<Rightarrow> xc_nodes x | None \<Rightarrow> []) in
         case chooseAuto D (dp_spec d) (Some i) exclude t m of
           (None, m1) \<Rightarrow> (None, m1)
         | (Some c, m1) \<Rightarrow>
             if adoptsModel D m1 d c
             then (let m2 = set_dep i (no_patch\<lparr>dpp_spec := Some c\<rparr>) t m1 in (map_option (\<lambda>e. (e, True)) (getDeployment (mg_reg m2) i), m2))
             else (Some (d, False), m1)))"

definition notWorthwhile :: "manager \<Rightarrow> deployment \<Rightarrow> bool \<Rightarrow> plan \<Rightarrow> bool" where
  "notWorthwhile m d modelChanged cand \<longleftrightarrow> dp_state d = Ready \<and>
     (case dp_plan d of
        None \<Rightarrow> False
      | Some p \<Rightarrow> samePlacement (Some p) (Some cand) \<or>
          (\<not> modelChanged \<and> sameRequest p cand \<and> list_all (node_online m) (planNodeList p) \<and> \<not> placementGain (mg_reg m) (Some p) cand))"

definition set_lastMove :: "string \<Rightarrow> int \<Rightarrow> manager \<Rightarrow> manager" where
  "set_lastMove i t m = m\<lparr>mg_lastMove := AList.update i t (mg_lastMove m)\<rparr>"

definition redistribute :: "deps \<Rightarrow> string \<Rightarrow> int \<Rightarrow> manager \<Rightarrow> move_result \<times> manager" where
  "redistribute D i t m =
     (case getDeployment (mg_reg m) i of
        None \<Rightarrow> (Kept, m)
      | Some d0 \<Rightarrow>
          if mg_closed m \<or> i \<in> set (mg_operations m) \<or> pinsNodes (dp_spec d0) then (Kept, m)
          else
            (case redecideModel D d0 t m of
               (None, m1) \<Rightarrow> (Kept, m1)
             | (Some (d, modelChanged), m1) \<Rightarrow>
                 (case planSpec D (dp_spec d) (Some i) [] t m1 of
                    (Inl _, m2) \<Rightarrow> (Kept, m2)
                  | (Inr cand, m2) \<Rightarrow>
                      (case blockedUntil i cand t m2 of
                         (Some _, m3) \<Rightarrow> (Kept, set_lastMove i t m3)
                       | (None, m3) \<Rightarrow>
                           if notWorthwhile m3 d modelChanged cand then (Kept, set_lastMove i t m3)
                           else
                             (case start D i True False True t (set_lastMove i t (set_intent i None (Some 0) (Some 0) m3)) of
                                (None, m4) \<Rightarrow> (Launched, m4)
                              | (Some e, m4) \<Rightarrow> (Refused e, m4))))))"

definition engine_failure_text :: "string \<Rightarrow> bool" where
  "engine_failure_text s =
     (let l = map lower_char s in
      list_ex (\<lambda>w. occurs (begins w) l)
        [''engine exited'', ''exited (code'', ''sigabrt'', ''sigterm'', ''failed to allocate'', ''not healthy''])"

definition exclude_nodes :: "string \<Rightarrow> string list \<Rightarrow> int \<Rightarrow> manager \<Rightarrow> manager" where
  "exclude_nodes i ns t m =
     (let seen = (case map_of (mg_moveExcluded m) i of Some x \<Rightarrow> xc_nodes x | None \<Rightarrow> []) in
      m\<lparr>mg_moveExcluded := AList.update i \<lparr>xc_nodes = uniq (seen @ ns), xc_at = t\<rparr> (mg_moveExcluded m)\<rparr>)"

definition failedNodes :: "manager \<Rightarrow> string \<Rightarrow> string list" where
  "failedNodes m i =
     uniq (map ar_nodeId (filter (\<lambda>a. case ar_detail a of Some s \<Rightarrow> s \<noteq> [] \<and> engine_failure_text s | None \<Rightarrow> False)
       (assignmentsOf (mg_reg m) i)))"

text \<open>The move that did not start: once more without the nodes whose engines failed, if there are any.\<close>

definition moveFailed :: "deps \<Rightarrow> string \<Rightarrow> int \<Rightarrow> manager \<Rightarrow> move_result \<times> manager" where
  "moveFailed D i t m =
     (let failed = failedNodes m i in
      if failed = [] then (Kept, m) else redistribute D i t (exclude_nodes i failed t m))"

subsection \<open>A node joins\<close>

definition paced :: "deps \<Rightarrow> string \<Rightarrow> int \<Rightarrow> manager \<Rightarrow> bool" where
  "paced D i t m \<longleftrightarrow> t < lookup (mg_lastMove m) i 0 + tm_moveIntervalMs (dd_timing D)"

definition move_effect :: "string \<Rightarrow> move_result \<times> manager \<Rightarrow> manager \<times> effect list" where
  "move_effect i r = (case r of (Refused _, m) \<Rightarrow> (m, [Redistribute i]) | (_, m) \<Rightarrow> (m, []))"

definition retryFailed :: "deps \<Rightarrow> int \<Rightarrow> deployment \<Rightarrow> manager \<Rightarrow> manager \<times> effect list" where
  "retryFailed D t d m =
     (let i = dp_id d in
      if dp_state d \<noteq> Failed \<or> \<not> begins ''no plan'' (case dp_error d of Some e \<Rightarrow> e | None \<Rightarrow> []) \<or> \<not> running m i \<or>
         pinsNodes (dp_spec d) \<or> i \<in> set (mg_operations m) \<or> paced D i t m then (m, [])
      else (snd (start D i True False False t (set_lastMove i t m)), []))"

definition improveReady :: "deps \<Rightarrow> int \<Rightarrow> deployment \<Rightarrow> manager \<Rightarrow> manager \<times> effect list" where
  "improveReady D t d m =
     (let i = dp_id d in
      if dp_state d \<noteq> Ready \<or> \<not> running m i \<or> pinsNodes (dp_spec d) \<or> isReconnecting m i \<or> i \<in> set (mg_operations m) \<or>
         paced D i t m \<or> t - dp_updatedAt d < tm_moveSettleMs (dd_timing D) then (m, [])
      else if autoTruthy (sp_autoModel (dp_spec d)) then move_effect i (redistribute D i t m)
      else
        (case planSpec D (dp_spec d) (Some i) [] t m of
           (Inl _, m1) \<Rightarrow> (m1, [])
         | (Inr cand, m1) \<Rightarrow>
             if placementGain (mg_reg m1) (dp_plan d) cand then move_effect i (redistribute D i t m1) else (m1, [])))"

definition forgetExclusion :: "string \<Rightarrow> manager \<Rightarrow> manager" where
  "forgetExclusion n m = m\<lparr>mg_moveExcluded := map (\<lambda>(i, x). (i, x\<lparr>xc_nodes := removeAll n (xc_nodes x)\<rparr>)) (mg_moveExcluded m)\<rparr>"

definition onNodeOnline :: "deps \<Rightarrow> string \<Rightarrow> int \<Rightarrow> manager \<Rightarrow> manager \<times> effect list" where
  "onNodeOnline D n t m =
     (if mg_closed m then (m, [])
      else
        (let m1 = forgetExclusion n m;
             (m2, e2) = each (retryFailed D t) (listDeployments (mg_reg m1)) m1;
             (m3, e3) = each (improveReady D t) (listDeployments (mg_reg m2)) m2
         in (m3, e2 @ e3)))"

subsection \<open>Reconciliation\<close>

definition wedgedLoad :: "deps \<Rightarrow> int \<Rightarrow> deployment \<Rightarrow> manager \<Rightarrow> bool" where
  "wedgedLoad D t d m \<longleftrightarrow>
     (dp_state d = Placing \<or> dp_state d = Loading) \<and>
     (case dp_plan d of
        None \<Rightarrow> False
      | Some p \<Rightarrow>
          \<not> pinsNodes (dp_spec d) \<and> tm_moveSettleMs (dd_timing D) \<le> t - dp_updatedAt d \<and> \<not> paced D (dp_id d) t m \<and>
          (list_ex (\<lambda>n. \<not> node_online m n) (planNodeList p) \<or> tm_wedgedLoadMs (dd_timing D) \<le> t - dp_updatedAt d))"

definition graceExpired :: "int \<Rightarrow> string \<Rightarrow> reconnect \<Rightarrow> manager \<Rightarrow> bool" where
  "graceExpired t i x m =
     (case rc_cleanupDeadline x of
        None \<Rightarrow> rc_deadline x \<le> t
      | Some c \<Rightarrow> (pending_rows m i \<noteq> [] \<or> list_ex (\<lambda>n. \<not> node_online m n) (rc_nodes x)) \<and> c \<le> t)"

definition requiredNodes :: "deployment \<Rightarrow> string list" where
  "requiredNodes d =
     (case sp_external (dp_spec d) of
        Some x \<Rightarrow> [ex_nodeId x]
      | None \<Rightarrow>
          (case dp_plan d of
             Some p \<Rightarrow> planNodeList p
           | None \<Rightarrow> filter (\<lambda>n. n \<noteq> [])
               (opt_list (case sp_coordinatorNodeId (dp_spec d) of Some c \<Rightarrow> Some c | None \<Rightarrow> sp_replicaNodeId (dp_spec d)) @
                concat (map (\<lambda>v. case v of Str s \<Rightarrow> [s] | _ \<Rightarrow> []) (elems (sp_workerNodeIds (dp_spec d)))))))"

definition missingNodes :: "manager \<Rightarrow> string list \<Rightarrow> string list" where
  "missingNodes m ns = filter (\<lambda>n. \<not> node_online m n) ns"

definition recoveryAttempt :: "deps \<Rightarrow> int \<Rightarrow> string \<Rightarrow> int \<Rightarrow> manager \<Rightarrow> manager" where
  "recoveryAttempt D t i attempts m = snd (start D i True False False t (set_intent i None (Some (attempts + 1)) None m))"

definition recoverWithout :: "deps \<Rightarrow> int \<Rightarrow> deployment \<Rightarrow> int \<Rightarrow> string list \<Rightarrow> manager \<Rightarrow> manager" where
  "recoverWithout D t d attempts offline m =
     (let i = dp_id d in
      if sp_external (dp_spec d) \<noteq> None \<or> pinsNodes (dp_spec d) then m
      else
        (case planSpec D (dp_spec d) (Some i) [] t (exclude_nodes i offline t m) of
           (Inl _, m1) \<Rightarrow> m1
         | (Inr pl, m1) \<Rightarrow>
             if missingNodes m1 (planNodeList pl) \<noteq> [] then m1
             else recoveryAttempt D t i attempts (set_intent i None (Some attempts) (Some (t + 5000)) m1)))"

definition recover :: "deps \<Rightarrow> int \<Rightarrow> deployment \<Rightarrow> int \<Rightarrow> bool \<Rightarrow> manager \<Rightarrow> manager" where
  "recover D t d attempts reconnecting m =
     (case (if requiredNodes d \<noteq> [] then (Some (requiredNodes d), m)
            else (case planSpec D (dp_spec d) (Some (dp_id d)) [] t m of
                    (Inl _, m1) \<Rightarrow> (None, m1) | (Inr pl, m1) \<Rightarrow> (Some (planNodeList pl), m1))) of
        (None, m1) \<Rightarrow> m1
      | (Some required, m1) \<Rightarrow>
          (let offline = missingNodes m1 required in
           if offline \<noteq> [] \<and> \<not> reconnecting then recoverWithout D t d attempts offline m1
           else recoveryAttempt D t (dp_id d) attempts m1))"

text \<open>The part of a deployment's reconciliation behind the re-decisions, with the intent as it was read before them.\<close>

definition reconcileRest :: "deps \<Rightarrow> int \<Rightarrow> deployment \<Rightarrow> intent \<Rightarrow> bool \<Rightarrow> manager \<Rightarrow> manager" where
  "reconcileRest D t d x reconnecting m0 =
     (let i = dp_id d;
          excludedAt = (case map_of (mg_moveExcluded m0) i of Some y \<Rightarrow> xc_at y | None \<Rightarrow> 0);
          m1 = (if dp_state d = Ready \<and> excludedAt < t - 60000 then m0\<lparr>mg_moveExcluded := del i (mg_moveExcluded m0)\<rparr> else m0);
          m2 = (if dp_state d = Ready \<and> it_attempts x \<noteq> 0 \<and> 60000 < t - dp_updatedAt d then set_intent i None (Some 0) None m1 else m1) in
      if \<not> it_running x \<or> (dp_state d \<noteq> Failed \<and> \<not> reconnecting) \<or> i \<in> set (mg_operations m2) \<or>
         MAX_RECOVERY_ATTEMPTS \<le> it_attempts x \<or> t < it_retryAt x then m2
      else recover D t d (it_attempts x) reconnecting m2)"

text \<open>A reconciliation that awaits a move resumes when the move turns out not to have started: after an expired grace it records
  the failure, after a wedged load it goes on.\<close>

datatype resume = GraceOver string string | LoadWedged deployment intent

definition reconcileOne :: "deps \<Rightarrow> int \<Rightarrow> deployment \<Rightarrow> manager \<Rightarrow> (move_result \<times> resume) option \<times> manager" where
  "reconcileOne D t d m0 =
     (let i = dp_id d; m1 = finishDraining i t m0; x = deploymentIntent (mg_reg m1) i; m2 = observeReconnect D i t m1 in
      case map_of (mg_reconnecting m2) i of
        Some c \<Rightarrow>
          if graceExpired t i c m2 \<or> MAX_RECOVERY_ATTEMPTS \<le> it_attempts x then
            (if i \<in> set (mg_operations m2) then (None, m2)
             else (let (r, m3) = redistribute D i t m2 in
                   (Some (r, GraceOver i (rc_reason c @ ''; '' @
                      (if rc_cleanupDeadline c \<noteq> None then ''reconnect cleanup deadline'' else ''reconnect grace'') @
                      '' expired or recovery budget exhausted'')), m3)))
          else (None, reconcileRest D t d x True m2)
      | None \<Rightarrow>
          if it_running x \<and> i \<notin> set (mg_operations m2) \<and> wedgedLoad D t d m2 then
            (let (r, m3) = redistribute D i t (set_lastMove i t m2) in (Some (r, LoadWedged d x), m3))
          else (None, reconcileRest D t d x False m2))"

definition reconcileResume :: "deps \<Rightarrow> int \<Rightarrow> resume \<Rightarrow> manager \<Rightarrow> manager" where
  "reconcileResume D t r m =
     (case r of
        GraceOver i why \<Rightarrow> recordFailure D i why t m
      | LoadWedged d x \<Rightarrow> reconcileRest D t d x False m)"

fun reconcileAll :: "deps \<Rightarrow> int \<Rightarrow> deployment list \<Rightarrow> manager \<Rightarrow> (move_result \<times> resume) list \<times> manager" where
  "reconcileAll D t [] m = ([], m)"
| "reconcileAll D t (d # ds) m =
     (let (r, m1) = reconcileOne D t d m; (rs, m2) = reconcileAll D t ds m1 in (opt_list r @ rs, m2))"

definition reconcile :: "deps \<Rightarrow> int \<Rightarrow> manager \<Rightarrow> (move_result \<times> resume) list \<times> manager" where
  "reconcile D t m0 =
     (if mg_closed m0 then ([], m0)
      else (let (updating, m) = updatingNode t m0 in
            if updating \<noteq> None \<or> mg_fleetBusy m then ([], m) else reconcileAll D t (listDeployments (mg_reg m)) m))"

end
