(* ===== verification/Signing.thy ===== *)
theory Signing
  imports Json Frame Validate Registry
begin

text \<open>
  Signed objects (\<^verbatim>\<open>src/sin-harness/core/sign.ts\<close>), the identity helpers of \<^verbatim>\<open>src/swarmlet/protocol/sign.ts\<close> and the enrollment of
  a node (\<^verbatim>\<open>src/swarmlet/control/enroll.ts\<close>). Ed25519 and SHA-256 are parameters: \<open>sign data\<close> signs with the private key at hand,
  \<open>vfy sig data\<close> verifies against a public key. Base64 is \<open>btoa\<close> and \<open>atob\<close> of the platform, written out.
\<close>

subsection \<open>Base64\<close>

definition b64_chars :: string where
  "b64_chars = ''ABCDEFGHIJKLMNOPQRSTUVWXYZabcdefghijklmnopqrstuvwxyz0123456789+/''"

definition b64_char :: "nat \<Rightarrow> char" where
  "b64_char n = b64_chars ! n"

definition b64_index :: "char \<Rightarrow> nat option" where
  "b64_index c = find (\<lambda>i. b64_chars ! i = c) [0..<64]"

fun sextets :: "nat list \<Rightarrow> nat list" where
  "sextets [] = []"
| "sextets [a] = [a div 4, a mod 4 * 16]"
| "sextets [a, b] = [a div 4, a mod 4 * 16 + b div 16, b mod 16 * 4]"
| "sextets (a # b # c # r) = [a div 4, a mod 4 * 16 + b div 16, b mod 16 * 4 + c div 64, c mod 64] @ sextets r"

fun from_sextets :: "nat list \<Rightarrow> nat list" where
  "from_sextets (w # x # y # z # r) = [w * 4 + x div 16, x mod 16 * 16 + y div 4, y mod 4 * 64 + z] @ from_sextets r"
| "from_sextets [w, x, y] = [w * 4 + x div 16, x mod 16 * 16 + y div 4]"
| "from_sextets [w, x] = [w * 4 + x div 16]"
| "from_sextets _ = []"

definition btoa :: "nat list \<Rightarrow> string" where
  "btoa bs = (let cs = map b64_char (sextets bs) in cs @ replicate ((4 - length cs mod 4) mod 4) (CHR ''=''))"

definition strip_padding :: "string \<Rightarrow> string" where
  "strip_padding s =
     (if length s mod 4 \<noteq> 0 then s
      else case rev s of
             a # b # r \<Rightarrow> if a = CHR ''='' then (if b = CHR ''='' then rev r else rev (b # r)) else s
           | _ \<Rightarrow> s)"

definition ascii_space :: "char \<Rightarrow> bool" where
  "ascii_space c = ((of_char c :: nat) \<in> {9, 10, 12, 13, 32})"

definition atob :: "string \<Rightarrow> nat list option" where
  "atob s =
     (let cs = strip_padding (filter (\<lambda>c. \<not> ascii_space c) s); is = map b64_index cs in
      if length cs mod 4 = 1 \<or> None \<in> set is then None else Some (from_sextets (map the is)))"

definition toBase64 :: "bytes \<Rightarrow> string" where
  "toBase64 bs = btoa (map unat bs)"

definition fromBase64 :: "string \<Rightarrow> bytes option" where
  "fromBase64 s = map_option (map of_nat) (atob s)"

subsection \<open>Signed objects\<close>

definition payload :: "jsv \<Rightarrow> jsv" where
  "payload v = (case v of Obj fs \<Rightarrow> Obj (filter (\<lambda>p. fst p \<noteq> ''signature'') fs) | _ \<Rightarrow> v)"

definition signed_bytes :: "jsv \<Rightarrow> bytes" where
  "signed_bytes v = utf8_encode (canonicalize (payload v))"

definition signObject :: "(bytes \<Rightarrow> bytes) \<Rightarrow> (string \<times> jsv) list \<Rightarrow> jsv" where
  "signObject sign fs = Obj (AList.update ''signature'' (Str (toBase64 (sign (signed_bytes (Obj fs))))) fs)"

definition verifyObject :: "(bytes \<Rightarrow> bytes \<Rightarrow> bool) \<Rightarrow> jsv \<Rightarrow> bool" where
  "verifyObject vfy v =
     (case getp v ''signature'' of
        Str s \<Rightarrow> (case fromBase64 s of None \<Rightarrow> False | Some b \<Rightarrow> vfy b (signed_bytes v))
      | _ \<Rightarrow> False)"

subsection \<open>Identities\<close>

definition nodeIdFromJwk :: "(string \<Rightarrow> string) \<Rightarrow> jsv \<Rightarrow> string" where
  "nodeIdFromJwk sha256Hex jwk = take 16 (sha256Hex (canonicalize jwk))"

definition is_hex :: "char \<Rightarrow> bool" where
  "is_hex c = (let n = of_char c :: nat in (48 \<le> n \<and> n \<le> 57) \<or> (65 \<le> n \<and> n \<le> 70) \<or> (97 \<le> n \<and> n \<le> 102))"

definition lower_hex :: "char \<Rightarrow> char" where
  "lower_hex c = (let n = of_char c :: nat in if 65 \<le> n \<and> n \<le> 70 then char_of (n + 32) else c)"

text \<open>The error carries the number of hex digits that were found.\<close>

definition normalizeFingerprint :: "string \<Rightarrow> nat + string" where
  "normalizeFingerprint fp =
     (let hex = map lower_hex (filter is_hex fp) in if length hex \<noteq> 64 then Inl (length hex) else Inr hex)"

subsection \<open>Enrollment\<close>

datatype enroll_error = NotObject | MissingFields | BadFingerprint nat | BadKey | NodeIdMismatch | BadSignature | JoinRefused join_refusal

text \<open>\<open>importKey jwk\<close> is the verification under that key, if it is an Ed25519 public key; \<open>read_caps\<close> reads checked capabilities as a
  record.\<close>

definition enrollChecks :: "(string \<Rightarrow> string) \<Rightarrow> (jsv \<Rightarrow> (bytes \<Rightarrow> bytes \<Rightarrow> bool) option) \<Rightarrow> jsv \<Rightarrow> enroll_error + string" where
  "enrollChecks sha256Hex importKey body =
     (case body of
        Obj _ \<Rightarrow>
          (case (getp body ''code'', getp body ''nodeId'', getp body ''certFp'', getp body ''hostname'') of
             (Str code, Str nodeId, Str fp, Str host) \<Rightarrow>
               if \<not> truthy (getp body ''pubJwk'') \<or> \<not> capabilitiesShape (getp body ''caps'') False then Inl MissingFields
               else
                 (case normalizeFingerprint fp of
                    Inl n \<Rightarrow> Inl (BadFingerprint n)
                  | Inr certFp \<Rightarrow>
                      (case importKey (getp body ''pubJwk'') of
                         None \<Rightarrow> Inl BadKey
                       | Some vfy \<Rightarrow>
                           if nodeIdFromJwk sha256Hex (getp body ''pubJwk'') \<noteq> nodeId then Inl NodeIdMismatch
                           else if \<not> verifyObject vfy body then Inl BadSignature
                           else Inr certFp))
           | _ \<Rightarrow> Inl MissingFields)
      | Arr _ \<Rightarrow> Inl MissingFields
      | _ \<Rightarrow> Inl NotObject)"

definition str_of :: "jsv \<Rightarrow> string" where
  "str_of v = (case v of Str s \<Rightarrow> s | _ \<Rightarrow> [])"

definition joinCheck :: "bool \<Rightarrow> string \<Rightarrow> string \<Rightarrow> int \<Rightarrow> registry \<Rightarrow> join_refusal option \<times> registry" where
  "joinCheck lan code nodeId t r = (if lan \<and> code = [] then (None, r) else consumeJoinCode code nodeId t r)"

definition handleEnroll :: "(string \<Rightarrow> string) \<Rightarrow> (jsv \<Rightarrow> (bytes \<Rightarrow> bytes \<Rightarrow> bool) option) \<Rightarrow> (jsv \<Rightarrow> capabilities) \<Rightarrow> bool \<Rightarrow> jsv \<Rightarrow> int
    \<Rightarrow> registry \<Rightarrow> (enroll_error + string) \<times> registry" where
  "handleEnroll sha256Hex importKey read_caps allowLanAutoEnroll body t r =
     (case enrollChecks sha256Hex importKey body of
        Inl e \<Rightarrow> (Inl e, r)
      | Inr certFp \<Rightarrow>
          (let nodeId = str_of (getp body ''nodeId''); code = str_of (getp body ''code''); caps = getp body ''caps'';
               existing = getNode r nodeId;
               (refused, r1) = joinCheck allowLanAutoEnroll code nodeId t r;
               r2 = upsertNode nodeId (getp body ''pubJwk'') certFp (str_of (getp body ''hostname''))
                      (str_of (getp caps ''os'')) (Some (read_caps caps)) r1 in
           case refused of
             None \<Rightarrow> (Inr nodeId, r2)
           | Some why \<Rightarrow> if map_option nr_certFp existing = Some certFp then (Inr nodeId, r2) else (Inl (JoinRefused why), r1)))"

subsection \<open>Base64 is read back\<close>

lemma from_sextets_sextets: "\<forall>x \<in> set bs. x < 256 \<Longrightarrow> from_sextets (sextets bs) = bs"
proof (induction bs rule: sextets.induct)
  case (3 a b)
  have "b div 16 < 16" using 3 by auto
  then show ?case by simp
next
  case (4 a b c r)
  have "b div 16 < 16" "c div 64 < 4" using 4 by auto
  then show ?case using 4 by simp
qed auto

lemma sextets_less: "\<forall>x \<in> set bs. x < 256 \<Longrightarrow> y \<in> set (sextets bs) \<Longrightarrow> y < 64"
proof (induction bs rule: sextets.induct)
  case (4 a b c r)
  have "a div 4 < 64" "a mod 4 * 16 + b div 16 < 64" "b mod 16 * 4 + c div 64 < 64" "c mod 64 < 64" using 4 by auto
  then show ?case using 4 by auto
next
  case (3 a b)
  have "a div 4 < 64" "a mod 4 * 16 + b div 16 < 64" "b mod 16 * 4 < 64" using 3 by auto
  then show ?case using 3 by auto
qed auto

lemma length_sextets: "length (sextets bs) mod 4 \<in> {0, 2, 3}"
  by (induction bs rule: sextets.induct) auto

lemma b64_table: "\<forall>n \<in> set [0..<64]. b64_index (b64_char n) = Some n \<and> b64_char n \<noteq> CHR ''='' \<and> \<not> ascii_space (b64_char n)"
  by code_simp

lemma b64_char_facts:
  assumes "n < 64"
  shows "b64_index (b64_char n) = Some n" and "b64_char n \<noteq> CHR ''=''" and "\<not> ascii_space (b64_char n)"
  using b64_table assms by auto

lemma strip_padded:
  assumes "CHR ''='' \<notin> set cs" and "length cs mod 4 \<in> {0, 2, 3}"
  shows "strip_padding (cs @ replicate ((4 - length cs mod 4) mod 4) (CHR ''='')) = cs"
proof -
  consider "length cs mod 4 = 0" | "length cs mod 4 = 2" | "length cs mod 4 = 3" using assms(2) by auto
  then show ?thesis
  proof cases
    case 1
    then show ?thesis using assms(1)
      by (auto simp: strip_padding_def split: list.splits)
  next
    case 2
    then have "(length cs + 2) mod 4 = 0" by presburger
    then show ?thesis using 2 by (simp add: strip_padding_def numeral_2_eq_2)
  next
    case 3
    then obtain x xs where x: "rev cs = x # xs" by (cases "rev cs") auto
    then have "x \<noteq> CHR ''=''" "cs = rev xs @ [x]" using assms(1) by (auto simp: rev_swap)
    moreover have "(length cs + 1) mod 4 = 0" using 3 by presburger
    ultimately show ?thesis using 3 by (simp add: strip_padding_def)
  qed
qed

lemma atob_btoa:
  assumes "\<forall>x \<in> set bs. x < 256"
  shows "atob (btoa bs) = Some bs"
proof -
  let ?cs = "map b64_char (sextets bs)"
  note less = sextets_less[OF assms]
  have eq: "CHR ''='' \<notin> set ?cs" using b64_char_facts(2) less by fastforce
  have nospace: "filter (\<lambda>c. \<not> ascii_space c) ?cs = ?cs" using b64_char_facts(3) less by (auto simp: filter_id_conv)
  have pad: "\<not> ascii_space (CHR ''='')" by code_simp
  have idx: "map b64_index ?cs = map Some (sextets bs)" using b64_char_facts(1) less by auto
  have len: "length ?cs mod 4 \<in> {0, 2, 3}" using length_sextets[of bs] by simp
  have "filter (\<lambda>c. \<not> ascii_space c) (btoa bs) = btoa bs"
    using nospace pad by (simp add: btoa_def Let_def)
  then have "strip_padding (filter (\<lambda>c. \<not> ascii_space c) (btoa bs)) = ?cs"
    using strip_padded[OF eq len] by (simp add: btoa_def Let_def)
  moreover have "map the (map b64_index ?cs) = sextets bs" "None \<notin> set (map b64_index ?cs)"
    by (simp_all only: idx) (auto simp: map_idI)
  moreover have "length ?cs mod 4 \<noteq> 1" using len by auto
  ultimately show ?thesis
    by (simp only: atob_def Let_def from_sextets_sextets[OF assms] simp_thms if_False)
qed

lemma fromBase64_toBase64: "fromBase64 (toBase64 bs) = Some bs"
proof -
  have "\<forall>x \<in> set (map unat bs). x < 256" using unsigned_less by (auto intro: less_le_trans[OF unsigned_less])
  from atob_btoa[OF this] show ?thesis by (simp add: fromBase64_def toBase64_def map_idI)
qed

subsection \<open>What was signed verifies\<close>

lemma payload_update: "filter (\<lambda>p. fst p \<noteq> k) (AList.update k v fs) = filter (\<lambda>p. fst p \<noteq> k) fs"
  by (induction fs) auto

lemma getp_update: "getp (Obj (AList.update k v fs)) k = v"
  by (simp add: update_conv')

lemma signed_bytes_update: "signed_bytes (Obj (AList.update ''signature'' v fs)) = signed_bytes (Obj fs)"
  by (simp add: signed_bytes_def payload_def payload_update)

text \<open>C15. An object that \<open>signObject\<close> has signed is accepted by \<open>verifyObject\<close>, whatever its fields and whether or not it
  carried a signature before: the Base64 text is read back, and both sides hash the same canonical text. The hypothesis is the
  correctness of the signature scheme.\<close>

theorem signObject_verifies:
  assumes "\<And>d. vfy (sign d) d"
  shows "verifyObject vfy (signObject sign fs)"
  using assms[of "signed_bytes (Obj fs)"]
  by (simp only: verifyObject_def signObject_def getp_update jsv.case fromBase64_toBase64 option.case signed_bytes_update)

theorem signObject_verifies_witness:
  "verifyObject (\<lambda>b d. b = d) (signObject (\<lambda>d. d) [(''a'', Str ''x''), (''signature'', Null)])"
  by (rule signObject_verifies[where sign = "\<lambda>d. d"]) simp

subsection \<open>Join codes and enrollment\<close>

lemma map_of_update_value: "map_of (map (\<lambda>(k, v). if k = c then (k, f v) else (k, v)) kvs) c = map_option f (map_of kvs c)"
  by (induction kvs) auto

lemma getNode_update_node: "(\<And>n. nr_id (f n) = nr_id n) \<Longrightarrow> getNode (update_node i f r) i = map_option f (getNode r i)"
proof -
  assume f: "\<And>n. nr_id (f n) = nr_id n"
  have "find (\<lambda>n. nr_id n = i) (map (\<lambda>n. if nr_id n = i then f n else n) ns) = map_option f (find (\<lambda>n. nr_id n = i) ns)" for ns
    by (induction ns) (auto simp: f)
  then show ?thesis by (simp add: getNode_def update_node_def)
qed

lemma upsertNode_stored: "\<exists>n. getNode (upsertNode i k fp h os c r) i = Some n \<and> nr_pubJwk n = k \<and> nr_certFp n = fp"
proof (cases "getNode r i")
  case None
  have "find (\<lambda>n. nr_id n = i) (ns @ [n]) = Some n" if "find (\<lambda>n. nr_id n = i) ns = None" "nr_id n = i" for ns n
    using that by (induction ns) (auto split: if_splits)
  from this[OF None[unfolded getNode_def]] show ?thesis using None by (simp add: upsertNode_def getNode_def)
next
  case (Some n)
  then show ?thesis by (simp add: upsertNode_def getNode_update_node)
qed


definition coded_registry :: registry where
  "coded_registry = createJoinCode ''AB'' 1000 0 \<lparr>rg_nodes = [], rg_deployments = [], rg_intents = [], rg_assignments = [], rg_joinCodes = [],
     rg_apiKeys = []\<rparr>"


text \<open>C13. Enrollment: a node is recorded only under the id derived from the key it presented, after it has proved possession of that
  key, and only if a join code was accepted, or the local network may enroll without one, or it re-enrolls under the certificate it is
  already known by. What is recorded is that key and that certificate. A refusal records no node.\<close>

theorem enroll_authentic:
  shows "case handleEnroll sha imp caps lan body t r of
      (Inr i, r') \<Rightarrow>
        i = nodeIdFromJwk sha (getp body ''pubJwk'') \<and>
        (\<exists>vfy fp n. imp (getp body ''pubJwk'') = Some vfy \<and> verifyObject vfy body \<and> normalizeFingerprint (str_of (getp body ''certFp'')) = Inr fp \<and>
           getNode r' i = Some n \<and> nr_pubJwk n = getp body ''pubJwk'' \<and> nr_certFp n = fp \<and>
           ((lan \<and> str_of (getp body ''code'') = []) \<or> fst (consumeJoinCode (str_of (getp body ''code'')) i t r) = None \<or>
            map_option nr_certFp (getNode r i) = Some fp))
    | (Inl e, r') \<Rightarrow> rg_nodes r' = rg_nodes r"
proof (cases "enrollChecks sha imp body")
  case (Inl e)
  then show ?thesis by (simp add: handleEnroll_def)
next
  case (Inr fp)
  define i where "i = str_of (getp body ''nodeId'')"
  define code where "code = str_of (getp body ''code'')"
  have id: "i = nodeIdFromJwk sha (getp body ''pubJwk'')" and norm: "normalizeFingerprint (str_of (getp body ''certFp'')) = Inr fp"
    and key: "\<exists>vfy. imp (getp body ''pubJwk'') = Some vfy \<and> verifyObject vfy body"
    using Inr by (auto simp: enrollChecks_def i_def str_of_def split: jsv.splits if_splits sum.splits option.splits)
  have nodes: "rg_nodes (snd (consumeJoinCode code i t r)) = rg_nodes r"
    by (simp add: consumeJoinCode_def Let_def split: option.splits)
  obtain refused r1 where c: "joinCheck lan code i t r = (refused, r1)" by fastforce
  then have r1: "rg_nodes r1 = rg_nodes r" using nodes by (auto simp: joinCheck_def split: if_splits)
  let ?r2 = "upsertNode i (getp body ''pubJwk'') fp (str_of (getp body ''hostname'')) (str_of (getp (getp body ''caps'') ''os''))
    (Some (caps (getp body ''caps''))) r1"
  have run: "handleEnroll sha imp caps lan body t r =
      (case refused of None \<Rightarrow> (Inr i, ?r2)
       | Some why \<Rightarrow> if map_option nr_certFp (getNode r i) = Some fp then (Inr i, ?r2) else (Inl (JoinRefused why), r1))"
    using Inr c by (simp add: handleEnroll_def Let_def i_def[symmetric] code_def[symmetric])
  have let_in: "(lan \<and> code = []) \<or> fst (consumeJoinCode code i t r) = None" if "refused = None"
    using c that by (auto simp: joinCheck_def split: if_splits)
  show ?thesis
    using id norm key r1 let_in upsertNode_stored[of i "getp body ''pubJwk''" fp]
    unfolding run code_def[symmetric] by (cases refused) auto
qed

end
