(* ===== verification/Channel.thy ===== *)
theory Channel
  imports Moves Signing
begin

text \<open>
  The control side of the agent channel (\<^verbatim>\<open>src/swarmlet/control/channel.ts\<close>): the sockets, authentication, the messages an
  agent sends, the liveness sweep, the authorization of relayed streams and the bounded log buffers, wired to the deployment
  manager as \<^verbatim>\<open>src/swarmlet/control/server.ts\<close> wires it. A socket is named by a number. The outbound
  queues are the theory \<open>Outbox\<close>, the streams the theory \<open>Frame\<close>; what is written to a socket is an effect here. Metrics hooks,
  telemetry and tunnels are not part of the state.
\<close>

subsection \<open>State\<close>

record conn =
  cn_sock :: nat
  cn_nonce :: string
  cn_nodeId :: "string option"
  cn_authed :: bool
  cn_lastSeen :: int
  cn_unresponsiveAt :: "int option"
  cn_ping :: "(string \<times> rat) option"
  cn_link :: "rat option"

record hub =
  hb_mgr :: manager
  hb_socks :: "conn list"
  hb_conns :: "(string \<times> nat) list"
  hb_logs :: "(string \<times> string list) list"
  hb_relay :: "(string \<times> (int \<times> int \<times> int) list) list"
  hb_shuttingDown :: bool

datatype hub_effect = Mgr effect | CloseSocket nat string | Welcome nat | Ping nat string | ErrorReply nat

definition sock_of :: "hub \<Rightarrow> nat \<Rightarrow> conn option" where
  "sock_of h s = find (\<lambda>c. cn_sock c = s) (hb_socks h)"

definition update_sock :: "nat \<Rightarrow> (conn \<Rightarrow> conn) \<Rightarrow> hub \<Rightarrow> hub" where
  "update_sock s f h = h\<lparr>hb_socks := map (\<lambda>c. if cn_sock c = s then f c else c) (hb_socks h)\<rparr>"

definition responsive :: "hub \<Rightarrow> nat \<Rightarrow> bool" where
  "responsive h s = (case sock_of h s of Some c \<Rightarrow> cn_unresponsiveAt c = None | None \<Rightarrow> False)"

definition isOnline :: "hub \<Rightarrow> string \<Rightarrow> bool" where
  "isOnline h n = (case map_of (hb_conns h) n of Some s \<Rightarrow> responsive h s | None \<Rightarrow> False)"

definition onlineNodeIds :: "hub \<Rightarrow> string list" where
  "onlineNodeIds h = map fst (filter (\<lambda>(n, s). responsive h s) (hb_conns h))"

text \<open>A call of the manager. Its \<open>channel.isOnline\<close> is answered from the connections.\<close>

definition run_mgr :: "(manager \<Rightarrow> manager \<times> effect list) \<Rightarrow> hub \<Rightarrow> hub \<times> hub_effect list" where
  "run_mgr f h = (let (m, e) = f ((hb_mgr h)\<lparr>mg_online := onlineNodeIds h\<rparr>) in (h\<lparr>hb_mgr := m\<rparr>, map Mgr e))"

definition hub_reg :: "(registry \<Rightarrow> registry) \<Rightarrow> hub \<Rightarrow> hub" where
  "hub_reg f h = h\<lparr>hb_mgr := with_reg f (hb_mgr h)\<rparr>"

definition and_then :: "hub \<times> hub_effect list \<Rightarrow> (hub \<Rightarrow> hub \<times> hub_effect list) \<Rightarrow> hub \<times> hub_effect list" where
  "and_then r f = (let (h, e) = r; (h', e') = f h in (h', e @ e'))"

subsection \<open>Authentication\<close>

datatype auth_error = UnknownNode | NonceMismatch | BadFingerprintText | FingerprintChanged | BadStoredKey | BadAuthSignature

record auth_msg =
  am_nodeId :: string
  am_nonce :: string
  am_certFp :: string
  am_signature :: string

definition auth_bytes :: "auth_msg \<Rightarrow> string \<Rightarrow> bytes" where
  "auth_bytes a fp = utf8_encode (canonicalize (Obj [(''nodeId'', Str (am_nodeId a)), (''nonce'', Str (am_nonce a)), (''certFp'', Str fp)]))"

definition authRefusal :: "(jsv \<Rightarrow> (bytes \<Rightarrow> bytes \<Rightarrow> bool) option) \<Rightarrow> registry \<Rightarrow> string \<Rightarrow> auth_msg \<Rightarrow> auth_error option" where
  "authRefusal importKey r nonce a =
     (case getNode r (am_nodeId a) of
        None \<Rightarrow> Some UnknownNode
      | Some n \<Rightarrow>
          if am_nonce a \<noteq> nonce then Some NonceMismatch
          else (case normalizeFingerprint (am_certFp a) of
                  Inl _ \<Rightarrow> Some BadFingerprintText
                | Inr fp \<Rightarrow>
                    if fp \<noteq> nr_certFp n then Some FingerprintChanged
                    else (case importKey (nr_pubJwk n) of
                            None \<Rightarrow> Some BadStoredKey
                          | Some vfy \<Rightarrow>
                              (case fromBase64 (am_signature a) of
                                 Some sig \<Rightarrow> if vfy sig (auth_bytes a fp) then None else Some BadAuthSignature
                               | None \<Rightarrow> Some BadAuthSignature))))"

text \<open>An accepted connection replaces the node's earlier one, which loses its name before it is closed.\<close>

definition adoptConn :: "nat \<Rightarrow> string \<Rightarrow> hub \<Rightarrow> hub \<times> hub_effect list" where
  "adoptConn s n h =
     (let prev = (case map_of (hb_conns h) n of Some p \<Rightarrow> if p \<noteq> s then Some p else None | None \<Rightarrow> None);
          h1 = (case prev of Some p \<Rightarrow> update_sock p (\<lambda>c. c\<lparr>cn_nodeId := None\<rparr>) h | None \<Rightarrow> h);
          h2 = update_sock s (\<lambda>c. c\<lparr>cn_nodeId := Some n, cn_authed := True\<rparr>) h1 in
      (h2\<lparr>hb_conns := AList.update n s (hb_conns h2)\<rparr>,
       (case prev of Some p \<Rightarrow> [CloseSocket p ''replaced by a newer connection''] | None \<Rightarrow> []) @ [Welcome s]))"

text \<open>The signature is verified asynchronously; the checks and the adoption are one step here. The welcome carries the node's API
  key, which is created (as \<open>fresh\<close>) when there is none. A stored key that cannot be imported throws.\<close>

definition authenticate :: "(jsv \<Rightarrow> (bytes \<Rightarrow> bytes \<Rightarrow> bool) option) \<Rightarrow> string \<Rightarrow> conn \<Rightarrow> auth_msg \<Rightarrow> hub \<Rightarrow> hub \<times> hub_effect list" where
  "authenticate importKey fresh c a h =
     (case authRefusal importKey (mg_reg (hb_mgr h)) (cn_nonce c) a of
        Some BadStoredKey \<Rightarrow> (h, [])
      | Some _ \<Rightarrow> (h, [CloseSocket (cn_sock c) ''auth''])
      | None \<Rightarrow>
          (let (h1, e) = adoptConn (cn_sock c) (am_nodeId a) h in
           (hub_reg (\<lambda>r. case nodeApiKey (am_nodeId a) fresh r of Some (_, r') \<Rightarrow> r' | None \<Rightarrow> r) h1, e)))"

subsection \<open>Log buffers\<close>

fun trimChars :: "string list \<Rightarrow> string list" where
  "trimChars [] = []"
| "trimChars (l # ls) = (if 65536 < sum_list (map length (l # ls)) then trimChars ls else l # ls)"

definition logBuffer :: "string list \<Rightarrow> string \<Rightarrow> string list" where
  "logBuffer buf line =
     (let b = buf @ [take 8192 line] in trimChars (if 400 < length b then drop (length b - 400) b else b))"

definition appendLog :: "string \<Rightarrow> string \<Rightarrow> (string \<times> string list) list \<Rightarrow> (string \<times> string list) list" where
  "appendLog i line logs =
     (let l = del i logs @ [(i, logBuffer (lookup logs i []) line)] in if 256 < length l then drop (length l - 256) l else l)"

subsection \<open>Messages\<close>

datatype agent_message =
    MAuth auth_msg
  | MHello capabilities offer "model_file list" "(string \<times> assignment_state \<times> string option) list"
  | MHeartbeat node_metrics "(capabilities \<Rightarrow> capabilities) option"
  | MOffer offer
  | MModels "model_file list"
  | MAssignment string assignment_state "string option"
  | MLog string string
  | MPong string

definition owns :: "registry \<Rightarrow> string \<Rightarrow> string \<Rightarrow> bool" where
  "owns r n i = (case getAssignment r i of Some a \<Rightarrow> ar_nodeId a = n | None \<Rightarrow> False)"

definition foreign :: "registry \<Rightarrow> string \<Rightarrow> string \<Rightarrow> bool" where
  "foreign r n i = (case getAssignment r i of Some a \<Rightarrow> ar_nodeId a \<noteq> n | None \<Rightarrow> False)"

fun reportRows :: "string \<Rightarrow> int \<Rightarrow> (string \<times> assignment_state \<times> string option) list \<Rightarrow> registry
    \<Rightarrow> (string \<times> assignment_state) list \<times> registry" where
  "reportRows n t [] r = ([], r)"
| "reportRows n t ((i, st, detail) # rest) r =
     (if foreign r n i then reportRows n t rest r
      else (let (rs, r') = reportRows n t rest (if owns r n i then setAssignmentState i st detail t r else r) in ((i, st) # rs, r')))"

definition helloMessage :: "deps \<Rightarrow> string \<Rightarrow> capabilities \<Rightarrow> offer \<Rightarrow> model_file list \<Rightarrow> (string \<times> assignment_state \<times> string option) list
    \<Rightarrow> int \<Rightarrow> hub \<Rightarrow> hub \<times> hub_effect list" where
  "helloMessage D n caps off models rows t h =
     (let h1 = hub_reg (\<lambda>r. setModels n models (setOffer n off (setCaps n caps (setOnline n True r)))) h;
          (kept, r) = reportRows n t rows (mg_reg (hb_mgr h1)) in
      and_then (run_mgr (onHello D n kept t) (hub_reg (\<lambda>_. r) h1)) (run_mgr (onNodeOnline D n t)))"

definition assignmentMessage :: "deps \<Rightarrow> string \<Rightarrow> string \<Rightarrow> assignment_state \<Rightarrow> string option \<Rightarrow> int \<Rightarrow> hub \<Rightarrow> hub \<times> hub_effect list" where
  "assignmentMessage D n i st detail t h =
     (if \<not> owns (mg_reg (hb_mgr h)) n i then (h, [])
      else run_mgr (onAssignmentState D n i st detail t) (hub_reg (setAssignmentState i st detail t) h))"

definition logMessage :: "string \<Rightarrow> string \<Rightarrow> string \<Rightarrow> hub \<Rightarrow> hub" where
  "logMessage n i line h = (if owns (mg_reg (hb_mgr h)) n i then h\<lparr>hb_logs := appendLog i line (hb_logs h)\<rparr> else h)"

text \<open>\<open>now_ms\<close> is \<open>performance.now()\<close>; the round trip is kept to a hundredth of a millisecond.\<close>

definition pongMessage :: "conn \<Rightarrow> string \<Rightarrow> rat \<Rightarrow> hub \<Rightarrow> hub" where
  "pongMessage c ts now_ms h =
     (case cn_ping c of
        Some (pts, started) \<Rightarrow>
          if pts = ts
          then update_sock (cn_sock c) (\<lambda>c. c\<lparr>cn_link := Some (fl (of_int (js_round (fl (fl (now_ms - started) * 100))) / 100)), cn_ping := None\<rparr>) h
          else h
      | None \<Rightarrow> h)"

definition authedMessage :: "deps \<Rightarrow> conn \<Rightarrow> string \<Rightarrow> agent_message \<Rightarrow> int \<Rightarrow> rat \<Rightarrow> hub \<Rightarrow> hub \<times> hub_effect list" where
  "authedMessage D c n msg t now_ms h =
     (case msg of
        MAuth _ \<Rightarrow> (h, [])
      | MHello caps off models rows \<Rightarrow> helloMessage D n caps off models rows t h
      | MHeartbeat metrics patch \<Rightarrow> (hub_reg (setMetrics n metrics patch) h, [])
      | MOffer off \<Rightarrow> (hub_reg (setOffer n off) h, [])
      | MModels models \<Rightarrow> (hub_reg (setModels n models) h, [])
      | MAssignment i st detail \<Rightarrow> assignmentMessage D n i st detail t h
      | MLog i line \<Rightarrow> (logMessage n i line h, [])
      | MPong ts \<Rightarrow> (pongMessage c ts now_ms h, []))"

text \<open>A text frame: \<open>None\<close> is one that did not parse.\<close>

definition message :: "deps \<Rightarrow> (jsv \<Rightarrow> (bytes \<Rightarrow> bytes \<Rightarrow> bool) option) \<Rightarrow> string \<Rightarrow> nat \<Rightarrow> agent_message option \<Rightarrow> int \<Rightarrow> rat \<Rightarrow> hub
    \<Rightarrow> hub \<times> hub_effect list" where
  "message D importKey fresh s raw t now_ms h0 =
     (let h = update_sock s (\<lambda>c. c\<lparr>cn_lastSeen := t\<rparr>) h0 in
      case sock_of h s of
        None \<Rightarrow> (h, [])
      | Some c \<Rightarrow>
          (case raw of
             None \<Rightarrow> (h, [ErrorReply s])
           | Some msg \<Rightarrow>
               if \<not> cn_authed c then
                 (case msg of MAuth a \<Rightarrow> authenticate importKey fresh c a h | _ \<Rightarrow> (h, [CloseSocket s ''auth first'']))
               else (case cn_nodeId c of Some n \<Rightarrow> authedMessage D c n msg t now_ms h | None \<Rightarrow> (h, []))))"

subsection \<open>Opening, closing and sweeping\<close>

definition openSocket :: "nat \<Rightarrow> string \<Rightarrow> int \<Rightarrow> hub \<Rightarrow> hub" where
  "openSocket s nonce t h =
     h\<lparr>hb_socks := hb_socks h @ [\<lparr>cn_sock = s, cn_nonce = nonce, cn_nodeId = None, cn_authed = False, cn_lastSeen = t,
        cn_unresponsiveAt = None, cn_ping = None, cn_link = None\<rparr>]\<rparr>"

definition closeSocket :: "deps \<Rightarrow> nat \<Rightarrow> int \<Rightarrow> hub \<Rightarrow> hub \<times> hub_effect list" where
  "closeSocket D s t h =
     (case Option.bind (sock_of h s) cn_nodeId of
        None \<Rightarrow> (h\<lparr>hb_socks := filter (\<lambda>c. cn_sock c \<noteq> s) (hb_socks h)\<rparr>, [])
      | Some n \<Rightarrow>
          (let h1 = h\<lparr>hb_socks := filter (\<lambda>c. cn_sock c \<noteq> s) (hb_socks h)\<rparr> in
           if map_of (hb_conns h) n \<noteq> Some s then (h1, [])
           else
             (let h2 = hub_reg (setOnline n False) (h1\<lparr>hb_conns := del n (hb_conns h1)\<rparr>) in
              if hb_shuttingDown h2 then (h2, []) else run_mgr (onOffline D n t) h2)))"

definition sweepSilent :: "deps \<Rightarrow> int \<Rightarrow> int \<Rightarrow> string \<Rightarrow> conn \<Rightarrow> int \<Rightarrow> hub \<Rightarrow> hub \<times> hub_effect list" where
  "sweepSilent D staleMs reapFactor n c t h =
     (case cn_unresponsiveAt c of
        None \<Rightarrow>
          run_mgr (onOffline D n t) (hub_reg (setOnline n False) (update_sock (cn_sock c) (\<lambda>c. c\<lparr>cn_unresponsiveAt := Some t\<rparr>) h))
      | Some since \<Rightarrow> (h, if staleMs * reapFactor < t - since then [CloseSocket (cn_sock c) ''stale''] else []))"

definition sweepAlive :: "deps \<Rightarrow> int \<Rightarrow> string \<Rightarrow> conn \<Rightarrow> int \<Rightarrow> rat \<Rightarrow> string \<Rightarrow> hub \<Rightarrow> hub \<times> hub_effect list" where
  "sweepAlive D staleMs n c t now_ms ts h =
     and_then
       (if cn_unresponsiveAt c \<noteq> None
        then run_mgr (onNodeOnline D n t) (hub_reg (setOnline n True) (update_sock (cn_sock c) (\<lambda>c. c\<lparr>cn_unresponsiveAt := None\<rparr>) h))
        else (h, []))
       (\<lambda>h. case cn_ping c of
              Some (_, started) \<Rightarrow>
                if now_ms - started < of_int staleMs then (h, [])
                else (update_sock (cn_sock c) (\<lambda>c. c\<lparr>cn_ping := Some (ts, now_ms)\<rparr>) h, [Ping (cn_sock c) ts])
            | None \<Rightarrow> (update_sock (cn_sock c) (\<lambda>c. c\<lparr>cn_ping := Some (ts, now_ms)\<rparr>) h, [Ping (cn_sock c) ts]))"

definition sweepOne :: "deps \<Rightarrow> int \<Rightarrow> int \<Rightarrow> int \<Rightarrow> rat \<Rightarrow> string \<Rightarrow> string \<times> nat \<Rightarrow> hub \<Rightarrow> hub \<times> hub_effect list" where
  "sweepOne D staleMs reapFactor t now_ms ts e h =
     (case sock_of h (snd e) of
        None \<Rightarrow> (h, [])
      | Some c \<Rightarrow>
          if cn_lastSeen c < t - staleMs then sweepSilent D staleMs reapFactor (fst e) c t h
          else sweepAlive D staleMs (fst e) c t now_ms ts h)"

fun sweepAll :: "deps \<Rightarrow> int \<Rightarrow> int \<Rightarrow> int \<Rightarrow> rat \<Rightarrow> string \<Rightarrow> (string \<times> nat) list \<Rightarrow> hub \<Rightarrow> hub \<times> hub_effect list" where
  "sweepAll D staleMs reapFactor t now_ms ts [] h = (h, [])"
| "sweepAll D staleMs reapFactor t now_ms ts (e # es) h =
     and_then (sweepOne D staleMs reapFactor t now_ms ts e h) (sweepAll D staleMs reapFactor t now_ms ts es)"

definition sweep :: "deps \<Rightarrow> int \<Rightarrow> int \<Rightarrow> int \<Rightarrow> rat \<Rightarrow> string \<Rightarrow> hub \<Rightarrow> hub \<times> hub_effect list" where
  "sweep D staleMs reapFactor t now_ms ts h = sweepAll D staleMs reapFactor t now_ms ts (hb_conns h) h"

subsection \<open>Relayed streams\<close>

record relay_header =
  rh_from :: string
  rh_target :: string
  rh_port :: int

definition admitsRelay :: "relay_header \<Rightarrow> string \<Rightarrow> assignment_row \<Rightarrow> bool" where
  "admitsRelay q fp a \<longleftrightarrow>
     ar_nodeId a = rh_target q \<and> \<not> ar_retired a \<and> ar_state a \<notin> {Reported AStopped, Reported AFailed} \<and> ar_kind a \<noteq> KStop \<and>
     (ar_port a = rh_port q \<or> (ar_kind a = KWorker \<and> ar_peerPort a = Some (rh_port q))) \<and> fp \<in> set (ar_allow a)"

definition onAgentStream :: "string \<Rightarrow> relay_header \<Rightarrow> hub \<Rightarrow> bool" where
  "onAgentStream fromNode q h \<longleftrightarrow>
     rh_from q = fromNode \<and> map_of (hb_conns h) (rh_target q) \<noteq> None \<and>
     (case getNode (mg_reg (hb_mgr h)) fromNode of
        None \<Rightarrow> False
      | Some n \<Rightarrow> list_ex (admitsRelay q (nr_certFp n)) (listAssignments (mg_reg (hb_mgr h))))"

definition countRelay :: "string \<Rightarrow> bool \<Rightarrow> int \<Rightarrow> int \<Rightarrow> hub \<Rightarrow> hub" where
  "countRelay n inward k t h =
     (let sec = t div 1000; b = lookup (hb_relay h) n [];
          (i, u) = (case map_of b sec of Some x \<Rightarrow> x | None \<Rightarrow> (0, 0));
          b' = filter (\<lambda>(s, _). \<not> s < sec - 30) (AList.update sec (if inward then (i + k, u) else (i, u + k)) b)
      in h\<lparr>hb_relay := AList.update n b' (hb_relay h)\<rparr>)"

definition relayRate :: "string \<Rightarrow> int \<Rightarrow> int \<Rightarrow> hub \<Rightarrow> int \<times> int" where
  "relayRate n windowSec t h =
     (let now = t div 1000;
          w = filter (\<lambda>(s, _). now - windowSec < s \<and> s \<le> now) (lookup (hb_relay h) n []) in
      (js_round (fl (of_int (sum_list (map (fst \<circ> snd) w)) / of_int windowSec)),
       js_round (fl (of_int (sum_list (map (snd \<circ> snd) w)) / of_int windowSec))))"

end
