(* ===== verification/Api.thy ===== *)
theory Api
  imports Moves
begin

text \<open>
  What an operator asks of the deployment manager besides starting and stopping (\<^verbatim>\<open>src/swarmlet/control/deployments.ts\<close>): creating
  a deployment, previewing a plan, and saving and applying a layer distribution. The sort of \<open>chooseTopology\<close> is a parameter.
\<close>

subsection \<open>Creating a deployment\<close>

definition name_char :: "char \<Rightarrow> bool" where
  "name_char c = (let n = of_char c :: nat in
     (97 \<le> n \<and> n \<le> 122) \<or> (65 \<le> n \<and> n \<le> 90) \<or> (48 \<le> n \<and> n \<le> 57) \<or> n \<in> {45, 46, 95})"

definition nameOk :: "string \<Rightarrow> bool" where
  "nameOk s \<longleftrightarrow> 1 \<le> length s \<and> length s \<le> 64 \<and> list_all name_char s"

datatype create_error = BadName | BadExternalOptions | ExternalFields | ExternalTaken string string | NothingPlaceable
  | UnknownProfileName string | NoTopologyFor topo_error

definition externalCheck :: "deps \<Rightarrow> deployment_spec \<Rightarrow> manager \<Rightarrow> create_error option" where
  "externalCheck D s m =
     (if \<not> externalOptionsOk s then Some BadExternalOptions
      else
        (case sp_external s of
           None \<Rightarrow> Some ExternalFields
         | Some x \<Rightarrow>
             if ex_nodeId x = [] \<or> ex_url x = [] \<or> ex_modelName x = [] then Some ExternalFields
             else map_option (\<lambda>d. ExternalTaken (sp_name (dp_spec d)) (dp_id d)) (duplicateExternal D s None m)))"

text \<open>The spec to create: checked, and with the model chosen when it is to be chosen automatically.\<close>

definition resolveModel :: "deps \<Rightarrow> deployment_spec \<Rightarrow> int \<Rightarrow> manager \<Rightarrow> (create_error + deployment_spec) \<times> manager" where
  "resolveModel D s t m =
     (if \<not> nameOk (sp_name s) then (Inl BadName, m)
      else if sp_kind s = External
        then ((case externalCheck D s m of Some e \<Rightarrow> Inl e | None \<Rightarrow> Inr s), m)
      else if sp_profile s = ''auto'' \<or> sp_autoModel s = Some True then
        (case chooseAuto D (s\<lparr>sp_keys := uniq (sp_keys s @ [''profile'', ''autoModel'']),
             sp_profile := (if sp_profile s = ''auto'' then [] else sp_profile s), sp_autoModel := Some True\<rparr>) None [] t m of
           (None, m1) \<Rightarrow> (Inl NothingPlaceable, m1)
         | (Some c, m1) \<Rightarrow> (Inr c, m1))
      else if map_of (dd_profiles D) (sp_profile s) = None then (Inl (UnknownProfileName (sp_profile s)), m)
      else (Inr s, m))"

text \<open>\<open>{ ...clean, ...choice.spec }\<close>: the request without its \<open>auto\<close> flags, overwritten by the keys of the choice.\<close>

definition mergeChoice :: "deployment_spec \<Rightarrow> deployment_spec \<Rightarrow> deployment_spec" where
  "mergeChoice s c =
     (let has = (\<lambda>k. k \<in> set (sp_keys c)) in
      s\<lparr>sp_keys := uniq (filter (\<lambda>k. k \<notin> {''autoTopology'', ''autoModel''}) (sp_keys s) @ sp_keys c),
        sp_autoTopology := None, sp_autoModel := None,
        sp_name := sp_name c, sp_profile := sp_profile c, sp_kind := sp_kind c,
        sp_ctx := sp_ctx c, sp_parallel := sp_parallel c, sp_chain := sp_chain c, sp_transport := sp_transport c,
        sp_replicaNodeId := (if has ''replicaNodeId'' then sp_replicaNodeId c else sp_replicaNodeId s),
        sp_prefillNodeId := (if has ''prefillNodeId'' then sp_prefillNodeId c else sp_prefillNodeId s),
        sp_decodeNodeId := (if has ''decodeNodeId'' then sp_decodeNodeId c else sp_decodeNodeId s),
        sp_modelSha256 := (if has ''modelSha256'' then sp_modelSha256 c else sp_modelSha256 s),
        sp_coordinatorNodeId := (if has ''coordinatorNodeId'' then sp_coordinatorNodeId c else sp_coordinatorNodeId s),
        sp_workerNodeIds := (if has ''workerNodeIds'' then sp_workerNodeIds c else sp_workerNodeIds s)\<rparr>)"

definition resolveTopology :: "topo_candidate sorter \<Rightarrow> deps \<Rightarrow> deployment_spec \<Rightarrow> int \<Rightarrow> manager \<Rightarrow> create_error + deployment_spec" where
  "resolveTopology srt D s t m =
     (if sp_autoTopology s \<noteq> Some True then Inr s
      else
        (case map_of (dd_profiles D) (sp_profile s) of
           None \<Rightarrow> Inl (UnknownProfileName (sp_profile s))
         | Some p \<Rightarrow>
             (case chooseTopology srt (dd_rx D) (dd_lc D) \<lparr>ti_spec = s, ti_profile = p, ti_nodes = fleetNodes t m,
                     ti_usedPorts = usedPorts (mg_reg m), ti_qualifications = None, ti_reference = None\<rparr> of
                Inl e \<Rightarrow> Inl (NoTopologyFor e)
              | Inr (_, c, _) \<Rightarrow> Inr (mergeChoice s c))))"

text \<open>The id is random; a row that exists already makes the insertion throw.\<close>

definition create :: "topo_candidate sorter \<Rightarrow> deps \<Rightarrow> string \<Rightarrow> deployment_spec \<Rightarrow> int \<Rightarrow> manager \<Rightarrow> (create_error + string) option \<times> manager" where
  "create srt D i s t m =
     (case resolveModel D s t m of
        (Inl e, m1) \<Rightarrow> (Some (Inl e), m1)
      | (Inr s1, m1) \<Rightarrow>
          (case resolveTopology srt D s1 t m1 of
             Inl e \<Rightarrow> (Some (Inl e), m1)
           | Inr s2 \<Rightarrow>
               if getDeployment (mg_reg m1) i \<noteq> None then (None, m1)
               else (Some (Inr i), with_reg (createDeployment i s2 t) m1)))"

datatype preview_error = NotPlanned | NoDeployment string | NoPlanFor plan_error

definition planPreview :: "deps \<Rightarrow> deployment_spec \<Rightarrow> string option \<Rightarrow> int \<Rightarrow> manager \<Rightarrow> (preview_error + plan) \<times> manager" where
  "planPreview D s replacing t m =
     (if sp_kind s = External then (Inl NotPlanned, m)
      else
        (case replacing of
           Some i \<Rightarrow>
             if i \<noteq> [] \<and> getDeployment (mg_reg m) i = None then (Inl (NoDeployment i), m)
             else (case planSpec D s (if i = [] then None else Some i) [] t m of
                     (Inl e, m1) \<Rightarrow> (Inl (NoPlanFor e), m1) | (Inr p, m1) \<Rightarrow> (Inr p, m1))
         | None \<Rightarrow> (case planSpec D s None [] t m of (Inl e, m1) \<Rightarrow> (Inl (NoPlanFor e), m1) | (Inr p, m1) \<Rightarrow> (Inr p, m1))))"

subsection \<open>Layer distributions\<close>

datatype dist_error = FleetBusy | ApplyRunning | NoSuchDeployment string | SharedBudgets | NotSplit | NotDistribution | BadFields
  | ActiveRequests | Unplannable plan_error

definition distributionSpec :: "deployment \<Rightarrow> jsv \<Rightarrow> dist_error + deployment_spec" where
  "distributionSpec d v =
     (if truthy (sp_allocations (dp_spec d)) then Inl SharedBudgets
      else if sp_kind (dp_spec d) \<noteq> Split then Inl NotSplit
      else
        (case v of
           Obj fs \<Rightarrow>
             (case (getp v ''coordinatorNodeId'', getp v ''workerNodeIds'', getp v ''workerLayers'') of
                (Str c, Arr ws, Arr ls) \<Rightarrow>
                  if c = [] \<or> list_ex (\<lambda>k. k \<notin> {''coordinatorNodeId'', ''workerNodeIds'', ''workerLayers''}) (keys_of v) then Inl BadFields
                  else Inr ((dp_spec d)\<lparr>sp_keys := uniq (sp_keys (dp_spec d) @ [''coordinatorNodeId'', ''workerNodeIds'', ''workerLayers'']),
                              sp_coordinatorNodeId := Some c, sp_workerNodeIds := Arr ws, sp_workerLayers := Arr ls\<rparr>)
              | _ \<Rightarrow> Inl BadFields)
         | _ \<Rightarrow> Inl NotDistribution))"

definition distributionPlan :: "deps \<Rightarrow> deployment \<Rightarrow> jsv \<Rightarrow> int \<Rightarrow> manager \<Rightarrow> (dist_error + deployment_spec \<times> plan) \<times> manager" where
  "distributionPlan D d v t m =
     (case distributionSpec d v of
        Inl e \<Rightarrow> (Inl e, m)
      | Inr s \<Rightarrow> (case planSpec D s (Some (dp_id d)) [] t m of (Inl e, m1) \<Rightarrow> (Inl (Unplannable e), m1) | (Inr p, m1) \<Rightarrow> (Inr (s, p), m1)))"

definition saveDistributionFor :: "deps \<Rightarrow> string \<Rightarrow> jsv \<Rightarrow> int \<Rightarrow> manager \<Rightarrow> (dist_error + plan) \<times> manager" where
  "saveDistributionFor D i v t m =
     (if mg_fleetBusy m then (Inl FleetBusy, m)
      else if mg_closed m \<or> i \<in> set (mg_distributions m) then (Inl ApplyRunning, m)
      else
        (case getDeployment (mg_reg m) i of
           None \<Rightarrow> (Inl (NoSuchDeployment i), m)
         | Some d \<Rightarrow>
             (case distributionPlan D d v t m of
                (Inl e, m1) \<Rightarrow> (Inl e, m1)
              | (Inr (s, p), m1) \<Rightarrow>
                  (Inr p, with_reg (saveDistribution i (Obj [(''coordinatorNodeId'', getp v ''coordinatorNodeId''),
                     (''workerNodeIds'', sp_workerNodeIds s), (''workerLayers'', sp_workerLayers s)]) t) m1))))"

text \<open>Admission of an apply, up to and including the stop it begins with. The result carries the spec that will be applied and the
  generation the stop left.\<close>

definition applyDistribution :: "deps \<Rightarrow> string \<Rightarrow> int \<Rightarrow> manager \<Rightarrow> (dist_error + deployment_spec \<times> nat) \<times> manager \<times> effect list" where
  "applyDistribution D i t m =
     (if mg_fleetBusy m then (Inl FleetBusy, m, [])
      else if mg_closed m \<or> i \<in> set (mg_distributions m) \<or> i \<in> set (mg_operations m) then (Inl ApplyRunning, m, [])
      else if lookup (mg_inflight m) i 0 \<noteq> 0 then (Inl ActiveRequests, m, [])
      else
        (case getDeployment (mg_reg m) i of
           None \<Rightarrow> (Inl (NoSuchDeployment i), m, [])
         | Some d \<Rightarrow>
             (case distributionPlan D d (dp_savedDistribution d) t m of
                (Inl e, m1) \<Rightarrow> (Inl e, m1, [])
              | (Inr (s, _), m1) \<Rightarrow>
                  (let (_, m2, e) = stop i False t (m1\<lparr>mg_distributions := i # mg_distributions m1\<rparr>) in
                   (Inr (s, generation m2 i), m2, e)))))"

definition state_text :: "deployment_state \<Rightarrow> string" where
  "state_text s = (case s of Planned \<Rightarrow> ''planned'' | Placing \<Rightarrow> ''placing'' | Loading \<Rightarrow> ''loading'' | Ready \<Rightarrow> ''ready''
     | Draining \<Rightarrow> ''draining'' | Stopped \<Rightarrow> ''stopped'' | Failed \<Rightarrow> ''failed'')"

definition api_error_text :: "api_error \<Rightarrow> string" where
  "api_error_text e =
     (case e of
        FleetApplying \<Rightarrow> ''Fleet allocation is applying; wait for its result before changing deployments.''
      | UnknownDeployment i \<Rightarrow> ''unknown deployment '' @ i
      | ShuttingDown \<Rightarrow> ''control is shutting down''
      | NodeUpdating \<Rightarrow> ''node update in progress; retry after recovery''
      | OperationInProgress \<Rightarrow> ''deployment operation already in progress''
      | CannotStart s \<Rightarrow> ''cannot start from state '' @ state_text s
      | ExternalOptions \<Rightarrow> ''external deployments cannot configure workerLayers, speculation or an MTP chain''
      | DuplicateExternal n i \<Rightarrow> ''external endpoint already registered by '' @ n @ '' ('' @ i @ '')''
      | StopFirst \<Rightarrow> ''stop the deployment first'')"

text \<open>The end of an apply: its marker is removed, and an error is kept with the deployment.\<close>

definition applyFinished :: "string \<Rightarrow> string option \<Rightarrow> int \<Rightarrow> manager \<Rightarrow> manager" where
  "applyFinished i failure t m0 =
     (let m = m0\<lparr>mg_distributions := removeAll i (mg_distributions m0)\<rparr> in
      case failure of
        Some why \<Rightarrow>
          if getDeployment (mg_reg m) i = None then m
          else set_dep i (no_patch\<lparr>dpp_error := Some (Some (''Apply distribution: Error: '' @ why))\<rparr>) t m
      | None \<Rightarrow> m)"

text \<open>After the stop was acknowledged: the spec is written only if nothing else has touched the deployment and it still plans. The
  marker stays until the start it makes has ended.\<close>

definition applyStopped :: "deps \<Rightarrow> string \<Rightarrow> deployment_spec \<Rightarrow> nat \<Rightarrow> int \<Rightarrow> manager \<Rightarrow> manager" where
  "applyStopped D i s g t m =
     (if mg_closed m then applyFinished i (Some ''Control is shutting down; saved distribution retained.'') t m
      else if g \<noteq> generation m i
        then applyFinished i (Some ''Apply cancelled by another deployment operation; saved distribution retained.'') t m
      else
        (case planSpec D s (Some i) [] t m of
           (Inl e, m1) \<Rightarrow> applyFinished i (Some (plan_error_text D e)) t m1
         | (Inr _, m1) \<Rightarrow>
             (case start D i False False False t (with_reg (applyDistributionSpec i s t) m1) of
                (None, m2) \<Rightarrow> m2
              | (Some e, m2) \<Rightarrow> applyFinished i (Some (api_error_text e)) t m2)))"

end
