(* ===== verification/Fleet.thy ===== *)
theory Fleet
  imports Moves
begin

text \<open>
  Multi-deployment placement (\<^verbatim>\<open>src/swarmlet/control/fleet.ts\<close>): the request, the memory a host really has, and the search for one
  placement per selected deployment against a shared ledger. A placement is the JSON object the code builds, because two placements
  are compared as JSON text. Failures are kept as constructors, the sentences of \<open>reasons\<close> and \<open>warnings\<close> are left out. \<open>now\<close> is
  \<open>Date.now()\<close>; a time that is not a date is \<open>None\<close>.
\<close>

subsection \<open>Requests\<close>

datatype fleet_mode = Balanced | Keep | Manual

record fleet_item =
  fi_deploymentId :: string
  fi_mode :: fleet_mode
  fi_cpuCores :: "int option"
  fi_placement :: jsv

record fleet_request =
  fq_items :: "fleet_item list"
  fq_pool :: "string list"

datatype request_error = BadRequest | BadCounts | BadItem | BadCpu | BadManual | BadReplica | BadSplit | BadLayers | PlacementNeedsManual

definition id_ok :: "jsv \<Rightarrow> bool" where
  "id_ok v \<longleftrightarrow> isStr v \<and> 1 \<le> length (the_str v) \<and> length (the_str v) \<le> 128"

definition whole_within :: "jsv \<Rightarrow> int \<Rightarrow> int option \<Rightarrow> bool" where
  "whole_within v lo hi \<longleftrightarrow> js_safe v \<and> of_int lo \<le> the_rat v \<and> (case hi of Some h \<Rightarrow> the_rat v \<le> of_int h | None \<Rightarrow> True)"

definition manualErrors :: "jsv \<Rightarrow> request_error option" where
  "manualErrors p =
     (let kind = getp p ''kind''; ws = getp p ''workerNodeIds''; ls = getp p ''workerLayers'' in
      if \<not> isObj p \<or> \<not> only_keys p [''kind'', ''replicaNodeId'', ''coordinatorNodeId'', ''workerNodeIds'', ''workerLayers''] \<or>
         kind \<notin> {Str ''replica'', Str ''split''} then Some BadManual
      else if kind = Str ''replica'' \<and> (\<not> id_ok (getp p ''replicaNodeId'') \<or> getp p ''coordinatorNodeId'' \<noteq> Undefined \<or> ws \<noteq> Undefined \<or>
         ls \<noteq> Undefined) then Some BadReplica
      else if kind = Str ''split'' \<and> (\<not> id_ok (getp p ''coordinatorNodeId'') \<or> getp p ''replicaNodeId'' \<noteq> Undefined \<or> \<not> is_arr ws \<or>
         elems ws = [] \<or> 1000 < length (elems ws) \<or> \<not> list_all id_ok (elems ws) \<or> \<not> distinct (elems ws)) then Some BadSplit
      else if ls \<noteq> Undefined \<and> (\<not> is_arr ls \<or> \<not> is_arr ws \<or> length (elems ls) \<noteq> length (elems ws) \<or>
         \<not> list_all (\<lambda>n. whole_within n 1 None) (elems ls)) then Some BadLayers
      else None)"

definition parseItem :: "string list \<Rightarrow> jsv \<Rightarrow> request_error + fleet_item" where
  "parseItem seen v =
     (let mode = getp v ''mode''; cpu = getp v ''cpuCores''; p = getp v ''placement'' in
      if \<not> isObj v \<or> \<not> only_keys v [''deploymentId'', ''mode'', ''cpuCores'', ''placement''] \<or> \<not> id_ok (getp v ''deploymentId'') \<or>
         the_str (getp v ''deploymentId'') \<in> set seen \<or> mode \<notin> {Str ''balanced'', Str ''keep'', Str ''manual''} then Inl BadItem
      else if cpu \<noteq> Undefined \<and> \<not> whole_within cpu 1 (Some 65536) then Inl BadCpu
      else
        (case (if mode = Str ''manual'' then manualErrors p else if p \<noteq> Undefined then Some PlacementNeedsManual else None) of
           Some e \<Rightarrow> Inl e
         | None \<Rightarrow>
             Inr \<lparr>fi_deploymentId = the_str (getp v ''deploymentId''),
                  fi_mode = (if mode = Str ''balanced'' then Balanced else if mode = Str ''keep'' then Keep else Manual),
                  fi_cpuCores = (if cpu = Undefined then None else Some \<lfloor>the_rat cpu\<rfloor>), fi_placement = p\<rparr>))"

fun parseItems :: "string list \<Rightarrow> jsv list \<Rightarrow> request_error + fleet_item list" where
  "parseItems seen [] = Inr []"
| "parseItems seen (v # vs) =
     try_bind (parseItem seen v) (\<lambda>x. try_bind (parseItems (fi_deploymentId x # seen) vs) (\<lambda>xs. Inr (x # xs)))"

definition parseFleetRequest :: "jsv \<Rightarrow> request_error + fleet_request" where
  "parseFleetRequest v =
     (let items = getp v ''items''; pool = getp v ''poolNodeIds'' in
      if \<not> isObj v \<or> \<not> only_keys v [''items'', ''poolNodeIds''] then Inl BadRequest
      else if \<not> is_arr items \<or> elems items = [] \<or> 500 < length (elems items) \<or> \<not> is_arr pool \<or> elems pool = [] \<or>
         2000 < length (elems pool) \<or> \<not> list_all id_ok (elems pool) \<or> \<not> distinct (elems pool) then Inl BadCounts
      else try_bind (parseItems [] (elems items)) (\<lambda>xs. Inr \<lparr>fq_items = xs, fq_pool = map the_str (elems pool)\<rparr>))"

subsection \<open>Placements\<close>

definition opt_str :: "string option \<Rightarrow> jsv" where
  "opt_str x = (case x of Some s \<Rightarrow> Str s | None \<Rightarrow> Undefined)"

definition str_opt :: "jsv \<Rightarrow> string option" where
  "str_opt v = (case v of Str s \<Rightarrow> Some s | _ \<Rightarrow> None)"

definition currentPlacement :: "deployment \<Rightarrow> jsv" where
  "currentPlacement d =
     (let coord = (\<lambda>other. opt_str (case dp_plan d of Some p \<Rightarrow> Some (pl_coordinatorNodeId p) | None \<Rightarrow> other)) in
      if sp_kind (dp_spec d) = Replica then Obj [(''kind'', Str ''replica''), (''replicaNodeId'', coord (sp_replicaNodeId (dp_spec d)))]
      else Obj ([(''kind'', Str ''split''), (''coordinatorNodeId'', coord (sp_coordinatorNodeId (dp_spec d))),
                 (''workerNodeIds'', case dp_plan d of Some p \<Rightarrow> Arr (map (Str \<circ> pw_nodeId) (pl_workers p)) | None \<Rightarrow> sp_workerNodeIds (dp_spec d))] @
                (if truthy (sp_workerLayers (dp_spec d)) then [(''workerLayers'', sp_workerLayers (dp_spec d))] else [])))"

definition placementSpec :: "deployment_spec \<Rightarrow> jsv \<Rightarrow> deployment_spec" where
  "placementSpec base p =
     base\<lparr>sp_keys := uniq (filter (\<lambda>k. k \<notin> {''coordinatorNodeId'', ''replicaNodeId'', ''workerNodeIds'', ''workerLayers'', ''allocations''})
            (sp_keys base) @ keys_of p),
          sp_kind := (if getp p ''kind'' = Str ''replica'' then Replica else Split),
          sp_coordinatorNodeId := str_opt (getp p ''coordinatorNodeId''), sp_replicaNodeId := str_opt (getp p ''replicaNodeId''),
          sp_workerNodeIds := getp p ''workerNodeIds'', sp_workerLayers := getp p ''workerLayers'', sp_allocations := Undefined\<rparr>"

definition placementIds :: "jsv \<Rightarrow> jsv list" where
  "placementIds p =
     (if getp p ''replicaNodeId'' \<noteq> Undefined then getp p ''replicaNodeId'' else getp p ''coordinatorNodeId'') # elems (getp p ''workerNodeIds'')"

subsection \<open>What the nodes report\<close>

record fleet_input =
  fn_nodes :: "node_row list"
  fn_deployments :: "deployment list"
  fn_assignments :: "assignment_row list"
  fn_profiles :: "(string \<times> model_profile) list"
  fn_now :: int

definition node_rtt :: "int \<Rightarrow> node_row \<Rightarrow> rat option" where
  "node_rtt now n =
     (case (case Option.bind (nr_metrics n) me_linkRttMs of
              Some r \<Rightarrow> Some (r, Option.bind (nr_metrics n) me_linkMeasuredAt)
            | None \<Rightarrow> map_option (\<lambda>r. (r, Option.bind (nr_caps n) ca_netMeasuredAt)) (Option.bind (nr_caps n) ca_rttMs)) of
        Some (r, Some t) \<Rightarrow> if 0 \<le> r \<and> now - t < 3600000 then Some r else None
      | _ \<Rightarrow> None)"

definition modelOn :: "regexp \<Rightarrow> model_profile \<Rightarrow> node_row \<Rightarrow> bool" where
  "modelOn rx p n = list_ex (\<lambda>m. mf_kind m = Gguf \<and> rx_test rx (mp_ggufPattern p) (mf_name m)) (nr_models n)"

definition gpuMemory :: "node_row \<Rightarrow> rat" where
  "gpuMemory n = foldl max 0 (map go_memMiB (case nr_offer n of Some f \<Rightarrow> of_gpu f | None \<Rightarrow> []))"

text \<open>Stop assignments carry no port.\<close>

definition fleetPorts :: "assignment_row list \<Rightarrow> string list \<Rightarrow> used_ports" where
  "fleetPorts rows exclude =
     foldl (\<lambda>u a. AList.update (ar_nodeId a) (lookup u (ar_nodeId a) [] @ row_ports a) u) []
       (filter (\<lambda>a. ar_state a \<noteq> Reported AStopped \<and> ar_deploymentId a \<notin> set exclude \<and> ar_kind a \<noteq> KStop) rows)"

definition occupyPorts :: "used_ports \<Rightarrow> plan \<Rightarrow> used_ports" where
  "occupyPorts u pl =
     foldl (\<lambda>u w. AList.update (pw_nodeId w) (lookup u (pw_nodeId w) [] @ [pw_port w] @
       (case pw_peerPort w of Some p \<Rightarrow> if p = 0 then [] else [p] | None \<Rightarrow> [])) u) u (pl_workers pl)"

subsection \<open>Memory a host really has\<close>

record fleet_entry =
  fe_deploymentId :: string
  fe_name :: string
  fe_before :: jsv
  fe_spec :: "deployment_spec option"
  fe_plan :: "plan option"
  fe_score :: rat
  fe_networkRttMs :: "rat option"
  fe_failed :: bool

datatype memory_error = GpuShort string string | RamShort string

definition entryTotals :: "fleet_entry list \<Rightarrow> ledger" where
  "entryTotals es =
     foldl (\<lambda>l e. case Option.bind (fe_plan e) pl_allocations of Some as \<Rightarrow> addAllocations l as | None \<Rightarrow> l) [] es"

definition gpuShortages :: "node_row \<Rightarrow> node_metrics \<Rightarrow> node_allocation \<Rightarrow> memory_error list" where
  "gpuShortages n me v =
     concat (map (\<lambda>g.
       case (find (\<lambda>d. gd_id d = go_id g) (caps_gpus n), map_of (me_gpu me) (go_id g)) of
         (Some d, Some used) \<Rightarrow> if max 0 (fl (gd_totalMiB d - used)) < go_memMiB g then [GpuShort (nr_hostname n) (go_id g)] else []
       | _ \<Rightarrow> []) (na_gpu v))"

definition ramShortage :: "fleet_input \<Rightarrow> string list \<Rightarrow> ledger \<Rightarrow> ledger \<Rightarrow> node_row \<Rightarrow> node_metrics \<Rightarrow> node_allocation \<Rightarrow> memory_error list" where
  "ramShortage inp selected outside inside n me v =
     (case me_freeRamMiB me of
        None \<Rightarrow> []
      | Some free \<Rightarrow>
          if nr_os n \<noteq> ''darwin'' then []
          else
            (let hasSelected = list_ex (\<lambda>a. ar_nodeId a = nr_id n \<and> ar_deploymentId a \<in> set selected \<and> ar_state a \<noteq> Reported AStopped \<and>
                   \<not> healthWatch a) (fn_assignments inp);
                 reclaim = (if hasSelected then min (na_ramMiB (allocation_of inside (nr_id n)))
                              (max 0 (case me_rssMiB me of Some r \<Rightarrow> r | None \<Rightarrow> 0)) else 0);
                 future = na_ramMiB v + na_ramMiB (allocation_of outside (nr_id n));
                 available = min (of_ramMiB (offer_of n)) (fl (max 0 free + reclaim)) in
             if available < future then [RamShort (nr_hostname n)] else []))"

definition hostMemoryErrors :: "fleet_input \<Rightarrow> fleet_entry list \<Rightarrow> string list \<Rightarrow> memory_error list" where
  "hostMemoryErrors inp es selected =
     (let outside = reservedResources (fn_deployments inp) (fn_assignments inp) (fn_nodes inp) selected;
          inside = reservedResources (filter (\<lambda>d. dp_id d \<in> set selected) (fn_deployments inp))
            (filter (\<lambda>a. ar_deploymentId a \<in> set selected) (fn_assignments inp)) (fn_nodes inp) [] in
      concat (map (\<lambda>(i, v).
        case find (\<lambda>n. nr_id n = i) (fn_nodes inp) of
          None \<Rightarrow> []
        | Some n \<Rightarrow>
            (case nr_metrics n of
               None \<Rightarrow> []
             | Some me \<Rightarrow>
                 (case me_ts me of
                    None \<Rightarrow> []
                  | Some ts \<Rightarrow>
                      if 15000 < fn_now inp - ts then []
                      else gpuShortages n me v @ ramShortage inp selected outside inside n me v))) (entryTotals es)))"

subsection \<open>One attempt\<close>

definition alloc_jsv :: "node_allocation \<Rightarrow> jsv" where
  "alloc_jsv a = Obj [(''nodeId'', Str (na_nodeId a)), (''ramMiB'', Num (Fin (na_ramMiB a))), (''cpuCores'', Num (Fin (na_cpuCores a))),
     (''gpu'', Arr (map (\<lambda>g. Obj [(''id'', Str (go_id g)), (''memMiB'', Num (Fin (go_memMiB g)))]) (na_gpu a)))]"

definition round64 :: "rat \<Rightarrow> rat" where
  "round64 v = of_int (\<lceil>fl (v / 64)\<rceil> * 64)"

text \<open>The budget for one node: the minimum with headroom, capped by what the node has left. \<open>None\<close> when the node or the device is not
  there, where the code throws.\<close>

definition fleetBudget :: "fleet_input \<Rightarrow> fleet_item \<Rightarrow> nat \<Rightarrow> node_row list \<Rightarrow> plan \<Rightarrow> node_allocation \<Rightarrow> node_allocation option" where
  "fleetBudget inp item sharing nodes base a =
     (case (find (\<lambda>n. nr_id n = na_nodeId a) nodes, find (\<lambda>n. nr_id n = na_nodeId a) (fn_nodes inp)) of
        (Some n, Some full) \<Rightarrow>
          (let f = offer_of n;
               worker = list_ex (\<lambda>w. pw_nodeId w = na_nodeId a) (pl_workers base);
               cpu = (case fi_cpuCores item of
                        Some c \<Rightarrow> of_int c
                      | None \<Rightarrow> max 1 (min (min (of_cpuCores f) (if worker then MAX_WORKER_THREADS else of_cpuCores f))
                                  (of_int \<lfloor>fl (of_cpuCores (offer_of full) / of_nat sharing)\<rfloor>)));
               ram = min (of_ramMiB f) (round64 (fl (na_ramMiB a * fl (6 / 5)))) in
           if list_ex (\<lambda>g. go_id g \<notin> go_id ` set (of_gpu f)) (na_gpu a) then None
           else Some \<lparr>na_nodeId = na_nodeId a, na_ramMiB = ram, na_cpuCores = cpu,
                  na_gpu = map (\<lambda>g. g\<lparr>go_memMiB := min (gpu_mib (of_gpu f) (go_id g)) (round64 (fl (go_memMiB g * fl (11 / 10))))\<rparr>) (na_gpu a)\<rparr>)
      | _ \<Rightarrow> None)"

definition sq :: "rat \<Rightarrow> rat" where
  "sq x = fl (x * x)"

definition addPressure :: "fleet_input \<Rightarrow> ledger \<Rightarrow> rat \<times> rat \<times> rat \<Rightarrow> node_allocation \<Rightarrow> rat \<times> rat \<times> rat" where
  "addPressure inp l s a =
     (case s of (pressure, contention, penalty) \<Rightarrow>
        (case find (\<lambda>n. nr_id n = na_nodeId a) (fn_nodes inp) of
           None \<Rightarrow> s
         | Some n \<Rightarrow>
             (let f = offer_of n; used = allocation_of l (na_nodeId a);
                  p1 = fl (pressure + fl (15 * sq (fl ((na_ramMiB a + na_ramMiB used) / of_ramMiB f))));
                  p2 = foldl (\<lambda>q g. fl (q + fl (15 * sq (fl ((go_memMiB g + gpu_mib (na_gpu used) (go_id g)) / gpu_mib (of_gpu f) (go_id g)))))) 0 (na_gpu a) in
              (fl (p1 + p2), if na_cpuCores used \<noteq> 0 then contention + 10 else contention,
               fl (penalty + fl (12 * fl (1 - fl (na_cpuCores a / of_cpuCores f))))))))"

definition fleetScore :: "fleet_input \<Rightarrow> ledger \<Rightarrow> jsv \<Rightarrow> jsv \<Rightarrow> plan \<Rightarrow> node_allocation list \<Rightarrow> rat \<times> rat option" where
  "fleetScore inp l placement before pl budget =
     (case foldl (addPressure inp l) (0, 0, 0) budget of (pressure, contention, penalty) \<Rightarrow>
        (let times = map (\<lambda>i. Option.bind (find (\<lambda>n. nr_id n = i) (fn_nodes inp)) (node_rtt (fn_now inp))) (planNodeIds pl);
             known = list_all (\<lambda>t. t \<noteq> None) times;
             hops = foldl (\<lambda>s t. fl (s + fl (min (case t of Some x \<Rightarrow> x | None \<Rightarrow> 100) 1000 / 10))) 0 times;
             network = fl (of_nat (length (pl_workers pl)) * 12 + hops);
             same = (json_stringify placement = json_stringify before) in
         (fl (fl (fl (fl (fl (pressure + contention) + penalty) + network) + (if pl_coordinatorDevice pl = ''CPU'' then 60 else 0)) +
            (if same then 0 else 3)),
          if known then Some (foldl (\<lambda>s t. fl (s + the t)) 0 times) else None)))"

datatype attempt_error = NotInPool | NoBasePlan "plan_refusal list" | NoBudget resource_error | Threw | MemoryShort "memory_error list"

record winner =
  wi_spec :: deployment_spec
  wi_plan :: plan
  wi_score :: rat
  wi_networkRttMs :: "rat option"

text \<open>What an attempt sees: the request, the item and its deployment, the state of the ledger and the ports, and the entries so far.\<close>

record attempt_ctx =
  ac_rx :: regexp
  ac_lc :: "string comparator_fn"
  ac_inp :: fleet_input
  ac_pool :: "string list"
  ac_selected :: "string list"
  ac_item :: fleet_item
  ac_dep :: deployment
  ac_profile :: model_profile
  ac_sharing :: nat
  ac_ledger :: ledger
  ac_ports :: used_ports
  ac_free :: "node_row list"
  ac_entries :: "fleet_entry list"
  ac_entry :: fleet_entry

definition attemptPlan :: "attempt_ctx \<Rightarrow> jsv \<Rightarrow> attempt_error + winner" where
  "attemptPlan c p =
     (let spec = placementSpec (dp_spec (ac_dep c)) p; ids = placementIds p;
          nodes = filter (\<lambda>n. Str (nr_id n) \<in> set ids) (ac_free c) in
      if \<not> list_all (\<lambda>v. isStr v \<and> the_str v \<in> set (ac_pool c)) ids then Inl NotInPool
      else
        (case planDeployment (ac_rx c) (ac_lc c) \<lparr>in_spec = spec, in_profile = ac_profile c, in_nodes = nodes, in_usedPorts = ac_ports c,
                in_nativeQualifications = None\<rparr> of
           Inl es \<Rightarrow> Inl (NoBasePlan es)
         | Inr base \<Rightarrow>
             (case minimumAllocations base (ac_profile c) nodes of
                Inl e \<Rightarrow> Inl (NoBudget e)
              | Inr minima \<Rightarrow>
                  (let budgets = map (fleetBudget (ac_inp c) (ac_item c) (ac_sharing c) nodes base) minima in
                   if None \<in> set budgets then Inl Threw
                   else
                     (let spec1 = spec\<lparr>sp_keys := sp_keys spec @ [''allocations''], sp_allocations := Arr (map (alloc_jsv \<circ> the) budgets)\<rparr> in
                      case planWithResources (ac_rx c) (ac_lc c) \<lparr>in_spec = spec1, in_profile = ac_profile c, in_nodes = fn_nodes (ac_inp c),
                              in_usedPorts = ac_ports c, in_nativeQualifications = None\<rparr> (ac_ledger c) of
                        Inl e \<Rightarrow> Inl (NoBudget e)
                      | Inr pl \<Rightarrow>
                          (case fleetScore (ac_inp c) (ac_ledger c) p (fe_before (ac_entry c)) pl (case pl_allocations pl of Some as \<Rightarrow> as | None \<Rightarrow> []) of
                             (score, net) \<Rightarrow> Inr \<lparr>wi_spec = spec1, wi_plan = pl, wi_score = score, wi_networkRttMs = net\<rparr>))))))"

definition with_winner :: "fleet_entry \<Rightarrow> winner \<Rightarrow> fleet_entry" where
  "with_winner e w = e\<lparr>fe_spec := Some (wi_spec w), fe_plan := Some (wi_plan w), fe_score := wi_score w, fe_networkRttMs := wi_networkRttMs w\<rparr>"

text \<open>The state of the search: how many candidates were tried, and the best so far.\<close>

type_synonym search = "nat \<times> winner option"

definition attempt :: "attempt_ctx \<Rightarrow> jsv \<Rightarrow> search \<Rightarrow> bool \<times> search" where
  "attempt c p s =
     (let n = Suc (fst s) in
      case attemptPlan c p of
        Inl _ \<Rightarrow> (False, n, snd s)
      | Inr w \<Rightarrow>
          if (case snd s of Some b \<Rightarrow> wi_score w < wi_score b | None \<Rightarrow> True) then
            (if hostMemoryErrors (ac_inp c) (filter (\<lambda>e. fe_plan e \<noteq> None) (ac_entries c) @ [(ac_entry c)\<lparr>fe_plan := Some (wi_plan w)\<rparr>]) (ac_selected c) \<noteq> []
             then (False, n, snd s) else (True, n, Some w))
          else (True, n, snd s))"

subsection \<open>Candidates\<close>

definition cmp_rat :: "rat \<Rightarrow> rat \<Rightarrow> int" where
  "cmp_rat a b = (if a < b then -1 else if b < a then 1 else 0)"

definition fleetRank :: "string comparator_fn \<Rightarrow> int \<Rightarrow> node_row comparator_fn" where
  "fleetRank lc now =
     (let r = (\<lambda>n. case node_rtt now n of Some x \<Rightarrow> x | None \<Rightarrow> 100) in
      cmp_then (\<lambda>a b. cmp_rat (r a) (r b))
        (cmp_then (\<lambda>a b. cmp_rat (gpuMemory b) (gpuMemory a))
          (cmp_then (\<lambda>a b. cmp_rat (of_ramMiB (offer_of b)) (of_ramMiB (offer_of a))) (\<lambda>a b. lc (nr_id a) (nr_id b)))))"

definition num_le :: "js_number \<Rightarrow> int \<Rightarrow> bool" where
  "num_le x n = (case x of Fin r \<Rightarrow> r \<le> of_int n | NegInf \<Rightarrow> True | _ \<Rightarrow> False)"

definition no_chain :: "deployment_spec \<Rightarrow> bool" where
  "no_chain s = (case sp_chain s of None \<Rightarrow> True | Some x \<Rightarrow> x = Fin 0 \<or> x = NaN)"

definition layerRows :: "model_profile \<Rightarrow> deployment_spec \<Rightarrow> int list" where
  "layerRows p s =
     sort_by (\<lambda>a b. b - a) (filter (\<lambda>n. 0 < n) (map er_workerLayers (filter (\<lambda>r.
       num_le (default_num (sp_ctx s) 1536) (er_maxCtx r) \<and> num_le (default_num (sp_parallel s) 1) (er_maxParallel r) \<and>
       num_le (default_num (sp_chain s) 0) (er_maxChain r)) (mp_envelope p))))"

text \<open>The layers of each worker: the most a device holds that leaves the smallest row for everyone after it.\<close>

fun assignLayers :: "model_profile \<Rightarrow> int list \<Rightarrow> int \<Rightarrow> node_row list \<Rightarrow> int list option" where
  "assignLayers p rows left [] = Some []"
| "assignLayers p rows left (n # ns) =
     (case find (\<lambda>k. of_int (k * mp_layerMiB p + mp_workerMarginMiB p) \<le> gpuMemory n \<and> k \<le> left - int (length ns) * last rows) rows of
        None \<Rightarrow> None
      | Some k \<Rightarrow> map_option (\<lambda>ks. k # ks) (assignLayers p rows (left - k) ns))"

definition splitPlacement :: "attempt_ctx \<Rightarrow> int list \<Rightarrow> string \<Rightarrow> node_row list \<Rightarrow> jsv option" where
  "splitPlacement c rows coord hosts =
     (let base = [(''kind'', Str ''split''), (''coordinatorNodeId'', Str coord), (''workerNodeIds'', Arr (map (Str \<circ> nr_id) hosts))] in
      if no_chain (dp_spec (ac_dep c)) then
        map_option (\<lambda>ks. Obj (base @ [(''workerLayers'', Arr (map (\<lambda>k. Num (Fin (of_int k))) ks))]))
          (assignLayers (ac_profile c) rows (mp_layers (ac_profile c) - 1) hosts)
      else Some (Obj base))"

definition groupCounts :: "int \<Rightarrow> nat list" where
  "groupCounts m = map nat (filter (\<lambda>n. 0 < n \<and> n \<le> m) (uniq [1, 2, 3, 4, 8, 12, 16, 32, m]))"

fun tryAll :: "attempt_ctx \<Rightarrow> jsv option list \<Rightarrow> bool \<Rightarrow> search \<Rightarrow> bool \<times> search" where
  "tryAll c [] ok s = (ok, s)"
| "tryAll c (None # ps) ok s = tryAll c ps ok s"
| "tryAll c (Some p # ps) ok s = (case attempt c p s of (b, s1) \<Rightarrow> tryAll c ps (b \<or> ok) s1)"

definition coordinatorPlacements :: "attempt_ctx \<Rightarrow> int list \<Rightarrow> node_row \<Rightarrow> jsv option list" where
  "coordinatorPlacements c rows coord =
     (let p = ac_profile c; least = last rows;
          workers = sort_by (fleetRank (ac_lc c) (fn_now (ac_inp c)))
            (filter (\<lambda>n. nr_id n \<noteq> nr_id coord \<and> ro_worker (of_roles (offer_of n)) \<and> of_int (least * mp_layerMiB p + mp_workerMarginMiB p) \<le> gpuMemory n) (ac_free c));
          m = min (min (int (length workers)) 64) ((mp_layers p - 1) div least) in
      map (\<lambda>k. splitPlacement c rows (nr_id coord) (take k workers)) (groupCounts m))"

text \<open>Hosts one after the other, until enough of them were feasible.\<close>

fun tryHosts :: "attempt_ctx \<Rightarrow> nat \<Rightarrow> jsv option list list \<Rightarrow> search \<Rightarrow> search" where
  "tryHosts c k [] s = s"
| "tryHosts c k (ps # rest) s =
     (case tryAll c ps False s of (ok, s1) \<Rightarrow>
        if ok then (if k \<le> 1 then s1 else tryHosts c (k - 1) rest s1) else tryHosts c k rest s1)"

definition searchBalanced :: "attempt_ctx \<Rightarrow> search \<Rightarrow> search" where
  "searchBalanced c s =
     (let holders = sort_by (fleetRank (ac_lc c) (fn_now (ac_inp c))) (filter (modelOn (ac_rx c) (ac_profile c)) (ac_free c));
          spec = dp_spec (ac_dep c); rows = layerRows (ac_profile c) spec;
          replicas = filter (\<lambda>n. ro_replica (of_roles (offer_of n))) holders;
          coords = filter (\<lambda>n. ro_coordinator (of_roles (offer_of n))) holders;
          s1 = (if no_chain spec
                then tryHosts c 24 (map (\<lambda>n. [Some (Obj [(''kind'', Str ''replica''), (''replicaNodeId'', Str (nr_id n))])]) replicas) s else s) in
      if rows = [] then s1 else tryHosts c 12 (map (coordinatorPlacements c rows) coords) s1)"

definition searchItem :: "attempt_ctx \<Rightarrow> search \<Rightarrow> search" where
  "searchItem c s =
     (case fi_mode (ac_item c) of
        Balanced \<Rightarrow> searchBalanced c s
      | Manual \<Rightarrow> snd (attempt c (fi_placement (ac_item c)) s)
      | Keep \<Rightarrow> snd (attempt c (fe_before (ac_entry c)) s))"

subsection \<open>The preview\<close>

record preview_state =
  pv_ledger :: ledger
  pv_ports :: used_ports
  pv_entries :: "fleet_entry list"
  pv_evaluated :: nat

definition entry_for :: "deployment \<Rightarrow> fleet_entry" where
  "entry_for d = \<lparr>fe_deploymentId = dp_id d, fe_name = sp_name (dp_spec d), fe_before = currentPlacement d, fe_spec = None, fe_plan = None,
     fe_score = 0, fe_networkRttMs = None, fe_failed = False\<rparr>"

definition poolNodes :: "fleet_request \<Rightarrow> fleet_input \<Rightarrow> node_row list" where
  "poolNodes q inp = filter (\<lambda>n. nr_id n \<in> set (fq_pool q) \<and> nr_online n \<and> offer_enabled n \<and>
     Option.bind (nr_caps n) ca_allocationVersion = Some 1) (fn_nodes inp)"

definition placeItem :: "regexp \<Rightarrow> string comparator_fn \<Rightarrow> fleet_input \<Rightarrow> fleet_request \<Rightarrow> nat \<Rightarrow> preview_state \<Rightarrow> fleet_item \<Rightarrow> preview_state" where
  "placeItem rx lc inp q sharing s item =
     (let selected = map fi_deploymentId (fq_items q) in
      case find (\<lambda>d. dp_id d = fi_deploymentId item) (fn_deployments inp) of
        None \<Rightarrow> s
      | Some d \<Rightarrow>
          (let e = entry_for d; failed = s\<lparr>pv_entries := pv_entries s @ [e\<lparr>fe_failed := True\<rparr>]\<rparr> in
           case map_of (fn_profiles inp) (sp_profile (dp_spec d)) of
             None \<Rightarrow> failed
           | Some p \<Rightarrow>
               if sp_kind (dp_spec d) \<notin> {Split, Replica} \<or> sp_stopExternal (dp_spec d) = Some True then failed
               else
                 (let free = filter offer_enabled (availableNodes (poolNodes q inp) (pv_ledger s));
                      c = \<lparr>ac_rx = rx, ac_lc = lc, ac_inp = inp, ac_pool = fq_pool q, ac_selected = selected, ac_item = item, ac_dep = d,
                           ac_profile = p, ac_sharing = sharing, ac_ledger = pv_ledger s, ac_ports = pv_ports s, ac_free = free,
                           ac_entries = pv_entries s, ac_entry = e\<rparr> in
                  case searchItem c (pv_evaluated s, None) of
                    (n, None) \<Rightarrow> failed\<lparr>pv_evaluated := n\<rparr>
                  | (n, Some w) \<Rightarrow>
                      \<lparr>pv_ledger = addAllocations (pv_ledger s) (case pl_allocations (wi_plan w) of Some as \<Rightarrow> as | None \<Rightarrow> []),
                       pv_ports = occupyPorts (pv_ports s) (wi_plan w), pv_entries = pv_entries s @ [with_winner e w], pv_evaluated = n\<rparr>)))"

definition fleetOrder :: "regexp \<Rightarrow> string comparator_fn \<Rightarrow> fleet_input \<Rightarrow> node_row list \<Rightarrow> fleet_item comparator_fn" where
  "fleetOrder rx lc inp pool =
     (let profile = (\<lambda>i. Option.bind (find (\<lambda>d. dp_id d = fi_deploymentId i) (fn_deployments inp)) (\<lambda>d. map_of (fn_profiles inp) (sp_profile (dp_spec d))));
          fixed = (\<lambda>i. if fi_mode i \<noteq> Balanced then 1 else 0 :: int);
          scarcity = (\<lambda>i. case profile i of Some p \<Rightarrow> int (length (filter (modelOn rx p) pool)) | None \<Rightarrow> 0);
          size = (\<lambda>i. case profile i of Some p \<Rightarrow> mp_layerMiB p | None \<Rightarrow> 0) in
      cmp_then (\<lambda>a b. fixed b - fixed a) (cmp_then (\<lambda>a b. scarcity a - scarcity b)
        (cmp_then (\<lambda>a b. size b - size a) (\<lambda>a b. lc (fi_deploymentId a) (fi_deploymentId b)))))"

definition plannedCount :: "fleet_entry list \<Rightarrow> nat" where
  "plannedCount es = length (filter (\<lambda>e. fe_plan e \<noteq> None) es)"

definition totalScore :: "fleet_entry list \<Rightarrow> rat" where
  "totalScore es = foldl (\<lambda>s e. fl (s + fe_score e)) 0 es"

definition betterRound :: "preview_state \<Rightarrow> preview_state option \<Rightarrow> preview_state option" where
  "betterRound s best =
     (case best of
        None \<Rightarrow> Some s
      | Some b \<Rightarrow>
          (let k = plannedCount (pv_entries s); j = plannedCount (pv_entries b) in
           if j < k \<or> (k = j \<and> totalScore (pv_entries s) < totalScore (pv_entries b)) then Some s else Some b))"

definition fleetRound :: "regexp \<Rightarrow> string comparator_fn \<Rightarrow> fleet_input \<Rightarrow> fleet_request \<Rightarrow> fleet_item list
    \<Rightarrow> nat \<times> preview_state option \<Rightarrow> nat \<Rightarrow> nat \<times> preview_state option" where
  "fleetRound rx lc inp q order acc sharing =
     (let selected = map fi_deploymentId (fq_items q);
          s = foldl (placeItem rx lc inp q sharing)
                \<lparr>pv_ledger = reservedResources (fn_deployments inp) (fn_assignments inp) (fn_nodes inp) selected,
                 pv_ports = fleetPorts (fn_assignments inp) selected, pv_entries = [], pv_evaluated = fst acc\<rparr> order in
      (pv_evaluated s, betterRound s (snd acc)))"

definition sharings :: "fleet_request \<Rightarrow> nat list" where
  "sharings q = uniq [1, 2, 4, max 1 (length (fq_items q))]"

record fleet_preview =
  fp_entries :: "fleet_entry list"
  fp_canApply :: bool
  fp_plannedCount :: nat
  fp_ledger :: ledger
  fp_evaluated :: nat

datatype preview_refusal = UnknownFleetDeployment string | UnknownPoolNode string

definition previewFleet :: "regexp \<Rightarrow> string comparator_fn \<Rightarrow> fleet_request \<Rightarrow> fleet_input \<Rightarrow> preview_refusal + fleet_preview" where
  "previewFleet rx lc q inp =
     (let selected = map fi_deploymentId (fq_items q) in
      case find (\<lambda>i. i \<notin> dp_id ` set (fn_deployments inp)) selected of
        Some i \<Rightarrow> Inl (UnknownFleetDeployment i)
      | None \<Rightarrow>
          (case find (\<lambda>i. i \<notin> nr_id ` set (fn_nodes inp)) (fq_pool q) of
             Some i \<Rightarrow> Inl (UnknownPoolNode i)
           | None \<Rightarrow>
               (let order = sort_by (fleetOrder rx lc inp (poolNodes q inp)) (fq_items q);
                    (n, best) = foldl (fleetRound rx lc inp q order) (0, None) (sharings q);
                    b = the best;
                    entries = map (\<lambda>i. the (find (\<lambda>e. fe_deploymentId e = i) (pv_entries b))) selected;
                    errors = hostMemoryErrors inp entries selected in
                Inr \<lparr>fp_entries = entries, fp_canApply = (plannedCount (pv_entries b) = length (fq_items q) \<and> errors = []),
                     fp_plannedCount = plannedCount (pv_entries b), fp_ledger = pv_ledger b, fp_evaluated = n\<rparr>)))"

subsection \<open>Every plan of a preview is admitted\<close>

lemma parsed_alloc_id: "parseAllocation seen (alloc_jsv b) = Inr x \<Longrightarrow> na_nodeId x = na_nodeId b"
  by (auto simp: parseAllocation_def alloc_jsv_def try_bind_Inr split: if_splits)

lemma parsed_alloc_ids: "parseAllocationList seen (map alloc_jsv bs) = Inr xs \<Longrightarrow> map na_nodeId xs = map na_nodeId bs"
  by (induction bs arbitrary: seen xs) (auto simp: try_bind_Inr dest: parsed_alloc_id)

lemma explicit_allocations:
  assumes "planWithResources rx lc inp l = Inr pl" and "sp_allocations (in_spec inp) = Arr vs"
  shows "\<exists>as. pl_allocations pl = Some as \<and> parseAllocationList [] vs = Inr as \<and> na_nodeId ` set as = set (planNodeIds pl)"
proof -
  obtain p as us where "pl = p\<lparr>pl_allocations := Some as\<rparr>" "parseAllocations (Arr vs) = Inr as"
    "try_map (admitBudget (availableNodes (in_nodes inp) l)) as = Inr us" "matchesPlacement as (planNodeIds p)"
    using assms by (auto simp: planWithResources_def Let_def try_bind_Inr split: if_splits)
  then show ?thesis using admitted_admissible[of "Arr vs" as "in_nodes inp" l us] matches_same_nodes[of as "planNodeIds p"]
    by (auto simp: admissible_def parseAllocations_def split: if_splits)
qed

lemma fleetBudget_node: "fleetBudget inp item k nodes base a = Some b \<Longrightarrow> na_nodeId b = na_nodeId a \<and> na_nodeId a \<in> nr_id ` set nodes"
  by (auto simp: fleetBudget_def Let_def split: option.splits if_splits dest!: list_all_find intro: image_eqI[OF sym])

definition won :: "attempt_ctx \<Rightarrow> winner \<Rightarrow> bool" where
  "won c w \<longleftrightarrow> (\<exists>spec. planWithResources (ac_rx c) (ac_lc c) \<lparr>in_spec = spec, in_profile = ac_profile c, in_nodes = fn_nodes (ac_inp c),
       in_usedPorts = ac_ports c, in_nativeQualifications = None\<rparr> (ac_ledger c) = Inr (wi_plan w)) \<and>
     set (planNodeIds (wi_plan w)) \<subseteq> set (ac_pool c)"

lemma attemptPlan_won:
  assumes "attemptPlan c p = Inr w"
  shows "won c w"
proof -
  define spec where "spec = placementSpec (dp_spec (ac_dep c)) p"
  define nodes where "nodes = filter (\<lambda>n. Str (nr_id n) \<in> set (placementIds p)) (ac_free c)"
  have pool: "list_all (\<lambda>v. isStr v \<and> the_str v \<in> set (ac_pool c)) (placementIds p)"
    using assms by (auto simp: attemptPlan_def Let_def split: if_splits)
  obtain base minima bs where bs: "None \<notin> set (map (fleetBudget (ac_inp c) (ac_item c) (ac_sharing c) nodes base) minima)"
      "bs = map (fleetBudget (ac_inp c) (ac_item c) (ac_sharing c) nodes base) minima"
    and plan: "planWithResources (ac_rx c) (ac_lc c)
      \<lparr>in_spec = spec\<lparr>sp_keys := sp_keys spec @ [''allocations''], sp_allocations := Arr (map (alloc_jsv \<circ> the) bs)\<rparr>, in_profile = ac_profile c,
       in_nodes = fn_nodes (ac_inp c), in_usedPorts = ac_ports c, in_nativeQualifications = None\<rparr> (ac_ledger c) = Inr (wi_plan w)"
    using assms
    by (auto simp: attemptPlan_def Let_def spec_def[symmetric] nodes_def[symmetric] split: if_splits sum.splits prod.splits)
  obtain as where as: "parseAllocationList [] (map alloc_jsv (map the bs)) = Inr as" "na_nodeId ` set as = set (planNodeIds (wi_plan w))"
    using explicit_allocations[OF plan] by auto
  have "na_nodeId ` set as = na_nodeId ` the ` set bs" using parsed_alloc_ids[OF as(1)] by (metis list.set_map)
  also have "\<dots> \<subseteq> nr_id ` set nodes"
  proof
    fix i assume "i \<in> na_nodeId ` the ` set bs"
    then obtain a where a: "a \<in> set minima" "i = na_nodeId (the (fleetBudget (ac_inp c) (ac_item c) (ac_sharing c) nodes base a))"
      by (auto simp: bs(2))
    then obtain b where "fleetBudget (ac_inp c) (ac_item c) (ac_sharing c) nodes base a = Some b"
      using bs(1) by (metis (no_types) image_eqI list.set_map not_None_eq)
    then show "i \<in> nr_id ` set nodes" using fleetBudget_node a(2) by fastforce
  qed
  also have "\<dots> \<subseteq> set (ac_pool c)" using pool by (fastforce simp: nodes_def list_all_iff)
  finally show ?thesis using plan as(2) unfolding won_def by blast
qed

abbreviation all_won :: "attempt_ctx \<Rightarrow> search \<Rightarrow> bool" where
  "all_won c s \<equiv> (case snd s of Some w \<Rightarrow> won c w | None \<Rightarrow> True)"

lemma attempt_won: "all_won c s \<Longrightarrow> all_won c (snd (attempt c p s))"
  using attemptPlan_won[of c p] by (auto simp: attempt_def Let_def split: sum.split option.split)

lemma tryAll_won: "all_won c s \<Longrightarrow> all_won c (snd (tryAll c ps ok s))"
proof (induction c ps ok s rule: tryAll.induct)
  case (3 c p ps ok s)
  obtain b s1 where a: "attempt c p s = (b, s1)" by (meson surj_pair)
  then show ?case using 3 attempt_won[OF 3(2), of p] by simp
qed simp_all

lemma tryHosts_won: "all_won c s \<Longrightarrow> all_won c (tryHosts c k hs s)"
proof (induction hs arbitrary: k s)
  case (Cons ps hs)
  obtain b s1 where a: "tryAll c ps False s = (b, s1)" by (meson surj_pair)
  then show ?case using Cons.IH tryAll_won[OF Cons.prems, of ps False] by simp
qed simp

lemma searchItem_won: "all_won c s \<Longrightarrow> all_won c (searchItem c s)"
  by (cases "fi_mode (ac_item c)")
    (simp_all add: searchItem_def searchBalanced_def Let_def tryHosts_won attempt_won del: tryHosts.simps)

subsection \<open>The ledger of a preview\<close>

definition within_pool :: "string list \<Rightarrow> fleet_entry \<Rightarrow> bool" where
  "within_pool pool e = (case fe_plan e of Some pl \<Rightarrow> set (planNodeIds pl) \<subseteq> set pool | None \<Rightarrow> True)"

abbreviation preview_baseline :: "fleet_request \<Rightarrow> fleet_input \<Rightarrow> ledger" where
  "preview_baseline q inp \<equiv> reservedResources (fn_deployments inp) (fn_assignments inp) (fn_nodes inp) (map fi_deploymentId (fq_items q))"

definition entry_allocations :: "fleet_entry \<Rightarrow> node_allocation list" where
  "entry_allocations e = (case fe_plan e of Some pl \<Rightarrow> (case pl_allocations pl of Some as \<Rightarrow> as | None \<Rightarrow> []) | None \<Rightarrow> [])"

definition round_ok :: "fleet_input \<Rightarrow> fleet_request \<Rightarrow> preview_state \<Rightarrow> bool" where
  "round_ok inp q s \<longleftrightarrow> within_offers (fn_nodes inp) (pv_ledger s) \<and> list_all (within_pool (fq_pool q)) (pv_entries s) \<and>
     pv_ledger s = addAllocations (preview_baseline q inp) (concat (map entry_allocations (pv_entries s)))"

lemma addAllocations_append [simp]: "addAllocations l (xs @ ys) = addAllocations (addAllocations l xs) ys" "addAllocations l [] = l"
  by (simp_all add: addAllocations_def)

lemma placeItem_ok:
  assumes "nodes_ok (fn_nodes inp)" and "round_ok inp q s"
  shows "round_ok inp q (placeItem rx lc inp q k s item)"
proof -
  have new: "within_offers (fn_nodes inp) (addAllocations (pv_ledger s) (case pl_allocations (wi_plan w) of Some as \<Rightarrow> as | None \<Rightarrow> [])) \<and>
      set (planNodeIds (wi_plan w)) \<subseteq> set (fq_pool q)"
    if w: "searchItem c (n0, None) = (n, Some w)" and c: "ac_inp c = inp" "ac_ledger c = pv_ledger s" "ac_pool c = fq_pool q" for c n0 n w
  proof -
    have "won c w" using searchItem_won[of c "(n0, None)"] w by simp
    then obtain spec where p: "planWithResources (ac_rx c) (ac_lc c) \<lparr>in_spec = spec, in_profile = ac_profile c, in_nodes = fn_nodes inp,
         in_usedPorts = ac_ports c, in_nativeQualifications = None\<rparr> (pv_ledger s) = Inr (wi_plan w)"
      and pool: "set (planNodeIds (wi_plan w)) \<subseteq> set (fq_pool q)"
      by (auto simp: won_def c)
    obtain as where "pl_allocations (wi_plan w) = Some as" "admissible (fn_nodes inp) (pv_ledger s) as"
      using planWithResources_admissible[OF p] assms(1) by (auto simp: nodes_ok_def)
    then show ?thesis using pool assms by (auto simp: nodes_ok_def round_ok_def intro: admissible_within)
  qed
  show ?thesis
    using assms(2)
    by (auto simp: placeItem_def Let_def round_ok_def entry_for_def within_pool_def with_winner_def entry_allocations_def split: option.split prod.split dest!: new)
qed

lemma placeItem_ids:
  "fi_deploymentId item \<in> dp_id ` set (fn_deployments inp) \<Longrightarrow>
   map fe_deploymentId (pv_entries (placeItem rx lc inp q k s item)) = map fe_deploymentId (pv_entries s) @ [fi_deploymentId item]"
proof -
  assume "fi_deploymentId item \<in> dp_id ` set (fn_deployments inp)"
  then obtain d where d: "find (\<lambda>d. dp_id d = fi_deploymentId item) (fn_deployments inp) = Some d"
    using find_by_key by metis
  then have "dp_id d = fi_deploymentId item" by (auto simp: find_Some_iff)
  then show ?thesis by (simp add: placeItem_def d Let_def entry_for_def with_winner_def split: option.split prod.split)
qed

lemma places_ok:
  assumes "nodes_ok (fn_nodes inp)" and "round_ok inp q s" and "fi_deploymentId ` set items \<subseteq> dp_id ` set (fn_deployments inp)"
  shows "round_ok inp q (foldl (placeItem rx lc inp q k) s items) \<and>
    map fe_deploymentId (pv_entries (foldl (placeItem rx lc inp q k) s items)) = map fe_deploymentId (pv_entries s) @ map fi_deploymentId items"
  using assms(2,3)
proof (induction items arbitrary: s)
  case (Cons x xs)
  then show ?case using Cons.IH[OF placeItem_ok[OF assms(1) Cons.prems(1), of rx lc k x]] placeItem_ids[of x inp rx lc q k s] by simp
qed simp

definition best_ok :: "fleet_input \<Rightarrow> fleet_request \<Rightarrow> fleet_item list \<Rightarrow> preview_state \<Rightarrow> bool" where
  "best_ok inp q order b \<longleftrightarrow> round_ok inp q b \<and> map fe_deploymentId (pv_entries b) = map fi_deploymentId order"

lemma fleetRound_best:
  assumes "nodes_ok (fn_nodes inp)" and "within_offers (fn_nodes inp) (preview_baseline q inp)"
    and "fi_deploymentId ` set order \<subseteq> dp_id ` set (fn_deployments inp)"
    and "case snd acc of Some b \<Rightarrow> best_ok inp q order b | None \<Rightarrow> True"
  shows "\<exists>b. snd (fleetRound rx lc inp q order acc k) = Some b \<and> best_ok inp q order b"
proof -
  let ?s0 = "\<lparr>pv_ledger = preview_baseline q inp, pv_ports = fleetPorts (fn_assignments inp) (map fi_deploymentId (fq_items q)),
    pv_entries = [], pv_evaluated = fst acc\<rparr>"
  have "round_ok inp q ?s0" using assms(2) by (simp add: round_ok_def)
  from places_ok[OF assms(1) this assms(3), of rx lc k] have "best_ok inp q order (foldl (placeItem rx lc inp q k) ?s0 order)"
    by (simp add: best_ok_def)
  then show ?thesis using assms(4) by (auto simp: fleetRound_def Let_def betterRound_def split: option.splits)
qed

lemma fleetRounds_best:
  assumes "nodes_ok (fn_nodes inp)" and "within_offers (fn_nodes inp) (preview_baseline q inp)"
    and "fi_deploymentId ` set order \<subseteq> dp_id ` set (fn_deployments inp)"
    and "case snd acc of Some b \<Rightarrow> best_ok inp q order b | None \<Rightarrow> ks \<noteq> []"
  shows "\<exists>b. snd (foldl (fleetRound rx lc inp q order) acc ks) = Some b \<and> best_ok inp q order b"
  using assms(4)
proof (induction ks arbitrary: acc)
  case Nil
  then show ?case by (auto split: option.splits)
next
  case (Cons k ks)
  have "case snd acc of Some b \<Rightarrow> best_ok inp q order b | None \<Rightarrow> True" using Cons.prems by (auto split: option.splits)
  from fleetRound_best[OF assms(1-3) this, of rx lc k] show ?case using Cons.IH[of "fleetRound rx lc inp q order acc k"] by auto
qed

lemma find_by_key_perm:
  assumes "distinct ks" and "mset ks = mset (map f xs)"
  shows "mset (map (\<lambda>k. the (find (\<lambda>x. f x = k) xs)) ks) = mset xs"
proof -
  have "distinct (map f xs)" using assms by (metis mset_eq_imp_distinct_iff)
  then have "the (find (\<lambda>y. f y = f x) xs) = x" if "x \<in> set xs" for x
    using that by (induction xs) auto
  then have "map (\<lambda>k. the (find (\<lambda>x. f x = k) xs)) (map f xs) = xs" by (simp add: map_idI)
  then show ?thesis using assms(2) by (metis mset_map)
qed

lemma all_planned:
  "plannedCount es = length es \<Longrightarrow> e \<in> set es \<Longrightarrow> fe_plan e \<noteq> None"
  using length_filter_less[of e es "\<lambda>e. fe_plan e \<noteq> None"] by (auto simp: plannedCount_def)


text \<open>C7. A fleet preview lists one entry per requested item, in the order of the request. Its plans use only nodes of the requested
  pool, and with what is reserved outside the selection they stay within every node's offer: the ledger that does is what is reserved
  outside plus what the entries' plans allocate. A preview that can be applied has a plan for every entry, and no host is short of
  measured memory for them.\<close>

theorem preview_within_offers:
  assumes "previewFleet rx lc q inp = Inr p" and "nodes_ok (fn_nodes inp)"
    and "within_offers (fn_nodes inp) (reservedResources (fn_deployments inp) (fn_assignments inp) (fn_nodes inp) (map fi_deploymentId (fq_items q)))"
  shows "map fe_deploymentId (fp_entries p) = map fi_deploymentId (fq_items q) \<and> within_offers (fn_nodes inp) (fp_ledger p) \<and>
    (distinct (map fi_deploymentId (fq_items q)) \<longrightarrow> (\<exists>es. mset es = mset (fp_entries p) \<and>
       fp_ledger p = addAllocations (reservedResources (fn_deployments inp) (fn_assignments inp) (fn_nodes inp) (map fi_deploymentId (fq_items q)))
         (concat (map entry_allocations es)))) \<and>
    (\<forall>e pl. e \<in> set (fp_entries p) \<and> fe_plan e = Some pl \<longrightarrow> set (planNodeIds pl) \<subseteq> set (fq_pool q)) \<and>
    (fp_canApply p \<longrightarrow> None \<notin> fe_plan ` set (fp_entries p) \<and> hostMemoryErrors inp (fp_entries p) (map fi_deploymentId (fq_items q)) = [])"
proof -
  have known: "fi_deploymentId ` set (fq_items q) \<subseteq> dp_id ` set (fn_deployments inp)"
    using assms(1) by (auto simp: previewFleet_def Let_def find_None_all split: option.splits)
  define order where "order = sort_by (fleetOrder rx lc inp (poolNodes q inp)) (fq_items q)"
  define ids where "ids = map fi_deploymentId (fq_items q)"
  obtain n best where r: "foldl (fleetRound rx lc inp q order) (0, None) (sharings q) = (n, best)" by fastforce
  have ne: "sharings q \<noteq> []" by (simp add: sharings_def)
  obtain b where b: "best = Some b" "best_ok inp q order b"
    using fleetRounds_best[OF assms(2,3), where order = order and acc = "(0, None)" and ks = "sharings q" and rx = rx and lc = lc] known r ne
    by (auto simp: order_def)
  define es where "es = map (\<lambda>i. the (find (\<lambda>e. fe_deploymentId e = i) (pv_entries b))) ids"
  have p: "p = \<lparr>fp_entries = es, fp_canApply = (plannedCount (pv_entries b) = length (fq_items q) \<and> hostMemoryErrors inp es ids = []),
      fp_plannedCount = plannedCount (pv_entries b), fp_ledger = pv_ledger b, fp_evaluated = n\<rparr>"
    using assms(1) r b(1)
    by (simp add: previewFleet_def Let_def order_def[symmetric] ids_def[symmetric] es_def split: option.splits)
  have bids: "map fe_deploymentId (pv_entries b) = map fi_deploymentId order" using b(2) by (simp add: best_ok_def)
  have found: "\<exists>e \<in> set (pv_entries b). find (\<lambda>e. fe_deploymentId e = i) (pv_entries b) = Some e \<and> fe_deploymentId e = i" if "i \<in> set ids" for i
  proof -
    have "i \<in> fe_deploymentId ` set (pv_entries b)" using bids that by (metis ids_def list.set_map order_def set_sort_by)
    then obtain e where "find (\<lambda>e. fe_deploymentId e = i) (pv_entries b) = Some e"
      using find_by_key by metis
    then show ?thesis using list_all_find by fastforce
  qed
  have eids: "map fe_deploymentId es = ids" unfolding es_def map_map by (rule map_idI) (use found in fastforce)
  have sub: "set es \<subseteq> set (pv_entries b)" unfolding es_def using found by fastforce
  have len: "length (pv_entries b) = length (fq_items q)" using bids by (metis length_map length_sort_by order_def)
  have pools: "set (planNodeIds pl) \<subseteq> set (fq_pool q)" if "e \<in> set es" "fe_plan e = Some pl" for e pl
    using b(2) sub that by (fastforce simp: best_ok_def round_ok_def list_all_iff within_pool_def split: option.splits)
  have "fe_plan e \<noteq> None" if "plannedCount (pv_entries b) = length (fq_items q)" "e \<in> set es" for e
    using all_planned[of "pv_entries b" e] sub that by (auto simp: len)
  then have "None \<notin> fe_plan ` set es" if "plannedCount (pv_entries b) = length (fq_items q)" using that by fastforce
  moreover have "mset es = mset (pv_entries b)" if "distinct ids"
    unfolding es_def by (rule find_by_key_perm) (use that bids in \<open>simp_all add: ids_def order_def mset_sort_by\<close>)
  ultimately show ?thesis
    using b(2) eids pools unfolding p best_ok_def round_ok_def ids_def by auto
qed

definition fleet_example :: fleet_input where
  "fleet_example =
     \<lparr>fn_nodes = map (\<lambda>n. n\<lparr>nr_caps := map_option (\<lambda>c. c\<lparr>ca_allocationVersion := Some 1\<rparr>) (nr_caps n)\<rparr>) (in_nodes (example_input Replica)),
      fn_deployments = [\<lparr>dp_id = ''d1'', dp_spec = example_spec Replica Undefined, dp_state = Stopped, dp_plan = None, dp_endpoint = None,
        dp_error = None, dp_savedDistribution = Undefined, dp_createdAt = 0, dp_updatedAt = 0\<rparr>],
      fn_assignments = [], fn_profiles = [(''qwen35-2b-q8'', native_profile)], fn_now = 1000\<rparr>"

definition fleet_example_request :: "fleet_mode \<Rightarrow> fleet_request" where
  "fleet_example_request mode = \<lparr>fq_items = [\<lparr>fi_deploymentId = ''d1'', fi_mode = mode, fi_cpuCores = None,
     fi_placement = Obj [(''kind'', Str ''replica''), (''replicaNodeId'', Str ''a'')]\<rparr>], fq_pool = [''a'', ''b'']\<rparr>"


lemma previewFleet_total:
  "fi_deploymentId ` set (fq_items q) \<subseteq> dp_id ` set (fn_deployments inp) \<Longrightarrow> set (fq_pool q) \<subseteq> nr_id ` set (fn_nodes inp) \<Longrightarrow>
   previewFleet rx lc q inp = Inr (projr (previewFleet rx lc q inp))"
  by (auto simp: previewFleet_def Let_def case_prod_unfold find_None_all split: option.split dest!: list_all_find)

lemma fleet_example_baseline: "reservedResources (fn_deployments fleet_example) [] (fn_nodes fleet_example) [''d1''] = []"
  by code_simp

theorem preview_within_offers_witness:
  "\<exists>p. previewFleet any_rx cmp_str (fleet_example_request Balanced) fleet_example = Inr p \<and> map fe_deploymentId (fp_entries p) = [''d1''] \<and>
     within_offers (fn_nodes fleet_example) (fp_ledger p)"
proof -
  have p: "previewFleet any_rx cmp_str (fleet_example_request Balanced) fleet_example =
      Inr (projr (previewFleet any_rx cmp_str (fleet_example_request Balanced) fleet_example))"
    by (rule previewFleet_total) (auto simp: fleet_example_def fleet_example_request_def example_input_def example_node_def)
  have ok: "nodes_ok (fn_nodes fleet_example)"
    by (auto simp: nodes_ok_def fleet_example_def example_input_def example_node_def offer_gpus_distinct_def offeredAllocation_def fits_in_def emptyAllocation_def)
  then have "within_offers (fn_nodes fleet_example) []" by (auto simp: nodes_ok_def within_offers_def allocation_of_def)
  then show ?thesis using preview_within_offers[OF p ok] p fleet_example_baseline by (auto simp: fleet_example_request_def fleet_example_def)
qed

end
