(* ===== verification/Allocation.thy ===== *)
theory Allocation
  imports Fleet
begin

text \<open>
  Previewing and applying a fleet allocation (\<^verbatim>\<open>src/swarmlet/control/deployments.ts\<close>, with the \<open>fleet_runs\<close> table of
  \<^verbatim>\<open>src/swarmlet/control/registry.ts\<close>). A run in progress is the object the code holds in memory, with the index of the next
  entry to start. The revision of the fleet is a digest of a view of it; the digest (SHA-256 of the JSON text) is a parameter.
  An assignment's body appears in the view as the fields of it that the registry rows keep.
\<close>

subsection \<open>Runs\<close>

datatype run_status = InPreview | Applying | Succeeded | Partial | Interrupted

datatype phase = Queued | Stopping | Starting | PhaseReady | PhaseFailed

datatype invalid_plan = EntryWithoutPlan | ProfileChanged | NoRoom resource_error | HostShort "memory_error list"

datatype run_error = NotAcknowledged string | PlansInvalid invalid_plan | ControlRestarted | StartError string

record run_entry =
  en_entry :: fleet_entry
  en_phase :: "phase option"
  en_error :: "run_error option"

record fleet_run =
  fr_id :: string
  fr_revision :: string
  fr_entries :: "run_entry list"
  fr_canApply :: bool
  fr_status :: run_status
  fr_createdAt :: int
  fr_updatedAt :: int
  fr_error :: "run_error option"

record allocator =
  al_mgr :: manager
  al_runs :: "fleet_run list"
  al_current :: "(fleet_run \<times> nat) option"

definition newest :: "fleet_run list \<Rightarrow> fleet_run list" where
  "newest rs = take 20 (sort_by (\<lambda>a b. fr_createdAt b - fr_createdAt a) rs)"

text \<open>An upsert, after which all but the newest twenty previews are deleted.\<close>

definition saveFleetRun :: "fleet_run \<Rightarrow> fleet_run list \<Rightarrow> fleet_run list" where
  "saveFleetRun run rs =
     (let rs1 = (if fr_id run \<in> fr_id ` set rs
                 then map (\<lambda>r. if fr_id r = fr_id run then run\<lparr>fr_createdAt := fr_createdAt r\<rparr> else r) rs else rs @ [run]);
          kept = map fr_id (newest (filter (\<lambda>r. fr_status r = InPreview) rs1)) in
      filter (\<lambda>r. fr_status r = InPreview \<longrightarrow> fr_id r \<in> set kept) rs1)"

definition fleetRun :: "fleet_run list \<Rightarrow> string \<Rightarrow> fleet_run option" where
  "fleetRun rs i = find (\<lambda>r. fr_id r = i) rs"

definition fleetRuns :: "fleet_run list \<Rightarrow> fleet_run list" where
  "fleetRuns rs = newest (filter (\<lambda>r. fr_status r \<noteq> InPreview) rs)"

definition interruptRuns :: "int \<Rightarrow> fleet_run list \<Rightarrow> fleet_run list" where
  "interruptRuns t rs =
     foldl (\<lambda>rs r. if fr_status r = Applying
                   then saveFleetRun (r\<lparr>fr_status := Interrupted, fr_error := Some ControlRestarted, fr_updatedAt := t\<rparr>) rs else rs)
       rs (fleetRuns rs)"

subsection \<open>The revision\<close>

type_synonym node_view = "string \<times> bool \<times> offer option \<times> (nat option \<times> os_name \<times> (string \<times> string \<times> rat) list \<times> engine_info option) option
  \<times> (string \<times> rat \<times> string option) list"

type_synonym fleet_view = "node_view list \<times> (string \<times> deployment_spec \<times> deployment_state \<times> plan option \<times> jsv) list
  \<times> (string \<times> string \<times> string \<times> bool \<times> assignment_kind \<times> bool \<times> int \<times> int option \<times> string list) list \<times> model_profile list"

definition fleetView :: "string comparator_fn \<Rightarrow> fleet_input \<Rightarrow> fleet_view" where
  "fleetView lc inp =
     (map (\<lambda>n. (nr_id n, nr_online n, nr_offer n,
          map_option (\<lambda>c. (ca_allocationVersion c, ca_os c, map (\<lambda>g. (gd_id g, gd_engineName g, gd_totalMiB g)) (ca_gpus c), ca_engine c)) (nr_caps n),
          sort_by (\<lambda>a b. lc (fst a) (fst b)) (map (\<lambda>f. (mf_path f, mf_sizeBytes f, mf_sha256 f)) (nr_models n))))
        (sort_by (\<lambda>a b. lc (nr_id a) (nr_id b)) (fn_nodes inp)),
      map (\<lambda>d. (dp_id d, dp_spec d, dp_state d, dp_plan d, dp_savedDistribution d)) (sort_by (\<lambda>a b. lc (dp_id a) (dp_id b)) (fn_deployments inp)),
      sort_by (\<lambda>a b. lc (fst a) (fst b))
        (map (\<lambda>a. (ar_id a, ar_nodeId a, ar_deploymentId a, ar_retired a, ar_kind a, ar_external a, ar_port a, ar_peerPort a, ar_allow a))
          (filter (\<lambda>a. ar_state a \<noteq> Reported AStopped) (fn_assignments inp))),
      sort_by (\<lambda>a b. lc (mp_id a) (mp_id b)) (map snd (fn_profiles inp)))"

definition fleetRevision :: "(fleet_view \<Rightarrow> string) \<Rightarrow> string comparator_fn \<Rightarrow> fleet_input \<Rightarrow> string" where
  "fleetRevision digest lc inp = digest (fleetView lc inp)"

definition fleetInput :: "deps \<Rightarrow> int \<Rightarrow> manager \<Rightarrow> fleet_input" where
  "fleetInput D t m = \<lparr>fn_nodes = fleetNodes t m, fn_deployments = listDeployments (mg_reg m), fn_assignments = listAssignments (mg_reg m),
     fn_profiles = dd_profiles D, fn_now = t\<rparr>"

subsection \<open>Previews\<close>

datatype preview_failure = OperationRunning | BadFleetRequest request_error | NotPreviewable preview_refusal | PlanningFailed | FleetChanged

definition new_run :: "string \<Rightarrow> string \<Rightarrow> int \<Rightarrow> fleet_preview \<Rightarrow> fleet_run" where
  "new_run i revision t p = \<lparr>fr_id = i, fr_revision = revision, fr_entries = map (\<lambda>e. \<lparr>en_entry = e, en_phase = None, en_error = None\<rparr>) (fp_entries p),
     fr_canApply = fp_canApply p, fr_status = InPreview, fr_createdAt = t, fr_updatedAt = t, fr_error = None\<rparr>"

text \<open>What happens when the planning has ended, with the revision of the fleet it planned for. \<open>None\<close> is a worker that timed out or failed.\<close>

definition previewDone :: "(fleet_view \<Rightarrow> string) \<Rightarrow> deps \<Rightarrow> string \<Rightarrow> string \<Rightarrow> (preview_refusal + fleet_preview) option \<Rightarrow> int \<Rightarrow> allocator
    \<Rightarrow> (preview_failure + fleet_run) \<times> allocator" where
  "previewDone digest D i revision result t s0 =
     (let s = s0\<lparr>al_mgr := (al_mgr s0)\<lparr>mg_fleetPlanning := False\<rparr>\<rparr> in
      case result of
        None \<Rightarrow> (Inl PlanningFailed, s)
      | Some (Inl e) \<Rightarrow> (Inl (NotPreviewable e), s)
      | Some (Inr p) \<Rightarrow>
          if mg_closed (al_mgr s) \<or> revision \<noteq> fleetRevision digest (dd_lc D) (fleetInput D t (al_mgr s)) then (Inl FleetChanged, s)
          else (let run = new_run i revision t p in (Inr run, s\<lparr>al_runs := saveFleetRun run (al_runs s)\<rparr>)))"

text \<open>A large search runs in a worker: the call only marks that planning is under way, and \<open>previewDone\<close> comes later.\<close>

definition previewAllocation :: "(fleet_view \<Rightarrow> string) \<Rightarrow> deps \<Rightarrow> string \<Rightarrow> jsv \<Rightarrow> int \<Rightarrow> allocator
    \<Rightarrow> (preview_failure + fleet_run) option \<times> allocator" where
  "previewAllocation digest D i v t s =
     (let m = al_mgr s in
      if mg_closed m \<or> mg_fleetBusy m \<or> mg_fleetPlanning m then (Some (Inl OperationRunning), s)
      else
        (case parseFleetRequest v of
           Inl e \<Rightarrow> (Some (Inl (BadFleetRequest e)), s)
         | Inr q \<Rightarrow>
             (let inp = fleetInput D t m; s1 = s\<lparr>al_mgr := m\<lparr>mg_fleetPlanning := True\<rparr>\<rparr> in
              if 64 < length (fn_nodes inp) \<or> 20 < length (fq_items q) then (None, s1)
              else (let (r, s2) = previewDone digest D i (fleetRevision digest (dd_lc D) inp)
                          (Some (previewFleet (dd_rx D) (dd_lc D) q inp)) t s1 in (Some r, s2)))))"

subsection \<open>Applying\<close>

fun validatePlans :: "deps \<Rightarrow> fleet_input \<Rightarrow> run_entry list \<Rightarrow> ledger \<Rightarrow> invalid_plan option" where
  "validatePlans D inp [] l = None"
| "validatePlans D inp (x # xs) l =
     (let e = en_entry x in
      case (fe_spec e, fe_plan e) of
        (Some spec, Some _) \<Rightarrow>
          if fe_failed e \<or> en_error x \<noteq> None then Some EntryWithoutPlan
          else
            (case map_of (fn_profiles inp) (sp_profile spec) of
               None \<Rightarrow> Some ProfileChanged
             | Some p \<Rightarrow>
                 (case planWithResources (dd_rx D) (dd_lc D) \<lparr>in_spec = spec, in_profile = p, in_nodes = fn_nodes inp, in_usedPorts = [],
                         in_nativeQualifications = None\<rparr> l of
                    Inl r \<Rightarrow> Some (NoRoom r)
                  | Inr pl \<Rightarrow> validatePlans D inp xs (addAllocations l (case pl_allocations pl of Some as \<Rightarrow> as | None \<Rightarrow> []))))
      | _ \<Rightarrow> Some EntryWithoutPlan)"

definition run_ids :: "fleet_run \<Rightarrow> string list" where
  "run_ids run = map (fe_deploymentId \<circ> en_entry) (fr_entries run)"

definition validateFleetPlans :: "deps \<Rightarrow> fleet_run \<Rightarrow> int \<Rightarrow> manager \<Rightarrow> invalid_plan option" where
  "validateFleetPlans D run t m =
     (let inp = fleetInput D t m; selected = run_ids run in
      case validatePlans D inp (fr_entries run) (reservedResources (fn_deployments inp) (fn_assignments inp) (fn_nodes inp) selected) of
        Some e \<Rightarrow> Some e
      | None \<Rightarrow>
          (case hostMemoryErrors inp (map en_entry (fr_entries run)) selected of [] \<Rightarrow> None | es \<Rightarrow> Some (HostShort es)))"

datatype apply_refusal = PreviewNotFound | AnotherOperation | InvalidOrExpired | RevisionChanged | SelectedBusy | CannotApply invalid_plan

definition applyRefusal :: "(fleet_view \<Rightarrow> string) \<Rightarrow> deps \<Rightarrow> fleet_run \<Rightarrow> int \<Rightarrow> manager \<Rightarrow> apply_refusal option" where
  "applyRefusal digest D run t m =
     (if \<not> fr_canApply run \<or> 600000 < t - fr_createdAt run then Some InvalidOrExpired
      else if fr_revision run \<noteq> fleetRevision digest (dd_lc D) (fleetInput D t m) then Some RevisionChanged
      else if list_ex (\<lambda>i. 0 < lookup (mg_inflight m) i 0) (run_ids run) then Some SelectedBusy
      else map_option CannotApply (validateFleetPlans D run t m))"

definition withdraw :: "int \<Rightarrow> manager \<Rightarrow> string list \<Rightarrow> manager" where
  "withdraw t m ids = foldl (\<lambda>m i. set_dep i (patch_route Draining) t m) m ids"

definition saveRun :: "int \<Rightarrow> fleet_run \<Rightarrow> nat \<Rightarrow> allocator \<Rightarrow> allocator" where
  "saveRun t run k s =
     (if mg_closed (al_mgr s) then s\<lparr>al_current := Some (run, k)\<rparr>
      else (let r = run\<lparr>fr_updatedAt := t\<rparr> in s\<lparr>al_current := Some (r, k), al_runs := saveFleetRun r (al_runs s)\<rparr>))"

definition set_phases :: "phase \<Rightarrow> fleet_run \<Rightarrow> fleet_run" where
  "set_phases ph run = run\<lparr>fr_entries := map (\<lambda>e. e\<lparr>en_phase := Some ph\<rparr>) (fr_entries run)\<rparr>"

text \<open>The synchronous part of \<open>performAllocation\<close>: every selected deployment is stopped.\<close>

definition performStops :: "fleet_run \<Rightarrow> int \<Rightarrow> allocator \<Rightarrow> allocator \<times> effect list" where
  "performStops run t s =
     (let s1 = saveRun t (set_phases Stopping run) 0 s;
          (m, e) = each (\<lambda>i m. snd (stop i True t m)) (run_ids run) (al_mgr s1) in (s1\<lparr>al_mgr := m\<rparr>, e))"

definition applyAllocation :: "(fleet_view \<Rightarrow> string) \<Rightarrow> deps \<Rightarrow> string \<Rightarrow> int \<Rightarrow> allocator
    \<Rightarrow> (apply_refusal + fleet_run) \<times> allocator \<times> effect list" where
  "applyAllocation digest D i t s =
     (case fleetRun (al_runs s) i of
        None \<Rightarrow> (Inl PreviewNotFound, s, [])
      | Some run \<Rightarrow>
          if fr_status run \<noteq> InPreview then (Inr run, s, [])
          else if mg_closed (al_mgr s) \<or> mg_fleetBusy (al_mgr s) \<or> mg_fleetPlanning (al_mgr s) then (Inl AnotherOperation, s, [])
          else
            (let (updating, m) = updatingNode t (al_mgr s); s1 = s\<lparr>al_mgr := m\<rparr> in
             if updating \<noteq> None \<or> mg_operations m \<noteq> [] \<or> mg_distributions m \<noteq> [] \<or> mg_reconnecting m \<noteq> [] then (Inl AnotherOperation, s1, [])
             else
               (case applyRefusal digest D run t m of
                  Some e \<Rightarrow> (Inl e, s1, [])
                | None \<Rightarrow>
                    (let run1 = set_phases Queued (run\<lparr>fr_status := Applying, fr_updatedAt := t\<rparr>);
                         s2 = s1\<lparr>al_mgr := withdraw t (m\<lparr>mg_fleetBusy := True\<rparr>) (run_ids run), al_runs := saveFleetRun run1 (al_runs s1)\<rparr>;
                         (s3, e) = performStops run1 t s2 in
                     (Inr run1, s3, e)))))"

text \<open>The end of a run: it is saved while the control plane is up, and other operations are admitted again.\<close>

definition endRun :: "int \<Rightarrow> fleet_run \<Rightarrow> allocator \<Rightarrow> allocator" where
  "endRun t run s = (let s1 = saveRun t run 0 s in s1\<lparr>al_current := None, al_mgr := (al_mgr s1)\<lparr>mg_fleetBusy := False\<rparr>\<rparr>)"

definition failRun :: "int \<Rightarrow> run_error \<Rightarrow> fleet_run \<Rightarrow> allocator \<Rightarrow> allocator" where
  "failRun t e run s =
     endRun t (if mg_closed (al_mgr s) then run
       else run\<lparr>fr_status := Partial, fr_error := Some e,
         fr_entries := map (\<lambda>x. if en_phase x \<in> {Some PhaseReady, Some PhaseFailed} then x else x\<lparr>en_phase := Some PhaseFailed, en_error := Some e\<rparr>) (fr_entries run)\<rparr>) s"

definition set_entry :: "nat \<Rightarrow> (run_entry \<Rightarrow> run_entry) \<Rightarrow> fleet_run \<Rightarrow> fleet_run" where
  "set_entry k f run = run\<lparr>fr_entries := (fr_entries run)[k := f (fr_entries run ! k)]\<rparr>"

text \<open>One turn of a starter: the next entry is started. A start that is refused ends like one that fails, through \<open>entryDone\<close>.\<close>

definition startNext :: "deps \<Rightarrow> int \<Rightarrow> allocator \<Rightarrow> allocator" where
  "startNext D t s =
     (case al_current s of
        None \<Rightarrow> s
      | Some (run, k) \<Rightarrow>
          if mg_closed (al_mgr s) \<or> length (fr_entries run) \<le> k then s
          else (let s1 = saveRun t (set_entry k (\<lambda>e. e\<lparr>en_phase := Some Starting\<rparr>) run) (Suc k) s in
                s1\<lparr>al_mgr := snd (start D (run_ids run ! k) False True False t (al_mgr s1))\<rparr>))"

fun startMany :: "deps \<Rightarrow> int \<Rightarrow> nat \<Rightarrow> allocator \<Rightarrow> allocator" where
  "startMany D t 0 s = s"
| "startMany D t (Suc n) s = startMany D t n (startNext D t s)"

definition closeRun :: "int \<Rightarrow> allocator \<Rightarrow> allocator" where
  "closeRun t s =
     (case al_current s of
        None \<Rightarrow> s
      | Some (run, k) \<Rightarrow>
          if list_ex (\<lambda>e. en_phase e = Some Starting) (fr_entries run) \<or> (\<not> mg_closed (al_mgr s) \<and> k < length (fr_entries run)) then s
          else if mg_closed (al_mgr s) then endRun t run s
          else endRun t (run\<lparr>fr_status := (if list_all (\<lambda>e. en_phase e = Some PhaseReady) (fr_entries run) then Succeeded else Partial)\<rparr>) s)"

text \<open>All stops have settled; \<open>refused\<close> is the reason of the first that was rejected.\<close>

definition stopsSettled :: "deps \<Rightarrow> string option \<Rightarrow> int \<Rightarrow> allocator \<Rightarrow> allocator" where
  "stopsSettled D refused t s =
     (case al_current s of
        None \<Rightarrow> s
      | Some (run, _) \<Rightarrow>
          (case refused of
             Some why \<Rightarrow> failRun t (NotAcknowledged why) run s
           | None \<Rightarrow>
               if mg_closed (al_mgr s) then endRun t run s
               else
                 (case validateFleetPlans D run t (al_mgr s) of
                    Some e \<Rightarrow> failRun t (PlansInvalid e) run s
                  | None \<Rightarrow>
                      closeRun t (startMany D t (min 4 (length (fr_entries run)))
                        (s\<lparr>al_mgr := with_reg (applyFleetSpecs (map (\<lambda>e. (fe_deploymentId (en_entry e), the (fe_spec (en_entry e)))) (fr_entries run)) t) (al_mgr s)\<rparr>)))))"

text \<open>The start of entry \<open>k\<close> has ended; the starter that made it goes on.\<close>

definition entryDone :: "deps \<Rightarrow> nat \<Rightarrow> string option \<Rightarrow> int \<Rightarrow> allocator \<Rightarrow> allocator" where
  "entryDone D k failure t s =
     (case al_current s of
        None \<Rightarrow> s
      | Some (run, n) \<Rightarrow>
          if \<not> (k < length (fr_entries run) \<and> en_phase (fr_entries run ! k) = Some Starting) then s
          else
            (let f = (case failure of None \<Rightarrow> (\<lambda>e. e\<lparr>en_phase := Some PhaseReady\<rparr>)
                        | Some why \<Rightarrow> (\<lambda>e. e\<lparr>en_phase := Some PhaseFailed, en_error := Some (StartError why)\<rparr>)) in
             closeRun t (startNext D t (saveRun t (set_entry k f run) n s))))"

end
