(* ===== verification/Control.thy ===== *)
theory Control
  imports Channel Api Allocation
begin

text \<open>
  The whole control plane as a machine: its state, the events that reach it, and the step each of them makes, wired as
  \<^verbatim>\<open>src/swarmlet/control/server.ts\<close> (\<open>bootControl\<close>) and \<^verbatim>\<open>src/swarmlet/control/main.ts\<close> wire it. An event
  is a socket event, an operator's call, a timer, or the resumption of an operation behind one of its awaits; every interleaving of
  them is a list of events. A resumption may come at any time: what it waited for is not tracked. Each event carries its time.
\<close>

record control_env =
  ce_deps :: deps
  ce_importKey :: "jsv \<Rightarrow> (bytes \<Rightarrow> bytes \<Rightarrow> bool) option"
  ce_sha256Hex :: "string \<Rightarrow> string"
  ce_readCaps :: "jsv \<Rightarrow> capabilities"
  ce_lanAutoEnroll :: bool
  ce_digest :: "fleet_view \<Rightarrow> string"
  ce_sort :: "topo_candidate sorter"

record control =
  ct_hub :: hub
  ct_runs :: "fleet_run list"
  ct_current :: "(fleet_run \<times> nat) option"

datatype event =
    EvOpen nat string
  | EvMessage nat "agent_message option" rat string
  | EvClose nat
  | EvSweep int int rat string
  | EvRelay string bool int
  | EvEnroll jsv
  | EvJoinCode string int
  | EvCreate string deployment_spec
  | EvStart string
  | EvStop string
  | EvRemove string
  | EvTeardown assignment_row
  | EvStopped string
  | EvRemoved string
  | EvFailureTornDown string
  | EvStage "string \<Rightarrow> bool" "string list" pending_start
  | EvReconcile
  | EvResume resume
  | EvMoveFailed string
  | EvSaveDistribution string jsv
  | EvApplyDistribution string
  | EvApplyStopped string deployment_spec nat
  | EvApplyFinished string "string option"
  | EvAcquireUpdate string string
  | EvReleaseUpdate string string
  | EvTokens string rat
  | EvInflight string int
  | EvPreview string jsv
  | EvPreviewDone string string "(preview_refusal + fleet_preview) option"
  | EvApply string
  | EvStopsSettled "string option"
  | EvEntryDone nat "string option"
  | EvShutdown
  | EvRestart

definition on_hub :: "(hub \<Rightarrow> hub \<times> hub_effect list) \<Rightarrow> control \<Rightarrow> control" where
  "on_hub f s = s\<lparr>ct_hub := fst (f (ct_hub s))\<rparr>"

definition on_mgr :: "(manager \<Rightarrow> manager) \<Rightarrow> control \<Rightarrow> control" where
  "on_mgr f = on_hub (run_mgr (\<lambda>m. (f m, [])))"

definition on_reg :: "(registry \<Rightarrow> registry) \<Rightarrow> control \<Rightarrow> control" where
  "on_reg f = on_mgr (with_reg f)"

definition on_alloc :: "(allocator \<Rightarrow> allocator) \<Rightarrow> control \<Rightarrow> control" where
  "on_alloc f s =
     (let h = ct_hub s; a = f \<lparr>al_mgr = (hb_mgr h)\<lparr>mg_online := onlineNodeIds h\<rparr>, al_runs = ct_runs s, al_current = ct_current s\<rparr> in
      \<lparr>ct_hub = h\<lparr>hb_mgr := al_mgr a\<rparr>, ct_runs = al_runs a, ct_current = al_current a\<rparr>)"

definition new_manager :: "registry \<Rightarrow> manager" where
  "new_manager r = \<lparr>mg_reg = r, mg_online = [], mg_inflight = [], mg_lease = None, mg_updateRecovery = [], mg_operations = [],
     mg_distributions = [], mg_generations = [], mg_starting = [], mg_closed = False, mg_fleetBusy = False, mg_fleetPlanning = False,
     mg_native = [], mg_reconnecting = [], mg_lastMove = [], mg_blocked = [], mg_moveExcluded = [], mg_tokens = []\<rparr>"

text \<open>A new process on the database of an old one.\<close>

definition bootControl :: "control_env \<Rightarrow> int \<Rightarrow> registry \<Rightarrow> fleet_run list \<Rightarrow> control" where
  "bootControl E t r runs =
     \<lparr>ct_hub = \<lparr>hb_mgr = restore (ce_deps E) t (new_manager (openRegistry r)), hb_socks = [], hb_conns = [], hb_logs = [], hb_relay = [],
        hb_shuttingDown = False\<rparr>,
      ct_runs = interruptRuns t runs, ct_current = None\<rparr>"

definition shutdown :: "control \<Rightarrow> control" where
  "shutdown s = (let s1 = on_hub (run_mgr dispose) s in s1\<lparr>ct_hub := (ct_hub s1)\<lparr>hb_shuttingDown := True\<rparr>\<rparr>)"

definition remove :: "string \<Rightarrow> int \<Rightarrow> manager \<Rightarrow> manager" where
  "remove i t m = (if removeRefusal i m = None then fst (snd (stop i False t m)) else m)"

fun control_step :: "control_env \<Rightarrow> control \<Rightarrow> int \<times> event \<Rightarrow> control" where
  "control_step E s (t, EvOpen k nonce) = s\<lparr>ct_hub := openSocket k nonce t (ct_hub s)\<rparr>"
| "control_step E s (t, EvMessage k raw now_ms fresh) = on_hub (message (ce_deps E) (ce_importKey E) fresh k raw t now_ms) s"
| "control_step E s (t, EvClose k) = on_hub (closeSocket (ce_deps E) k t) s"
| "control_step E s (t, EvSweep staleMs reapFactor now_ms ts) = on_hub (sweep (ce_deps E) staleMs reapFactor t now_ms ts) s"
| "control_step E s (t, EvRelay n inward k) = s\<lparr>ct_hub := countRelay n inward k t (ct_hub s)\<rparr>"
| "control_step E s (t, EvEnroll body) = on_reg (\<lambda>r. snd (handleEnroll (ce_sha256Hex E) (ce_importKey E) (ce_readCaps E) (ce_lanAutoEnroll E) body t r)) s"
| "control_step E s (t, EvJoinCode code ttlMs) = on_reg (createJoinCode code ttlMs t) s"
| "control_step E s (t, EvCreate i spec) = on_mgr (\<lambda>m. snd (create (ce_sort E) (ce_deps E) i spec t m)) s"
| "control_step E s (t, EvStart i) = on_mgr (\<lambda>m. snd (start (ce_deps E) i False False False t m)) s"
| "control_step E s (t, EvStop i) = on_mgr (\<lambda>m. fst (snd (stop i False t m))) s"
| "control_step E s (t, EvRemove i) = on_mgr (remove i t) s"
| "control_step E s (t, EvTeardown r) = on_hub (run_mgr (teardownRow r)) s"
| "control_step E s (t, EvStopped i) = on_mgr (stopFinished i t) s"
| "control_step E s (t, EvRemoved i) = on_mgr (removeFinished i t) s"
| "control_step E s (t, EvFailureTornDown i) = on_mgr (operationDone i) s"
| "control_step E s (t, EvStage ok ids p) = on_hub (run_mgr (stageStep (ce_deps E) ok ids p t)) s"
| "control_step E s (t, EvReconcile) = on_mgr (\<lambda>m. snd (reconcile (ce_deps E) t m)) s"
| "control_step E s (t, EvResume r) = on_mgr (reconcileResume (ce_deps E) t r) s"
| "control_step E s (t, EvMoveFailed i) = on_mgr (\<lambda>m. snd (moveFailed (ce_deps E) i t m)) s"
| "control_step E s (t, EvSaveDistribution i v) = on_mgr (\<lambda>m. snd (saveDistributionFor (ce_deps E) i v t m)) s"
| "control_step E s (t, EvApplyDistribution i) = on_mgr (\<lambda>m. fst (snd (applyDistribution (ce_deps E) i t m))) s"
| "control_step E s (t, EvApplyStopped i spec g) = on_mgr (applyStopped (ce_deps E) i spec g t) s"
| "control_step E s (t, EvApplyFinished i failure) = on_mgr (applyFinished i failure t) s"
| "control_step E s (t, EvAcquireUpdate n token) = on_mgr (\<lambda>m. snd (acquireUpdate n token t m)) s"
| "control_step E s (t, EvReleaseUpdate n token) = on_mgr (\<lambda>m. snd (releaseUpdate n token m)) s"
| "control_step E s (t, EvTokens i n) = on_mgr (recordTokens i n t) s"
| "control_step E s (t, EvInflight i delta) = on_mgr (trackInflight i delta) s"
| "control_step E s (t, EvPreview i v) = on_alloc (\<lambda>a. snd (previewAllocation (ce_digest E) (ce_deps E) i v t a)) s"
| "control_step E s (t, EvPreviewDone i revision result) = on_alloc (\<lambda>a. snd (previewDone (ce_digest E) (ce_deps E) i revision result t a)) s"
| "control_step E s (t, EvApply i) = on_alloc (\<lambda>a. fst (snd (applyAllocation (ce_digest E) (ce_deps E) i t a))) s"
| "control_step E s (t, EvStopsSettled refused) = on_alloc (stopsSettled (ce_deps E) refused t) s"
| "control_step E s (t, EvEntryDone k failure) = on_alloc (entryDone (ce_deps E) k failure t) s"
| "control_step E s (t, EvShutdown) = shutdown s"
| "control_step E s (t, EvRestart) = bootControl E t (mg_reg (hb_mgr (ct_hub s))) (ct_runs s)"

definition control_run :: "control_env \<Rightarrow> control \<Rightarrow> (int \<times> event) list \<Rightarrow> control" where
  "control_run E = foldl (control_step E)"

end
