(* ===== verification/Routes.thy ===== *)
theory Routes
  imports Control
begin

text \<open>
  What the router may rely on, for every run of the control plane. A deployment that is \<open>Ready\<close> has an endpoint, is wanted
  running, and is not waiting for a lost node; a start past its awaits is either superseded or not of a deployment that waits for one.
  Every handler keeps this, so it holds in every state an interleaving of events can reach from a restart, which itself withdraws
  every route. The first part gives the frames: handlers that touch nothing the invariant reads.
\<close>

subsection \<open>What routing depends on\<close>

definition core :: "manager \<Rightarrow> deployment list \<times> (string \<times> intent) list \<times> (string \<times> reconnect) list \<times> (string \<times> nat) list \<times> pending_start list" where
  "core m = (rg_deployments (mg_reg m), rg_intents (mg_reg m), mg_reconnecting m, mg_generations m, mg_starting m)"

definition ready_ok :: "manager \<Rightarrow> deployment \<Rightarrow> bool" where
  "ready_ok m d \<longleftrightarrow> (dp_state d = Ready \<longrightarrow> dp_endpoint d \<noteq> None \<and> running m (dp_id d) \<and> \<not> isReconnecting m (dp_id d))"

definition start_ok :: "manager \<Rightarrow> pending_start \<Rightarrow> bool" where
  "start_ok m p \<longleftrightarrow> ps_generation p \<le> generation m (dp_id (ps_dep p)) \<and>
     (ps_generation p = generation m (dp_id (ps_dep p)) \<longrightarrow> \<not> isReconnecting m (dp_id (ps_dep p)))"

definition route_inv_but :: "string set \<Rightarrow> manager \<Rightarrow> bool" where
  "route_inv_but X m \<longleftrightarrow>
     (\<forall>d \<in> set (rg_deployments (mg_reg m)). dp_id d \<notin> X \<longrightarrow> ready_ok m d) \<and> (\<forall>p \<in> set (mg_starting m). start_ok m p)"

abbreviation route_inv :: "manager \<Rightarrow> bool" where
  "route_inv \<equiv> route_inv_but {}"

lemma route_inv_core: "core m' = core m \<Longrightarrow> route_inv_but X m' = route_inv_but X m"
  by (simp add: core_def route_inv_but_def ready_ok_def start_ok_def running_def isReconnecting_def generation_def deploymentIntent_def)

lemma route_inv_weaken: "route_inv_but X m \<Longrightarrow> X \<subseteq> Y \<Longrightarrow> route_inv_but Y m"
  by (auto simp: route_inv_but_def)

subsection \<open>Frames\<close>

lemma core_reg:
  assumes "rg_deployments (f (mg_reg m)) = rg_deployments (mg_reg m)" and "rg_intents (f (mg_reg m)) = rg_intents (mg_reg m)"
  shows "core (with_reg f m) = core m"
  using assms by (simp add: core_def with_reg_def)

lemma rows_frame [simp]:
  "rg_deployments (update_row i f r) = rg_deployments r" "rg_intents (update_row i f r) = rg_intents r"
  "rg_deployments (putAssignment a r) = rg_deployments r" "rg_intents (putAssignment a r) = rg_intents r"
  "rg_deployments (retireAssignment i r) = rg_deployments r" "rg_intents (retireAssignment i r) = rg_intents r"
  "rg_deployments (setAssignmentState i s d t r) = rg_deployments r" "rg_intents (setAssignmentState i s d t r) = rg_intents r"
  by (simp_all add: update_row_def putAssignment_def retireAssignment_def setAssignmentState_def)

lemma nodes_frame [simp]:
  "rg_deployments (update_node i f r) = rg_deployments r" "rg_intents (update_node i f r) = rg_intents r"
  by (simp_all add: update_node_def)

lemma core_frame [simp]:
  "core (enqueue i m) = core m" "core (operationDone i m) = core m" "core (set_lastMove i t m) = core m"
  "core (exclude_nodes i ns t m) = core m" "core (forgetExclusion n m) = core m" "core (clearExclusions i m) = core m"
  "core (m\<lparr>mg_blocked := b\<rparr>) = core m" "core (m\<lparr>mg_lease := l\<rparr>) = core m" "core (m\<lparr>mg_moveExcluded := x\<rparr>) = core m"
  "core (m\<lparr>mg_native := nt\<rparr>) = core m" "core (m\<lparr>mg_closed := c\<rparr>) = core m" "core (m\<lparr>mg_online := ns\<rparr>) = core m"
  "core (m\<lparr>mg_inflight := q\<rparr>) = core m" "core (m\<lparr>mg_updateRecovery := u\<rparr>) = core m" "core (m\<lparr>mg_tokens := tk\<rparr>) = core m"
  by (simp_all add: core_def enqueue_def operationDone_def set_lastMove_def exclude_nodes_def forgetExclusion_def clearExclusions_def
      split: option.splits)

lemma core_blockPlacement [simp]: "core (blockPlacement tm i p why t m) = core m"
  by (simp add: blockPlacement_def Let_def)

lemma core_blockedUntil [simp]: "core (snd (blockedUntil i p t m)) = core m"
  by (simp add: blockedUntil_def Let_def split: option.splits)

lemma core_updatingNode [simp]: "core (snd (updatingNode t m)) = core m"
  by (simp add: updatingNode_def Let_def split: option.splits)

lemma core_freshExclusion [simp]: "core (snd (freshExclusion r t m)) = core m"
  by (simp add: freshExclusion_def split: option.splits)

lemma core_planSpec [simp]: "core (snd (planSpec D s r x t m)) = core m"
proof -
  obtain a m' where f: "freshExclusion r t m = (a, m')" by fastforce
  then have "core m' = core m" using core_freshExclusion[of r t m] by simp
  then show ?thesis by (simp add: planSpec_def f Let_def split: option.splits sum.splits)
qed

lemma core_planFor [simp]: "core (snd (planFor D d t m)) = core m"
proof -
  obtain r m1 where p: "planSpec D (dp_spec d) (Some (dp_id d)) [] t m = (r, m1)" by fastforce
  then have "core m1 = core m" using core_planSpec[of D "dp_spec d" "Some (dp_id d)" "[]" t m] by simp
  moreover have "core m2 = core m1" if "blockedUntil (dp_id d) pl t m1 = (b, m2)" for pl b m2
    using core_blockedUntil[of "dp_id d" pl t m1] that by simp
  ultimately show ?thesis by (auto simp: planFor_def p split: sum.splits prod.splits option.splits)
qed

lemma core_chooseAutoLoop [simp]: "core (snd (chooseAutoLoop D b r x t ps m)) = core m"
proof (induction ps arbitrary: m)
  case (Cons pk ps)
  obtain p k where pk: "pk = (p, k)" by fastforce
  obtain o' m' where o: "planSpec D (autoSpec b p k) r x t m = (o', m')" by fastforce
  then have "core m' = core m" using core_planSpec[of D "autoSpec b p k" r x t m] by simp
  then show ?case using Cons.IH[of m'] by (simp add: pk o split: sum.splits)
qed simp

lemma core_chooseAuto [simp]: "core (snd (chooseAuto D b r x t m)) = core m"
  by (simp add: chooseAuto_def)

lemma route_inv_frame: "core m' = core m \<Longrightarrow> route_inv_but X m \<Longrightarrow> route_inv_but X m'"
  using route_inv_core by blast

subsection \<open>Primitive updates\<close>

lemma views_set_dep [simp]:
  "running (set_dep i p t m) j = running m j" "isReconnecting (set_dep i p t m) j = isReconnecting m j"
  "generation (set_dep i p t m) j = generation m j" "mg_starting (set_dep i p t m) = mg_starting m"
  "mg_closed (set_dep i p t m) = mg_closed m" "mg_operations (set_dep i p t m) = mg_operations m"
  by (simp_all add: set_dep_def with_reg_def running_def isReconnecting_def generation_def deploymentIntent_def updateDeployment_def
      update_dep_def)

lemma views_set_intent [simp]:
  "running (set_intent i r a y m) j = (if j = i then patched r (running m i) else running m j)"
  "isReconnecting (set_intent i r a y m) j = isReconnecting m j" "generation (set_intent i r a y m) j = generation m j"
  "mg_starting (set_intent i r a y m) = mg_starting m" "rg_deployments (mg_reg (set_intent i r a y m)) = rg_deployments (mg_reg m)"
  "mg_closed (set_intent i r a y m) = mg_closed m" "mg_operations (set_intent i r a y m) = mg_operations m"
  by (auto simp: set_intent_def with_reg_def running_def isReconnecting_def generation_def deploymentIntent_def setDeploymentIntent_def
      Let_def update_conv' split: option.splits)

lemma start_ok_set_dep [simp]: "start_ok (set_dep i p t m) = start_ok m"
  by (simp add: start_ok_def fun_eq_iff)

lemma deployments_set_dep:
  "rg_deployments (mg_reg (set_dep i p t m)) = map (\<lambda>d. if dp_id d = i then
     d\<lparr>dp_state := patched (dpp_state p) (dp_state d), dp_plan := patched (dpp_plan p) (dp_plan d),
       dp_endpoint := patched (dpp_endpoint p) (dp_endpoint d), dp_error := patched (dpp_error p) (dp_error d),
       dp_spec := patched (map_option stored_spec (dpp_spec p)) (dp_spec d), dp_updatedAt := t\<rparr> else d) (rg_deployments (mg_reg m))"
  by (simp add: set_dep_def with_reg_def updateDeployment_def update_dep_def)

lemma patched_simps [simp]: "patched None x = x" "patched (Some y) x = y"
  by (simp_all add: patched_def)

lemma inv_set_dep_kept:
  "dpp_state p = None \<Longrightarrow> dpp_endpoint p = None \<Longrightarrow> route_inv_but X m \<Longrightarrow> route_inv_but X (set_dep i p t m)"
  by (auto simp: route_inv_but_def deployments_set_dep ready_ok_def)

lemma inv_set_dep_down:
  "dpp_state p = Some s \<Longrightarrow> s \<noteq> Ready \<Longrightarrow> route_inv_but (insert i X) m \<Longrightarrow> route_inv_but X (set_dep i p t m)"
  by (auto simp: route_inv_but_def deployments_set_dep ready_ok_def)

lemma inv_set_dep_ready:
  "dpp_state p = Some Ready \<Longrightarrow> dpp_endpoint p = Some (Some e) \<Longrightarrow> running m i \<Longrightarrow> \<not> isReconnecting m i \<Longrightarrow>
   route_inv_but (insert i X) m \<Longrightarrow> route_inv_but X (set_dep i p t m)"
  by (auto simp: route_inv_but_def deployments_set_dep ready_ok_def)

lemma inv_insert: "route_inv_but X m \<Longrightarrow> route_inv_but (insert i X) m"
  by (auto simp: route_inv_but_def)

lemma inv_set_intent: "r \<noteq> Some False \<Longrightarrow> route_inv_but X m \<Longrightarrow> route_inv_but X (set_intent i r a y m)"
  by (cases r) (auto simp: route_inv_but_def ready_ok_def start_ok_def)

lemma inv_set_intent_any: "route_inv_but X m \<Longrightarrow> route_inv_but (insert i X) (set_intent i r a y m)"
  by (auto simp: route_inv_but_def ready_ok_def start_ok_def)

lemma map_of_del: "map_of (del i kvs) j = (if j = i then None else map_of kvs j)"
  by (induction kvs) (auto simp: del_def)

lemma views_del_reconnecting [simp]:
  "running (m\<lparr>mg_reconnecting := r\<rparr>) j = running m j" "generation (m\<lparr>mg_reconnecting := r\<rparr>) j = generation m j"
  "isReconnecting (m\<lparr>mg_reconnecting := del i (mg_reconnecting m)\<rparr>) j = (j \<noteq> i \<and> isReconnecting m j)"
  "isReconnecting (m\<lparr>mg_reconnecting := AList.update i x (mg_reconnecting m)\<rparr>) j = (j = i \<or> isReconnecting m j)"
  by (simp_all add: running_def generation_def isReconnecting_def map_of_del update_conv')

lemma inv_del_reconnecting: "route_inv_but X m \<Longrightarrow> route_inv_but X (m\<lparr>mg_reconnecting := del i (mg_reconnecting m)\<rparr>)"
  by (auto simp: route_inv_but_def ready_ok_def start_ok_def)

lemma views_cancel [simp]:
  "running (fst (cancel i m)) j = running m j" "isReconnecting (fst (cancel i m)) j = isReconnecting m j"
  "generation (fst (cancel i m)) j = (if j = i then Suc (generation m i) else generation m j)"
  "mg_starting (fst (cancel i m)) = mg_starting m" "mg_reg (fst (cancel i m)) = mg_reg m" "mg_closed (fst (cancel i m)) = mg_closed m"
  "mg_reconnecting (fst (cancel i m)) = mg_reconnecting m" "mg_online (fst (cancel i m)) = mg_online m" "mg_lease (fst (cancel i m)) = mg_lease m"
  by (simp_all add: cancel_def running_def isReconnecting_def generation_def lookup_def update_conv')

lemma inv_cancel: "route_inv_but X m \<Longrightarrow> route_inv_but X (fst (cancel i m))"
  by (auto simp: route_inv_but_def ready_ok_def start_ok_def)

lemma inv_cancel_reconnect:
  assumes "route_inv_but X m"
  shows "route_inv_but (insert i X) ((fst (cancel i m))\<lparr>mg_reconnecting := AList.update i x (mg_reconnecting m)\<rparr>)"
proof -
  have "isReconnecting ((fst (cancel i m))\<lparr>mg_reconnecting := AList.update i x (mg_reconnecting m)\<rparr>) j = (j = i \<or> isReconnecting m j)" for j
    by (simp add: isReconnecting_def update_conv')
  then show ?thesis using assms
    by (auto simp: route_inv_but_def ready_ok_def start_ok_def)
qed

lemma inv_observeReconnect: "route_inv_but X m \<Longrightarrow> route_inv_but X (observeReconnect D i t m)"
proof -
  assume inv: "route_inv_but X m"
  let ?o = "observeReconnect D i t m"
  have "isReconnecting ?o j = isReconnecting m j" for j
    by (auto simp: observeReconnect_def isReconnecting_def update_conv' split: option.splits)
  moreover have "running ?o j = running m j" "generation ?o j = generation m j" for j
    by (auto simp: observeReconnect_def running_def generation_def split: option.splits)
  moreover have "mg_starting ?o = mg_starting m" "mg_reg ?o = mg_reg m"
    by (auto simp: observeReconnect_def split: option.splits)
  ultimately show ?thesis using inv by (simp add: route_inv_but_def ready_ok_def start_ok_def)
qed

lemma each_induct:
  assumes "\<And>x m. x \<in> set xs \<Longrightarrow> P m \<Longrightarrow> P (fst (f x m))" and "P m"
  shows "P (fst (each f xs m))"
  using assms
proof (induction xs arbitrary: m)
  case (Cons x xs)
  obtain m1 e1 where f: "f x m = (m1, e1)" by fastforce
  obtain m2 e2 where e: "each f xs m1 = (m2, e2)" by fastforce
  have "P m1" using Cons.prems(1)[of x m] Cons.prems(2) f by simp
  then have "P (fst (each f xs m1))" using Cons.IH Cons.prems(1) by simp
  then show ?case by (simp add: f e)
qed simp

subsection \<open>Every handler keeps the routes sound\<close>

lemma inv_scheduleRecovery: "route_inv_but X m \<Longrightarrow> route_inv_but X (scheduleRecovery D i t m)"
  by (simp add: scheduleRecovery_def Let_def inv_set_intent)

lemma inv_down: "route_inv_but X m \<Longrightarrow> s \<noteq> Ready \<Longrightarrow> dpp_state p = Some s \<Longrightarrow> route_inv_but X (set_dep i p t m)"
  by (rule inv_set_dep_down) (auto intro: inv_insert)

lemma no_patch_simps [simp]: "dpp_state no_patch = None" "dpp_endpoint no_patch = None"
  by (simp_all add: no_patch_def)

lemma inv_recordFailure: "route_inv_but X m \<Longrightarrow> route_inv_but X (recordFailure D i why t m)"
  unfolding recordFailure_def
  by (intro inv_scheduleRecovery inv_down[where s = Failed] inv_del_reconnecting) simp_all

lemma inv_fail: "route_inv_but X m \<Longrightarrow> route_inv_but X (fst (fail D i why t m))"
proof -
  assume inv: "route_inv_but X m"
  obtain m1 e where c: "cancel i m = (m1, e)" by fastforce
  have "route_inv_but X m1" using inv_cancel[OF inv, of i] by (simp add: c)
  then have "route_inv_but X (enqueue i (recordFailure D i why t m1))"
    by (auto intro: route_inv_frame[OF core_frame(1)] inv_recordFailure)
  then show ?thesis using inv by (simp add: fail_def c split: option.splits)
qed

lemma inv_finishDraining: "route_inv_but X m \<Longrightarrow> route_inv_but X (finishDraining i t m)"
  by (simp add: finishDraining_def inv_down[where s = Stopped])

lemma inv_offlineOne: "route_inv_but X m \<Longrightarrow> route_inv_but X (fst (offlineOne D n t d m))"
proof -
  assume inv: "route_inv_but X m"
  let ?i = "dp_id d"
  obtain m1 e where c: "cancel ?i m = (m1, e)" by fastforce
  have rec: "mg_reconnecting m1 = mg_reconnecting m" using views_cancel(7)[of ?i m] by (simp add: c)
  have "route_inv_but X (enqueue ?i (set_dep ?i p t (m1\<lparr>mg_reconnecting := AList.update ?i x (mg_reconnecting m1)\<rparr>)))"
    if "dpp_state p = Some Loading" for p x
    using inv_cancel_reconnect[OF inv, of ?i x] that
    by (intro route_inv_frame[OF core_frame(1)] inv_set_dep_down[where s = Loading]) (simp_all add: c rec)
  then show ?thesis
    using inv by (simp add: offlineOne_def Let_def c inv_down[where s = Loading] del: views_del_reconnecting)
qed

lemma inv_onOffline: "route_inv_but X m \<Longrightarrow> route_inv_but X (fst (onOffline D n t m))"
  unfolding onOffline_def by (rule each_induct) (auto intro: inv_offlineOne)

lemma inv_engineLost: "route_inv_but X m \<Longrightarrow> route_inv_but X (fst (engineLost D n rid detail t d m))"
  unfolding engineLost_def Let_def
  by (auto intro!: inv_onOffline inv_fail split: option.splits intro: route_inv_frame[OF core_blockPlacement])

lemma inv_externalWatch:
  assumes "route_inv_but X m" and "running m (dp_id d)" and "\<not> isReconnecting m (dp_id d)"
  shows "route_inv_but X (externalWatch D n st detail t d m)"
proof -
  note ready = inv_set_dep_ready[OF _ _ assms(2,3) inv_insert[OF assms(1)]]
  show ?thesis
  proof (cases "(st = AFailed \<or> st = AStopped) \<and> dp_state d = Ready")
    case True
    then show ?thesis unfolding externalWatch_def if_P[OF True] by (intro inv_down[OF assms(1), where s = Loading]) simp_all
  next
    case False
    show ?thesis
      unfolding externalWatch_def if_not_P[OF False]
      by (cases "sp_external (dp_spec d)") (simp_all add: assms(1) ready)
  qed
qed

lemma inv_stateForDeployment: "route_inv_but X m \<Longrightarrow> route_inv_but X (fst (stateForDeployment D n row st detail t d m))"
proof -
  assume inv: "route_inv_but X m"
  define m1 where "m1 = (if st = AStopped then finishDraining (dp_id d) t m else m)"
  have m1: "route_inv_but X m1" using inv inv_finishDraining by (simp add: m1_def)
  show ?thesis
    unfolding stateForDeployment_def Let_def m1_def[symmetric]
    by (simp add: m1 inv_engineLost inv_externalWatch)
qed

lemma inv_onAssignmentState: "route_inv_but X m \<Longrightarrow> route_inv_but X (fst (onAssignmentState D n i st detail t m))"
proof -
  assume inv: "route_inv_but X m"
  have "route_inv_but X m1" if "stateForDeployment D n row st detail t d m = (m1, e)" for row d m1 e
    using inv_stateForDeployment[OF inv, of D n row st detail t d] that by simp
  then show ?thesis using inv by (auto simp: onAssignmentState_def split: option.splits prod.splits)
qed

lemma inv_rows: "route_inv_but X m \<Longrightarrow> (\<And>r. rg_deployments (f r) = rg_deployments r) \<Longrightarrow> (\<And>r. rg_intents (f r) = rg_intents r) \<Longrightarrow>
    route_inv_but X (with_reg f m)"
  by (rule route_inv_frame[OF core_reg])

lemma inv_helloRow: "route_inv_but X m \<Longrightarrow> route_inv_but X (fst (snd (helloRow D n reported t row seen m)))"
  unfolding helloRow_def Let_def
  by (simp add: case_prod_unfold inv_fail inv_onAssignmentState inv_rows)

lemma inv_helloRows: "route_inv_but X m \<Longrightarrow> route_inv_but X (fst (helloRows D n reported t rs seen m))"
proof (induction rs arbitrary: seen m)
  case (Cons r rs)
  then show ?case by (simp add: case_prod_unfold Let_def inv_helloRow)
qed simp

lemma inv_onHello: "route_inv_but X m \<Longrightarrow> route_inv_but X (fst (onHello D n reported t m))"
proof -
  assume inv: "route_inv_but X m"
  have "route_inv_but X (foldl (\<lambda>m (i, x). if n \<in> set (rc_nodes x) then observeReconnect D i t m else m) m xs)"
    if "route_inv_but X m" for xs m
    using that by (induction xs arbitrary: m) (simp_all add: inv_observeReconnect case_prod_unfold)
  with inv show ?thesis by (simp add: onHello_def Let_def case_prod_unfold) (blast intro: inv_helloRows)
qed

lemma route_inv_clear: "route_inv_but X m \<Longrightarrow> dp_id ` {d \<in> set (rg_deployments (mg_reg m)). dp_state d = Ready} \<inter> X = {} \<Longrightarrow> route_inv m"
  by (auto simp: route_inv_but_def ready_ok_def)

lemma inv_unroute:
  "dpp_state p = None \<Longrightarrow> \<not> running m i \<Longrightarrow> route_inv_but X m \<Longrightarrow> route_inv_but X (set_dep i p t m)"
  by (auto simp: route_inv_but_def deployments_set_dep ready_ok_def)

lemma inv_restoreOne: "route_inv_but X m \<Longrightarrow> route_inv_but X (snd (restoreOne D t d seen m))"
proof -
  assume inv: "route_inv_but X m"
  have dup: "route_inv_but X (set_dep i p t (set_intent i (Some False) None None m))" if "dpp_state p = Some Stopped" for i p
    by (rule inv_set_dep_down[OF that _ inv_set_intent_any[OF inv]]) simp
  show ?thesis
    unfolding restoreOne_def Let_def
    using inv
    by (auto simp: dup inv_unroute inv_down[where s = Draining] inv_down[where s = Loading] inv_down[where s = Failed] inv_scheduleRecovery
        split: deployment_kind.splits option.splits)
qed

lemma inv_restore: "route_inv m \<Longrightarrow> route_inv (restore D t m)"
proof -
  assume inv: "route_inv m"
  have "route_inv (snd (foldl (\<lambda>(seen, m) d. restoreOne D t d seen m) (seen, m) ds))" if "route_inv m" for seen m ds
    using that
  proof (induction ds arbitrary: seen m)
    case (Cons d ds)
    obtain s' m' where r: "restoreOne D t d seen m = (s', m')" by fastforce
    then show ?case using Cons.IH[of m' s'] inv_restoreOne[OF Cons.prems, of D t d seen] by simp
  qed simp
  from this[OF inv] show ?thesis by (simp add: restore_def)
qed

lemma inv_admitStart: "route_inv m \<Longrightarrow> route_inv (admitStart d recovering t m)"
proof -
  assume inv: "route_inv m"
  let ?i = "dp_id d"
  define m1 where "m1 = m\<lparr>mg_reconnecting := del ?i (mg_reconnecting m)\<rparr>"
  define m2 where "m2 = (if recovering then set_intent ?i (Some True) None None m1 else set_intent ?i (Some True) (Some 0) (Some 0) m1)"
  define m3 where "m3 = set_dep ?i ((patch_route Placing)\<lparr>dpp_error := Some None\<rparr>) t m2"
  have "route_inv m1" unfolding m1_def by (rule inv_del_reconnecting[OF inv])
  then have "route_inv m2" by (simp add: m2_def inv_set_intent)
  then have m3: "route_inv m3" unfolding m3_def by (intro inv_down[where s = Placing]) simp_all
  have no: "\<not> isReconnecting m3 ?i" by (simp add: m3_def m2_def m1_def)
  let ?m = "m3\<lparr>mg_starting := mg_starting m3 @
        [\<lparr>ps_dep = d, ps_generation = generation m3 ?i, ps_stage = Cleaning, ps_plan = None, ps_nodes = [], ps_endpoint = None\<rparr>]\<rparr>"
  have v: "running ?m j = running m3 j" "isReconnecting ?m j = isReconnecting m3 j" "generation ?m j = generation m3 j" for j
    by (simp_all add: running_def isReconnecting_def generation_def)
  have "route_inv ?m" using m3 no by (auto simp: route_inv_but_def ready_ok_def start_ok_def v)
  then show ?thesis
    unfolding admitStart_def Let_def m1_def[symmetric] m2_def[symmetric] m3_def[symmetric]
    by (rule route_inv_frame[OF core_frame(1)])
qed

lemma inv_start: "route_inv m \<Longrightarrow> route_inv (snd (start D i recovering token fromReady t m))"
proof -
  assume inv: "route_inv m"
  define m0 where "m0 = (if recovering then m else clearExclusions i m)"
  have m0: "route_inv m0" using inv by (auto simp: m0_def intro: route_inv_frame[OF core_frame(6)])
  have u: "route_inv (snd (if mg_closed m0 then (None, m0) else updatingNode t m0))"
    using m0 by (auto intro: route_inv_frame[OF core_updatingNode])
  then show ?thesis
    unfolding start_def Let_def m0_def[symmetric]
    by (auto simp: m0 case_prod_unfold intro: inv_admitStart split: option.splits)
qed

lemma inv_stop: "route_inv m \<Longrightarrow> route_inv (fst (snd (stop i token t m)))"
proof -
  assume inv: "route_inv m"
  define m1 where "m1 = m\<lparr>mg_reconnecting := del i (mg_reconnecting m), mg_blocked := del i (mg_blocked m)\<rparr>"
  have "route_inv m1"
    unfolding m1_def by (rule route_inv_frame[OF core_frame(7)[where m = "m\<lparr>mg_reconnecting := del i (mg_reconnecting m)\<rparr>"] inv_del_reconnecting[OF inv]])
  then have "route_inv_but {i} (fst (cancel i (set_intent i (Some False) (Some 0) (Some 0) m1)))"
    by (intro inv_cancel inv_set_intent_any)
  then have "route_inv (enqueue i (set_dep i (patch_route Draining) t (fst (cancel i (set_intent i (Some False) (Some 0) (Some 0) m1)))))"
    by (intro route_inv_frame[OF core_frame(1)] inv_set_dep_down[where s = Draining]) simp_all
  then show ?thesis using inv by (simp add: stop_def Let_def m1_def[symmetric] case_prod_unfold)
qed

lemma inv_stopFinished: "route_inv m \<Longrightarrow> route_inv (stopFinished i t m)"
  by (auto simp: stopFinished_def intro!: route_inv_frame[OF core_frame(2)] inv_down[where s = Stopped])

lemma inv_removeFinished: "route_inv m \<Longrightarrow> route_inv (removeFinished i t m)"
proof -
  assume inv: "route_inv m"
  have "route_inv (with_reg (deleteDeployment i) m)" if "route_inv m" for m
  proof -
    have "map_of (filter (\<lambda>(k, _). k \<noteq> i) kvs) j = (if j = i then None else map_of kvs j)" for kvs :: "(string \<times> intent) list" and j
      by (induction kvs) auto
    then have "running (with_reg (deleteDeployment i) m) j = running m j" if "j \<noteq> i" for j
      using that by (simp add: running_def with_reg_def deleteDeployment_def deploymentIntent_def)
    moreover have "isReconnecting (with_reg (deleteDeployment i) m) j = isReconnecting m j"
      "generation (with_reg (deleteDeployment i) m) j = generation m j" for j
      by (simp_all add: isReconnecting_def generation_def with_reg_def)
    ultimately show ?thesis
      using that by (auto simp: route_inv_but_def ready_ok_def start_ok_def with_reg_def deleteDeployment_def)
  qed
  then show ?thesis
    using inv inv_stopFinished by (auto simp: removeFinished_def intro: route_inv_frame[OF core_frame(2)])
qed

subsection \<open>The stages of a start\<close>

lemma core_assignAll: "core (fst (snd (assignAll ok off rs m))) = core m"
proof (induction rs arbitrary: m)
  case (Cons r rs)
  have "core (with_reg (putAssignment r) m) = core m" by (rule core_reg) simp_all
  then show ?case using Cons.IH[of "with_reg (putAssignment r) m"] by (simp add: Let_def case_prod_unfold)
qed simp

declare assignAll.simps [simp del]

lemma inv_advance:
  assumes "route_inv m" and "p \<in> set (mg_starting m)" and "ps_dep q = ps_dep p" and "ps_generation q = ps_generation p"
  shows "route_inv (advance p q m)"
proof -
  have v: "running (advance p q m) j = running m j" "isReconnecting (advance p q m) j = isReconnecting m j"
    "generation (advance p q m) j = generation m j" for j
    by (simp_all add: advance_def running_def isReconnecting_def generation_def)
  have "set (mg_starting (advance p q m)) \<subseteq> insert q (set (mg_starting m))" "mg_reg (advance p q m) = mg_reg m"
    by (auto simp: advance_def)
  moreover have "start_ok m q" using assms by (auto simp: route_inv_but_def start_ok_def)
  ultimately show ?thesis using assms(1) by (auto simp: route_inv_but_def ready_ok_def start_ok_def v)
qed

lemma inv_dispatch:
  assumes "route_inv m" and "p \<in> set (mg_starting m)" and "ps_dep q = ps_dep p" and "ps_generation q = ps_generation p"
  shows "route_inv (fst (snd (then_advance p q (assignAll ok off rs m))))"
proof -
  obtain x m1 e where a: "assignAll ok off rs m = (x, m1, e)" by (metis prod_cases3)
  have c: "core m1 = core m" using core_assignAll[of ok off rs m] by (simp add: a)
  then have "route_inv m1" "p \<in> set (mg_starting m1)" using assms(1,2) route_inv_core[OF c] by (auto simp: core_def)
  then show ?thesis using inv_advance assms(3,4) by (simp add: a then_advance_def split: option.splits)
qed

lemma starting_core: "core m' = core m \<Longrightarrow> mg_starting m' = mg_starting m"
  by (simp add: core_def)

lemma inv_startExternal:
  assumes "route_inv m" and "p \<in> set (mg_starting m)"
  shows "route_inv (fst (snd (startExternal D ok ids p t m)))"
proof -
  have "route_inv (set_dep i (no_patch\<lparr>dpp_state := Some Loading, dpp_plan := Some None\<rparr>) t m)" for i
    by (rule inv_down[OF assms(1), where s = Loading]) simp_all
  then show ?thesis
    unfolding startExternal_def Let_def by (simp add: assms inv_dispatch split: option.split sum.split)
qed

lemma inv_startReplica:
  assumes "route_inv m" and "p \<in> set (mg_starting m)"
  shows "route_inv (fst (snd (startReplica D ok ids p t m)))"
proof -
  obtain r m1 where r: "planFor D (ps_dep p) t m = (r, m1)" by fastforce
  have c: "core m1 = core m" using core_planFor[of D "ps_dep p" t m] by (simp add: r)
  have m1: "route_inv m1" "p \<in> set (mg_starting m1)" using assms route_inv_frame[OF c] starting_core[OF c] by auto
  have "route_inv (set_dep i (no_patch\<lparr>dpp_plan := Some (Some pl), dpp_state := Some Loading\<rparr>) t m1)" for i pl
    by (rule inv_down[OF m1(1), where s = Loading]) simp_all
  then show ?thesis
    unfolding startReplica_def Let_def r by (cases r) (simp_all add: m1 inv_dispatch split: sum.split)
qed

lemma inv_startNative:
  assumes "route_inv m" and "p \<in> set (mg_starting m)"
  shows "route_inv (fst (snd (startNative D ok ids p t m)))"
proof -
  obtain r m1 where r: "planSpec D (dp_spec (ps_dep p)) (Some (dp_id (ps_dep p))) [] t m = (r, m1)" by fastforce
  have c: "core m1 = core m" using core_planSpec[of D "dp_spec (ps_dep p)" "Some (dp_id (ps_dep p))" "[]" t m] by (simp add: r)
  have m1: "route_inv m1" "p \<in> set (mg_starting m1)" using assms route_inv_frame[OF c] starting_core[OF c] by auto
  have "route_inv (set_dep i (no_patch\<lparr>dpp_plan := Some (Some pl), dpp_state := Some Loading\<rparr>) t m1)" for i pl
    by (rule inv_down[OF m1(1), where s = Loading]) simp_all
  then show ?thesis
    unfolding startNative_def Let_def r
    by (cases r) (simp_all add: m1 inv_dispatch split: option.split)
qed

lemma inv_startSplit:
  assumes "route_inv m" and "p \<in> set (mg_starting m)"
  shows "route_inv (fst (snd (startSplit D ok ids p t m)))"
proof -
  obtain r m1 where r: "planFor D (ps_dep p) t m = (r, m1)" by fastforce
  have c: "core m1 = core m" using core_planFor[of D "ps_dep p" t m] by (simp add: r)
  have m1: "route_inv m1" "p \<in> set (mg_starting m1)" using assms route_inv_frame[OF c] starting_core[OF c] by auto
  have "route_inv (set_dep i (no_patch\<lparr>dpp_plan := Some (Some pl)\<rparr>) t m1)" for i pl
    by (rule inv_set_dep_kept[OF _ _ m1(1)]) simp_all
  then show ?thesis
    unfolding startSplit_def Let_def r by (cases r) (simp_all add: m1 inv_dispatch split: sum.split)
qed

lemma inv_startCoordinator:
  assumes "route_inv m" and "p \<in> set (mg_starting m)"
  shows "route_inv (fst (snd (startCoordinator D ok ids p t m)))"
proof -
  have "route_inv (set_dep i (no_patch\<lparr>dpp_state := Some Loading\<rparr>) t m)" for i
    by (rule inv_down[OF assms(1), where s = Loading]) simp_all
  then show ?thesis
    unfolding startCoordinator_def Let_def by (intro inv_dispatch) (simp_all add: assms)
qed

lemma inv_forget_start: "route_inv m \<Longrightarrow> route_inv (m\<lparr>mg_starting := remove1 p (mg_starting m)\<rparr>)"
proof -
  assume inv: "route_inv m"
  let ?m = "m\<lparr>mg_starting := remove1 p (mg_starting m)\<rparr>"
  have "running ?m j = running m j" "isReconnecting ?m j = isReconnecting m j" "generation ?m j = generation m j" for j
    by (simp_all add: running_def isReconnecting_def generation_def)
  then show ?thesis using inv notin_set_remove1[of _ "mg_starting m" p] by (auto simp: route_inv_but_def ready_ok_def start_ok_def)
qed

lemma inv_engineReady:
  assumes "route_inv m" and "p \<in> set (mg_starting m)" and "isRunning m p"
  shows "route_inv (fst (snd (engineReady p t m)))"
proof -
  let ?i = "dp_id (ps_dep p)"
  define m1 where "m1 = (if sp_kind (dp_spec (ps_dep p)) \<in> {Stages, PrefillDecode} then m\<lparr>mg_native := ?i # removeAll ?i (mg_native m)\<rparr> else m)"
  have c: "core m1 = core m" by (simp add: m1_def)
  have inv: "route_inv m1" by (rule route_inv_frame[OF c assms(1)])
  have "running m ?i" "\<not> isReconnecting m ?i" using assms by (auto simp: isRunning_def route_inv_but_def start_ok_def)
  then have up: "running m1 ?i" "\<not> isReconnecting m1 ?i" using c by (simp_all add: core_def running_def isReconnecting_def deploymentIntent_def)
  have "route_inv (set_dep ?i (no_patch\<lparr>dpp_state := Some Ready, dpp_endpoint := Some (Some e)\<rparr>) t m1)" for e
    by (rule inv_set_dep_ready[OF _ _ up inv_insert[OF inv]]) simp_all
  then have "route_inv (operationDone ?i ((set_dep ?i (no_patch\<lparr>dpp_state := Some Ready, dpp_endpoint := Some (Some e)\<rparr>) t m1)
      \<lparr>mg_starting := remove1 p (mg_starting (set_dep ?i (no_patch\<lparr>dpp_state := Some Ready, dpp_endpoint := Some (Some e)\<rparr>) t m1))\<rparr>))" for e
    by (intro route_inv_frame[OF core_frame(2)] inv_forget_start)
  then show ?thesis
    unfolding engineReady_def Let_def m1_def[symmetric] by (simp add: inv split: option.split)
qed

lemma inv_stage:
  assumes "route_inv m" and "p \<in> set (mg_starting m)"
  shows "route_inv (fst (snd (stage D ok ids p t m)))"
  using assms
  by (auto simp: stage_def inv_engineReady inv_startCoordinator inv_startExternal inv_startReplica inv_startSplit inv_startNative
      split: start_stage.split deployment_kind.split)

lemma inv_startFailed: "route_inv m \<Longrightarrow> route_inv (fst (startFailed D p why t m))"
  unfolding startFailed_def Let_def
  by (auto intro: inv_recordFailure inv_forget_start route_inv_frame[OF core_frame(2)])

lemma inv_stageStep: "route_inv m \<Longrightarrow> route_inv (fst (stageStep D ok ids p t m))"
proof -
  assume inv: "route_inv m"
  obtain x m1 e where s: "stage D ok ids p t m = (x, m1, e)" by (metis prod_cases3)
  have "route_inv m1" if "p \<in> set (mg_starting m)" using inv_stage[OF inv that, of D ok ids t] by (simp add: s)
  then show ?thesis using inv by (simp add: stageStep_def s case_prod_unfold Let_def inv_startFailed split: option.split)
qed

subsection \<open>Moves, reconciliation and the channel\<close>

lemma inv_redecideModel: "route_inv m \<Longrightarrow> route_inv (snd (redecideModel D d t m))"
proof -
  assume inv: "route_inv m"
  define ex where "ex = (case map_of (mg_moveExcluded m) (dp_id d) of Some x \<Rightarrow> xc_nodes x | None \<Rightarrow> [])"
  obtain r m1 where c: "chooseAuto D (dp_spec d) (Some (dp_id d)) ex t m = (r, m1)" by fastforce
  have "route_inv m1"
    using route_inv_frame[OF core_chooseAuto inv, of D "dp_spec d" "Some (dp_id d)" ex t] by (simp add: c)
  then show ?thesis
    using inv by (simp add: redecideModel_def Let_def ex_def[symmetric] c inv_set_dep_kept split: option.split)
qed

lemma inv_set_lastMove: "route_inv m \<Longrightarrow> route_inv (set_lastMove i t m)"
  by (rule route_inv_frame[OF core_frame(3)])

lemma inv_planSpec: "route_inv m \<Longrightarrow> route_inv (snd (planSpec D s r x t m))"
  by (rule route_inv_frame[OF core_planSpec])

lemma inv_blockedUntil: "route_inv m \<Longrightarrow> route_inv (snd (blockedUntil i p t m))"
  by (rule route_inv_frame[OF core_blockedUntil])

lemma inv_redistribute: "route_inv m \<Longrightarrow> route_inv (snd (redistribute D i t m))"
proof -
  assume inv: "route_inv m"
  have launch: "route_inv (snd (case start D i True False True t (set_lastMove i t (set_intent i None (Some 0) (Some 0) m3)) of
      (None, m4) \<Rightarrow> (Launched, m4) | (Some e, m4) \<Rightarrow> (Refused e, m4)))" if "route_inv m3" for m3
  proof -
    have "route_inv (snd (start D i True False True t (set_lastMove i t (set_intent i None (Some 0) (Some 0) m3))))"
      by (intro inv_start inv_set_lastMove inv_set_intent that) simp
    then show ?thesis by (simp add: case_prod_unfold split: option.split)
  qed
  have decide: "route_inv (snd (case blockedUntil i cand t m2 of
       (Some _, m3) \<Rightarrow> (Kept, set_lastMove i t m3)
     | (None, m3) \<Rightarrow> if notWorthwhile m3 d b cand then (Kept, set_lastMove i t m3)
         else (case start D i True False True t (set_lastMove i t (set_intent i None (Some 0) (Some 0) m3)) of
                 (None, m4) \<Rightarrow> (Launched, m4) | (Some e, m4) \<Rightarrow> (Refused e, m4))))" if "route_inv m2" for m2 d b cand
  proof -
    obtain x m3 where x: "blockedUntil i cand t m2 = (x, m3)" by fastforce
    then have "route_inv m3" using inv_blockedUntil[OF that, of i cand t] by simp
    then show ?thesis using launch by (simp add: x inv_set_lastMove split: option.split)
  qed
  show ?thesis
  proof (cases "getDeployment (mg_reg m) i")
    case (Some d0)
    obtain r m1 where r: "redecideModel D d0 t m = (r, m1)" by fastforce
    have m1: "route_inv m1" using inv_redecideModel[OF inv, of D d0 t] by (simp add: r)
    have "route_inv (snd (case planSpec D (dp_spec d) (Some i) [] t m1 of
        (Inl _, m2) \<Rightarrow> (Kept, m2)
      | (Inr cand, m2) \<Rightarrow> (case blockedUntil i cand t m2 of
             (Some _, m3) \<Rightarrow> (Kept, set_lastMove i t m3)
           | (None, m3) \<Rightarrow> if notWorthwhile m3 d b cand then (Kept, set_lastMove i t m3)
               else (case start D i True False True t (set_lastMove i t (set_intent i None (Some 0) (Some 0) m3)) of
                       (None, m4) \<Rightarrow> (Launched, m4) | (Some e, m4) \<Rightarrow> (Refused e, m4)))))" for d b
    proof -
      obtain x m2 where x: "planSpec D (dp_spec d) (Some i) [] t m1 = (x, m2)" by fastforce
      then have "route_inv m2" using inv_planSpec[OF m1, of D "dp_spec d" "Some i" "[]" t] by simp
      then show ?thesis using decide by (simp add: x split: sum.split)
    qed
    then show ?thesis using inv m1 by (simp add: redistribute_def Some r split: option.split)
  qed (simp add: redistribute_def inv)
qed

lemma inv_moveFailed: "route_inv m \<Longrightarrow> route_inv (snd (moveFailed D i t m))"
  by (auto simp: moveFailed_def Let_def intro: inv_redistribute route_inv_frame[OF core_frame(4)])

lemma inv_move_effect: "route_inv (snd r) \<Longrightarrow> route_inv (fst (move_effect i r))"
  by (simp add: move_effect_def case_prod_unfold split: move_result.split)

lemma inv_retryFailed: "route_inv m \<Longrightarrow> route_inv (fst (retryFailed D t d m))"
  by (simp add: retryFailed_def Let_def inv_start inv_set_lastMove)

lemma inv_improveReady: "route_inv m \<Longrightarrow> route_inv (fst (improveReady D t d m))"
proof -
  assume inv: "route_inv m"
  obtain x m1 where x: "planSpec D (dp_spec d) (Some (dp_id d)) [] t m = (x, m1)" by fastforce
  have "route_inv m1" using inv_planSpec[OF inv, of D "dp_spec d" "Some (dp_id d)" "[]" t] by (simp add: x)
  then show ?thesis
    using inv by (simp add: improveReady_def Let_def x inv_move_effect inv_redistribute split: sum.split)
qed

lemma inv_onNodeOnline: "route_inv m \<Longrightarrow> route_inv (fst (onNodeOnline D n t m))"
proof -
  assume inv: "route_inv m"
  have m1: "route_inv (forgetExclusion n m)" by (rule route_inv_frame[OF core_frame(5) inv])
  have m2: "route_inv (fst (each (retryFailed D t) ds (forgetExclusion n m)))" for ds
    by (rule each_induct) (auto intro: inv_retryFailed m1)
  have "route_inv (fst (each (improveReady D t) ds' (fst (each (retryFailed D t) ds (forgetExclusion n m)))))" for ds ds'
    by (rule each_induct) (auto intro: inv_improveReady m2)
  then show ?thesis using inv by (simp add: onNodeOnline_def Let_def case_prod_unfold)
qed

lemma inv_recoveryAttempt: "route_inv m \<Longrightarrow> route_inv (recoveryAttempt D t i a m)"
  by (simp add: recoveryAttempt_def inv_start inv_set_intent)

lemma inv_recoverWithout: "route_inv m \<Longrightarrow> route_inv (recoverWithout D t d a off m)"
proof -
  assume inv: "route_inv m"
  let ?m = "exclude_nodes (dp_id d) off t m"
  obtain x m1 where x: "planSpec D (dp_spec d) (Some (dp_id d)) [] t ?m = (x, m1)" by fastforce
  have "route_inv m1"
    using inv_planSpec[OF route_inv_frame[OF core_frame(4) inv], of D "dp_spec d" "Some (dp_id d)" "[]" t "dp_id d" off t] by (simp add: x)
  then show ?thesis
    using inv by (simp add: recoverWithout_def Let_def x inv_recoveryAttempt inv_set_intent split: sum.split)
qed

lemma inv_recover: "route_inv m \<Longrightarrow> route_inv (recover D t d a b m)"
proof -
  assume inv: "route_inv m"
  obtain x m1 where x: "planSpec D (dp_spec d) (Some (dp_id d)) [] t m = (x, m1)" by fastforce
  have "route_inv m1" using inv_planSpec[OF inv, of D "dp_spec d" "Some (dp_id d)" "[]" t] by (simp add: x)
  then show ?thesis
    using inv by (simp add: recover_def Let_def x inv_recoveryAttempt inv_recoverWithout split: sum.split)
qed

lemma inv_reconcileRest: "route_inv m \<Longrightarrow> route_inv (reconcileRest D t d x b m)"
proof -
  assume inv: "route_inv m"
  define m1 where "m1 = (if dp_state d = Ready \<and> (case map_of (mg_moveExcluded m) (dp_id d) of Some y \<Rightarrow> xc_at y | None \<Rightarrow> 0) < t - 60000
    then m\<lparr>mg_moveExcluded := del (dp_id d) (mg_moveExcluded m)\<rparr> else m)"
  have "route_inv m1" using inv by (auto simp: m1_def intro: route_inv_frame[OF core_frame(9)])
  then show ?thesis
    unfolding reconcileRest_def Let_def m1_def[symmetric] by (simp add: inv_set_intent inv_recover)
qed

lemma inv_reconcileOne: "route_inv m \<Longrightarrow> route_inv (snd (reconcileOne D t d m))"
  unfolding reconcileOne_def Let_def
  by (simp add: case_prod_unfold inv_redistribute inv_reconcileRest inv_finishDraining inv_observeReconnect inv_set_lastMove split: option.split)

lemma inv_reconcileAll: "route_inv m \<Longrightarrow> route_inv (snd (reconcileAll D t ds m))"
  by (induction ds arbitrary: m) (simp_all add: case_prod_unfold Let_def inv_reconcileOne)

lemma inv_reconcile: "route_inv m \<Longrightarrow> route_inv (snd (reconcile D t m))"
proof -
  assume inv: "route_inv m"
  have "route_inv (snd (updatingNode t m))" by (rule route_inv_frame[OF core_updatingNode inv])
  then show ?thesis using inv by (simp add: reconcile_def case_prod_unfold Let_def inv_reconcileAll)
qed

lemma inv_reconcileResume: "route_inv m \<Longrightarrow> route_inv (reconcileResume D t r m)"
  by (simp add: reconcileResume_def inv_recordFailure inv_reconcileRest split: resume.split)

lemma core_acquireUpdate [simp]: "core (snd (acquireUpdate n tk t m)) = core m"
proof -
  obtain b m1 where u: "updatingNode t m = (b, m1)" by fastforce
  have "core m1 = core m" using core_updatingNode[of t m] by (simp add: u)
  then show ?thesis by (simp add: acquireUpdate_def u Let_def)
qed

lemma core_releaseUpdate [simp]: "core (snd (releaseUpdate n tk m)) = core m"
  by (simp add: releaseUpdate_def split: option.split)

lemma inv_dispose: "route_inv m \<Longrightarrow> route_inv (fst (dispose m))"
  unfolding dispose_def by (rule each_induct) (auto intro: inv_cancel route_inv_frame[OF core_frame(11)])

subsection \<open>The channel\<close>

abbreviation hub_inv :: "hub \<Rightarrow> bool" where
  "hub_inv h \<equiv> route_inv (hb_mgr h)"

lemma inv_run_mgr: "(\<And>m. route_inv m \<Longrightarrow> route_inv (fst (f m))) \<Longrightarrow> hub_inv h \<Longrightarrow> hub_inv (fst (run_mgr f h))"
proof -
  assume f: "\<And>m. route_inv m \<Longrightarrow> route_inv (fst (f m))" and h: "hub_inv h"
  have "route_inv ((hb_mgr h)\<lparr>mg_online := onlineNodeIds h\<rparr>)" by (rule route_inv_frame[OF core_frame(12) h])
  then show ?thesis using f by (simp add: run_mgr_def Let_def case_prod_unfold)
qed

lemma inv_hub_reg: "hub_inv h \<Longrightarrow> (\<And>r. rg_deployments (f r) = rg_deployments r) \<Longrightarrow> (\<And>r. rg_intents (f r) = rg_intents r) \<Longrightarrow> hub_inv (hub_reg f h)"
  by (simp add: hub_reg_def inv_rows)

lemma inv_and_then: "hub_inv (fst r) \<Longrightarrow> (\<And>h. hub_inv h \<Longrightarrow> hub_inv (fst (f h))) \<Longrightarrow> hub_inv (fst (and_then r f))"
  by (simp add: and_then_def Let_def case_prod_unfold)

lemma node_setters_frame [simp]:
  "rg_deployments (setModels n mods r) = rg_deployments r" "rg_intents (setModels n mods r) = rg_intents r"
  "rg_deployments (setOffer n f r) = rg_deployments r" "rg_intents (setOffer n f r) = rg_intents r"
  "rg_deployments (setCaps n c r) = rg_deployments r" "rg_intents (setCaps n c r) = rg_intents r"
  "rg_deployments (setOnline n b r) = rg_deployments r" "rg_intents (setOnline n b r) = rg_intents r"
  "rg_deployments (setMetrics n me p r) = rg_deployments r" "rg_intents (setMetrics n me p r) = rg_intents r"
  by (simp_all add: setModels_def setOffer_def setCaps_def setOnline_def setMetrics_def split: option.split)

lemma reportRows_frame:
  "rg_deployments (snd (reportRows n t rs r)) = rg_deployments r \<and> rg_intents (snd (reportRows n t rs r)) = rg_intents r"
  by (induction n t rs r rule: reportRows.induct) (auto simp: Let_def case_prod_unfold)

lemma inv_helloMessage: "hub_inv h \<Longrightarrow> hub_inv (fst (helloMessage D n caps off models rows t h))"
proof -
  assume inv: "hub_inv h"
  define h1 where "h1 = hub_reg (\<lambda>r. setModels n models (setOffer n off (setCaps n caps (setOnline n True r)))) h"
  have h1: "hub_inv h1" unfolding h1_def by (rule inv_hub_reg[OF inv]) simp_all
  obtain kept r where k: "reportRows n t rows (mg_reg (hb_mgr h1)) = (kept, r)" by fastforce
  have "core (with_reg (\<lambda>_. r) (hb_mgr h1)) = core (hb_mgr h1)"
    using reportRows_frame[of n t rows "mg_reg (hb_mgr h1)"] by (intro core_reg) (simp_all add: k)
  then have "hub_inv (hub_reg (\<lambda>_. r) h1)" using route_inv_frame h1 by (simp add: hub_reg_def)
  then show ?thesis
    unfolding helloMessage_def Let_def h1_def[symmetric] k prod.case
    by (intro inv_and_then inv_run_mgr inv_onHello inv_onNodeOnline)
qed

lemma hb_mgr_update_sock [simp]: "hb_mgr (update_sock s f h) = hb_mgr h"
  by (simp add: update_sock_def)

lemma inv_adoptConn: "hub_inv h \<Longrightarrow> hub_inv (fst (adoptConn s n h))"
  by (simp add: adoptConn_def Let_def split: option.split)

lemma inv_authedMessage: "hub_inv h \<Longrightarrow> hub_inv (fst (authedMessage D c n msg t now h))"
  by (auto simp: authedMessage_def assignmentMessage_def logMessage_def pongMessage_def inv_helloMessage
      intro!: inv_hub_reg inv_run_mgr inv_onAssignmentState split: agent_message.split option.split)

lemma nodeApiKey_frame: "nodeApiKey n fresh r = Some (k, r') \<Longrightarrow> rg_deployments r' = rg_deployments r \<and> rg_intents r' = rg_intents r"
  by (auto simp: nodeApiKey_def createApiKey_def split: if_splits option.splits)

lemma inv_authenticate: "hub_inv h \<Longrightarrow> hub_inv (fst (authenticate imp fresh c a h))"
  by (auto simp: authenticate_def case_prod_unfold Let_def nodeApiKey_frame intro!: inv_hub_reg inv_adoptConn
      split: option.split auth_error.split)

lemma inv_message: "hub_inv h \<Longrightarrow> hub_inv (fst (message D imp fresh s raw t now h))"
  by (auto simp: message_def Let_def intro!: inv_authedMessage inv_authenticate split: option.split agent_message.split)

lemma inv_closeSocket: "hub_inv h \<Longrightarrow> hub_inv (fst (closeSocket D s t h))"
  by (auto simp: closeSocket_def Let_def intro!: inv_run_mgr inv_onOffline inv_hub_reg split: option.split)

lemma inv_sweepOne: "hub_inv h \<Longrightarrow> hub_inv (fst (sweepOne D st rf t now ts e h))"
  by (auto simp: sweepOne_def sweepSilent_def sweepAlive_def intro!: inv_and_then inv_run_mgr inv_onOffline inv_onNodeOnline inv_hub_reg
      split: option.split)

lemma inv_sweepAll: "hub_inv h \<Longrightarrow> hub_inv (fst (sweepAll D st rf t now ts es h))"
  by (induction es arbitrary: h) (auto intro!: inv_and_then inv_sweepOne)

subsection \<open>Operators' calls\<close>

lemma inv_resolveModel: "route_inv m \<Longrightarrow> route_inv (snd (resolveModel D s t m))"
proof -
  assume inv: "route_inv m"
  have "route_inv m1" if "chooseAuto D x None [] t m = (r, m1)" for x r m1
    using route_inv_frame[OF core_chooseAuto inv, of D x None "[]" t] that by simp
  then show ?thesis using inv by (auto simp: resolveModel_def split: option.split prod.split)
qed

lemma inv_create: "route_inv m \<Longrightarrow> route_inv (snd (create srt D i s t m))"
proof -
  assume inv: "route_inv m"
  obtain r m1 where r: "resolveModel D s t m = (r, m1)" by fastforce
  have m1: "route_inv m1" using inv_resolveModel[OF inv, of D s t] by (simp add: r)
  have new: "route_inv (with_reg (createDeployment i x t) m1)" if "getDeployment (mg_reg m1) i = None" for x
  proof -
    have "running (with_reg (createDeployment i x t) m1) j = running m1 j" if "j \<noteq> i" for j
      using that by (simp add: running_def with_reg_def createDeployment_def deploymentIntent_def update_conv')
    moreover have "dp_id d \<noteq> i" if "d \<in> set (rg_deployments (mg_reg m1))" for d
      using \<open>getDeployment (mg_reg m1) i = None\<close> that by (auto simp: getDeployment_def find_None_all)
    ultimately show ?thesis
      using m1 by (auto simp: route_inv_but_def ready_ok_def start_ok_def with_reg_def createDeployment_def isReconnecting_def generation_def)
  qed
  show ?thesis using m1 new by (auto simp: create_def r split: sum.split)
qed

lemma inv_remove: "route_inv m \<Longrightarrow> route_inv (remove i t m)"
  by (simp add: remove_def inv_stop)

lemma core_distributionPlan: "core (snd (distributionPlan D d v t m)) = core m"
proof -
  have "core m1 = core m" if "planSpec D s (Some (dp_id d)) [] t m = (r, m1)" for s r m1
    using core_planSpec[of D s "Some (dp_id d)" "[]" t m] that by simp
  then show ?thesis by (auto simp: distributionPlan_def split: sum.split prod.split)
qed

lemma inv_update_dep:
  "(\<And>d. dp_id (f d) = dp_id d) \<Longrightarrow> (\<And>d. dp_state (f d) = Ready \<Longrightarrow> dp_state d = Ready \<and> dp_endpoint (f d) = dp_endpoint d) \<Longrightarrow>
   route_inv m \<Longrightarrow> route_inv (with_reg (update_dep i f) m)"
  by (auto simp: route_inv_but_def ready_ok_def start_ok_def with_reg_def update_dep_def running_def isReconnecting_def generation_def
      deploymentIntent_def)

lemma inv_saveDistributionFor: "route_inv m \<Longrightarrow> route_inv (snd (saveDistributionFor D i v t m))"
proof -
  assume inv: "route_inv m"
  have "route_inv m1" if "distributionPlan D d v t m = (r, m1)" for d r m1
    using route_inv_frame[OF core_distributionPlan inv, of D d v t] that by simp
  then show ?thesis
    using inv by (auto simp: saveDistributionFor_def saveDistribution_def intro!: inv_update_dep split: option.split sum.split prod.split)
qed

lemma inv_applyDistribution: "route_inv m \<Longrightarrow> route_inv (fst (snd (applyDistribution D i t m)))"
proof -
  assume inv: "route_inv m"
  have m1: "route_inv (snd (distributionPlan D d v t m))" for d v
    by (rule route_inv_frame[OF core_distributionPlan inv])
  have "route_inv (m1\<lparr>mg_distributions := x\<rparr>)" if "route_inv m1" for m1 x
    by (rule route_inv_frame[OF _ that]) (simp add: core_def)
  then have "route_inv (fst (snd (stop i False t ((snd (distributionPlan D d v t m))\<lparr>mg_distributions := x\<rparr>))))" for d v x
    using m1 inv_stop by blast
  then show ?thesis
    using inv m1 by (simp add: applyDistribution_def Let_def case_prod_unfold split: option.split sum.split)
qed

lemma inv_applyFinished: "route_inv m \<Longrightarrow> route_inv (applyFinished i x t m)"
proof -
  assume inv: "route_inv m"
  have "route_inv (m\<lparr>mg_distributions := y\<rparr>)" for y by (rule route_inv_frame[OF _ inv]) (simp add: core_def)
  then show ?thesis by (auto simp: applyFinished_def Let_def intro!: inv_set_dep_kept split: option.split)
qed

lemma inv_applyDistributionSpec: "route_inv m \<Longrightarrow> route_inv (with_reg (applyDistributionSpec i s t) m)"
  unfolding applyDistributionSpec_def by (rule inv_update_dep) auto

lemma inv_applyStopped: "route_inv m \<Longrightarrow> route_inv (applyStopped D i s g t m)"
proof -
  assume inv: "route_inv m"
  obtain r m1 where p: "planSpec D s (Some i) [] t m = (r, m1)" by fastforce
  have "route_inv m1" using inv_planSpec[OF inv, of D s "Some i" "[]" t] by (simp add: p)
  then have "route_inv m1" "route_inv (snd (start D i False False False t (with_reg (applyDistributionSpec i s t) m1)))"
    by (auto intro: inv_start inv_applyDistributionSpec)
  then show ?thesis
    using inv by (auto simp: applyStopped_def p inv_applyFinished split: sum.split prod.split option.split)
qed

subsection \<open>Fleet allocations\<close>

lemma inv_field [simp]:
  "route_inv_but X (m\<lparr>mg_fleetPlanning := p\<rparr>) = route_inv_but X m" "route_inv_but X (m\<lparr>mg_fleetBusy := b\<rparr>) = route_inv_but X m"
  by (rule route_inv_core; simp add: core_def)+

abbreviation alloc_inv :: "allocator \<Rightarrow> bool" where
  "alloc_inv a \<equiv> route_inv (al_mgr a)"

lemma mgr_saveRun [simp]: "al_mgr (saveRun t run k s) = al_mgr s"
  by (simp add: saveRun_def Let_def)

lemma inv_previewDone: "alloc_inv s \<Longrightarrow> alloc_inv (snd (previewDone dg D i rv result t s))"
  by (simp add: previewDone_def Let_def split: option.split sum.split)

lemma inv_previewAllocation: "alloc_inv s \<Longrightarrow> alloc_inv (snd (previewAllocation dg D i v t s))"
  by (auto simp: previewAllocation_def Let_def case_prod_unfold intro!: inv_previewDone split: sum.split)

lemma inv_withdraw: "route_inv m \<Longrightarrow> route_inv (withdraw t m ids)"
proof (induction ids arbitrary: m)
  case (Cons i ids)
  then show ?case using inv_down[of "{}" m Draining "patch_route Draining" i t] by (simp add: withdraw_def)
qed (simp add: withdraw_def)

lemma inv_performStops: "alloc_inv s \<Longrightarrow> alloc_inv (fst (performStops run t s))"
  unfolding performStops_def Let_def case_prod_unfold
  by (simp, rule each_induct) (auto intro: inv_stop)

lemma inv_applyAllocation: "alloc_inv s \<Longrightarrow> alloc_inv (fst (snd (applyAllocation dg D i t s)))"
proof -
  assume inv: "alloc_inv s"
  obtain u m where u: "updatingNode t (al_mgr s) = (u, m)" by fastforce
  have "route_inv m" using route_inv_frame[OF core_updatingNode inv, of t] by (simp add: u)
  then show ?thesis
    using inv
    by (auto simp: applyAllocation_def u Let_def case_prod_unfold intro!: inv_performStops inv_withdraw split: option.split)
qed

lemma inv_endRun: "alloc_inv s \<Longrightarrow> alloc_inv (endRun t run s)"
  by (simp add: endRun_def Let_def)

lemma inv_startNext: "alloc_inv s \<Longrightarrow> alloc_inv (startNext D t s)"
  by (auto simp: startNext_def Let_def inv_start split: option.split)

lemma inv_startMany: "alloc_inv s \<Longrightarrow> alloc_inv (startMany D t n s)"
  by (induction n arbitrary: s) (simp_all add: inv_startNext)

lemma inv_closeRun: "alloc_inv s \<Longrightarrow> alloc_inv (closeRun t s)"
  by (auto simp: closeRun_def inv_endRun split: option.split)

lemma inv_applyFleetSpecs: "route_inv m \<Longrightarrow> route_inv (with_reg (applyFleetSpecs es t) m)"
proof (induction es arbitrary: m)
  case (Cons e es)
  have "with_reg (applyFleetSpecs (e # es) t) m = with_reg (applyFleetSpecs es t) (with_reg (applyDistributionSpec (fst e) (snd e) t) m)"
    by (simp add: with_reg_def applyFleetSpecs_def case_prod_unfold)
  then show ?case using Cons inv_applyDistributionSpec by simp
qed (simp add: with_reg_def applyFleetSpecs_def)

lemma inv_stopsSettled: "alloc_inv s \<Longrightarrow> alloc_inv (stopsSettled D refused t s)"
  by (auto simp: stopsSettled_def failRun_def intro!: inv_closeRun inv_startMany inv_applyFleetSpecs inv_endRun split: option.split)

lemma inv_entryDone: "alloc_inv s \<Longrightarrow> alloc_inv (entryDone D k x t s)"
  by (auto simp: entryDone_def Let_def intro!: inv_closeRun inv_startNext split: option.split)


subsection \<open>Restarting withdraws every route\<close>

definition sel_ids :: "(deployment \<Rightarrow> bool) \<Rightarrow> manager \<Rightarrow> string set" where
  "sel_ids P m = dp_id ` {d \<in> set (rg_deployments (mg_reg m)). P d}"

abbreviation ready_ids :: "manager \<Rightarrow> string set" where
  "ready_ids \<equiv> sel_ids (\<lambda>d. dp_state d = Ready)"

lemma image_filter_same:
  assumes "\<And>x. h (g x) = h x" and "\<And>x. P (g x) = P x"
  shows "h ` {y \<in> g ` S. P y} = h ` {x \<in> S. P x}"
proof -
  have "{y \<in> g ` S. P y} = g ` {x \<in> S. P x}" using assms(2) by auto
  then show ?thesis by (simp add: image_image assms(1))
qed

lemma sel_ids_update:
  assumes "\<And>d. dp_id (f d) = dp_id d"
  shows "(\<And>d. \<not> P (f d)) \<Longrightarrow> sel_ids P (with_reg (update_dep i f) m) \<subseteq> sel_ids P m - {i}"
    and "(\<And>d. P (f d) = P d) \<Longrightarrow> sel_ids P (with_reg (update_dep i f) m) = sel_ids P m"
proof -
  let ?g = "\<lambda>d. if dp_id d = i then f d else d"
  have ids: "sel_ids P (with_reg (update_dep i f) m) = dp_id ` {d \<in> ?g ` set (rg_deployments (mg_reg m)). P d}"
    by (simp add: sel_ids_def with_reg_def update_dep_def)
  show "sel_ids P (with_reg (update_dep i f) m) \<subseteq> sel_ids P m - {i}" if "\<And>d. \<not> P (f d)"
    unfolding ids unfolding sel_ids_def using that assms by (auto split: if_splits)
  show "sel_ids P (with_reg (update_dep i f) m) = sel_ids P m" if "\<And>d. P (f d) = P d"
    unfolding ids unfolding sel_ids_def by (rule image_filter_same) (use assms that in simp_all)
qed

lemma ready_ids_set_dep:
  "dpp_state p = Some s \<Longrightarrow> s \<noteq> Ready \<Longrightarrow> ready_ids (set_dep i p t m) \<subseteq> ready_ids m - {i}"
  "dpp_state p = None \<Longrightarrow> ready_ids (set_dep i p t m) = ready_ids m"
  unfolding set_dep_def updateDeployment_def by (rule sel_ids_update; simp)+

lemma sel_ids_frame [simp]:
  "sel_ids P (set_intent i r a y m) = sel_ids P m" "sel_ids P (scheduleRecovery D i t m) = sel_ids P m"
  by (simp_all add: sel_ids_def scheduleRecovery_def Let_def)

lemma restoreOne_ready: "ready_ids (snd (restoreOne D t d seen m)) \<subseteq> ready_ids m - (if dp_state d = Ready then {dp_id d} else {})"
proof -
  define G where "G m' = (ready_ids m' \<subseteq> ready_ids m - (if dp_state d = Ready then {dp_id d} else {}))" for m'
  have down: "G (set_dep (dp_id d) p t m')" if "dpp_state p = Some s" "s \<noteq> Ready" "ready_ids m' = ready_ids m" for p s m'
    using ready_ids_set_dep(1)[OF that(1,2), of "dp_id d" t m'] that(3) by (auto simp: G_def)
  have sched: "G (scheduleRecovery D i t m') = G m'" for i m' by (simp add: G_def)
  have same: "G m" if "dp_state d \<noteq> Ready" using that by (simp add: G_def)
  have kept: "G (set_dep (dp_id d) p t m)" if "dpp_state p = None" "dp_state d \<noteq> Ready" for p
    using that by (simp add: G_def ready_ids_set_dep(2))
  have "G (snd (restoreOne D t d seen m))"
  proof (cases "running m (dp_id d)")
    case False
    then show ?thesis by (cases "dp_state d") (simp_all add: restoreOne_def down[where s = Draining] kept same)
  next
    case True
    show ?thesis
    proof (cases "sp_kind (dp_spec d) = External \<and> sp_external (dp_spec d) \<noteq> None")
      case ext: True
      then show ?thesis using True
        by (auto simp: restoreOne_def Let_def sched down[where s = Stopped] down[where s = Loading] down[where s = Failed])
    next
      case False
      then show ?thesis using True
        by (cases "sp_kind (dp_spec d)"; cases "sp_external (dp_spec d)")
          (simp_all add: restoreOne_def Let_def sched same down[where s = Failed])
    qed
  qed
  then show ?thesis by (simp add: G_def)
qed

lemma restore_loop_ready:
  "ready_ids m \<subseteq> dp_id ` {d \<in> set ds. dp_state d = Ready} \<Longrightarrow>
   ready_ids (snd (foldl (\<lambda>(seen, m) d. restoreOne D t d seen m) (seen, m) ds)) = {}"
proof (induction ds arbitrary: seen m)
  case (Cons d ds)
  obtain s' m' where r: "restoreOne D t d seen m = (s', m')" by fastforce
  have "ready_ids m' \<subseteq> dp_id ` {d \<in> set ds. dp_state d = Ready}"
    using restoreOne_ready[of D t d seen m] Cons.prems by (fastforce simp: r split: if_splits)
  then show ?case using Cons.IH by (simp add: r)
qed simp

lemma restore_ready: "ready_ids (restore D t m) = {}"
  unfolding restore_def by (rule restore_loop_ready) (auto simp: sel_ids_def listDeployments_def)

lemma starting_scheduleRecovery [simp]: "mg_starting (scheduleRecovery D i t m) = mg_starting m"
  by (simp add: scheduleRecovery_def Let_def)

lemma starting_restore: "mg_starting (restore D t m) = mg_starting m"
proof -
  have one: "mg_starting (snd (restoreOne D t d seen m)) = mg_starting m" for d seen m
    unfolding restoreOne_def Let_def by (auto split: deployment_kind.split option.split)
  have "mg_starting (snd (foldl (\<lambda>(seen, m) d. restoreOne D t d seen m) (seen, m) ds)) = mg_starting m" for ds seen m
  proof (induction ds arbitrary: seen m)
    case (Cons d ds)
    obtain s' m' where r: "restoreOne D t d seen m = (s', m')" by fastforce
    then show ?case using Cons.IH[of s' m'] one[of d seen m] by simp
  qed simp
  then show ?thesis unfolding restore_def by blast
qed

lemma route_inv_quiet: "ready_ids m = {} \<Longrightarrow> mg_starting m = [] \<Longrightarrow> route_inv m"
  by (auto simp: route_inv_but_def ready_ok_def sel_ids_def)

lemma boot_inv: "route_inv (hb_mgr (ct_hub (bootControl E t r runs)))"
proof -
  have "mg_starting (new_manager (openRegistry r)) = []" by (simp add: new_manager_def)
  then have "route_inv (restore (ce_deps E) t (new_manager (openRegistry r)))"
    by (intro route_inv_quiet restore_ready) (simp add: starting_restore)
  then show ?thesis unfolding bootControl_def by simp
qed

subsection \<open>Every run\<close>

abbreviation control_inv :: "control \<Rightarrow> bool" where
  "control_inv s \<equiv> route_inv (hb_mgr (ct_hub s))"

lemma inv_on_hub: "(\<And>h. hub_inv h \<Longrightarrow> hub_inv (fst (f h))) \<Longrightarrow> control_inv s \<Longrightarrow> control_inv (on_hub f s)"
  by (simp add: on_hub_def)

lemma inv_on_mgr: "(\<And>m. route_inv m \<Longrightarrow> route_inv (f m)) \<Longrightarrow> control_inv s \<Longrightarrow> control_inv (on_mgr f s)"
  unfolding on_mgr_def by (rule inv_on_hub, rule inv_run_mgr) simp_all

lemma inv_on_reg:
  "(\<And>r. rg_deployments (f r) = rg_deployments r) \<Longrightarrow> (\<And>r. rg_intents (f r) = rg_intents r) \<Longrightarrow> control_inv s \<Longrightarrow> control_inv (on_reg f s)"
  unfolding on_reg_def by (rule inv_on_mgr) (rule inv_rows)

lemma inv_on_alloc: "(\<And>a. alloc_inv a \<Longrightarrow> alloc_inv (f a)) \<Longrightarrow> control_inv s \<Longrightarrow> control_inv (on_alloc f s)"
proof -
  assume f: "\<And>a. alloc_inv a \<Longrightarrow> alloc_inv (f a)" and s: "control_inv s"
  have "route_inv ((hb_mgr (ct_hub s))\<lparr>mg_online := onlineNodeIds (ct_hub s)\<rparr>)" by (rule route_inv_frame[OF core_frame(12) s])
  then show ?thesis by (simp add: on_alloc_def Let_def f)
qed

lemma enroll_frame:
  "rg_deployments (snd (handleEnroll sha imp caps lan body t r)) = rg_deployments r"
  "rg_intents (snd (handleEnroll sha imp caps lan body t r)) = rg_intents r"
  by (auto simp: handleEnroll_def Let_def joinCheck_def consumeJoinCode_def upsertNode_def split: sum.split option.split prod.split)

lemma core_tokens: "core (recordTokens i n t m) = core m" "core (trackInflight i d m) = core m"
  by (simp_all add: recordTokens_def trackInflight_def Let_def)

lemma inv_teardownRow: "route_inv m \<Longrightarrow> route_inv (fst (teardownRow r m))"
  by (simp add: teardownRow_def inv_rows)

lemma inv_shutdown: "control_inv s \<Longrightarrow> control_inv (shutdown s)"
  using inv_on_hub[OF inv_run_mgr[OF inv_dispose]] by (simp add: shutdown_def Let_def)

lemma inv_small:
  "route_inv m \<Longrightarrow> route_inv (operationDone i m)" "route_inv m \<Longrightarrow> route_inv (snd (acquireUpdate n tk t m))"
  "route_inv m \<Longrightarrow> route_inv (snd (releaseUpdate n tk m))" "route_inv m \<Longrightarrow> route_inv (recordTokens i k t m)"
  "route_inv m \<Longrightarrow> route_inv (trackInflight i d m)"
  by (erule route_inv_frame[rotated], simp add: core_tokens)+

lemma inv_sweep: "hub_inv h \<Longrightarrow> hub_inv (fst (sweep D st rf t now ts h))"
  by (simp add: sweep_def inv_sweepAll)

lemma inv_mgr_steps: "hub_inv h \<Longrightarrow> hub_inv (fst (run_mgr (teardownRow r) h))" "hub_inv h \<Longrightarrow> hub_inv (fst (run_mgr (stageStep D ok ids p t) h))"
  by (auto intro!: inv_run_mgr inv_teardownRow inv_stageStep)

lemmas inv_handlers = inv_message inv_closeSocket inv_sweep inv_mgr_steps inv_create inv_start inv_stop inv_remove inv_stopFinished
  inv_removeFinished inv_reconcile inv_reconcileResume inv_moveFailed inv_saveDistributionFor inv_applyDistribution inv_applyStopped
  inv_applyFinished inv_previewAllocation inv_previewDone inv_applyAllocation inv_stopsSettled inv_entryDone inv_small

lemma control_step_inv: "control_inv s \<Longrightarrow> control_inv (control_step E s te)"
  by (induction E s te rule: control_step.induct; simp only: control_step.simps;
      ((rule inv_on_hub inv_on_mgr inv_on_alloc, erule inv_handlers, assumption)
       | (rule inv_on_reg; simp add: createJoinCode_def enroll_frame)
       | (simp add: openSocket_def countRelay_def Let_def case_prod_unfold inv_shutdown boot_inv)))

interpretation control_runs: event_machine "control_step E" control_inv for E
  by unfold_locales (rule control_step_inv)

subsection \<open>A lost node takes its routes with it\<close>

definition through :: "string \<Rightarrow> deployment \<Rightarrow> bool" where
  "through n d \<longleftrightarrow> dp_state d = Ready \<and> (case dp_plan d of Some p \<Rightarrow> n \<in> set (planNodeList p) | None \<Rightarrow> False)"

lemma through_set_dep:
  "dpp_state p = Some s \<Longrightarrow> s \<noteq> Ready \<Longrightarrow> sel_ids (through n) (set_dep i p t m) \<subseteq> sel_ids (through n) m - {i}"
  unfolding set_dep_def updateDeployment_def by (rule sel_ids_update) (simp_all add: through_def)

lemma sel_ids_mgr [simp]:
  "sel_ids P (enqueue i m) = sel_ids P m" "sel_ids P (fst (cancel i m)) = sel_ids P m" "sel_ids P (m\<lparr>mg_reconnecting := r\<rparr>) = sel_ids P m"
  by (simp_all add: sel_ids_def enqueue_def)

lemma closed_mgr [simp]:
  "mg_closed (enqueue i m) = mg_closed m" "mg_closed (m\<lparr>mg_reconnecting := r\<rparr>) = mg_closed m"
  by (simp_all add: enqueue_def)

lemma closed_offlineOne: "mg_closed (fst (offlineOne D n t d m)) = mg_closed m"
  by (simp add: offlineOne_def Let_def case_prod_unfold)

lemma offlineOne_through:
  assumes "route_inv m" and "\<not> mg_closed m"
  shows "sel_ids (through n) (fst (offlineOne D n t d m)) \<subseteq> sel_ids (through n) m - (if through n d then {dp_id d} else {})"
proof -
  have down: "sel_ids (through n) (set_dep (dp_id d) p t m') \<subseteq> sel_ids (through n) m"
    "dp_id d \<notin> sel_ids (through n) (set_dep (dp_id d) p t m')"
    if "dpp_state p = Some Loading" "sel_ids (through n) m' = sel_ids (through n) m" for p m'
    using through_set_dep[OF that(1), of n "dp_id d" t m'] that(2) by auto
  have kept: "sel_ids (through n) (fst (offlineOne D n t d m)) \<subseteq> sel_ids (through n) m"
    by (simp add: offlineOne_def Let_def case_prod_unfold down(1))
  have gone: "dp_id d \<notin> sel_ids (through n) (fst (offlineOne D n t d m))" if "through n d"
  proof (cases "dp_id d \<in> sel_ids (through n) m")
    case True
    then obtain x where x: "x \<in> set (rg_deployments (mg_reg m))" "dp_id x = dp_id d" "dp_state x = Ready"
      by (auto simp: sel_ids_def through_def)
    then have up: "running m (dp_id d)" "\<not> isReconnecting m (dp_id d)"
      using assms(1) by (auto simp: route_inv_but_def ready_ok_def)
    have st: "dp_state d = Ready" "(case dp_plan d of Some p \<Rightarrow> n \<in> set (planNodeList p) | None \<Rightarrow> False)"
      using that by (simp_all add: through_def)
    show ?thesis
      using up st assms(2) by (simp add: offlineOne_def Let_def case_prod_unfold down(2))
  next
    case False
    then show ?thesis using kept by blast
  qed
  show ?thesis using kept gone by auto
qed

lemma each_offline:
  "route_inv m \<Longrightarrow> \<not> mg_closed m \<Longrightarrow> sel_ids (through n) m \<subseteq> dp_id ` {d \<in> set ds. through n d} \<Longrightarrow>
   sel_ids (through n) (fst (each (offlineOne D n t) ds m)) = {}"
proof (induction ds arbitrary: m)
  case (Cons d ds)
  let ?m = "fst (offlineOne D n t d m)"
  have "sel_ids (through n) ?m \<subseteq> dp_id ` {d \<in> set ds. through n d}"
    using offlineOne_through[OF Cons.prems(1,2), of n D t d] Cons.prems(3) by (fastforce split: if_splits)
  then show ?case
    using Cons.IH[OF inv_offlineOne[OF Cons.prems(1), of D n t d]] Cons.prems(2) by (simp add: Let_def case_prod_unfold closed_offlineOne)
qed simp

lemma onOffline_through: "route_inv m \<Longrightarrow> \<not> mg_closed m \<Longrightarrow> sel_ids (through n) (fst (onOffline D n t m)) = {}"
  unfolding onOffline_def by (rule each_offline) (auto simp: sel_ids_def listDeployments_def)

subsection \<open>What routing lists\<close>

abbreviation routes :: "(string \<times> model_routes) list \<Rightarrow> route list" where
  "routes g \<equiv> concat (map (mr_deployments \<circ> snd) g)"

lemma addRoute_routes:
  assumes "r \<in> set (routes (addRoute t m g d))"
  shows "r \<in> set (routes g) \<or> (\<exists>e. dp_endpoint d = Some e \<and> routable t m d \<and> r = routeOf t m d e)"
proof (cases "dp_endpoint d")
  case (Some e)
  have upd: "set (AList.update k v kvs) \<subseteq> insert (k, v) (set kvs)" for k v and kvs :: "(string \<times> model_routes) list"
    by (induction kvs) auto
  have old: "set (mr_deployments x) \<subseteq> set (routes g)" if "map_of g k = Some x" for k x
    using map_of_SomeD[OF that] by (auto intro: bexI[of _ "(k, x)"])
  show ?thesis
  proof (cases "routable t m d")
    case True
    define v where "v = (case map_of g (ep_modelName e) of
                     None \<Rightarrow> \<lparr>mr_created = dp_createdAt d div 1000, mr_deployments = [routeOf t m d e]\<rparr>
                   | Some x \<Rightarrow> \<lparr>mr_created = min (mr_created x) (dp_createdAt d div 1000), mr_deployments = mr_deployments x @ [routeOf t m d e]\<rparr>)"
    have "set (mr_deployments v) \<subseteq> insert (routeOf t m d e) (set (routes g))"
      using old by (auto simp: v_def split: option.split)
    moreover have "r \<in> set (routes (AList.update (ep_modelName e) v g))"
      using assms Some True by (simp add: addRoute_def Let_def v_def)
    then have "r \<in> set (mr_deployments v) \<or> r \<in> set (routes g)" using upd[of "ep_modelName e" v g] by fastforce
    ultimately show ?thesis using Some True by blast
  qed (use assms Some in \<open>simp add: addRoute_def\<close>)
qed (use assms in \<open>simp add: addRoute_def\<close>)

lemma routing_routable:
  assumes "r \<in> set (routes (routing t m))"
  shows "\<exists>d e. d \<in> set (rg_deployments (mg_reg m)) \<and> dp_endpoint d = Some e \<and> routable t m d \<and> r = routeOf t m d e"
proof -
  have "r \<in> set (routes g) \<or> (\<exists>d e. d \<in> set ds \<and> dp_endpoint d = Some e \<and> routable t m d \<and> r = routeOf t m d e)"
    if "r \<in> set (routes (foldl (addRoute t m) g ds))" for g ds
    using that
  proof (induction ds arbitrary: g)
    case (Cons d ds)
    then have "r \<in> set (routes (addRoute t m g d)) \<or> (\<exists>d e. d \<in> set ds \<and> dp_endpoint d = Some e \<and> routable t m d \<and> r = routeOf t m d e)"
      using Cons.IH[of "addRoute t m g d"] Cons.prems by simp
    then show ?case using addRoute_routes[of r t m g d] by (metis list.set_intros)
  qed simp
  from this[of "[]" "listDeployments (mg_reg m)"] show ?thesis using assms by (simp add: routing_def listDeployments_def)
qed

lemma routing_none: "ready_ids m = {} \<Longrightarrow> routing t m = []"
proof -
  assume "ready_ids m = {}"
  then have none: "dp_state d \<noteq> Ready" if "d \<in> set (rg_deployments (mg_reg m))" for d using that by (auto simp: sel_ids_def)
  have "foldl (addRoute t m) [] ds = []" if "\<forall>d \<in> set ds. dp_state d \<noteq> Ready" for ds
    using that by (induction ds) (simp_all add: addRoute_def routable_def split: option.split)
  then show ?thesis using none by (simp add: routing_def listDeployments_def)
qed

lemma route_inv_run: "control_inv (control_run E (bootControl E t r runs) evs)"
  unfolding control_run_def by (rule control_runs.run_inv) (rule boot_inv)

text \<open>C1. In every state the control plane reaches after a restart, whatever events arrive in whatever order, each route the router is
  given belongs to a deployment that is ready, has that endpoint, is wanted running and is not waiting for a lost node; and none of its
  nodes holds the update lease.\<close>

theorem routes_sound:
  assumes "m = hb_mgr (ct_hub (control_run E (bootControl E t r runs) evs))" and "q \<in> set (concat (map (mr_deployments \<circ> snd) (routing t' m)))"
  shows "\<exists>d e. d \<in> set (rg_deployments (mg_reg m)) \<and> dp_id d = rt_id q \<and> dp_state d = Ready \<and> dp_endpoint d = Some e \<and>
    ep_nodeId e = rt_nodeId q \<and> ep_port e = rt_port q \<and> it_running (deploymentIntent (mg_reg m) (rt_id q)) \<and>
    map_of (mg_reconnecting m) (rt_id q) = None \<and> (\<forall>n. fst (updatingNode t' m) = Some n \<longrightarrow> n \<notin> set (rt_nodes q))"
proof -
  obtain d e where d: "d \<in> set (rg_deployments (mg_reg m))" "dp_endpoint d = Some e" "routable t' m d" "q = routeOf t' m d e"
    using routing_routable[OF assms(2)] by blast
  have "route_inv m" unfolding assms(1) by (rule route_inv_run)
  then have "running m (dp_id d)" "\<not> isReconnecting m (dp_id d)"
    using d by (auto simp: route_inv_but_def ready_ok_def routable_def)
  then have "d \<in> set (rg_deployments (mg_reg m)) \<and> dp_id d = rt_id q \<and> dp_state d = Ready \<and> dp_endpoint d = Some e \<and>
    ep_nodeId e = rt_nodeId q \<and> ep_port e = rt_port q \<and> it_running (deploymentIntent (mg_reg m) (rt_id q)) \<and>
    map_of (mg_reconnecting m) (rt_id q) = None \<and> (\<forall>n. fst (updatingNode t' m) = Some n \<longrightarrow> n \<notin> set (rt_nodes q))"
    using d by (auto simp: routeOf_def routable_def running_def isReconnecting_def)
  then show ?thesis by blast
qed

text \<open>C16. A restart withdraws every route: whatever the database held, no deployment is ready and the router is given nothing.\<close>

theorem restart_withdraws_routes:
  "Ready \<notin> dp_state ` set (rg_deployments (mg_reg (restore D t m))) \<and> routing t' (restore D t m) = []"
  using restore_ready[of D t m] routing_none[of "restore D t m" t'] by (auto simp: sel_ids_def)

text \<open>C2. When the current connection of a node closes, in any reachable state of a control plane that is not shutting down, the node is no
  longer online and no ready deployment has it in its plan.\<close>

theorem close_withdraws_routes:
  assumes "s = control_run E (bootControl E t0 r runs) evs" and "sock_of (ct_hub s) k = Some c" and "cn_nodeId c = Some n"
    and "map_of (hb_conns (ct_hub s)) n = Some k" and "\<not> hb_shuttingDown (ct_hub s)" and "\<not> mg_closed (hb_mgr (ct_hub s))"
  shows "\<not> isOnline (ct_hub (control_step E s (t, EvClose k))) n \<and>
    (\<forall>d p. d \<in> set (rg_deployments (mg_reg (hb_mgr (ct_hub (control_step E s (t, EvClose k)))))) \<and> dp_state d = Ready \<and> dp_plan d = Some p
       \<longrightarrow> n \<notin> set (planNodeList p))"
proof -
  let ?h = "(ct_hub s)\<lparr>hb_socks := filter (\<lambda>c. cn_sock c \<noteq> k) (hb_socks (ct_hub s)), hb_conns := del n (hb_conns (ct_hub s))\<rparr>"
  let ?h2 = "hub_reg (setOnline n False) ?h"
  let ?m = "(hb_mgr ?h2)\<lparr>mg_online := onlineNodeIds ?h2\<rparr>"
  have step: "ct_hub (control_step E s (t, EvClose k)) = ?h2\<lparr>hb_mgr := fst (onOffline (ce_deps E) n t ?m)\<rparr>"
    using assms(2-5) by (simp add: on_hub_def closeSocket_def Let_def run_mgr_def case_prod_unfold hub_reg_def)
  have "hub_inv ?h2" using route_inv_run[of E t0 r runs evs] assms(1) by (intro inv_hub_reg) simp_all
  then have "route_inv ?m" by (rule route_inv_frame[OF core_frame(12)])
  moreover have "\<not> mg_closed ?m" using assms(6) by (simp add: hub_reg_def with_reg_def)
  ultimately have "sel_ids (through n) (fst (onOffline (ce_deps E) n t ?m)) = {}" by (rule onOffline_through)
  moreover have "\<not> isOnline (?h2\<lparr>hb_mgr := x\<rparr>) n" for x by (simp add: isOnline_def hub_reg_def map_of_del)
  ultimately show ?thesis unfolding step by (auto simp: sel_ids_def through_def)
qed

definition demo_deps :: deps where
  "demo_deps = \<lparr>dd_rx = any_rx, dd_lc = cmp_str, dd_profiles = [], dd_qualifications = None, dd_timing = default_timing, dd_serverPortBase = 48000,
     dd_reverseDial = False, dd_url = (\<lambda>_. \<lparr>ur_protocol = ''http:'', ur_hostname = ''localhost'', ur_port = Some 8080\<rparr>), dd_reasons = (\<lambda>_. [])\<rparr>"

definition demo_env :: control_env where
  "demo_env = \<lparr>ce_deps = demo_deps, ce_importKey = (\<lambda>_. Some (\<lambda>sig bytes. sig = [])), ce_sha256Hex = id,
     ce_readCaps = (\<lambda>_. the (nr_caps (example_node ''a'' ''linux'' all_roles 1000))), ce_lanAutoEnroll = False, ce_digest = (\<lambda>_. []), ce_sort = sort_by\<rparr>"

definition demo_registry :: registry where
  "demo_registry = \<lparr>rg_nodes = [(example_node ''n1'' ''linux'' all_roles 1000)\<lparr>nr_certFp := replicate 64 CHR ''a''\<rparr>],
     rg_deployments = [\<lparr>dp_id = ''d1'', dp_spec = (example_spec External Undefined)\<lparr>sp_external := Some \<lparr>ex_nodeId = ''n1'', ex_url = ''u'',
       ex_modelName = ''model'', ex_upstreamModel = None\<rparr>\<rparr>, dp_state = Ready, dp_plan = None, dp_endpoint = None, dp_error = None,
       dp_savedDistribution = Undefined, dp_createdAt = 0, dp_updatedAt = 0\<rparr>],
     rg_intents = [(''d1'', \<lparr>it_running = True, it_attempts = 0, it_retryAt = 0\<rparr>)],
     rg_assignments = [new_row ''a1'' ''d1'' ''n1'' KReplica True 8080 None [] 0], rg_joinCodes = [], rg_apiKeys = []\<rparr>"

definition demo_events :: "(int \<times> event) list" where
  "demo_events = [(1, EvOpen 0 ''nonce''),
     (2, EvMessage 0 (Some (MAuth \<lparr>am_nodeId = ''n1'', am_nonce = ''nonce'', am_certFp = replicate 64 CHR ''a'', am_signature = []\<rparr>)) 0 ''key''),
     (3, EvMessage 0 (Some (MAssignment ''a1'' AReady None)) 0 [])]"

definition demo_control :: control where
  "demo_control = control_run demo_env (bootControl demo_env 0 demo_registry []) demo_events"

lemma demo_facts:
  "map rt_id (concat (map (mr_deployments \<circ> snd) (routing 4 (hb_mgr (ct_hub demo_control))))) = [''d1''] \<and>
   map_option cn_nodeId (sock_of (ct_hub demo_control) 0) = Some (Some ''n1'') \<and> map_of (hb_conns (ct_hub demo_control)) ''n1'' = Some 0 \<and>
   \<not> hb_shuttingDown (ct_hub demo_control) \<and> \<not> mg_closed (hb_mgr (ct_hub demo_control))"
  by code_simp

theorem routes_sound_witness:
  "\<exists>q d. q \<in> set (concat (map (mr_deployments \<circ> snd) (routing 4 (hb_mgr (ct_hub demo_control))))) \<and> rt_id q = ''d1'' \<and>
     d \<in> set (rg_deployments (mg_reg (hb_mgr (ct_hub demo_control)))) \<and> dp_id d = ''d1'' \<and> dp_state d = Ready"
proof -
  obtain q where q: "q \<in> set (concat (map (mr_deployments \<circ> snd) (routing 4 (hb_mgr (ct_hub demo_control)))))" "rt_id q = ''d1''"
    using demo_facts by (cases "concat (map (mr_deployments \<circ> snd) (routing 4 (hb_mgr (ct_hub demo_control))))") auto
  show ?thesis using routes_sound[OF arg_cong[OF demo_control_def, of "\<lambda>s. hb_mgr (ct_hub s)"] q(1)] q by auto
qed

theorem close_withdraws_routes_witness: "\<not> isOnline (ct_hub (control_step demo_env demo_control (5, EvClose 0))) ''n1''"
proof -
  obtain c where "sock_of (ct_hub demo_control) 0 = Some c" "cn_nodeId c = Some ''n1''" using demo_facts by auto
  then show ?thesis using close_withdraws_routes[OF demo_control_def] demo_facts by blast
qed

end
