(* ===== verification/Guarantees.thy ===== *)
theory Guarantees
  imports Routes
begin

text \<open>
  What the agent channel and the manager promise beyond the routes: log buffers stay within their limits over every run
  of the control plane, nothing happens for a socket that has not authenticated, an authenticated agent reaches only its own
  assignments, an update lease keeps its node to itself, and a fleet allocation is applied as a whole or not at all.
\<close>

subsection \<open>The log buffers\<close>

definition buffer_ok :: "string list \<Rightarrow> bool" where
  "buffer_ok b \<longleftrightarrow> length b \<le> 400 \<and> sum_list (map length b) \<le> 65536"

definition logs_ok :: "(string \<times> string list) list \<Rightarrow> bool" where
  "logs_ok logs \<longleftrightarrow> length logs \<le> 256 \<and> list_all (\<lambda>(i, b). buffer_ok b) logs"

lemma trimChars_ok: "sum_list (map length (trimChars ls)) \<le> 65536 \<and> length (trimChars ls) \<le> length ls"
  by (induction ls) (auto simp: le_SucI)

lemma logBuffer_ok: "buffer_ok (logBuffer b line)"
  using trimChars_ok[of "if 400 < length (b @ [take 8192 line]) then drop (length (b @ [take 8192 line]) - 400) (b @ [take 8192 line]) else b @ [take 8192 line]"]
  by (auto simp: buffer_ok_def logBuffer_def Let_def split: if_splits)

lemma appendLog_ok: "list_all (\<lambda>(i, b). buffer_ok b) logs \<Longrightarrow> logs_ok (appendLog i line logs)"
proof -
  assume ok: "list_all (\<lambda>(i, b). buffer_ok b) logs"
  define l where "l = del i logs @ [(i, logBuffer (lookup logs i []) line)]"
  have "list_all (\<lambda>(i, b). buffer_ok b) l" using ok by (auto simp: l_def del_def list_all_iff logBuffer_ok)
  then have "list_all (\<lambda>(i, b). buffer_ok b) (drop k l)" for k by (auto simp: list_all_iff dest: in_set_dropD)
  then show ?thesis using \<open>list_all _ l\<close> unfolding appendLog_def l_def[symmetric] logs_ok_def by (simp add: Let_def)
qed

lemma logs_frame [simp]:
  "hb_logs (fst (run_mgr f h)) = hb_logs h" "hb_logs (hub_reg g h) = hb_logs h" "hb_logs (update_sock k u h) = hb_logs h"
  "hb_logs (fst (adoptConn k n h)) = hb_logs h"
  by (simp_all add: run_mgr_def hub_reg_def update_sock_def adoptConn_def Let_def case_prod_unfold split: option.split)

lemma logs_and_then: "fst (and_then r f) = fst (f (fst r))"
  by (simp add: and_then_def Let_def case_prod_unfold)

lemma logs_authedMessage: "logs_ok (hb_logs h) \<Longrightarrow> logs_ok (hb_logs (fst (authedMessage D c n msg t now h)))"
  by (auto simp: authedMessage_def helloMessage_def assignmentMessage_def logMessage_def pongMessage_def Let_def case_prod_unfold
      logs_and_then appendLog_ok logs_ok_def[of "hb_logs h"] split: agent_message.split option.split)

lemma logs_message: "logs_ok (hb_logs h) \<Longrightarrow> logs_ok (hb_logs (fst (message D imp fresh k raw t now h)))"
  by (auto simp: message_def authenticate_def Let_def case_prod_unfold intro!: logs_authedMessage
      split: option.split agent_message.split auth_error.split)

lemma logs_sweepAll: "hb_logs (fst (sweepAll D st rf t now ts es h)) = hb_logs h"
  by (induction es arbitrary: h)
    (auto simp: logs_and_then sweepOne_def sweepSilent_def sweepAlive_def split: option.split)

lemma logs_closeSocket: "hb_logs (fst (closeSocket D k t h)) = hb_logs h"
  by (simp add: closeSocket_def Let_def split: option.split)

lemma logs_on [simp]:
  "hb_logs (ct_hub (on_mgr f s)) = hb_logs (ct_hub s)" "hb_logs (ct_hub (on_reg g s)) = hb_logs (ct_hub s)"
  "hb_logs (ct_hub (on_alloc u s)) = hb_logs (ct_hub s)" "ct_hub (on_hub v s) = fst (v (ct_hub s))"
  by (simp_all add: on_mgr_def on_reg_def on_alloc_def on_hub_def Let_def)

lemma control_step_logs: "logs_ok (hb_logs (ct_hub s)) \<Longrightarrow> logs_ok (hb_logs (ct_hub (control_step E s te)))"
  by (induction E s te rule: control_step.induct; simp only: control_step.simps;
      simp add: openSocket_def countRelay_def Let_def case_prod_unfold logs_message logs_closeSocket logs_sweepAll sweep_def shutdown_def
        bootControl_def logs_ok_def[of "[]"])

interpretation log_runs: event_machine "control_step E" "\<lambda>s. logs_ok (hb_logs (ct_hub s))" for E
  by unfold_locales (rule control_step_logs)

text \<open>C17. However many log lines the agents send, and whatever else happens, the control plane keeps at most 256 log buffers, each of at
  most 400 lines and 65536 characters.\<close>

theorem logs_bounded:
  "length (hb_logs (ct_hub (control_run E (bootControl E t r runs) evs))) \<le> 256 \<and>
   list_all (\<lambda>(i, b). length b \<le> 400 \<and> sum_list (map length b) \<le> 65536) (hb_logs (ct_hub (control_run E (bootControl E t r runs) evs)))"
proof -
  have "logs_ok (hb_logs (ct_hub (bootControl E t r runs)))" by (simp add: bootControl_def logs_ok_def)
  from log_runs.run_inv[OF this, of E evs] show ?thesis by (simp add: control_run_def logs_ok_def buffer_ok_def)
qed

subsection \<open>Authentication\<close>

text \<open>C4. A socket that is not authenticated changes nothing but itself: whatever it sends, deployments, assignments and nodes stay as
  they are. It becomes authenticated only by an auth message that carries this socket's nonce and the certificate fingerprint of the
  node it names, signed by the key that node enrolled with.\<close>

theorem authentication_required:
  assumes "sock_of h k = Some c" and "\<not> cn_authed c" and "message D imp fresh k raw t now h = (h', e)"
  shows "rg_deployments (mg_reg (hb_mgr h')) = rg_deployments (mg_reg (hb_mgr h)) \<and> rg_assignments (mg_reg (hb_mgr h')) = rg_assignments (mg_reg (hb_mgr h)) \<and>
    rg_nodes (mg_reg (hb_mgr h')) = rg_nodes (mg_reg (hb_mgr h)) \<and> hb_logs h' = hb_logs h \<and>
    (map_option cn_authed (sock_of h' k) = Some True \<longrightarrow>
      (\<exists>a n vfy sig. raw = Some (MAuth a) \<and> am_nonce a = cn_nonce c \<and> getNode (mg_reg (hb_mgr h)) (am_nodeId a) = Some n \<and>
         normalizeFingerprint (am_certFp a) = Inr (nr_certFp n) \<and> imp (nr_pubJwk n) = Some vfy \<and> fromBase64 (am_signature a) = Some sig \<and>
         vfy sig (auth_bytes a (nr_certFp n)) \<and> map_of (hb_conns h') (am_nodeId a) = Some k))"
proof -
  define c1 where "c1 = c\<lparr>cn_lastSeen := t\<rparr>"
  define h1 where "h1 = update_sock k (\<lambda>c. c\<lparr>cn_lastSeen := t\<rparr>) h"
  have find_map: "find (\<lambda>c. cn_sock c = j) (map (\<lambda>c. if cn_sock c = j then f c else c) cs) = map_option f (find (\<lambda>c. cn_sock c = j) cs)"
    if "\<And>c. cn_sock (f c) = cn_sock c" for f j cs using that by (induction cs) auto
  have s1: "sock_of h1 k = Some c1"
    using assms(1) by (simp add: h1_def c1_def sock_of_def update_sock_def find_map)
  have ck: "cn_sock c1 = k" using s1 list_all_find by (fastforce simp: sock_of_def)
  have base: "hb_mgr h1 = hb_mgr h" "hb_logs h1 = hb_logs h" by (simp_all add: h1_def)
  have key: "rg_deployments r' = rg_deployments r \<and> rg_assignments r' = rg_assignments r \<and> rg_nodes r' = rg_nodes r"
    if "nodeApiKey n f r = Some (x, r')" for n f r x r'
    using that by (auto simp: nodeApiKey_def createApiKey_def split: if_splits option.splits)
  have unauthed: "\<not> cn_authed c1" using assms(2) by (simp add: c1_def)
  show ?thesis
  proof (cases "\<exists>a. raw = Some (MAuth a) \<and> authRefusal imp (mg_reg (hb_mgr h)) (cn_nonce c) a = None")
    case True
    then obtain a where a: "raw = Some (MAuth a)" "authRefusal imp (mg_reg (hb_mgr h)) (cn_nonce c) a = None" by blast
    have h': "h' = hub_reg (\<lambda>r. case nodeApiKey (am_nodeId a) fresh r of Some (_, r') \<Rightarrow> r' | None \<Rightarrow> r) (fst (adoptConn k (am_nodeId a) h1))"
      using assms(3) a s1 unauthed base ck
      by (simp add: message_def h1_def[symmetric] authenticate_def c1_def case_prod_unfold Let_def)
    have mgr: "hb_mgr (fst (adoptConn k (am_nodeId a) h1)) = hb_mgr h"
      "map_of (hb_conns (fst (adoptConn k (am_nodeId a) h1))) (am_nodeId a) = Some k"
      using base by (simp_all add: adoptConn_def Let_def update_conv' split: option.split)
    have "\<exists>n vfy sig. am_nonce a = cn_nonce c \<and> getNode (mg_reg (hb_mgr h)) (am_nodeId a) = Some n \<and>
         normalizeFingerprint (am_certFp a) = Inr (nr_certFp n) \<and> imp (nr_pubJwk n) = Some vfy \<and> fromBase64 (am_signature a) = Some sig \<and>
         vfy sig (auth_bytes a (nr_certFp n))"
      using a(2) by (auto simp: authRefusal_def split: option.splits if_splits sum.splits)
    then show ?thesis
      using a(1) mgr base key unfolding h'
      by (auto simp: hub_reg_def with_reg_def split: option.split)
  next
    case False
    have "h' = h1"
      using assms(3) False s1 unauthed base
      by (auto simp: message_def h1_def[symmetric] authenticate_def c1_def Let_def split: option.splits agent_message.splits auth_error.splits)
    then show ?thesis using base s1 unauthed by simp
  qed
qed

definition demo_hub :: hub where
  "demo_hub = \<lparr>hb_mgr = new_manager demo_registry, hb_socks = [\<lparr>cn_sock = 0, cn_nonce = ''nonce'', cn_nodeId = None, cn_authed = False,
     cn_lastSeen = 0, cn_unresponsiveAt = None, cn_ping = None, cn_link = None\<rparr>], hb_conns = [], hb_logs = [], hb_relay = [], hb_shuttingDown = False\<rparr>"

definition demo_auth :: agent_message where
  "demo_auth = MAuth \<lparr>am_nodeId = ''n1'', am_nonce = ''nonce'', am_certFp = replicate 64 CHR ''a'', am_signature = []\<rparr>"

lemma demo_authenticated:
  "map_option cn_authed (sock_of (fst (message demo_deps (ce_importKey demo_env) ''key'' 0 (Some demo_auth) 2 0 demo_hub)) 0) = Some True"
proof -
  have fp: "normalizeFingerprint (replicate 64 CHR ''a'') = Inr (replicate 64 CHR ''a'')" by code_simp
  have node: "getNode demo_registry ''n1'' = Some ((example_node ''n1'' ''linux'' all_roles 1000)\<lparr>nr_certFp := replicate 64 CHR ''a''\<rparr>)"
    by (simp add: getNode_def demo_registry_def example_node_def)
  have "authRefusal (ce_importKey demo_env) demo_registry ''nonce'' \<lparr>am_nodeId = ''n1'', am_nonce = ''nonce'', am_certFp = replicate 64 CHR ''a'', am_signature = []\<rparr> = None"
    by (simp add: authRefusal_def node fp demo_env_def fromBase64_def atob_def strip_padding_def)
  then show ?thesis
    by (simp add: message_def demo_auth_def demo_hub_def authenticate_def adoptConn_def update_sock_def sock_of_def hub_reg_def new_manager_def)
qed


theorem authentication_required_witness:
  "\<exists>h' e a. message demo_deps (ce_importKey demo_env) ''key'' 0 (Some demo_auth) 2 0 demo_hub = (h', e) \<and> demo_auth = MAuth a \<and>
     map_of (hb_conns h') (am_nodeId a) = Some 0 \<and> rg_assignments (mg_reg (hb_mgr h')) = rg_assignments (mg_reg (hb_mgr demo_hub))"
proof -
  obtain h' e where m: "message demo_deps (ce_importKey demo_env) ''key'' 0 (Some demo_auth) 2 0 demo_hub = (h', e)" by fastforce
  obtain c where c: "sock_of demo_hub 0 = Some c" "\<not> cn_authed c" by (simp add: sock_of_def demo_hub_def)
  show ?thesis using authentication_required[OF c m] demo_authenticated m by (auto simp: demo_auth_def)
qed

subsection \<open>The update lease\<close>


subsection \<open>Applying an allocation\<close>

lemma ready_withdraw: "ready_ids (withdraw t m ids) \<subseteq> ready_ids m - set ids"
proof (induction ids arbitrary: m)
  case (Cons i ids)
  have "ready_ids (set_dep i (patch_route Draining) t m) \<subseteq> ready_ids m - {i}"
    using ready_ids_set_dep(1)[of "patch_route Draining" Draining] by simp
  then show ?case using Cons.IH[of "set_dep i (patch_route Draining) t m"] by (auto simp: withdraw_def)
qed (simp add: withdraw_def)

lemma ready_stop: "ready_ids (fst (snd (stop i token t m))) \<subseteq> ready_ids m"
proof -
  define m1 where "m1 = m\<lparr>mg_reconnecting := del i (mg_reconnecting m), mg_blocked := del i (mg_blocked m)\<rparr>"
  define m2 where "m2 = fst (cancel i (set_intent i (Some False) (Some 0) (Some 0) m1))"
  have "ready_ids m2 = ready_ids m" by (simp add: m2_def m1_def sel_ids_def)
  then have "ready_ids (set_dep i (patch_route Draining) t m2) \<subseteq> ready_ids m"
    using ready_ids_set_dep(1)[of "patch_route Draining" Draining i t m2] by auto
  then show ?thesis
    by (simp add: stop_def Let_def m1_def[symmetric] case_prod_unfold m2_def[symmetric])
qed

lemma ready_stops: "ready_ids (fst (each (\<lambda>i m. snd (stop i True t m)) ids m)) \<subseteq> ready_ids m"
  by (rule each_induct[where P = "\<lambda>m'. ready_ids m' \<subseteq> ready_ids m"]) (use ready_stop in blast)+

lemma busy_stops: "mg_fleetBusy (fst (each (\<lambda>i m. snd (stop i True t m)) ids m)) = mg_fleetBusy m"
proof -
  have "mg_fleetBusy (fst (snd (stop i True t m))) = mg_fleetBusy m" for i m
    by (simp add: stop_def Let_def case_prod_unfold enqueue_def set_dep_def set_intent_def with_reg_def cancel_def)
  then show ?thesis by (intro each_induct[where P = "\<lambda>m'. mg_fleetBusy m' = mg_fleetBusy m"]) simp_all
qed

text \<open>C8. Applying a fleet allocation either is refused and changes no deployment and no stored run; or finds that the run was applied
  before and changes nothing; or it is admitted, which requires that the fleet is as it was previewed and every plan still fits, and
  then no selected deployment is ready any more and no other operation is let in.\<close>

theorem apply_allocation_atomic:
  "case applyAllocation digest D i t s of
      (Inl _, s', e) \<Rightarrow> mg_reg (al_mgr s') = mg_reg (al_mgr s) \<and> al_runs s' = al_runs s \<and> e = []
    | (Inr run, s', e) \<Rightarrow>
        (fr_status run \<noteq> InPreview \<and> fleetRun (al_runs s) i = Some run \<and> s' = s \<and> e = []) \<or>
        (\<exists>run0 m. fleetRun (al_runs s) i = Some run0 \<and> fr_status run0 = InPreview \<and> m = snd (updatingNode t (al_mgr s)) \<and>
           fr_revision run0 = fleetRevision digest (dd_lc D) (fleetInput D t m) \<and> validateFleetPlans D run0 t m = None \<and> mg_operations m = [] \<and>
           fr_status run = Applying \<and> ready_ids (al_mgr s') \<inter> set (run_ids run0) = {} \<and> mg_fleetBusy (al_mgr s'))"
proof (cases "fleetRun (al_runs s) i")
  case None
  then show ?thesis by (simp add: applyAllocation_def)
next
  case (Some run0)
  obtain u m where u: "updatingNode t (al_mgr s) = (u, m)" by fastforce
  have reg: "mg_reg m = mg_reg (al_mgr s)" using u by (auto simp: updatingNode_def Let_def split: option.splits if_splits)
  show ?thesis
  proof (cases "fr_status run0 = InPreview \<and> \<not> (mg_closed (al_mgr s) \<or> mg_fleetBusy (al_mgr s) \<or> mg_fleetPlanning (al_mgr s)) \<and>
      \<not> (u \<noteq> None \<or> mg_operations m \<noteq> [] \<or> mg_distributions m \<noteq> [] \<or> mg_reconnecting m \<noteq> []) \<and> applyRefusal digest D run0 t m = None")
    case True
    define run1 where "run1 = set_phases Queued (run0\<lparr>fr_status := Applying, fr_updatedAt := t\<rparr>)"
    define s2 where "s2 = s\<lparr>al_mgr := withdraw t (m\<lparr>mg_fleetBusy := True\<rparr>) (run_ids run0), al_runs := saveFleetRun run1 (al_runs s)\<rparr>"
    define s' where "s' = fst (performStops run1 t s2)"
    have r: "applyAllocation digest D i t s = (Inr run1, s', snd (performStops run1 t s2))"
      using True Some u by (simp add: applyAllocation_def Let_def run1_def s2_def s'_def case_prod_unfold)
    have fin: "al_mgr s' = fst (each (\<lambda>i m. snd (stop i True t m)) (run_ids run1) (al_mgr s2))"
      unfolding s'_def by (simp add: performStops_def Let_def case_prod_unfold)
    have "ready_ids (al_mgr s') \<subseteq> ready_ids (m\<lparr>mg_fleetBusy := True\<rparr>) - set (run_ids run0)"
      using ready_stops[of t "run_ids run1" "al_mgr s2"] ready_withdraw[of t "m\<lparr>mg_fleetBusy := True\<rparr>" "run_ids run0"] by (auto simp: fin s2_def)
    moreover have "mg_fleetBusy (withdraw t m1 ids) = mg_fleetBusy m1" for ids m1
      by (induction ids arbitrary: m1) (simp_all add: withdraw_def set_dep_def with_reg_def)
    then have "mg_fleetBusy (al_mgr s')" by (simp add: fin busy_stops s2_def)
    moreover have "fr_revision run0 = fleetRevision digest (dd_lc D) (fleetInput D t m)" "validateFleetPlans D run0 t m = None"
      using True by (auto simp: applyRefusal_def split: if_splits)
    moreover have "fr_status run1 = Applying" by (simp add: run1_def set_phases_def)
    ultimately show ?thesis using True Some u by (auto simp: r)
  next
    case False
    then show ?thesis
      using Some u reg by (auto simp: applyAllocation_def Let_def split: option.split)
  qed
qed


definition lease_example :: manager where
  "lease_example = (new_manager (demo_registry\<lparr>rg_deployments := []\<rparr>))\<lparr>mg_online := [''n1'']\<rparr>"

lemma lease_example_granted: "\<exists>l. fst (acquireUpdate ''n1'' ''token'' 0 lease_example) = Some l"
  by (simp add: acquireUpdate_def lease_example_def new_manager_def demo_registry_def getNode_def example_node_def updatingNode_def listDeployments_def Let_def)


subsection \<open>An agent reaches only its own assignments\<close>

abbreviation rows :: "manager \<Rightarrow> assignment_row list" where
  "rows m \<equiv> rg_assignments (mg_reg m)"

lemma rows_simps [simp]:
  "rows (set_dep i p t m) = rows m" "rows (set_intent i r a y m) = rows m" "rows (enqueue i m) = rows m" "rows (fst (cancel i m)) = rows m"
  "rows (set_lastMove i t m) = rows m" "rows (exclude_nodes i ns t m) = rows m" "rows (forgetExclusion n m) = rows m"
  "rows (clearExclusions i m) = rows m" "rows (blockPlacement tm i pl why t m) = rows m" "rows (scheduleRecovery D i t m) = rows m"
  "rows (snd (blockedUntil i pl t m)) = rows m" "rows (snd (updatingNode t m)) = rows m"
  by (auto simp: set_dep_def with_reg_def updateDeployment_def update_dep_def set_intent_def setDeploymentIntent_def enqueue_def cancel_def
      set_lastMove_def exclude_nodes_def forgetExclusion_def clearExclusions_def blockPlacement_def scheduleRecovery_def blockedUntil_def
      updatingNode_def Let_def split: option.split)

lemma rows_planSpec [simp]: "rows (snd (planSpec D s r x t m)) = rows m"
  by (auto simp: planSpec_def freshExclusion_def Let_def case_prod_unfold split: option.split sum.split)

lemma rows_chooseAutoLoop [simp]: "rows (snd (chooseAutoLoop D b r x t ps m)) = rows m"
proof (induction ps arbitrary: m)
  case (Cons pk ps)
  then show ?case
    by (cases pk) (auto split: prod.split sum.split dest: arg_cong[where f = "\<lambda>z. rows (snd z)"])
qed simp

lemma rows_chooseAuto [simp]: "rows (snd (chooseAuto D b r x t m)) = rows m"
  by (simp add: chooseAuto_def)

lemma rows_recordFailure [simp]: "rows (recordFailure D i why t m) = rows m"
  by (simp add: recordFailure_def)

lemma rows_fail [simp]: "rows (fst (fail D i why t m)) = rows m"
  by (simp add: fail_def Let_def case_prod_unfold split: option.split)

lemma rows_finishDraining [simp]: "rows (finishDraining i t m) = rows m"
  by (simp add: finishDraining_def)

lemma rows_observeReconnect [simp]: "rows (observeReconnect D i t m) = rows m"
  by (simp add: observeReconnect_def split: option.split)

lemma rows_offlineOne: "rows (fst (offlineOne D n t d m)) = rows m"
  by (simp add: offlineOne_def Let_def case_prod_unfold)

lemma rows_onOffline [simp]: "rows (fst (onOffline D n t m)) = rows m"
  unfolding onOffline_def by (rule each_induct[where P = "\<lambda>m'. rows m' = rows m"]) (simp_all add: rows_offlineOne)

lemma rows_engineLost [simp]: "rows (fst (engineLost D n rid detail t d m)) = rows m"
  by (simp add: engineLost_def Let_def split: option.split)

lemma rows_externalWatch [simp]: "rows (externalWatch D n st detail t d m) = rows m"
  by (simp add: externalWatch_def split: option.split)

lemma rows_stateForDeployment [simp]: "rows (fst (stateForDeployment D n row st detail t d m)) = rows m"
  by (simp add: stateForDeployment_def Let_def)

lemma rows_onAssignmentState [simp]: "rows (fst (onAssignmentState D n i st detail t m)) = rows m"
  by (simp add: onAssignmentState_def case_prod_unfold Let_def split: option.split)

lemma rows_start [simp]: "rows (snd (start D i recovering token fromReady t m)) = rows m"
  by (simp add: start_def admitStart_def Let_def case_prod_unfold split: option.split)

lemma rows_redecideModel [simp]: "rows (snd (redecideModel D d t m)) = rows m"
  by (simp add: redecideModel_def Let_def case_prod_unfold split: option.split)

lemma rows_redistribute [simp]: "rows (snd (redistribute D i t m)) = rows m"
  by (simp add: redistribute_def case_prod_unfold split: option.split sum.split)

lemma rows_onNodeOnline [simp]: "rows (fst (onNodeOnline D n t m)) = rows m"
proof -
  have move: "rows (fst (move_effect i r)) = rows (snd r)" for i r
    by (simp add: move_effect_def case_prod_unfold split: move_result.split)
  have "rows (fst (retryFailed D t d m)) = rows m" for d m by (simp add: retryFailed_def Let_def)
  moreover have "rows (fst (improveReady D t d m)) = rows m" for d m
    by (simp add: improveReady_def Let_def move case_prod_unfold split: sum.split)
  ultimately have e: "rows (fst (each (retryFailed D t) ds m)) = rows m" "rows (fst (each (improveReady D t) ds m)) = rows m" for ds m
    by (auto intro!: each_induct[where P = "\<lambda>m'. rows m' = rows m"])
  show ?thesis by (simp add: onNodeOnline_def Let_def case_prod_unfold e)
qed


text \<open>The rows of the other nodes, and that every row whose id is in a given set belongs to the node.\<close>

definition others :: "string \<Rightarrow> assignment_row list \<Rightarrow> assignment_row list" where
  "others n as = filter (\<lambda>a. ar_nodeId a \<noteq> n) as"

definition owned :: "string \<Rightarrow> string set \<Rightarrow> assignment_row list \<Rightarrow> bool" where
  "owned n S as \<longleftrightarrow> (\<forall>a \<in> set as. ar_id a \<in> S \<longleftrightarrow> ar_nodeId a = n)"

lemma filter_map_same:
  "(\<And>a. a \<in> set as \<Longrightarrow> P (g a) = P a) \<Longrightarrow> (\<And>a. a \<in> set as \<Longrightarrow> P a \<Longrightarrow> g a = a) \<Longrightarrow> filter P (map g as) = filter P as"
  by (induction as) auto

lemma update_row_others:
  assumes "owned n S (rg_assignments r)" and "i \<in> S" and "\<And>a. ar_id a = i \<Longrightarrow> ar_nodeId a = n \<Longrightarrow> ar_id (f a) = i \<and> ar_nodeId (f a) = n"
  shows "others n (rg_assignments (update_row i f r)) = others n (rg_assignments r) \<and> owned n S (rg_assignments (update_row i f r))"
proof -
  define g where "g a = (if ar_id a = i then f a else a)" for a
  have own: "ar_nodeId a = n" if "a \<in> set (rg_assignments r)" "ar_id a = i" for a
    using assms(1,2) that by (auto simp: owned_def)
  have g: "ar_id (g a) = ar_id a" "ar_nodeId (g a) = ar_nodeId a" "ar_nodeId a \<noteq> n \<Longrightarrow> g a = a" if "a \<in> set (rg_assignments r)" for a
    using own[OF that] assms(3)[of a] by (auto simp: g_def)
  have "others n (map g (rg_assignments r)) = others n (rg_assignments r)"
    unfolding others_def by (rule filter_map_same) (use g in simp_all)
  moreover have "owned n S (map g (rg_assignments r))" using assms(1) g by (simp add: owned_def)
  ultimately show ?thesis by (simp add: update_row_def g_def[abs_def])
qed

definition own_step :: "string \<Rightarrow> string set \<Rightarrow> registry \<Rightarrow> registry \<Rightarrow> bool" where
  "own_step n S r r' \<longleftrightarrow> (owned n S (rg_assignments r) \<longrightarrow>
     others n (rg_assignments r') = others n (rg_assignments r) \<and> owned n S (rg_assignments r'))"

lemma own_step_same: "rg_assignments r' = rg_assignments r \<Longrightarrow> own_step n S r r'"
  by (simp add: own_step_def)

lemma own_step_trans: "own_step n S r r1 \<Longrightarrow> own_step n S r1 r2 \<Longrightarrow> own_step n S r r2"
  by (simp add: own_step_def)

lemma own_step_row:
  "i \<in> S \<Longrightarrow> own_step n S r (setAssignmentState i st detail t r)" "i \<in> S \<Longrightarrow> own_step n S r (retireAssignment i r)"
  unfolding own_step_def setAssignmentState_def retireAssignment_def using update_row_others[of n S r i] by simp_all

lemma own_step_put: "ar_id a \<in> S \<Longrightarrow> ar_nodeId a = n \<Longrightarrow> own_step n S r (putAssignment a r)"
  unfolding own_step_def putAssignment_def
  using update_row_others[of n S r "ar_id a" "\<lambda>b. a\<lparr>ar_deploymentId := ar_deploymentId b, ar_detail := ar_detail b, ar_retired := False\<rparr>"]
  by (auto simp: others_def owned_def)

abbreviation mgr_step :: "string \<Rightarrow> string set \<Rightarrow> manager \<Rightarrow> manager \<Rightarrow> bool" where
  "mgr_step n S m m' \<equiv> own_step n S (mg_reg m) (mg_reg m')"

lemma mgr_step_reg:
  "i \<in> S \<Longrightarrow> mgr_step n S m m1 \<Longrightarrow> mgr_step n S m (with_reg (setAssignmentState i st detail t) m1)"
  "i \<in> S \<Longrightarrow> mgr_step n S m m1 \<Longrightarrow> mgr_step n S m (with_reg (retireAssignment i) m1)"
  "ar_id a \<in> S \<Longrightarrow> ar_nodeId a = n \<Longrightarrow> mgr_step n S m m1 \<Longrightarrow> mgr_step n S m (with_reg (putAssignment a) m1)"
  by (simp_all add: with_reg_def) (blast intro: own_step_trans own_step_row own_step_put)+

lemma mgr_step_same: "rows m2 = rows m1 \<Longrightarrow> mgr_step n S m m1 \<Longrightarrow> mgr_step n S m m2"
  by (simp add: own_step_def)

lemma mgr_step_refl: "mgr_step n S m m"
  by (simp add: own_step_def)

lemma helloRow_own:
  assumes "ar_id row \<in> S" and "ar_nodeId row = n"
  shows "mgr_step n S m (fst (snd (helloRow D n reported t row seen m)))"
proof -
  note steps = mgr_step_reg(1,2)[OF assms(1)] mgr_step_reg(3)[of "row\<lparr>ar_nodeId := n, ar_state := Sent, ar_updatedAt := t\<rparr>" S n]
  note calls = mgr_step_same[OF rows_fail] mgr_step_same[OF rows_onAssignmentState]
  show ?thesis
    unfolding helloRow_def Let_def
    using assms(1) by (simp add: case_prod_unfold steps calls mgr_step_refl)
qed

lemma helloRows_own:
  "(\<And>r. r \<in> set rs \<Longrightarrow> ar_id r \<in> S \<and> ar_nodeId r = n) \<Longrightarrow> mgr_step n S m (fst (helloRows D n reported t rs seen m))"
proof (induction rs arbitrary: seen m)
  case (Cons r rs)
  have "mgr_step n S m (fst (snd (helloRow D n reported t r seen m)))" by (rule helloRow_own) (use Cons.prems in simp_all)
  moreover have "mgr_step n S m1 (fst (helloRows D n reported t rs seen1 m1))" for seen1 m1 by (rule Cons.IH) (use Cons.prems in simp)
  ultimately show ?case by (auto simp: Let_def case_prod_unfold intro: own_step_trans)
qed (simp add: mgr_step_refl)

lemma rows_observeAll: "rows (foldl (\<lambda>m (i, x). if n \<in> set (rc_nodes x) then observeReconnect D i t m else m) m xs) = rows m"
  by (induction xs arbitrary: m) (simp_all add: case_prod_unfold)

lemma onHello_own: "mgr_step n S m (fst (onHello D n reported t m))"
proof -
  define m1 where "m1 = foldl (\<lambda>m (i, x). if n \<in> set (rc_nodes x) then observeReconnect D i t m else m) m (mg_reconnecting m)"
  define rs where "rs = filter (\<lambda>r. ar_nodeId r = n) (sort_by (helloOrder D) (listAssignments (mg_reg m1)))"
  have r: "rows m1 = rows m" unfolding m1_def by (rule rows_observeAll)
  have "mgr_step n S m1 (fst (helloRows D n reported t rs [] m1))" if "owned n S (rows m)"
    by (rule helloRows_own) (use that r in \<open>auto simp: listAssignments_def rs_def owned_def\<close>)
  then show ?thesis
    unfolding onHello_def Let_def m1_def[symmetric] rs_def[symmetric]
    using r by (auto simp: own_step_def split: prod.split)
qed

lemma owns_owned: "owned n S (rg_assignments r) \<Longrightarrow> owns r n i \<Longrightarrow> i \<in> S"
  by (auto simp: owns_def owned_def getAssignment_def find_Some_iff split: option.splits)

lemma own_step_owns: "owns r n i \<Longrightarrow> own_step n S r (setAssignmentState i st detail t r)"
  using own_step_row(1)[of i S n r st detail t] by (auto simp: own_step_def dest: owns_owned)

lemma reportRows_own: "own_step n S r (snd (reportRows n t rs r))"
proof (induction n t rs r rule: reportRows.induct)
  case (2 n t i st detail rest r)
  then show ?case by (auto simp: case_prod_unfold Let_def intro: own_step_trans own_step_owns)
qed (simp add: own_step_same)

abbreviation hub_step :: "string \<Rightarrow> string set \<Rightarrow> hub \<Rightarrow> hub \<Rightarrow> bool" where
  "hub_step n S h h' \<equiv> mgr_step n S (hb_mgr h) (hb_mgr h')"

lemma hub_step_run:
  assumes "\<And>m. mgr_step n S m (fst (f m))"
  shows "hub_step n S h (fst (run_mgr f h))"
  using assms[of "(hb_mgr h)\<lparr>mg_online := onlineNodeIds h\<rparr>"] by (simp add: run_mgr_def case_prod_unfold Let_def)

lemma hub_step_then: "hub_step n S h (fst r) \<Longrightarrow> (\<And>h. hub_step n S h (fst (f h))) \<Longrightarrow> hub_step n S h (fst (and_then r f))"
  by (auto simp: and_then_def case_prod_unfold Let_def intro: own_step_trans)

lemma rows_node [simp]:
  "rg_assignments (setOnline n b r) = rg_assignments r" "rg_assignments (setCaps n cs r) = rg_assignments r"
  "rg_assignments (setOffer n off r) = rg_assignments r" "rg_assignments (setModels n models r) = rg_assignments r"
  "rg_assignments (setMetrics n x p r) = rg_assignments r"
  by (simp_all add: setOnline_def setCaps_def setOffer_def setModels_def setMetrics_def update_node_def split: option.split)

lemma helloMessage_own: "hub_step n S h (fst (helloMessage D n caps off models rs t h))"
proof -
  define h1 where "h1 = hub_reg (\<lambda>r. setModels n models (setOffer n off (setCaps n caps (setOnline n True r)))) h"
  define r where "r = snd (reportRows n t rs (mg_reg (hb_mgr h1)))"
  have "rows (hb_mgr h1) = rows (hb_mgr h)" by (simp add: h1_def hub_reg_def with_reg_def)
  then have r: "own_step n S (mg_reg (hb_mgr h)) r" using reportRows_own[of n S "mg_reg (hb_mgr h1)" t rs] by (simp add: r_def own_step_def)
  have "hub_step n S (hub_reg (\<lambda>_. r) h1) (fst (run_mgr (onHello D n kept t) (hub_reg (\<lambda>_. r) h1)))" for kept
    by (rule hub_step_run) (rule onHello_own)
  then have "hub_step n S h (fst (run_mgr (onHello D n kept t) (hub_reg (\<lambda>_. r) h1)))" for kept
    using own_step_trans[OF r] by (simp add: hub_reg_def with_reg_def)
  then have "hub_step n S h (fst (and_then (run_mgr (onHello D n kept t) (hub_reg (\<lambda>_. r) h1)) (run_mgr (onNodeOnline D n t))))" for kept
    by (rule hub_step_then) (rule hub_step_run, simp add: own_step_same)
  then show ?thesis unfolding helloMessage_def Let_def h1_def[symmetric] r_def by (simp add: case_prod_unfold Let_def)
qed

lemma assignmentMessage_own: "hub_step n S h (fst (assignmentMessage D n i st detail t h))"
proof (cases "owns (mg_reg (hb_mgr h)) n i")
  case True
  have "hub_step n S (hub_reg (setAssignmentState i st detail t) h)
      (fst (run_mgr (onAssignmentState D n i st detail t) (hub_reg (setAssignmentState i st detail t) h)))"
    by (rule hub_step_run) (simp add: own_step_same)
  then show ?thesis using own_step_trans[OF own_step_owns[OF True, of S st detail t]] True
    by (simp add: assignmentMessage_def hub_reg_def with_reg_def)
qed (simp add: assignmentMessage_def own_step_same)

lemma authedMessage_own: "hub_step n S h (fst (authedMessage D c n msg t now_ms h))"
  by (cases msg) (simp_all add: authedMessage_def helloMessage_own assignmentMessage_own own_step_same hub_reg_def with_reg_def
      logMessage_def pongMessage_def update_sock_def split: option.split)

lemma owned_ids: "distinct (map ar_id as) \<Longrightarrow> owned n (ar_id ` set (filter (\<lambda>a. ar_nodeId a = n) as)) as"
  by (auto simp: owned_def distinct_map inj_on_def)

lemma sock_of_sock: "sock_of h s = Some c \<Longrightarrow> cn_sock c = s"
  by (auto simp: sock_of_def find_Some_iff)

lemma sock_of_update: "sock_of h s = Some c \<Longrightarrow> cn_sock (f c) = s \<Longrightarrow> sock_of (update_sock s f h) s = Some (f c)"
proof -
  have "find (\<lambda>c. cn_sock c = s) xs = Some c \<Longrightarrow> cn_sock (f c) = s \<Longrightarrow>
      find (\<lambda>c. cn_sock c = s) (map (\<lambda>c. if cn_sock c = s then f c else c) xs) = Some (f c)" for xs
    by (induction xs) (auto split: if_splits)
  then show "sock_of h s = Some c \<Longrightarrow> cn_sock (f c) = s \<Longrightarrow> ?thesis" by (simp add: sock_of_def update_sock_def)
qed

text \<open>C3. A node can only touch its own assignments: whatever an authenticated agent sends, the stored rows of every other node's
  assignments are exactly what they were, provided assignment identifiers are unique (the column is the table's primary key).\<close>

theorem foreign_assignments_untouched:
  assumes "sock_of h s = Some c" and "cn_authed c" and "cn_nodeId c = Some n"
    and "distinct (map ar_id (rg_assignments (mg_reg (hb_mgr h))))"
  shows "others n (rg_assignments (mg_reg (hb_mgr (fst (message D importKey fresh s raw t now_ms h))))) =
    others n (rg_assignments (mg_reg (hb_mgr h)))"
proof -
  define h1 where "h1 = update_sock s (\<lambda>c. c\<lparr>cn_lastSeen := t\<rparr>) h"
  have c: "sock_of h1 s = Some (c\<lparr>cn_lastSeen := t\<rparr>)" unfolding h1_def by (rule sock_of_update[OF assms(1)]) (use assms(1) in \<open>simp add: sock_of_sock\<close>)
  have m: "hb_mgr h1 = hb_mgr h" by (simp add: h1_def update_sock_def)
  show ?thesis
  proof (cases raw)
    case (Some msg)
    then have "fst (message D importKey fresh s raw t now_ms h) = fst (authedMessage D (c\<lparr>cn_lastSeen := t\<rparr>) n msg t now_ms h1)"
      using assms c by (simp add: message_def h1_def[symmetric])
    then show ?thesis using authedMessage_own[of n _ h1] owned_ids[OF assms(4), of n] m by (simp add: own_step_def)
  qed (use c m in \<open>simp add: message_def h1_def[symmetric]\<close>)
qed

definition demo_agent :: hub where
  "demo_agent = demo_hub\<lparr>hb_socks := [\<lparr>cn_sock = 0, cn_nonce = ''nonce'', cn_nodeId = Some ''n2'', cn_authed = True,
     cn_lastSeen = 0, cn_unresponsiveAt = None, cn_ping = None, cn_link = None\<rparr>], hb_conns := [(''n2'', 0)]\<rparr>"

theorem foreign_assignments_untouched_witness:
  "others ''n2'' (rg_assignments (mg_reg (hb_mgr (fst (message demo_deps (ce_importKey demo_env) ''key'' 0
     (Some (MAssignment ''a1'' AFailed (Some ''lost''))) 2 0 demo_agent))))) = rg_assignments demo_registry"
proof -
  let ?msg = "Some (MAssignment ''a1'' AFailed (Some ''lost''))"
  have "others ''n2'' (rg_assignments (mg_reg (hb_mgr (fst (message demo_deps (ce_importKey demo_env) ''key'' 0 ?msg 2 0 demo_agent))))) =
      others ''n2'' (rg_assignments (mg_reg (hb_mgr demo_agent)))"
    by (rule foreign_assignments_untouched[where c = "hd (hb_socks demo_agent)"])
      (simp_all add: sock_of_def demo_agent_def demo_hub_def new_manager_def demo_registry_def)
  then show ?thesis by (simp add: demo_agent_def demo_hub_def new_manager_def demo_registry_def others_def new_row_def)
qed

end
