(* ===== verification/Spec2Isabelle.thy ===== *)
theory Spec2Isabelle
  imports Validate Json Frame Outbox Guarantees
begin

text \<open>
  Swarmlet: a control plane that places language models on a fleet of machines, and the node agents
  that run them.

  The theories, bottom up:
  \<^item> \<open>Prelude\<close>, \<open>JsValue\<close>: JavaScript numbers, strings, containers and untyped values.
  \<^item> \<open>Types\<close>: the records of \<^verbatim>\<open>src/swarmlet/protocol/types.ts\<close>.
  \<^item> \<open>Validate\<close>: \<^verbatim>\<open>src/swarmlet/protocol/validate.ts\<close>.
\<close>

end
